(* ===== verification/Go_Prelude.thy ===== *)
theory Go_Prelude
  imports Main "HOL-Library.Char_ord" "HOL-Library.List_Lexorder" "HOL-Library.Sublist"
    "HOL-Library.Multiset" "HOL-Library.AList"
begin

text \<open>
  What every component shares: the fact collections of the development, Go's byte strings,
  error values and instants, association lists standing for Go maps (a Go map ranges over
  its entries in an arbitrary order, which is the order of the list), and the generic lemmas
  on lists, sums and association lists that the component proofs use.

  A Go function that returns \<open>(T, error)\<close> is a function into \<open>go_error + 'a\<close>: \<open>Inl\<close> is
  a non-nil error, \<open>Inr\<close> the value of a nil error.
\<close>

section \<open>Fact collections\<close>

named_theorems go_fun \<open>definitions that the component proofs unfold\<close>
named_theorems go_frame \<open>what an operation leaves unchanged\<close>

section \<open>Strings and instants\<close>

text \<open>
  A Go string is a sequence of bytes; \<open>char\<close> is a byte here, so \<open>string\<close> is a Go string
  and \<open>length\<close> is Go's \<open>len\<close>.
\<close>

abbreviation NL :: char where "NL \<equiv> CHR 0x0A"
abbreviation CR :: char where "CR \<equiv> CHR 0x0D"
abbreviation TAB :: char where "TAB \<equiv> CHR 0x09"
abbreviation BQ :: char where "BQ \<equiv> CHR 0x60"
abbreviation DQ :: char where "DQ \<equiv> CHR 0x22"
abbreviation BSL :: char where "BSL \<equiv> CHR 0x5C"

text \<open>
  An instant (\<open>time.Time\<close>) is its number of nanoseconds since the Unix epoch; the location
  is display only, so \<open>UTC()\<close> is the identity. The zero \<open>time.Time\<close> is 1 January of the
  year 1. A \<open>time.Duration\<close> is a number of nanoseconds.
\<close>

type_synonym time = int
type_synonym duration = int

text \<open>The value of an arithmetic result in 64-bit two's complement.\<close>

definition go_int64 :: "int \<Rightarrow> int" where
  "go_int64 x = (x + 2 ^ 63) mod 2 ^ 64 - 2 ^ 63"

definition is_int64 :: "int \<Rightarrow> bool" where
  "is_int64 x \<longleftrightarrow> - (2 ^ 63) \<le> x \<and> x < 2 ^ 63"

lemma go_int64_id: "- (2 ^ 63) \<le> x \<Longrightarrow> x < 2 ^ 63 \<Longrightarrow> go_int64 x = x"
  by (simp add: go_int64_def)

lemma go_int64_bounds: "- (2 ^ 63) \<le> go_int64 x" "go_int64 x < 2 ^ 63"
  by (simp_all add: go_int64_def)

lemma go_int64_iff: "go_int64 x = x \<longleftrightarrow> is_int64 x"
  using go_int64_bounds [of x] go_int64_id [of x] by (auto simp: is_int64_def)

definition zero_time :: time where
  "zero_time = - 62135596800 * 1000000000"

definition IsZero :: "time \<Rightarrow> bool" where
  "IsZero t \<longleftrightarrow> t = zero_time"

definition Second :: duration where "Second = 1000000000"
definition Minute :: duration where "Minute = 60 * Second"
definition Hour :: duration where "Hour = 60 * Minute"

section \<open>Errors\<close>

text \<open>
  One constructor for each error the code makes, grouped by the package that makes it:
  errors built by \<open>fmt.Errorf\<close> carry the values they print. \<open>Wrap\<close> is an error that wraps
  another with \<open>%w\<close>. \<open>External\<close> is an error of code outside the repository (a driver, the
  network, a cancelled context), with its text.
\<close>

datatype (plugins only: code size) request_error =
    MinimumNotPositive | TooManyFenceLabels | BadFenceLabel
  | UnsupportedLanguage string
  | TargetLanguageEmpty | UnknownTargetLanguage string | UnknownSourceLanguage string
  | UnknownPromptKind string | GlossaryRequired | StyleOrAudienceRequired | DelimiterRequired

datatype (plugins only: code size) model_error =
    EmptyRole | TextAndParts
  | NoTargetLanguage string string | NoSourceLanguage string string
  | UnsupportedProfile string | OnlyTextSupported string
  | SourceLanguageRequired string | ExtendedUnsupported string

datatype (plugins only: code size) jobs_error =
    UnknownModelCatalog string
  | CatalogNoTarget string string | CatalogNoSource string string
  | KeyOwnerEmpty | JobOwnerEmpty | RetentionNotPositive
  | NilDelivery | SchedulerIncomplete | QueueJobIDEmpty

datatype (plugins only: code size) inference_error =
    NoModelName | NoMessages
  | OneMessageRequired | UserMessageRequired | PartsRequired | OnePartRequired
  | TextPartRequired string | LanguageCodesRequired | PromptTextRequired
  | NoChoices | TrailingResponse | ResponseTooLarge int | ModelsTooLarge int | ApiError int string string
  | BadBaseURL | BaseURLQuery | NegativeTimeout

datatype (plugins only: code size) server_error =
    HandlerIncomplete | ModelCatalogEmpty | TrailingJSON
  | AdmissionNoTarget string | AdmissionNoSource string
  | BackendRequired string | UnknownQueueBackend string | UnknownStoreBackend string
  | BackendsIncomplete | NotPositiveDuration string | NotPositiveInteger string | NotBoolean string
  | SettingsNotPositive

datatype (plugins only: code size) backend_error =
    JobAlreadyExpired | UnexpectedClaimResponse | ClaimIdleNotPositive
  | SQLitePathRequired | RedisClientRequired | NATSConnectionRequired | NATSNotReady

datatype (plugins only: code size) wrap_context =
    ParseKeys | GenerateJobID | ReceiveJob | LoadJob string | MarkRunning string
  | CompleteJob string | InvalidJSON | DecodeGeneration | CallInference | ReadInference
  | CallModels | ReadModels | ParseTimeout | ParseBaseURL | DecodeStored string | Step string

datatype (plugins only: code size) go_error =
    ErrNotFound | ErrClosed | ErrUnauthorized
  | External string
  | RequestError request_error
  | ModelError model_error
  | JobsError jobs_error
  | InferenceError inference_error
  | ServerError server_error
  | BackendError backend_error
  | Wrap wrap_context go_error

text \<open>\<open>errors.Is\<close>: the error itself or one it wraps.\<close>

fun errors_Is :: "go_error \<Rightarrow> go_error \<Rightarrow> bool" where
  "errors_Is (Wrap c e) target = (Wrap c e = target \<or> errors_Is e target)"
| "errors_Is e target = (e = target)"

lemma errors_Is_refl [simp]: "errors_Is e e"
  by (cases e) auto

section \<open>Sums\<close>

text \<open>\<open>is_ok r\<close>: the call returned a nil error.\<close>

definition is_ok :: "'e + 'a \<Rightarrow> bool" where
  "is_ok r \<longleftrightarrow> (case r of Inl _ \<Rightarrow> False | Inr _ \<Rightarrow> True)"

lemma is_ok_simps [simp]: "is_ok (Inr x)" "\<not> is_ok (Inl e)"
  by (simp_all add: is_ok_def)

lemma is_ok_iff: "is_ok r \<longleftrightarrow> (\<exists>x. r = Inr x)"
  by (cases r) auto

lemma not_is_okE: "\<not> is_ok r \<Longrightarrow> \<exists>e. r = Inl e"
  by (cases r) auto

lemma unit_sum_cases: "(r :: 'e + unit) = Inr () \<or> (\<exists>e. r = Inl e)"
  by (cases r) auto

section \<open>Lists\<close>

lemma prefix_replicate_takeWhile:
  "prefix (replicate k c) s \<longleftrightarrow> k \<le> length (takeWhile (\<lambda>x. x = c) s)"
proof (induction s arbitrary: k)
  case Nil
  then show ?case by (cases k) auto
next
  case (Cons x s)
  then show ?case by (cases k) auto
qed

lemma sorted_key_perm_unique:
  assumes "inj_on f (set xs)" and "mset xs = mset ys"
  shows "sort_key f xs = sort_key f ys"
  using assms by (metis properties_for_sort_key set_mset_mset mset_sort sorted_sort_key
      sort_key_inj_key_eq)

lemma sort_perm_eq: "mset xs = mset ys \<Longrightarrow> sort xs = sort (ys :: 'a :: linorder list)"
  by (metis properties_for_sort mset_sort sorted_sort)

lemma sorted_take: "sorted xs \<Longrightarrow> sorted (take n xs)"
  by (metis append_take_drop_id sorted_append)

lemma sorted_split_le:
  assumes "sorted (map f xs)" and "x \<in> set (take n xs)" and "y \<in> set (drop n xs)"
  shows "f x \<le> f y"
proof -
  have "map f xs = map f (take n xs) @ map f (drop n xs)"
    by (metis append_take_drop_id map_append)
  with assms show ?thesis
    by (auto simp: sorted_append)
qed

text \<open>Taking the first \<open>n\<close> of a list sorted by a key, without repetitions.\<close>

lemma take_sort_key:
  fixes f :: "'a \<Rightarrow> int" and xs :: "'a list" and n :: nat
  defines "out \<equiv> take n (sort_key f xs)"
  shows "set out \<subseteq> set xs" and "sorted (map f out)" and "length out \<le> n"
    and "x \<in> set xs \<Longrightarrow> x \<notin> set out \<Longrightarrow> length out = n \<and> (\<forall>y \<in> set out. f y \<le> f x)"
    and "distinct (map g xs) \<Longrightarrow> distinct (map g out)"
proof -
  show "set out \<subseteq> set xs"
    by (auto simp: out_def dest: in_set_takeD)
  show "sorted (map f out)"
    by (simp add: out_def sorted_take flip: take_map)
  show "length out \<le> n"
    by (simp add: out_def)
  show "distinct (map g xs) \<Longrightarrow> distinct (map g out)"
    unfolding out_def take_map [symmetric]
    by (metis distinct_take mset_eq_imp_distinct_iff mset_map mset_sort)
  assume x: "x \<in> set xs" "x \<notin> set out"
  then have drop: "x \<in> set (drop n (sort_key f xs))"
    using set_append [of "take n (sort_key f xs)" "drop n (sort_key f xs)"]
    by (auto simp: out_def)
  then have "n < length (sort_key f xs)"
    by (cases "n < length (sort_key f xs)") auto
  moreover have "f y \<le> f x" if "y \<in> set out" for y
    using sorted_split_le [of f "sort_key f xs" y n x] drop that by (auto simp: out_def)
  ultimately show "length out = n \<and> (\<forall>y \<in> set out. f y \<le> f x)"
    by (simp add: out_def)
qed

section \<open>Association lists as Go maps\<close>

text \<open>The keys of a Go map are distinct.\<close>

definition go_map :: "('k \<times> 'v) list \<Rightarrow> bool" where
  "go_map m \<longleftrightarrow> distinct (map fst m)"

lemma go_map_Nil [simp]: "go_map []"
  by (simp add: go_map_def)

lemma go_map_update [simp]: "go_map m \<Longrightarrow> go_map (AList.update k v m)"
  by (simp add: go_map_def distinct_update)

lemma go_map_filter [simp]: "go_map m \<Longrightarrow> go_map (filter P m)"
  by (simp add: go_map_def distinct_map_filter)

lemma go_map_mset: "go_map m \<Longrightarrow> mset m = mset m' \<Longrightarrow> go_map m'"
  by (metis go_map_def mset_eq_imp_distinct_iff mset_map)

lemma map_of_mset_eq:
  assumes "go_map m" and "mset m = mset m'"
  shows "map_of m = map_of m'"
  using assms by (metis go_map_def map_of_eqI map_of_inject_set mset_eq_setD mset_map go_map_mset)

lemma map_of_filter_key:
  "go_map m \<Longrightarrow> map_of (filter P m) k =
     (case map_of m k of None \<Rightarrow> None | Some v \<Rightarrow> if P (k, v) then Some v else None)"
proof (induction m)
  case Nil
  then show ?case by simp
next
  case (Cons a m)
  obtain k' v' where a: "a = (k', v')" by (cases a)
  from Cons.prems have m: "go_map m" and fresh: "k' \<notin> fst ` set m"
    by (auto simp: go_map_def a)
  then have "map_of m k' = None"
    by (simp add: map_of_eq_None_iff)
  with Cons.IH [OF m] show ?case
    by (auto simp: a split: option.splits)
qed

lemma map_of_Some_set: "go_map m \<Longrightarrow> map_of m k = Some v \<longleftrightarrow> (k, v) \<in> set m"
  by (simp add: go_map_def)

end
