(* ===== verification/Go_Strings.thy ===== *)
theory Go_Strings
  imports Go_Prelude
begin

text \<open>
  The part of Go's standard library for strings that the code uses (packages \<open>strings\<close>,
  \<open>unicode/utf8\<close>, \<open>strconv\<close>), on byte strings. Each function follows the documented
  behaviour at the arguments the code gives it: separators and cut sets are ASCII in the
  source, white space is Unicode white space. The one thing left open is the Unicode table
  behind \<open>strconv.IsPrint\<close> for runes beyond ASCII, an argument of \<open>strconv_Quote\<close>.
\<close>

section \<open>Package strings: joining and cutting at ASCII separators\<close>

fun strings_Join :: "string list \<Rightarrow> string \<Rightarrow> string" where
  "strings_Join [] sep = []"
| "strings_Join [s] sep = s"
| "strings_Join (s # t # ss) sep = s @ sep @ strings_Join (t # ss) sep"

definition strings_Repeat :: "string \<Rightarrow> nat \<Rightarrow> string" where
  "strings_Repeat s n = concat (replicate n s)"

definition strings_ContainsAny :: "string \<Rightarrow> string \<Rightarrow> bool" where
  "strings_ContainsAny s chars = list_ex (\<lambda>c. c \<in> set chars) s"

definition strings_TrimLeft :: "string \<Rightarrow> string \<Rightarrow> string" where
  "strings_TrimLeft s cutset = dropWhile (\<lambda>c. c \<in> set cutset) s"

definition strings_TrimRight :: "string \<Rightarrow> string \<Rightarrow> string" where
  "strings_TrimRight s cutset = rev (dropWhile (\<lambda>c. c \<in> set cutset) (rev s))"

definition strings_Trim :: "string \<Rightarrow> string \<Rightarrow> string" where
  "strings_Trim s cutset = strings_TrimRight (strings_TrimLeft s cutset) cutset"

text \<open>\<open>strings.Split\<close> at a one-byte separator: always at least one piece.\<close>

fun strings_Split :: "string \<Rightarrow> char \<Rightarrow> string list" where
  "strings_Split [] sep = [[]]"
| "strings_Split (c # s) sep =
     (if c = sep then [] # strings_Split s sep
      else (case strings_Split s sep of
              [] \<Rightarrow> [[c]]
            | piece # pieces \<Rightarrow> (c # piece) # pieces))"

text \<open>\<open>strings.Cut\<close> at the first occurrence of a one-byte separator.\<close>

fun strings_Cut :: "string \<Rightarrow> char \<Rightarrow> (string \<times> string) option" where
  "strings_Cut [] sep = None"
| "strings_Cut (c # s) sep =
     (if c = sep then Some ([], s)
      else map_option (\<lambda>(before, after). (c # before, after)) (strings_Cut s sep))"

text \<open>
  \<open>strings.Count\<close>: the number of non-overlapping occurrences; of the empty string, one more
  than the number of runes (\<open>runes\<close>).
\<close>

function count_occurrences :: "string \<Rightarrow> string \<Rightarrow> nat" where
  "count_occurrences s sub =
     (if sub = [] \<or> s = [] then 0
      else if prefix sub s then Suc (count_occurrences (drop (length sub) s) sub)
      else count_occurrences (tl s) sub)"
  by pat_completeness auto
termination
  by (relation "measure (\<lambda>(s, sub). length s)") auto

declare count_occurrences.simps [simp del]

section \<open>Package unicode/utf8\<close>

definition byte :: "char \<Rightarrow> nat" where
  "byte c = of_char c"

definition in_range :: "nat \<Rightarrow> nat \<Rightarrow> char \<Rightarrow> bool" where
  "in_range lo hi c \<longleftrightarrow> lo \<le> byte c \<and> byte c \<le> hi"

abbreviation continuation :: "char \<Rightarrow> bool" where
  "continuation c \<equiv> in_range 0x80 0xBF c"

definition RuneError :: nat where "RuneError = 0xFFFD"

text \<open>
  \<open>utf8.DecodeRuneInString\<close>: the rune and its width; width 1 with \<open>RuneError\<close> is an
  invalid byte, width 0 the empty string. \<open>second_range\<close> is the range of the second byte,
  which excludes overlong forms and surrogates.
\<close>

definition second_range :: "char \<Rightarrow> nat \<times> nat" where
  "second_range c =
     (if byte c = 0xE0 then (0xA0, 0xBF)
      else if byte c = 0xED then (0x80, 0x9F)
      else if byte c = 0xF0 then (0x90, 0xBF)
      else if byte c = 0xF4 then (0x80, 0x8F)
      else (0x80, 0xBF))"

definition DecodeRune :: "string \<Rightarrow> nat \<times> nat" where
  "DecodeRune s =
     (case s of
        [] \<Rightarrow> (RuneError, 0)
      | c0 # r0 \<Rightarrow>
          if byte c0 < 0x80 then (byte c0, 1)
          else (case r0 of
              [] \<Rightarrow> (RuneError, 1)
            | c1 # r1 \<Rightarrow>
                if \<not> in_range (fst (second_range c0)) (snd (second_range c0)) c1 then (RuneError, 1)
                else if in_range 0xC2 0xDF c0
                then ((byte c0 - 0xC0) * 64 + (byte c1 - 0x80), 2)
                else if in_range 0xE0 0xF4 c0 then
                  (case r1 of
                     [] \<Rightarrow> (RuneError, 1)
                   | c2 # r2 \<Rightarrow>
                       if \<not> continuation c2 then (RuneError, 1)
                       else if in_range 0xE0 0xEF c0
                       then ((byte c0 - 0xE0) * 4096 + (byte c1 - 0x80) * 64 + (byte c2 - 0x80), 3)
                       else (case r2 of
                               [] \<Rightarrow> (RuneError, 1)
                             | c3 # r3 \<Rightarrow>
                                 if \<not> continuation c3 then (RuneError, 1)
                                 else ((byte c0 - 0xF0) * 262144 + (byte c1 - 0x80) * 4096
                                        + (byte c2 - 0x80) * 64 + (byte c3 - 0x80), 4)))
                else (RuneError, 1)))"

lemma DecodeRune_Nil [simp]: "DecodeRune [] = (RuneError, 0)"
  by (simp add: DecodeRune_def)

lemma DecodeRune_width_pos: "s \<noteq> [] \<Longrightarrow> 0 < snd (DecodeRune s)"
  by (auto simp: DecodeRune_def split: list.splits)

lemma DecodeRune_width_le: "snd (DecodeRune s) \<le> length s"
  by (auto simp: DecodeRune_def split: list.splits)

text \<open>The runes of a string, each as its bytes, with whether it is an invalid byte.\<close>

function runes :: "string \<Rightarrow> (nat \<times> string) list" where
  "runes s =
     (if s = [] then []
      else (fst (DecodeRune s), take (snd (DecodeRune s)) s) # runes (drop (snd (DecodeRune s)) s))"
  by pat_completeness auto
termination
  by (relation "measure length") (auto simp: DecodeRune_width_pos)

declare runes.simps [simp del]

lemma runes_Nil [simp]: "runes [] = []"
  by (simp add: runes.simps)

lemma concat_runes: "concat (map snd (runes s)) = s"
proof (induction s rule: runes.induct)
  case (1 s)
  then show ?case by (cases "s = []") (auto simp: runes.simps [of s])
qed

definition strings_Count :: "string \<Rightarrow> string \<Rightarrow> nat" where
  "strings_Count s sub =
     (if sub = [] then Suc (length (runes s)) else count_occurrences s sub)"

section \<open>Package strings: Unicode white space\<close>

text \<open>The UTF-8 forms of the runes of \<open>unicode.IsSpace\<close>.\<close>

definition space_runes :: "string list" where
  "space_runes =
     [[CHR 0x09], [CHR 0x0A], [CHR 0x0B], [CHR 0x0C], [CHR 0x0D], [CHR 0x20],
      [CHR 0xC2, CHR 0x85], [CHR 0xC2, CHR 0xA0],
      [CHR 0xE1, CHR 0x9A, CHR 0x80],
      [CHR 0xE2, CHR 0x80, CHR 0x80], [CHR 0xE2, CHR 0x80, CHR 0x81],
      [CHR 0xE2, CHR 0x80, CHR 0x82], [CHR 0xE2, CHR 0x80, CHR 0x83],
      [CHR 0xE2, CHR 0x80, CHR 0x84], [CHR 0xE2, CHR 0x80, CHR 0x85],
      [CHR 0xE2, CHR 0x80, CHR 0x86], [CHR 0xE2, CHR 0x80, CHR 0x87],
      [CHR 0xE2, CHR 0x80, CHR 0x88], [CHR 0xE2, CHR 0x80, CHR 0x89],
      [CHR 0xE2, CHR 0x80, CHR 0x8A], [CHR 0xE2, CHR 0x80, CHR 0xA8],
      [CHR 0xE2, CHR 0x80, CHR 0xA9], [CHR 0xE2, CHR 0x80, CHR 0xAF],
      [CHR 0xE2, CHR 0x81, CHR 0x9F], [CHR 0xE3, CHR 0x80, CHR 0x80]]"

definition leading_space :: "string \<Rightarrow> string option" where
  "leading_space s = find (\<lambda>e. prefix e s) space_runes"

definition trailing_space :: "string \<Rightarrow> string option" where
  "trailing_space s = find (\<lambda>e. suffix e s) space_runes"

lemma space_runes_nonempty: "e \<in> set space_runes \<Longrightarrow> e \<noteq> []"
  by (auto simp: space_runes_def)

lemma leading_space_Some:
  "leading_space s = Some e \<Longrightarrow> prefix e s \<and> e \<noteq> [] \<and> e \<in> set space_runes"
  by (auto simp: leading_space_def find_Some_iff space_runes_nonempty)

lemma trailing_space_Some:
  "trailing_space s = Some e \<Longrightarrow> suffix e s \<and> e \<noteq> [] \<and> e \<in> set space_runes"
  by (auto simp: trailing_space_def find_Some_iff space_runes_nonempty)

lemma leading_space_shrinks: "leading_space s = Some e \<Longrightarrow> length s - length e < length s"
  by (cases s; cases e) (auto dest!: leading_space_Some)

lemma trailing_space_shrinks: "trailing_space s = Some e \<Longrightarrow> length s - length e < length s"
  by (cases s; cases e) (auto dest!: trailing_space_Some)

function trim_left_space :: "string \<Rightarrow> string" where
  "trim_left_space s =
     (case leading_space s of None \<Rightarrow> s | Some e \<Rightarrow> trim_left_space (drop (length e) s))"
  by pat_completeness auto
termination
  by (relation "measure length") (auto dest: leading_space_shrinks)

function trim_right_space :: "string \<Rightarrow> string" where
  "trim_right_space s =
     (case trailing_space s of
        None \<Rightarrow> s
      | Some e \<Rightarrow> trim_right_space (take (length s - length e) s))"
  by pat_completeness auto
termination
  by (relation "measure length") (auto dest: trailing_space_shrinks)

declare trim_left_space.simps [simp del] trim_right_space.simps [simp del]

definition strings_TrimSpace :: "string \<Rightarrow> string" where
  "strings_TrimSpace s = trim_right_space (trim_left_space s)"

text \<open>\<open>strings.Fields\<close>: the maximal pieces without white space; \<open>field\<close> is the piece being read.\<close>

function fields_loop :: "string \<Rightarrow> string \<Rightarrow> string list" where
  "fields_loop field s =
     (case s of
        [] \<Rightarrow> (if field = [] then [] else [field])
      | c # r \<Rightarrow>
          (case leading_space s of
             None \<Rightarrow> fields_loop (field @ [c]) r
           | Some e \<Rightarrow> (if field = [] then [] else [field]) @ fields_loop [] (drop (length e) s)))"
  by pat_completeness auto
termination
  by (relation "measure (\<lambda>(field, s). length s)") (auto dest: leading_space_shrinks)

declare fields_loop.simps [simp del]

definition strings_Fields :: "string \<Rightarrow> string list" where
  "strings_Fields s = fields_loop [] s"

section \<open>Package strings: case folding against ASCII words\<close>

text \<open>ASCII lower case; \<open>strings.EqualFold\<close> with an ASCII word that has no \<open>k\<close> and no \<open>s\<close>.\<close>

definition ascii_lower :: "char \<Rightarrow> char" where
  "ascii_lower c = (if in_range 65 90 c then char_of (byte c + 32) else c)"

definition strings_EqualFold :: "string \<Rightarrow> string \<Rightarrow> bool" where
  "strings_EqualFold s t \<longleftrightarrow> map ascii_lower s = map ascii_lower t"

section \<open>Package strconv\<close>

definition hex_digit :: "nat \<Rightarrow> char" where
  "hex_digit n = (if n < 10 then char_of (48 + n) else char_of (87 + n))"

text \<open>The lower \<open>n\<close> hexadecimal digits of \<open>v\<close>.\<close>

fun hex_digits :: "nat \<Rightarrow> nat \<Rightarrow> string" where
  "hex_digits 0 v = []"
| "hex_digits (Suc n) v = hex_digits n (v div 16) @ [hex_digit (v mod 16)]"

text \<open>
  \<open>strconv.Quote\<close> of one rune, given its bytes: an invalid byte is \<open>\xNN\<close>, the quote and the
  backslash are escaped, printable runes stand for themselves, the named control characters
  have their letters and the rest is \<open>\xNN\<close>, \<open>\uNNNN\<close> or \<open>\UNNNNNNNN\<close>.
\<close>

definition is_print :: "(nat \<Rightarrow> bool) \<Rightarrow> nat \<Rightarrow> bool" where
  "is_print tbl r \<longleftrightarrow> (if r < 0x80 then 0x20 \<le> r \<and> r < 0x7F else tbl r)"

definition quote_rune :: "(nat \<Rightarrow> bool) \<Rightarrow> nat \<times> string \<Rightarrow> string" where
  "quote_rune tbl rb =
     (let (r, bs) = rb in
      if r = RuneError \<and> length bs = 1 then BSL # CHR ''x'' # hex_digits 2 (byte (hd bs))
      else if r = 0x22 then [BSL, DQ]
      else if r = 0x5C then [BSL, BSL]
      else if is_print tbl r then bs
      else if r = 7 then [BSL, CHR ''a'']
      else if r = 8 then [BSL, CHR ''b'']
      else if r = 12 then [BSL, CHR ''f'']
      else if r = 10 then [BSL, CHR ''n'']
      else if r = 13 then [BSL, CHR ''r'']
      else if r = 9 then [BSL, CHR ''t'']
      else if r = 11 then [BSL, CHR ''v'']
      else if r < 0x20 \<or> r = 0x7F then BSL # CHR ''x'' # hex_digits 2 r
      else if r < 0x10000 then BSL # CHR ''u'' # hex_digits 4 r
      else BSL # CHR ''U'' # hex_digits 8 r)"

definition strconv_Quote :: "(nat \<Rightarrow> bool) \<Rightarrow> string \<Rightarrow> string" where
  "strconv_Quote tbl s = DQ # concat (map (quote_rune tbl) (runes s)) @ [DQ]"

text \<open>\<open>strconv.Itoa\<close>.\<close>

fun itoa :: "nat \<Rightarrow> string" where
  "itoa n = (if n < 10 then [char_of (48 + n)] else itoa (n div 10) @ [char_of (48 + n mod 10)])"

declare itoa.simps [simp del]

definition strconv_Itoa :: "int \<Rightarrow> string" where
  "strconv_Itoa v = (if v < 0 then CHR ''-'' # itoa (nat (- v)) else itoa (nat v))"

section \<open>Lemmas\<close>

lemma strings_Repeat_char [simp]: "strings_Repeat [c] n = replicate n c"
  by (induction n) (auto simp: strings_Repeat_def)

lemma strings_Join_append:
  "xs \<noteq> [] \<Longrightarrow> ys \<noteq> [] \<Longrightarrow>
     strings_Join (xs @ ys) sep = strings_Join xs sep @ sep @ strings_Join ys sep"
proof (induction xs sep rule: strings_Join.induct)
  case (2 s sep)
  then show ?case by (cases ys) auto
qed auto

lemma strings_Split_nonempty [simp]: "strings_Split s sep \<noteq> []"
  by (induction s) (auto split: list.splits)

lemma strings_Join_Split: "strings_Join (strings_Split s sep) [sep] = s"
proof (induction s)
  case Nil
  then show ?case by simp
next
  case (Cons c s)
  obtain p ps where "strings_Split s sep = p # ps"
    by (meson list.exhaust strings_Split_nonempty)
  with Cons show ?case by (cases ps) auto
qed

lemma leading_space_Nil [simp]: "leading_space [] = None"
  by (auto simp: leading_space_def find_None_iff dest: space_runes_nonempty)

lemma trailing_space_Nil [simp]: "trailing_space [] = None"
  by (auto simp: trailing_space_def find_None_iff dest: space_runes_nonempty)

lemma strings_TrimSpace_Nil [simp]: "strings_TrimSpace [] = []"
  by (simp add: strings_TrimSpace_def trim_left_space.simps trim_right_space.simps)

lemma sublist_trim_left: "suffix (trim_left_space s) s"
proof (induction s rule: trim_left_space.induct)
  case (1 s)
  then show ?case
    by (subst trim_left_space.simps)
      (auto split: option.splits intro: suffix_order.trans suffix_drop)
qed

end
