(* ===== verification/Go_Time.thy ===== *)
theory Go_Time
  imports Go_Strings "HOL-Library.Monad_Syntax"
begin

text \<open>
  The part of packages \<open>time\<close> and \<open>strconv\<close> that the REST API uses: \<open>strconv.Atoi\<close> of a query
  parameter, the \<open>RFC3339Nano\<close> text of an instant in UTC, as \<open>time.Time\<close> marshals to JSON, and
  \<open>time.Parse\<close> of that layout. Calendar dates are proleptic Gregorian.
\<close>

section \<open>Decimal digits\<close>

definition is_digit :: "char \<Rightarrow> bool" where
  "is_digit c \<longleftrightarrow> in_range 48 57 c"

definition digit_value :: "char \<Rightarrow> int" where
  "digit_value c = int (byte c) - 48"

fun digits_value :: "string \<Rightarrow> int \<Rightarrow> int" where
  "digits_value [] acc = acc"
| "digits_value (c # cs) acc = digits_value cs (10 * acc + digit_value c)"

text \<open>\<open>n\<close> decimal digits of a number, with leading zeros.\<close>

fun decimal :: "nat \<Rightarrow> int \<Rightarrow> string" where
  "decimal 0 v = []"
| "decimal (Suc n) v = decimal n (v div 10) @ [char_of (nat (48 + v mod 10))]"

text \<open>\<open>strconv.Atoi\<close>: an optional sign and digits, in the range of a 64-bit \<open>int\<close>.\<close>

definition strconv_Atoi :: "string \<Rightarrow> int option" where
  "strconv_Atoi s =
     (let neg = (s \<noteq> [] \<and> hd s = CHR ''-'');
          ds = (if s \<noteq> [] \<and> (hd s = CHR ''-'' \<or> hd s = CHR ''+'') then tl s else s);
          v = (if neg then - digits_value ds 0 else digits_value ds 0)
      in if ds = [] \<or> \<not> list_all is_digit ds \<or> v < - (2 ^ 63) \<or> v \<ge> 2 ^ 63 then None else Some v)"

section \<open>Civil dates\<close>

text \<open>Days since 1 January 1970, and the date of a day. Years begin in March inside an era of
  400 years, so that the leap day is the last of its year.\<close>

definition days_from_civil :: "int \<Rightarrow> int \<Rightarrow> int \<Rightarrow> int" where
  "days_from_civil y m d =
     (let y' = (if m \<le> 2 then y - 1 else y);
          yoe = y' mod 400;
          mp = (if m > 2 then m - 3 else m + 9);
          doy = (153 * mp + 2) div 5 + d - 1
      in (y' div 400) * 146097 + (yoe * 365 + yoe div 4 - yoe div 100 + doy) - 719468)"

definition civil_from_days :: "int \<Rightarrow> int \<times> int \<times> int" where
  "civil_from_days days =
     (let z = days + 719468;
          doe = z mod 146097;
          yoe = (doe - doe div 1460 + doe div 36524 - doe div 146096) div 365;
          doy = doe - (365 * yoe + yoe div 4 - yoe div 100);
          mp = (5 * doy + 2) div 153;
          d = doy - (153 * mp + 2) div 5 + 1;
          m = (if mp < 10 then mp + 3 else mp - 9);
          y = yoe + (z div 146097) * 400
      in (if m \<le> 2 then y + 1 else y, m, d))"

definition is_leap :: "int \<Rightarrow> bool" where
  "is_leap y \<longleftrightarrow> y mod 4 = 0 \<and> (y mod 100 \<noteq> 0 \<or> y mod 400 = 0)"

definition days_in :: "int \<Rightarrow> int \<Rightarrow> int" where
  "days_in m y =
     (if m = 2 then (if is_leap y then 29 else 28)
      else if m = 4 \<or> m = 6 \<or> m = 9 \<or> m = 11 then 30 else 31)"

section \<open>Formatting\<close>

text \<open>The fraction without its trailing zeros; none for a whole second.\<close>

definition format_fraction :: "int \<Rightarrow> string" where
  "format_fraction ns =
     (if ns = 0 then [] else CHR ''.'' # rev (dropWhile (\<lambda>c. c = CHR ''0'') (rev (decimal 9 ns))))"

definition format_RFC3339Nano :: "time \<Rightarrow> string" where
  "format_RFC3339Nano t =
     (let secs = t div 1000000000; ns = t mod 1000000000;
          days = secs div 86400; sod = secs mod 86400;
          (y, m, d) = civil_from_days days
      in decimal 4 y @ ''-'' @ decimal 2 m @ ''-'' @ decimal 2 d @ ''T''
         @ decimal 2 (sod div 3600) @ '':'' @ decimal 2 (sod div 60 mod 60) @ '':'' @ decimal 2 (sod mod 60)
         @ format_fraction ns @ ''Z'')"

section \<open>Parsing\<close>

text \<open>Each step takes its part off the front of the text, or fails.\<close>

definition take_digits :: "nat \<Rightarrow> string \<Rightarrow> (int \<times> string) option" where
  "take_digits n s =
     (if n \<le> length s \<and> list_all is_digit (take n s)
      then Some (digits_value (take n s) 0, drop n s) else None)"

definition take_char :: "char \<Rightarrow> string \<Rightarrow> string option" where
  "take_char c s = (if s \<noteq> [] \<and> hd s = c then Some (tl s) else None)"

text \<open>The hour of a layout may have one digit or two.\<close>

definition take_hour :: "string \<Rightarrow> (int \<times> string) option" where
  "take_hour s =
     (case take_digits 2 s of
        Some r \<Rightarrow> Some r
      | None \<Rightarrow> take_digits 1 s)"

definition take_fraction :: "string \<Rightarrow> int \<times> string" where
  "take_fraction s =
     (if 2 \<le> length s \<and> (hd s = CHR ''.'' \<or> hd s = CHR '','') \<and> is_digit (s ! 1)
      then let ds = takeWhile is_digit (tl s); used = take 9 ds
           in (digits_value used 0 * 10 ^ (9 - length used), dropWhile is_digit (tl s))
      else (0, s))"

text \<open>The offset of the zone in seconds; 24 hours and 60 minutes are let through.\<close>

definition take_zone :: "string \<Rightarrow> (int \<times> string) option" where
  "take_zone s =
     (if s = [] then None
      else if hd s = CHR ''Z'' then Some (0, tl s)
      else if length s < 6 \<or> s ! 3 \<noteq> CHR '':'' \<or> (hd s \<noteq> CHR ''+'' \<and> hd s \<noteq> CHR ''-'') then None
      else (case (take_digits 2 (drop 1 s), take_digits 2 (drop 4 s)) of
              (Some (hh, _), Some (mm, rest)) \<Rightarrow>
                if hh > 24 \<or> mm > 60 then None
                else Some ((if hd s = CHR ''-'' then - 1 else 1) * (hh * 3600 + mm * 60), rest)
            | _ \<Rightarrow> None))"

definition parse_RFC3339Nano :: "string \<Rightarrow> time option" where
  "parse_RFC3339Nano s0 = do {
     (y, s1) \<leftarrow> take_digits 4 s0; s2 \<leftarrow> take_char (CHR ''-'') s1;
     (m, s3) \<leftarrow> take_digits 2 s2; s4 \<leftarrow> take_char (CHR ''-'') s3;
     (d, s5) \<leftarrow> take_digits 2 s4; s6 \<leftarrow> take_char (CHR ''T'') s5;
     (hh, s7) \<leftarrow> take_hour s6; s8 \<leftarrow> take_char (CHR '':'') s7;
     (mi, s9) \<leftarrow> take_digits 2 s8; s10 \<leftarrow> take_char (CHR '':'') s9;
     (ss, s11) \<leftarrow> take_digits 2 s10;
     let (ns, s12) = take_fraction s11;
     (offset, rest) \<leftarrow> take_zone s12;
     if rest \<noteq> [] \<or> m < 1 \<or> 12 < m \<or> d < 1 \<or> days_in m y < d \<or> 23 < hh \<or> 59 < mi \<or> 59 < ss
     then None
     else Some ((days_from_civil y m d * 86400 + hh * 3600 + mi * 60 + ss - offset) * 1000000000 + ns)
   }"

end
