(* ===== verification/Sha256.thy ===== *)
theory Sha256
  imports Go_Strings "HOL-Library.Word"
begin

text \<open>
  \<open>crypto/sha256.Sum256\<close> of Go's standard library, on byte strings (FIPS 180-4), used by
  the authenticator to store key digests instead of keys.
\<close>

unbundle bit_operations_syntax

type_synonym word32 = "32 word"

definition sha_K :: "word32 list" where
  "sha_K = [
     1116352408, 1899447441, 3049323471, 3921009573, 961987163, 1508970993, 2453635748, 2870763221,
     3624381080, 310598401, 607225278, 1426881987, 1925078388, 2162078206, 2614888103, 3248222580,
     3835390401, 4022224774, 264347078, 604807628, 770255983, 1249150122, 1555081692, 1996064986,
     2554220882, 2821834349, 2952996808, 3210313671, 3336571891, 3584528711, 113926993, 338241895,
     666307205, 773529912, 1294757372, 1396182291, 1695183700, 1986661051, 2177026350, 2456956037,
     2730485921, 2820302411, 3259730800, 3345764771, 3516065817, 3600352804, 4094571909, 275423344,
     430227734, 506948616, 659060556, 883997877, 958139571, 1322822218, 1537002063, 1747873779,
     1955562222, 2024104815, 2227730452, 2361852424, 2428436474, 2756734187, 3204031479, 3329325298]"

definition sha_init :: "word32 list" where
  "sha_init = [1779033703, 3144134277, 1013904242, 2773480762, 1359893119, 2600822924, 528734635, 1541459225]"

definition sha_rotr :: "nat \<Rightarrow> word32 \<Rightarrow> word32" where
  "sha_rotr n w = drop_bit n w OR push_bit (32 - n) w"

definition sha_sigma0 :: "word32 \<Rightarrow> word32" where
  "sha_sigma0 w = sha_rotr 7 w XOR sha_rotr 18 w XOR drop_bit 3 w"

definition sha_sigma1 :: "word32 \<Rightarrow> word32" where
  "sha_sigma1 w = sha_rotr 17 w XOR sha_rotr 19 w XOR drop_bit 10 w"

text \<open>The message schedule, newest word first.\<close>

fun sha_schedule :: "nat \<Rightarrow> word32 list \<Rightarrow> word32 list" where
  "sha_schedule 0 ws = ws"
| "sha_schedule (Suc n) ws =
     sha_schedule n ((sha_sigma1 (ws ! 1) + ws ! 6 + sha_sigma0 (ws ! 14) + ws ! 15) # ws)"

definition sha_round :: "word32 \<times> word32 \<Rightarrow> word32 list \<Rightarrow> word32 list" where
  "sha_round kw v =
     (let a = v ! 0; b = v ! 1; c = v ! 2; d = v ! 3; e = v ! 4; f = v ! 5; g = v ! 6; h = v ! 7;
          s1 = sha_rotr 6 e XOR sha_rotr 11 e XOR sha_rotr 25 e;
          ch = (e AND f) XOR (NOT e AND g);
          t1 = h + s1 + ch + fst kw + snd kw;
          s0 = sha_rotr 2 a XOR sha_rotr 13 a XOR sha_rotr 22 a;
          maj = (a AND b) XOR (a AND c) XOR (b AND c)
      in [t1 + (s0 + maj), a, b, c, d + t1, e, f, g])"

text \<open>Big-endian words of bytes, and back.\<close>

fun be_words :: "string \<Rightarrow> word32 list" where
  "be_words (a # b # c # d # s) =
     of_nat (((byte a * 256 + byte b) * 256 + byte c) * 256 + byte d) # be_words s"
| "be_words s = []"

fun be_bytes :: "nat \<Rightarrow> nat \<Rightarrow> string" where
  "be_bytes 0 v = []"
| "be_bytes (Suc n) v = be_bytes n (v div 256) @ [char_of (v mod 256)]"

definition sha_block :: "word32 list \<Rightarrow> string \<Rightarrow> word32 list" where
  "sha_block hash block =
     (let ws = rev (sha_schedule 48 (rev (be_words block)))
      in map2 (+) hash (fold sha_round (zip sha_K ws) hash))"

definition sha_pad :: "string \<Rightarrow> string" where
  "sha_pad s =
     s @ [CHR 0x80] @ replicate ((119 - length s mod 64) mod 64) (CHR 0x00) @ be_bytes 8 (8 * length s)"

function sha_blocks :: "word32 list \<Rightarrow> string \<Rightarrow> word32 list" where
  "sha_blocks hash s =
     (if s = [] then hash else sha_blocks (sha_block hash (take 64 s)) (drop 64 s))"
  by pat_completeness auto
termination
  by (relation "measure (\<lambda>(hash, s). length s)") auto

declare sha_blocks.simps [simp del]

definition Sum256 :: "string \<Rightarrow> string" where
  "Sum256 s = concat (map (\<lambda>w. be_bytes 4 (unat w)) (sha_blocks sha_init (sha_pad s)))"

end
