(* ===== verification/Json.thy ===== *)
theory Json
  imports Go_Strings Complex_Main
begin

text \<open>
  The part of Go's \<open>encoding/json\<close> that the code uses, on trees: the text of a document is
  left to the standard library's scanner, and a decoder's input is the values it scans, then
  the end of the input or an error. The number type is a parameter: a number decoded with
  \<open>UseNumber\<close> is its literal, a \<open>float64\<close> or an \<open>int\<close> in a struct is its value.

  An encoder drops \<open>omitempty\<close> fields, sorts the keys of maps and replaces invalid UTF-8;
  a struct decoder matches keys exactly or by case folding, takes the last of several equal
  keys, leaves a field alone on \<open>null\<close> and, with \<open>DisallowUnknownFields\<close>, refuses other keys.
\<close>

section \<open>Trees\<close>

datatype (plugins only: code size) 'n json =
    JNull
  | JBool bool
  | JNumber 'n
  | JString string
  | JArray "'n json list"
  | JObject "(string \<times> 'n json) list"

section \<open>Valid UTF-8\<close>

definition valid_utf8 :: "string \<Rightarrow> bool" where
  "valid_utf8 s \<longleftrightarrow> list_all (\<lambda>(r, bs). \<not> (r = RuneError \<and> length bs = 1)) (runes s)"

text \<open>What the encoder writes for a string: every invalid byte becomes U+FFFD.\<close>

definition to_valid_utf8 :: "string \<Rightarrow> string" where
  "to_valid_utf8 s =
     concat (map (\<lambda>(r, bs). if r = RuneError \<and> length bs = 1 then [CHR 0xEF, CHR 0xBF, CHR 0xBD] else bs)
               (runes s))"

lemma to_valid_utf8_id [simp]:
  assumes "valid_utf8 s"
  shows "to_valid_utf8 s = s"
proof -
  have "to_valid_utf8 s = concat (map snd (runes s))"
    unfolding to_valid_utf8_def using assms
    by (intro arg_cong [where f = concat] map_cong) (auto simp: valid_utf8_def list_all_iff)
  then show ?thesis by (simp add: concat_runes)
qed

lemma valid_utf8_Nil [simp]: "valid_utf8 []"
  by (simp add: valid_utf8_def)

lemma runes_ascii: "list_all (\<lambda>c. byte c < 0x80) s \<Longrightarrow> runes s = map (\<lambda>c. (byte c, [c])) s"
proof (induction s)
  case (Cons c s)
  then have "DecodeRune (c # s) = (byte c, 1)" by (simp add: DecodeRune_def)
  with Cons show ?case by (simp add: runes.simps [of "c # s"])
qed simp

lemma valid_utf8_ascii: "list_all (\<lambda>c. byte c < 0x80) s \<Longrightarrow> valid_utf8 s"
  by (auto simp: valid_utf8_def runes_ascii list_all_iff RuneError_def)

abbreviation json_string :: "string \<Rightarrow> 'n json" where
  "json_string s \<equiv> JString (to_valid_utf8 s)"

section \<open>Encoding structs and maps\<close>

text \<open>A struct's fields in order; \<open>None\<close> is a field dropped by \<open>omitempty\<close>.\<close>

definition json_struct :: "(string \<times> 'n json option) list \<Rightarrow> 'n json" where
  "json_struct fields =
     JObject (concat (map (\<lambda>(k, v). case v of None \<Rightarrow> [] | Some j \<Rightarrow> [(k, j)]) fields))"

definition omit_string :: "string \<Rightarrow> 'n json option" where
  "omit_string s = (if s = [] then None else Some (json_string s))"

definition omit_int :: "int \<Rightarrow> rat json option" where
  "omit_int n = (if n = 0 then None else Some (JNumber (of_int n)))"

definition omit_strings :: "string list \<Rightarrow> 'n json option" where
  "omit_strings ss = (if ss = [] then None else Some (JArray (map json_string ss)))"

text \<open>A \<open>map[string]string\<close>; a nil map is \<open>null\<close>.\<close>

definition json_map :: "(string \<times> string) list option \<Rightarrow> 'n json" where
  "json_map m =
     (case m of
        None \<Rightarrow> JNull
      | Some kvs \<Rightarrow> JObject (map (\<lambda>(k, v). (to_valid_utf8 k, json_string v)) (sort_key fst kvs)))"

section \<open>Decoding\<close>

definition type_error :: go_error where
  "type_error = External ''json: cannot unmarshal value''"

definition unknown_field :: go_error where
  "unknown_field = External ''json: unknown field''"

text \<open>Case folding of a key, enough to compare it with an ASCII field name.\<close>

function fold_key :: "string \<Rightarrow> string" where
  "fold_key s =
     (if s = [] then []
      else if prefix [CHR 0xC5, CHR 0xBF] s then CHR ''S'' # fold_key (drop 2 s)
      else if prefix [CHR 0xE2, CHR 0x84, CHR 0xAA] s then CHR ''K'' # fold_key (drop 3 s)
      else (if in_range 97 122 (hd s) then char_of (byte (hd s) - 32) else hd s) # fold_key (tl s))"
  by pat_completeness auto
termination
  by (relation "measure length") auto

declare fold_key.simps [simp del]

text \<open>The struct field that a key names: exactly, or else by folding.\<close>

definition json_field :: "string list \<Rightarrow> string \<Rightarrow> string option" where
  "json_field names key =
     (if key \<in> set names then Some key
      else find (\<lambda>n. fold_key n = fold_key key) names)"

text \<open>
  A struct decoder: \<open>store name v x\<close> stores the value \<open>v\<close> in the field \<open>name\<close> of \<open>x\<close>. Keys are
  taken in order, so the last of several equal keys wins.
\<close>

fun decode_fields ::
  "string list \<Rightarrow> (string \<Rightarrow> 'n json \<Rightarrow> 'a \<Rightarrow> go_error + 'a) \<Rightarrow> bool
     \<Rightarrow> (string \<times> 'n json) list \<Rightarrow> 'a \<Rightarrow> go_error + 'a" where
  "decode_fields names store strict [] x = Inr x"
| "decode_fields names store strict ((k, v) # kvs) x =
     (case json_field names k of
        None \<Rightarrow> if strict then Inl unknown_field else decode_fields names store strict kvs x
      | Some n \<Rightarrow> (case store n v x of
                    Inl e \<Rightarrow> Inl e
                  | Inr x' \<Rightarrow> decode_fields names store strict kvs x'))"

definition decode_struct ::
  "string list \<Rightarrow> (string \<Rightarrow> 'n json \<Rightarrow> 'a \<Rightarrow> go_error + 'a) \<Rightarrow> bool
     \<Rightarrow> 'n json \<Rightarrow> 'a \<Rightarrow> go_error + 'a" where
  "decode_struct names store strict j x =
     (case j of
        JObject kvs \<Rightarrow> decode_fields names store strict kvs x
      | JNull \<Rightarrow> Inr x
      | _ \<Rightarrow> Inl type_error)"

definition decode_string :: "'n json \<Rightarrow> string \<Rightarrow> go_error + string" where
  "decode_string j old =
     (case j of JString s \<Rightarrow> Inr s | JNull \<Rightarrow> Inr old | _ \<Rightarrow> Inl type_error)"

text \<open>The elements of an array are decoded into those of the slice as far as it reaches.\<close>

fun decode_string_list :: "'n json list \<Rightarrow> string list \<Rightarrow> go_error + string list" where
  "decode_string_list [] olds = Inr []"
| "decode_string_list (j # js) olds =
     (case decode_string j (case olds of [] \<Rightarrow> [] | old # _ \<Rightarrow> old) of
        Inl e \<Rightarrow> Inl e
      | Inr s \<Rightarrow> (case decode_string_list js (tl olds) of
                    Inl e \<Rightarrow> Inl e
                  | Inr ss \<Rightarrow> Inr (s # ss)))"

definition decode_strings :: "'n json \<Rightarrow> string list \<Rightarrow> go_error + string list" where
  "decode_strings j old =
     (case j of JArray js \<Rightarrow> decode_string_list js old | JNull \<Rightarrow> Inr [] | _ \<Rightarrow> Inl type_error)"

fun decode_map_entries ::
  "(string \<times> 'n json) list \<Rightarrow> (string \<times> string) list \<Rightarrow> go_error + (string \<times> string) list" where
  "decode_map_entries [] m = Inr m"
| "decode_map_entries ((k, j) # kvs) m =
     (case decode_string j [] of
        Inl e \<Rightarrow> Inl e
      | Inr s \<Rightarrow> decode_map_entries kvs (AList.update k s m))"

definition decode_map ::
  "'n json \<Rightarrow> (string \<times> string) list option \<Rightarrow> go_error + (string \<times> string) list option" where
  "decode_map j old =
     (case j of
        JObject kvs \<Rightarrow>
          (case decode_map_entries kvs (case old of None \<Rightarrow> [] | Some m \<Rightarrow> m) of
             Inl e \<Rightarrow> Inl e
           | Inr m \<Rightarrow> Inr (Some m))
      | JNull \<Rightarrow> Inr None
      | _ \<Rightarrow> Inl type_error)"

text \<open>
  An \<open>int\<close> field takes integers of its range only. A tree has the value of a number: the literal
  of an integer written with a fraction or an exponent, which Go refuses, is no input here.
\<close>

definition decode_int :: "rat json \<Rightarrow> int \<Rightarrow> go_error + int" where
  "decode_int j old =
     (case j of
        JNumber q \<Rightarrow> if snd (quotient_of q) = 1 \<and> is_int64 (fst (quotient_of q))
                     then Inr (fst (quotient_of q)) else Inl type_error
      | JNull \<Rightarrow> Inr old
      | _ \<Rightarrow> Inl type_error)"

text \<open>A value in a field, or the error of decoding it.\<close>

definition put :: "go_error + 'b \<Rightarrow> ('b \<Rightarrow> 'a) \<Rightarrow> go_error + 'a" where
  "put r f = (case r of Inl e \<Rightarrow> Inl e | Inr x \<Rightarrow> Inr (f x))"

text \<open>A slice of any element type, its elements decoded into the old ones as far as they reach.\<close>

fun decode_elements ::
  "('n json \<Rightarrow> 'a \<Rightarrow> go_error + 'a) \<Rightarrow> 'a \<Rightarrow> 'n json list \<Rightarrow> 'a list \<Rightarrow> go_error + 'a list" where
  "decode_elements decode zero [] olds = Inr []"
| "decode_elements decode zero (j # js) olds =
     (case decode j (case olds of [] \<Rightarrow> zero | old # _ \<Rightarrow> old) of
        Inl e \<Rightarrow> Inl e
      | Inr x \<Rightarrow> (case decode_elements decode zero js (tl olds) of
                    Inl e \<Rightarrow> Inl e
                  | Inr xs \<Rightarrow> Inr (x # xs)))"

definition decode_slice ::
  "('n json \<Rightarrow> 'a \<Rightarrow> go_error + 'a) \<Rightarrow> 'a \<Rightarrow> 'n json \<Rightarrow> 'a list \<Rightarrow> go_error + 'a list" where
  "decode_slice decode zero j old =
     (case j of JArray js \<Rightarrow> decode_elements decode zero js old | JNull \<Rightarrow> Inr [] | _ \<Rightarrow> Inl type_error)"

section \<open>A decoder's input\<close>

text \<open>The values a stream holds, then \<open>io.EOF\<close> (\<open>None\<close>) or the error that ends it.\<close>

datatype (plugins only: code size) 'n json_input = JsonInput "'n json list" "go_error option"

section \<open>Lemmas\<close>

lemma json_field_exact [simp]: "key \<in> set names \<Longrightarrow> json_field names key = Some key"
  by (simp add: json_field_def)

lemma json_field_in: "json_field names key = Some n \<Longrightarrow> n \<in> set names"
  by (auto simp: json_field_def find_Some_iff split: if_splits)

lemma decode_string_JString [simp]: "decode_string (JString s) old = Inr s"
  by (simp add: decode_string_def)

lemma decode_string_list_map [simp]:
  "decode_string_list (map (\<lambda>s. JString (f s)) ss) olds = Inr (map f ss)"
  by (induction ss arbitrary: olds) auto

lemma decode_strings_JArray [simp]:
  "decode_strings (JArray (map (\<lambda>s. JString (f s)) ss)) old = Inr (map f ss)"
  by (simp add: decode_strings_def)

lemma decode_int_JNumber [simp]: "is_int64 n \<Longrightarrow> decode_int (JNumber (of_int n)) old = Inr n"
  by (simp add: decode_int_def)

lemma put_simps [simp]: "put (Inl e) f = Inl e" "put (Inr x) f = Inr (f x)"
  by (simp_all add: put_def)

text \<open>Decoding a field that \<open>omitempty\<close> may have dropped.\<close>

lemma decode_fields_omit:
  "k \<in> set names \<Longrightarrow>
     decode_fields names store strict ((case v of None \<Rightarrow> [] | Some j \<Rightarrow> [(k, j)]) @ rest) x =
     (case (case v of None \<Rightarrow> Inr x | Some j \<Rightarrow> store k j x) of
        Inl e \<Rightarrow> Inl e
      | Inr y \<Rightarrow> decode_fields names store strict rest y)"
  by (cases v) (auto split: sum.splits)

lemma AList_update_fresh: "k \<notin> fst ` set m \<Longrightarrow> AList.update k v m = m @ [(k, v)]"
  by (induction m) auto

lemma decode_map_entries_append:
  "distinct (map fst kvs @ map fst m) \<Longrightarrow>
     decode_map_entries (map (\<lambda>(k, v). (k, JString v)) kvs) m = Inr (m @ kvs)"
proof (induction kvs arbitrary: m)
  case Nil
  then show ?case by simp
next
  case (Cons kv kvs)
  then show ?case by (cases kv) (force simp: AList_update_fresh)
qed

text \<open>A map comes back as itself, its entries in key order.\<close>

lemma decode_map_json_map:
  assumes "go_map m" and "\<forall>(k, v) \<in> set m. valid_utf8 k \<and> valid_utf8 v"
  shows "decode_map (json_map (Some m) :: 'n json) None = Inr (Some (sort_key fst m))"
proof -
  have "(json_map (Some m) :: 'n json) = JObject (map (\<lambda>(k, v). (k, JString v)) (sort_key fst m))"
    using assms(2) by (auto simp: json_map_def)
  moreover have "distinct (map fst (sort_key fst m))"
    using assms(1) by (metis go_map_def mset_eq_imp_distinct_iff mset_map mset_sort)
  ultimately show ?thesis
    by (simp add: decode_map_def decode_map_entries_append)
qed

end
