(* ===== verification/Errors.thy ===== *)
theory Errors
  imports Go_Strings
begin

text \<open>
  \<open>Error()\<close> of the errors the code makes: the texts that reach a job's \<open>error\<close> field and the
  error bodies of the REST API. \<open>%q\<close> is \<open>strconv.Quote\<close>, whose Unicode table is \<open>tbl\<close>.
\<close>

fun request_error_text :: "(nat \<Rightarrow> bool) \<Rightarrow> request_error \<Rightarrow> string" where
  "request_error_text tbl MinimumNotPositive = ''minimum must be positive''"
| "request_error_text tbl TooManyFenceLabels = ''at most one fence label is allowed''"
| "request_error_text tbl BadFenceLabel = ''fence label must be a single line without backticks''"
| "request_error_text tbl (UnsupportedLanguage v) = ''unsupported language '' @ strconv_Quote tbl v"
| "request_error_text tbl TargetLanguageEmpty = ''target language must not be empty''"
| "request_error_text tbl (UnknownTargetLanguage l) = ''unknown target language '' @ strconv_Quote tbl l"
| "request_error_text tbl (UnknownSourceLanguage l) = ''unknown source language '' @ strconv_Quote tbl l"
| "request_error_text tbl (UnknownPromptKind k) = ''unknown prompt kind '' @ strconv_Quote tbl k"
| "request_error_text tbl GlossaryRequired = ''glossary is required''"
| "request_error_text tbl StyleOrAudienceRequired = ''style/audience prompts require style or audience''"
| "request_error_text tbl DelimiterRequired = ''segmented prompts require at least one delimiter''"

fun model_error_text :: "(nat \<Rightarrow> bool) \<Rightarrow> model_error \<Rightarrow> string" where
  "model_error_text tbl EmptyRole = ''message role must not be empty''"
| "model_error_text tbl TextAndParts = ''message cannot contain both text and parts''"
| "model_error_text tbl (NoTargetLanguage m l) = m @ '' does not support target language '' @ strconv_Quote tbl l"
| "model_error_text tbl (NoSourceLanguage m l) = m @ '' does not support source language '' @ strconv_Quote tbl l"
| "model_error_text tbl (UnsupportedProfile p) = ''unsupported option profile '' @ strconv_Quote tbl p"
| "model_error_text tbl (OnlyTextSupported m) = m @ '' official chat template supports only text translation''"
| "model_error_text tbl (SourceLanguageRequired m) = m @ '' requires a source language''"
| "model_error_text tbl (ExtendedUnsupported m) =
     m @ '' official chat template does not support glossary, style, audience, attributes, or delimiters''"

fun jobs_error_text :: "(nat \<Rightarrow> bool) \<Rightarrow> jobs_error \<Rightarrow> string" where
  "jobs_error_text tbl (UnknownModelCatalog m) = ''unknown model catalog '' @ strconv_Quote tbl m"
| "jobs_error_text tbl (CatalogNoTarget m l) =
     ''model catalog '' @ strconv_Quote tbl m @ '' does not support target language '' @ strconv_Quote tbl l"
| "jobs_error_text tbl (CatalogNoSource m l) =
     ''model catalog '' @ strconv_Quote tbl m @ '' does not support source language '' @ strconv_Quote tbl l"
| "jobs_error_text tbl KeyOwnerEmpty = ''API key owner and value must not be empty''"
| "jobs_error_text tbl JobOwnerEmpty = ''job owner must not be empty''"
| "jobs_error_text tbl RetentionNotPositive = ''job retention must be positive''"
| "jobs_error_text tbl NilDelivery = ''receive job: nil delivery''"
| "jobs_error_text tbl SchedulerIncomplete = ''scheduler queue, store, and processor are required''"
| "jobs_error_text tbl QueueJobIDEmpty = ''job ID must not be empty''"

fun inference_error_text :: "(nat \<Rightarrow> bool) \<Rightarrow> inference_error \<Rightarrow> string" where
  "inference_error_text tbl NoModelName = ''inference model name must not be empty''"
| "inference_error_text tbl NoMessages = ''inference request must contain at least one message''"
| "inference_error_text tbl OneMessageRequired = ''structured completion prompt requires exactly one message''"
| "inference_error_text tbl UserMessageRequired = ''structured completion prompt requires a user message''"
| "inference_error_text tbl PartsRequired = ''structured completion prompt requires content parts, not plain text''"
| "inference_error_text tbl OnePartRequired = ''structured completion prompt requires exactly one content part''"
| "inference_error_text tbl (TextPartRequired t) =
     ''structured completion prompt supports only text parts, got '' @ strconv_Quote tbl t"
| "inference_error_text tbl LanguageCodesRequired =
     ''structured completion prompt requires source_lang_code and target_lang_code''"
| "inference_error_text tbl PromptTextRequired = ''structured completion prompt requires non-empty text''"
| "inference_error_text tbl NoChoices = ''generation response contains no choices''"
| "inference_error_text tbl TrailingResponse = ''response contains trailing JSON''"
| "inference_error_text tbl (ResponseTooLarge n) = ''inference API response exceeds '' @ strconv_Itoa n @ '' bytes''"
| "inference_error_text tbl (ModelsTooLarge n) = ''inference models API response exceeds '' @ strconv_Itoa n @ '' bytes''"
| "inference_error_text tbl BadBaseURL = ''API base URL must be an absolute HTTP or HTTPS URL''"
| "inference_error_text tbl BaseURLQuery = ''API base URL must not contain a query or fragment''"
| "inference_error_text tbl NegativeTimeout = ''API timeout must not be negative''"
| "inference_error_text tbl (ApiError code type message) =
     ''inference API returned HTTP '' @ strconv_Itoa code
     @ (if type \<noteq> [] then '' ('' @ type @ '')'' else []) @ '': '' @ message"

fun server_error_text :: "(nat \<Rightarrow> bool) \<Rightarrow> server_error \<Rightarrow> string" where
  "server_error_text tbl HandlerIncomplete = ''REST authenticator, queue, and store are required''"
| "server_error_text tbl ModelCatalogEmpty = ''model_catalog must not be empty''"
| "server_error_text tbl TrailingJSON = ''request must contain one JSON object''"
| "server_error_text tbl (AdmissionNoTarget l) =
     ''model catalog does not support target language '' @ strconv_Quote tbl l"
| "server_error_text tbl (AdmissionNoSource l) =
     ''model catalog does not support source language '' @ strconv_Quote tbl l"
| "server_error_text tbl (BackendRequired what) = what"
| "server_error_text tbl (UnknownQueueBackend b) = ''unknown queue backend '' @ strconv_Quote tbl b"
| "server_error_text tbl (UnknownStoreBackend b) = ''unknown store backend '' @ strconv_Quote tbl b"
| "server_error_text tbl BackendsIncomplete = ''queue and store backends must both be configured''"
| "server_error_text tbl (NotPositiveDuration name) = name @ '' must be a positive Go duration''"
| "server_error_text tbl (NotPositiveInteger name) = name @ '' must be a positive integer''"
| "server_error_text tbl (NotBoolean name) = name @ '' must be a boolean''"
| "server_error_text tbl SettingsNotPositive = ''workers, job timeout, and retention must be positive''"

fun backend_error_text :: "backend_error \<Rightarrow> string" where
  "backend_error_text JobAlreadyExpired = ''job already expired''"
| "backend_error_text UnexpectedClaimResponse = ''unexpected XAUTOCLAIM response''"
| "backend_error_text ClaimIdleNotPositive = ''Redis claim idle duration must be positive''"
| "backend_error_text SQLitePathRequired = ''SQLite path is required''"
| "backend_error_text RedisClientRequired = ''Redis client is required''"
| "backend_error_text NATSConnectionRequired = ''NATS connection is required''"
| "backend_error_text NATSNotReady = ''embedded NATS server did not become ready''"

fun context_text :: "wrap_context \<Rightarrow> string" where
  "context_text ParseKeys = ''parse TRANSLITER_SERVER_API_KEYS: ''"
| "context_text GenerateJobID = ''generate job ID: ''"
| "context_text ReceiveJob = ''receive job: ''"
| "context_text (LoadJob i) = ''load job '' @ i @ '': ''"
| "context_text (MarkRunning i) = ''mark job '' @ i @ '' running: ''"
| "context_text (CompleteJob i) = ''complete job '' @ i @ '': ''"
| "context_text InvalidJSON = ''invalid JSON request: ''"
| "context_text DecodeGeneration = ''decode generation response: ''"
| "context_text CallInference = ''call inference API: ''"
| "context_text ReadInference = ''read inference API response: ''"
| "context_text CallModels = ''call inference models API: ''"
| "context_text ReadModels = ''read inference models API response: ''"
| "context_text ParseTimeout = ''TRANSLITER_API_TIMEOUT: ''"
| "context_text ParseBaseURL = ''parse API base URL: ''"
| "context_text (Step what) = what @ '': ''"
| "context_text (DecodeStored what) = ''decode '' @ what @ '': ''"

fun Error_text :: "(nat \<Rightarrow> bool) \<Rightarrow> go_error \<Rightarrow> string" where
  "Error_text tbl ErrNotFound = ''job not found''"
| "Error_text tbl ErrClosed = ''queue closed''"
| "Error_text tbl ErrUnauthorized = ''invalid API key''"
| "Error_text tbl (External s) = s"
| "Error_text tbl (RequestError e) = request_error_text tbl e"
| "Error_text tbl (ModelError e) = model_error_text tbl e"
| "Error_text tbl (JobsError e) = jobs_error_text tbl e"
| "Error_text tbl (InferenceError e) = inference_error_text tbl e"
| "Error_text tbl (ServerError e) = server_error_text tbl e"
| "Error_text tbl (BackendError e) = backend_error_text e"
| "Error_text tbl (Wrap c e) = context_text c @ Error_text tbl e"

end
