(* ===== verification/Fence.thy ===== *)
theory Fence
  imports Go_Strings
begin

text \<open>
  \<open>lib/fence.go\<close>: the Markdown fence put around source text. The lemmas show that
  \<open>LongestBacktickRun\<close> is the length of the longest run and that the fence built from it
  cannot be closed by the text inside it: a reader of the fence gets the text back.

  The Go loop ranges over runes; a backtick is the single byte \<open>0x60\<close> and no other rune
  contains that byte, so ranging over bytes resets the counter at the same places.
\<close>

section \<open>The code\<close>

fun longest_loop :: "string \<Rightarrow> nat \<Rightarrow> nat \<Rightarrow> nat" where
  "longest_loop [] longest current = longest"
| "longest_loop (r # rs) longest current =
     (if r = BQ then
        (let current' = current + 1
         in longest_loop rs (if current' > longest then current' else longest) current')
      else longest_loop rs longest 0)"

definition LongestBacktickRun :: "string \<Rightarrow> nat" where
  "LongestBacktickRun text = longest_loop text 0 0"

definition RequiredFenceLength :: "string \<Rightarrow> int \<Rightarrow> go_error + int" where
  "RequiredFenceLength text minimum =
     (if minimum < 1 then Inl (RequestError MinimumNotPositive)
      else let len = int (LongestBacktickRun text) + 1
           in Inr (if len < minimum then minimum else len))"

text \<open>The variadic label is the list of the optional arguments.\<close>

definition FenceSource :: "string \<Rightarrow> string list \<Rightarrow> go_error + string" where
  "FenceSource text label =
     (if length label > 1 then Inl (RequestError TooManyFenceLabels)
      else let info = (if length label = 1 then label ! 0 else [])
           in if strings_ContainsAny info [BQ, CR, NL] then Inl (RequestError BadFenceLabel)
              else (case RequiredFenceLength text 4 of
                      Inl err \<Rightarrow> Inl err
                    | Inr len \<Rightarrow>
                        let fence = strings_Repeat [BQ] (nat len)
                        in Inr (fence @ info @ [NL] @ text @ [NL] @ fence)))"

section \<open>The longest run\<close>

abbreviation lead :: "string \<Rightarrow> nat" where
  "lead s \<equiv> length (takeWhile (\<lambda>c. c = BQ) s)"

fun max_run :: "string \<Rightarrow> nat" where
  "max_run [] = 0"
| "max_run (c # s) = max (lead (c # s)) (max_run s)"

lemma lead_le_max_run: "lead s \<le> max_run s"
  by (cases s) auto

lemma longest_loop_max_run:
  "current \<le> longest \<Longrightarrow>
     longest_loop s longest current = max longest (max (if lead s = 0 then 0 else current + lead s) (max_run s))"
proof (induction s arbitrary: longest current)
  case Nil
  then show ?case by simp
next
  case (Cons r s)
  show ?case
  proof (cases "r = BQ")
    case True
    then have "longest_loop (r # s) longest current = longest_loop s (max longest (Suc current)) (Suc current)"
      by (simp add: Let_def max_def)
    also have "\<dots> = max (max longest (Suc current))
        (max (if lead s = 0 then 0 else Suc current + lead s) (max_run s))"
      by (rule Cons.IH) simp
    also have "\<dots> = max longest (max (current + Suc (lead s)) (max (Suc (lead s)) (max_run s)))"
      by (simp split: split_max)
    finally show ?thesis using True by simp
  next
    case False
    with Cons.IH [of 0 longest] lead_le_max_run [of s] show ?thesis by (auto simp: max_def)
  qed
qed

lemma LongestBacktickRun_max_run: "LongestBacktickRun s = max_run s"
  using lead_le_max_run [of s] by (simp add: LongestBacktickRun_def longest_loop_max_run max_def)

lemma sublist_run_iff: "sublist (replicate k BQ) s \<longleftrightarrow> k \<le> max_run s"
proof (induction s)
  case Nil
  then show ?case by (cases k) auto
next
  case (Cons c s)
  then show ?case
    by (simp add: sublist_Cons_right prefix_replicate_takeWhile le_max_iff_disj del: takeWhile.simps)
qed

text \<open>
  \<open>LongestBacktickRun\<close> returns the length of the longest run of consecutive backticks:
  the text contains \<open>k\<close> backticks in a row exactly when \<open>k\<close> is at most the result.
\<close>

theorem LongestBacktickRun_correct:
  "sublist (replicate k BQ) text \<longleftrightarrow> k \<le> LongestBacktickRun text"
  by (simp add: LongestBacktickRun_max_run sublist_run_iff)

section \<open>Reading a fence\<close>

text \<open>
  The reader's side: a fence of \<open>n\<close> backticks is closed by the first line that starts with
  \<open>n\<close> backticks. \<open>until_close\<close> is the text before that line and \<open>read_fence\<close> the label and
  the content of a fenced block.
\<close>

fun until_close :: "nat \<Rightarrow> string \<Rightarrow> string option" where
  "until_close n [] = None"
| "until_close n (c # s) =
     (if prefix (NL # replicate n BQ) (c # s) then Some []
      else map_option ((#) c) (until_close n s))"

definition read_fence :: "string \<Rightarrow> (string \<times> string) option" where
  "read_fence s =
     (let n = lead s
      in case strings_Cut (drop n s) NL of
           None \<Rightarrow> None
         | Some (info, rest) \<Rightarrow>
             map_option (\<lambda>content. (info, content))
               (if prefix (replicate n BQ) rest then Some [] else until_close n rest))"

lemma strings_Cut_here: "c \<notin> set a \<Longrightarrow> strings_Cut (a @ c # b) c = Some (a, b)"
  by (induction a) auto

lemma prefix_replicate_stop:
  assumes "prefix (replicate n BQ) (src @ c # rest)" and "c \<noteq> BQ"
  shows "prefix (replicate n BQ) src"
  using assms by (simp add: prefix_replicate_takeWhile takeWhile_tail)

lemma until_close_append:
  assumes "\<not> sublist (replicate n BQ) src"
  shows "until_close n (src @ NL # replicate n BQ) = Some src"
  using assms
proof (induction src)
  case Nil
  then show ?case by simp
next
  case (Cons c src)
  have "\<not> prefix (replicate n BQ) (src @ NL # replicate n BQ)"
    using Cons.prems prefix_replicate_stop [of n src NL "replicate n BQ"]
    by (auto dest: prefix_imp_sublist sublist_Cons_right [THEN iffD2, OF disjI2])
  moreover from Cons.prems have "\<not> sublist (replicate n BQ) src"
    by (auto simp: sublist_Cons_right)
  ultimately show ?case
    using Cons.IH by (auto simp: prefix_Cons)
qed

lemma lead_replicate: "b \<noteq> [] \<Longrightarrow> hd b \<noteq> BQ \<Longrightarrow> lead (replicate n BQ @ b) = n"
  by (induction n) (auto simp: takeWhile_eq_Nil_iff)

text \<open>What a successful call returns.\<close>

lemma FenceSource_ok:
  assumes "FenceSource src label = Inr out"
  obtains n info where "LongestBacktickRun src < n" and "4 \<le> n"
    and "BQ \<notin> set info" and "NL \<notin> set info" and "label = [] \<and> info = [] \<or> label = [info]"
    and "out = replicate n BQ @ info @ NL # src @ NL # replicate n BQ"
proof -
  let ?info = "if length label = 1 then label ! 0 else []"
  let ?n = "nat (if int (LongestBacktickRun src) + 1 < 4 then 4 else int (LongestBacktickRun src) + 1)"
  from assms have "length label \<le> 1" and info: "\<not> strings_ContainsAny ?info [BQ, CR, NL]"
    and out: "out = replicate ?n BQ @ ?info @ NL # src @ NL # replicate ?n BQ"
    by (auto simp: FenceSource_def RequiredFenceLength_def Let_def split: if_splits)
  moreover from \<open>length label \<le> 1\<close> have "label = [] \<and> ?info = [] \<or> label = [?info]"
    by (cases label) auto
  moreover have "LongestBacktickRun src < ?n" and "4 \<le> ?n" by auto
  moreover from info have "BQ \<notin> set ?info" and "NL \<notin> set ?info"
    by (auto simp: strings_ContainsAny_def list_ex_iff)
  ultimately show thesis by (intro that [of ?n ?info]) auto
qed

lemma read_FenceSource:
  assumes "FenceSource src label = Inr out"
  shows "read_fence out = Some (strings_Join label [], src)"
proof -
  obtain n info where n: "LongestBacktickRun src < n" "4 \<le> n"
    and info: "BQ \<notin> set info" "NL \<notin> set info" "label = [] \<and> info = [] \<or> label = [info]"
    and out: "out = replicate n BQ @ info @ NL # src @ NL # replicate n BQ"
    using assms by (rule FenceSource_ok)
  have "lead out = n"
    unfolding out using info by (intro lead_replicate) (auto, cases info, auto)
  moreover have "until_close n (src @ NL # replicate n BQ) = Some src"
    using n by (intro until_close_append) (simp add: LongestBacktickRun_max_run sublist_run_iff)
  moreover have "\<not> prefix (replicate n BQ) (src @ NL # replicate n BQ)"
    using prefix_replicate_stop [of n src NL "replicate n BQ"] n lead_le_max_run [of src]
    by (auto simp: LongestBacktickRun_max_run prefix_replicate_takeWhile)
  moreover have "strings_Join label [] = info"
    using info by auto
  ultimately show ?thesis
    using info by (auto simp: read_fence_def Let_def out strings_Cut_here)
qed

text \<open>
  What \<open>FenceSource\<close> builds can be read back: the source text cannot close the fence it
  stands in, whatever backtick runs it contains, and the label comes back with it.
\<close>

theorem FenceSource_roundtrip:
  assumes "FenceSource src label = Inr out"
  shows "read_fence out = Some (strings_Join label [], src)"
  using assms by (rule read_FenceSource)

theorem FenceSource_roundtrip_witness:
  "\<exists>out. FenceSource ''a```b'' [''go''] = Inr out \<and> read_fence out = Some (''go'', ''a```b'')"
proof -
  have "FenceSource ''a```b'' [''go''] = Inr (''````go'' @ [NL] @ ''a```b'' @ [NL] @ ''````'')"
    by code_simp
  with FenceSource_roundtrip [OF this] show ?thesis by simp
qed

end
