(* ===== verification/Language.thy ===== *)
theory Language
  imports Go_Strings
begin

text \<open>
  \<open>lib/language.go\<close>: a language is its full name, a string; the constants name the ones some
  model knows. \<open>ParseLanguage\<close> accepts exactly the declared names and \<open>SupportedLanguages\<close>
  returns them in declaration order.
\<close>

type_synonym Language = string

section \<open>The declared names\<close>

abbreviation LanguageChinese :: Language where "LanguageChinese \<equiv> ''Chinese''"
abbreviation LanguageEnglish :: Language where "LanguageEnglish \<equiv> ''English''"
abbreviation LanguageFrench :: Language where "LanguageFrench \<equiv> ''French''"
abbreviation LanguagePortuguese :: Language where "LanguagePortuguese \<equiv> ''Portuguese''"
abbreviation LanguageSpanish :: Language where "LanguageSpanish \<equiv> ''Spanish''"
abbreviation LanguageJapanese :: Language where "LanguageJapanese \<equiv> ''Japanese''"
abbreviation LanguageTurkish :: Language where "LanguageTurkish \<equiv> ''Turkish''"
abbreviation LanguageRussian :: Language where "LanguageRussian \<equiv> ''Russian''"
abbreviation LanguageArabic :: Language where "LanguageArabic \<equiv> ''Arabic''"
abbreviation LanguageKorean :: Language where "LanguageKorean \<equiv> ''Korean''"
abbreviation LanguageThai :: Language where "LanguageThai \<equiv> ''Thai''"
abbreviation LanguageItalian :: Language where "LanguageItalian \<equiv> ''Italian''"
abbreviation LanguageGerman :: Language where "LanguageGerman \<equiv> ''German''"
abbreviation LanguageVietnamese :: Language where "LanguageVietnamese \<equiv> ''Vietnamese''"
abbreviation LanguageMalay :: Language where "LanguageMalay \<equiv> ''Malay''"
abbreviation LanguageIndonesian :: Language where "LanguageIndonesian \<equiv> ''Indonesian''"
abbreviation LanguageFilipino :: Language where "LanguageFilipino \<equiv> ''Filipino''"
abbreviation LanguageHindi :: Language where "LanguageHindi \<equiv> ''Hindi''"
abbreviation LanguageTraditionalChinese :: Language where "LanguageTraditionalChinese \<equiv> ''Traditional Chinese''"
abbreviation LanguagePolish :: Language where "LanguagePolish \<equiv> ''Polish''"
abbreviation LanguageCzech :: Language where "LanguageCzech \<equiv> ''Czech''"
abbreviation LanguageDutch :: Language where "LanguageDutch \<equiv> ''Dutch''"
abbreviation LanguageKhmer :: Language where "LanguageKhmer \<equiv> ''Khmer''"
abbreviation LanguageBurmese :: Language where "LanguageBurmese \<equiv> ''Burmese''"
abbreviation LanguagePersian :: Language where "LanguagePersian \<equiv> ''Persian''"
abbreviation LanguageGujarati :: Language where "LanguageGujarati \<equiv> ''Gujarati''"
abbreviation LanguageUrdu :: Language where "LanguageUrdu \<equiv> ''Urdu''"
abbreviation LanguageTelugu :: Language where "LanguageTelugu \<equiv> ''Telugu''"
abbreviation LanguageMarathi :: Language where "LanguageMarathi \<equiv> ''Marathi''"
abbreviation LanguageHebrew :: Language where "LanguageHebrew \<equiv> ''Hebrew''"
abbreviation LanguageBengali :: Language where "LanguageBengali \<equiv> ''Bengali''"
abbreviation LanguageTamil :: Language where "LanguageTamil \<equiv> ''Tamil''"
abbreviation LanguageUkrainian :: Language where "LanguageUkrainian \<equiv> ''Ukrainian''"
abbreviation LanguageTibetan :: Language where "LanguageTibetan \<equiv> ''Tibetan''"
abbreviation LanguageKazakh :: Language where "LanguageKazakh \<equiv> ''Kazakh''"
abbreviation LanguageMongolian :: Language where "LanguageMongolian \<equiv> ''Mongolian''"
abbreviation LanguageUyghur :: Language where "LanguageUyghur \<equiv> ''Uyghur''"
abbreviation LanguageCantonese :: Language where "LanguageCantonese \<equiv> ''Cantonese''"
abbreviation LanguageSwedish :: Language where "LanguageSwedish \<equiv> ''Swedish''"
abbreviation LanguageNorwegian :: Language where "LanguageNorwegian \<equiv> ''Norwegian''"
abbreviation LanguageDanish :: Language where "LanguageDanish \<equiv> ''Danish''"
abbreviation LanguageFinnish :: Language where "LanguageFinnish \<equiv> ''Finnish''"
abbreviation LanguageIcelandic :: Language where "LanguageIcelandic \<equiv> ''Icelandic''"
abbreviation LanguageSlovak :: Language where "LanguageSlovak \<equiv> ''Slovak''"
abbreviation LanguageHungarian :: Language where "LanguageHungarian \<equiv> ''Hungarian''"
abbreviation LanguageRomanian :: Language where "LanguageRomanian \<equiv> ''Romanian''"
abbreviation LanguageBulgarian :: Language where "LanguageBulgarian \<equiv> ''Bulgarian''"
abbreviation LanguageCroatian :: Language where "LanguageCroatian \<equiv> ''Croatian''"
abbreviation LanguageSerbian :: Language where "LanguageSerbian \<equiv> ''Serbian''"
abbreviation LanguageBosnian :: Language where "LanguageBosnian \<equiv> ''Bosnian''"
abbreviation LanguageSlovenian :: Language where "LanguageSlovenian \<equiv> ''Slovenian''"
abbreviation LanguageGreek :: Language where "LanguageGreek \<equiv> ''Greek''"
abbreviation LanguagePunjabi :: Language where "LanguagePunjabi \<equiv> ''Punjabi''"
abbreviation LanguageKannada :: Language where "LanguageKannada \<equiv> ''Kannada''"
abbreviation LanguageMalayalam :: Language where "LanguageMalayalam \<equiv> ''Malayalam''"
abbreviation LanguageSinhala :: Language where "LanguageSinhala \<equiv> ''Sinhala''"
abbreviation LanguageNepali :: Language where "LanguageNepali \<equiv> ''Nepali''"
abbreviation LanguageSwahili :: Language where "LanguageSwahili \<equiv> ''Swahili''"
abbreviation LanguageAmharic :: Language where "LanguageAmharic \<equiv> ''Amharic''"
abbreviation LanguageYoruba :: Language where "LanguageYoruba \<equiv> ''Yoruba''"
abbreviation LanguageHausa :: Language where "LanguageHausa \<equiv> ''Hausa''"

definition supportedLanguages :: "Language list" where
  "supportedLanguages =
    [LanguageChinese, LanguageEnglish, LanguageFrench, LanguagePortuguese, LanguageSpanish,
     LanguageJapanese, LanguageTurkish, LanguageRussian, LanguageArabic, LanguageKorean,
     LanguageThai, LanguageItalian, LanguageGerman, LanguageVietnamese, LanguageMalay,
     LanguageIndonesian, LanguageFilipino, LanguageHindi, LanguageTraditionalChinese,
     LanguagePolish, LanguageCzech, LanguageDutch, LanguageKhmer, LanguageBurmese,
     LanguagePersian, LanguageGujarati, LanguageUrdu, LanguageTelugu, LanguageMarathi,
     LanguageHebrew, LanguageBengali, LanguageTamil, LanguageUkrainian, LanguageTibetan,
     LanguageKazakh, LanguageMongolian, LanguageUyghur, LanguageCantonese, LanguageSwedish,
     LanguageNorwegian, LanguageDanish, LanguageFinnish, LanguageIcelandic, LanguageSlovak,
     LanguageHungarian, LanguageRomanian, LanguageBulgarian, LanguageCroatian, LanguageSerbian,
     LanguageBosnian, LanguageSlovenian, LanguageGreek, LanguagePunjabi, LanguageKannada,
     LanguageMalayalam, LanguageSinhala, LanguageNepali, LanguageSwahili, LanguageAmharic,
     LanguageYoruba, LanguageHausa]"

section \<open>The operations\<close>

text \<open>\<open>supportedLanguageSet\<close> is built from the list, so membership is membership in the list.\<close>

definition supportedLanguageSet :: "Language set" where
  "supportedLanguageSet = set supportedLanguages"

definition Language_Valid :: "Language \<Rightarrow> bool" where
  "Language_Valid language \<longleftrightarrow> language \<in> supportedLanguageSet"

definition Language_String :: "Language \<Rightarrow> string" where
  "Language_String language = language"

definition ParseLanguage :: "string \<Rightarrow> go_error + Language" where
  "ParseLanguage value =
     (if \<not> Language_Valid value then Inl (RequestError (UnsupportedLanguage value)) else Inr value)"

definition SupportedLanguages :: "Language list" where
  "SupportedLanguages = supportedLanguages"

section \<open>Lemmas\<close>

lemma Language_Valid_code [code]: "Language_Valid language \<longleftrightarrow> List.member supportedLanguages language"
  by (simp add: Language_Valid_def supportedLanguageSet_def)

lemma Language_Valid_iff: "Language_Valid language \<longleftrightarrow> language \<in> set supportedLanguages"
  by (simp add: Language_Valid_def supportedLanguageSet_def)

lemma supportedLanguages_distinct: "distinct supportedLanguages"
  by code_simp

lemma supportedLanguages_nonempty: "[] \<notin> set supportedLanguages"
  by (simp add: supportedLanguages_def)

lemma Language_Valid_nonempty: "Language_Valid l \<Longrightarrow> l \<noteq> []"
  using supportedLanguages_nonempty by (auto simp: Language_Valid_iff)

text \<open>No declared name has white space at either end.\<close>

lemma supportedLanguages_trimmed:
  "list_all (\<lambda>l. strings_TrimSpace l = l) supportedLanguages"
  by code_simp

lemma Language_Valid_trimmed: "Language_Valid l \<Longrightarrow> strings_TrimSpace l = l"
  using supportedLanguages_trimmed by (auto simp: Language_Valid_iff list_all_iff)

text \<open>
  The parser accepts exactly the names that \<open>SupportedLanguages\<close> lists, each listed once,
  and returns the name it was given: printing a parsed language gives the input back.
\<close>

theorem ParseLanguage_correct:
  "(ParseLanguage value = Inr language \<longleftrightarrow>
      language \<in> set SupportedLanguages \<and> Language_String language = value) \<and>
   distinct SupportedLanguages"
  by (auto simp: ParseLanguage_def SupportedLanguages_def Language_Valid_iff Language_String_def
      supportedLanguages_distinct split: if_splits)

end
