(* ===== verification/Model.thy ===== *)
theory Model
  imports Prompt Json
begin

text \<open>
  \<open>lib/model.go\<close>: the model-independent contract. A value of the Go interface \<open>Model\<close> is a
  record of its five methods; the locale \<open>translation_model\<close> states what the code that holds
  such a value relies on (REST preview, admission check, processor), with the consequences
  proved once. \<open>models/\<close> interprets it on every built-in model.

  A \<open>float64\<close> option is only copied and encoded, never computed with, and is the rational
  number that its literal denotes. A nil pointer is \<open>None\<close>.
\<close>

section \<open>Profiles and options\<close>

type_synonym ModelID = string
type_synonym OptionProfile = string
type_synonym OptionProvenance = string

abbreviation ProfileOfficial :: OptionProfile where "ProfileOfficial \<equiv> ''official''"
abbreviation ProfileDeterministic :: OptionProfile where "ProfileDeterministic \<equiv> ''deterministic''"

abbreviation ProvenanceOfficialRecommendation :: OptionProvenance where
  "ProvenanceOfficialRecommendation \<equiv> ''official_recommendation''"
abbreviation ProvenanceOfficialExample :: OptionProvenance where
  "ProvenanceOfficialExample \<equiv> ''official_example''"
abbreviation ProvenanceProjectExperimental :: OptionProvenance where
  "ProvenanceProjectExperimental \<equiv> ''project_experimental''"

record GenerationOptions =
  Temperature :: "rat option"
  TopP :: "rat option"
  TopK :: "int option"
  RepetitionPenalty :: "rat option"
  DoSample :: "bool option"
  MaxOutputTokens :: int
  Stop :: "string list"
  Provenance :: OptionProvenance

text \<open>The zero value of the struct.\<close>

definition zero_options :: GenerationOptions where
  "zero_options =
     \<lparr>Temperature = None, TopP = None, TopK = None, RepetitionPenalty = None, DoSample = None,
      MaxOutputTokens = 0, Stop = [], Provenance = []\<rparr>"

section \<open>Discovery metadata\<close>

record Descriptor =
  ID :: ModelID
  Family :: string
  Parameters :: string
  Repository :: string
  GGUFRepository :: string

record Capabilities =
  cap_PromptKinds :: "PromptKind list"
  cap_RequiresSourceLanguage :: bool
  cap_StructuredUserContent :: bool
  cap_MaxInputTokens :: int
  cap_Glossary :: bool
  cap_Style :: bool
  cap_Audience :: bool
  cap_TranslatableAttributes :: bool
  cap_Delimiters :: bool

section \<open>Messages\<close>

type_synonym Role = string

abbreviation RoleUser :: Role where "RoleUser \<equiv> ''user''"

record ContentPart =
  part_Type :: string
  part_Text :: string
  part_SourceLanguageCode :: string
  part_TargetLanguageCode :: string

record Message =
  msg_Role :: Role
  msg_Text :: string
  msg_Parts :: "ContentPart list"

record ModelInput =
  Messages :: "Message list"

definition ContentPart_json :: "ContentPart \<Rightarrow> rat json" where
  "ContentPart_json p = json_struct
     [(''type'', Some (json_string (part_Type p))),
      (''text'', Some (json_string (part_Text p))),
      (''source_lang_code'', omit_string (part_SourceLanguageCode p)),
      (''target_lang_code'', omit_string (part_TargetLanguageCode p))]"

definition Message_MarshalJSON :: "Message \<Rightarrow> go_error + rat json" where
  "Message_MarshalJSON message =
     (if msg_Role message = [] then Inl (ModelError EmptyRole)
      else if msg_Text message \<noteq> [] \<and> length (msg_Parts message) > 0
      then Inl (ModelError TextAndParts)
      else if length (msg_Parts message) > 0
      then Inr (json_struct
        [(''role'', Some (json_string (msg_Role message))),
         (''content'', Some (JArray (map ContentPart_json (msg_Parts message))))])
      else Inr (json_struct
        [(''role'', Some (json_string (msg_Role message))),
         (''content'', Some (json_string (msg_Text message)))]))"

text \<open>The encoder stops at the first element whose \<open>MarshalJSON\<close> fails.\<close>

fun Messages_json :: "Message list \<Rightarrow> go_error + rat json list" where
  "Messages_json [] = Inr []"
| "Messages_json (m # ms) =
     (case Message_MarshalJSON m of
        Inl e \<Rightarrow> Inl e
      | Inr j \<Rightarrow> (case Messages_json ms of Inl e \<Rightarrow> Inl e | Inr js \<Rightarrow> Inr (j # js)))"

section \<open>The interface\<close>

record Model =
  Model_Descriptor :: Descriptor
  Model_Capabilities :: Capabilities
  Model_SupportsLanguage :: "Language \<Rightarrow> bool"
  Model_BuildInput :: "TranslationRequest \<Rightarrow> go_error + ModelInput"
  Model_Options :: "OptionProfile \<Rightarrow> go_error + GenerationOptions"

text \<open>
  The contract of a model: it builds input only for requests that pass the shared validation,
  in languages and kinds it declares, with only the extras it declares; the input is one user
  message with either plain text or exactly one part, as declared; it has exactly the two
  known profiles; the languages it supports are declared languages.
\<close>

locale translation_model =
  fixes m :: Model
  assumes built_valid: "Model_BuildInput m r = Inr i \<Longrightarrow> ValidateTranslationRequest r = Inr ()"
    and built_target: "Model_BuildInput m r = Inr i \<Longrightarrow> Model_SupportsLanguage m (TargetLanguage r)"
    and built_source: "Model_BuildInput m r = Inr i \<Longrightarrow>
      SourceLanguage r = [] \<and> \<not> cap_RequiresSourceLanguage (Model_Capabilities m) \<or>
      SourceLanguage r \<noteq> [] \<and> Model_SupportsLanguage m (SourceLanguage r)"
    and built_kind: "Model_BuildInput m r = Inr i \<Longrightarrow>
      effective_kind r \<in> set (cap_PromptKinds (Model_Capabilities m))"
    and built_extras: "Model_BuildInput m r = Inr i \<Longrightarrow>
      (glossary_entries r = [] \<or> cap_Glossary (Model_Capabilities m)) \<and>
      (Style r = [] \<or> cap_Style (Model_Capabilities m)) \<and>
      (Audience r = [] \<or> cap_Audience (Model_Capabilities m)) \<and>
      (TranslatableAttributes r = [] \<or> cap_TranslatableAttributes (Model_Capabilities m)) \<and>
      (Delimiters r = [] \<or> cap_Delimiters (Model_Capabilities m))"
    and built_message: "Model_BuildInput m r = Inr i \<Longrightarrow>
      \<exists>msg. Messages i = [msg] \<and> msg_Role msg = RoleUser \<and>
        (if cap_StructuredUserContent (Model_Capabilities m)
         then msg_Text msg = [] \<and> length (msg_Parts msg) = 1 else msg_Parts msg = [])"
    and profiles: "is_ok (Model_Options m p) \<longleftrightarrow> p = ProfileOfficial \<or> p = ProfileDeterministic"
    and known: "Model_SupportsLanguage m l \<Longrightarrow> Language_Valid l"
begin

lemma built_marshals: "Model_BuildInput m r = Inr i \<Longrightarrow> is_ok (Messages_json (Messages i))"
  by (drule built_message) (auto simp: Message_MarshalJSON_def split: if_splits)

lemma unsupported_target: "\<not> Model_SupportsLanguage m (TargetLanguage r) \<Longrightarrow> \<not> is_ok (Model_BuildInput m r)"
  using built_target by (auto simp: is_ok_iff)

lemma no_empty_language: "\<not> Model_SupportsLanguage m []"
  using known Language_Valid_nonempty by blast

end

end
