(* ===== verification/Models.thy ===== *)
theory Models
  imports Model
begin

text \<open>
  \<open>models/\<close>: the Hy-MT2 and TranslateGemma families (\<open>models/internal\<close>), their six sizes and
  the catalog. Both families are interpreted as \<open>translation_model\<close>s, for every descriptor,
  so each catalog entry meets the contract of the interface. \<open>tbl\<close> is the Unicode table of
  \<open>BuildPrompt\<close>.
\<close>

section \<open>Hy-MT2\<close>

definition hymt2_supportedLanguages :: "Language list" where
  "hymt2_supportedLanguages =
    [LanguageChinese, LanguageEnglish, LanguageFrench, LanguagePortuguese, LanguageSpanish,
     LanguageJapanese, LanguageTurkish, LanguageRussian, LanguageArabic, LanguageKorean,
     LanguageThai, LanguageItalian, LanguageGerman, LanguageVietnamese, LanguageMalay,
     LanguageIndonesian, LanguageFilipino, LanguageHindi, LanguageTraditionalChinese,
     LanguagePolish, LanguageCzech, LanguageDutch, LanguageKhmer, LanguageBurmese,
     LanguagePersian, LanguageGujarati, LanguageUrdu, LanguageTelugu, LanguageMarathi,
     LanguageHebrew, LanguageBengali, LanguageTamil, LanguageUkrainian, LanguageTibetan,
     LanguageKazakh, LanguageMongolian, LanguageUyghur, LanguageCantonese]"

record hymt2_Core =
  hy_descriptor :: Descriptor
  hy_official :: GenerationOptions

definition hymt2_Capabilities :: Capabilities where
  "hymt2_Capabilities =
     \<lparr>cap_PromptKinds = PromptKinds, cap_RequiresSourceLanguage = False,
      cap_StructuredUserContent = False, cap_MaxInputTokens = 0, cap_Glossary = True,
      cap_Style = True, cap_Audience = True, cap_TranslatableAttributes = True,
      cap_Delimiters = True\<rparr>"

definition hymt2_SupportsLanguage :: "Language \<Rightarrow> bool" where
  "hymt2_SupportsLanguage language \<longleftrightarrow> List.member hymt2_supportedLanguages language"

definition hymt2_BuildInput ::
  "(nat \<Rightarrow> bool) \<Rightarrow> hymt2_Core \<Rightarrow> TranslationRequest \<Rightarrow> go_error + ModelInput" where
  "hymt2_BuildInput tbl core request =
     (if \<not> hymt2_SupportsLanguage (TargetLanguage request)
      then Inl (ModelError (NoTargetLanguage (ID (hy_descriptor core)) (TargetLanguage request)))
      else if SourceLanguage request \<noteq> [] \<and> \<not> hymt2_SupportsLanguage (SourceLanguage request)
      then Inl (ModelError (NoSourceLanguage (ID (hy_descriptor core)) (SourceLanguage request)))
      else (case BuildPrompt tbl request of
              Inl err \<Rightarrow> Inl err
            | Inr prompt \<Rightarrow>
                Inr \<lparr>Messages = [\<lparr>msg_Role = RoleUser, msg_Text = prompt, msg_Parts = []\<rparr>]\<rparr>))"

definition clonePointer :: "'a option \<Rightarrow> 'a option" where
  "clonePointer value = (case value of None \<Rightarrow> None | Some x \<Rightarrow> Some x)"

definition hymt2_cloneOptions :: "GenerationOptions \<Rightarrow> GenerationOptions" where
  "hymt2_cloneOptions options =
     options\<lparr>Temperature := clonePointer (Temperature options),
             TopP := clonePointer (TopP options),
             TopK := clonePointer (TopK options),
             RepetitionPenalty := clonePointer (RepetitionPenalty options),
             DoSample := clonePointer (DoSample options),
             Stop := [] @ Stop options\<rparr>"

definition hymt2_Options :: "hymt2_Core \<Rightarrow> OptionProfile \<Rightarrow> go_error + GenerationOptions" where
  "hymt2_Options core profile =
     (if profile = ProfileOfficial then Inr (hymt2_cloneOptions (hy_official core))
      else if profile = ProfileDeterministic
      then Inr ((hymt2_cloneOptions (hy_official core))
                 \<lparr>Temperature := Some (1 / 10), Provenance := ProvenanceProjectExperimental\<rparr>)
      else Inl (ModelError (UnsupportedProfile profile)))"

definition hymt2_Model :: "(nat \<Rightarrow> bool) \<Rightarrow> hymt2_Core \<Rightarrow> Model" where
  "hymt2_Model tbl core =
     \<lparr>Model_Descriptor = hy_descriptor core,
      Model_Capabilities = hymt2_Capabilities,
      Model_SupportsLanguage = hymt2_SupportsLanguage,
      Model_BuildInput = hymt2_BuildInput tbl core,
      Model_Options = hymt2_Options core\<rparr>"

section \<open>TranslateGemma\<close>

definition gemma_languageCodes :: "(Language \<times> string) list" where
  "gemma_languageCodes =
    [(LanguageEnglish, ''en''), (LanguageSpanish, ''es''), (LanguageFrench, ''fr''),
     (LanguageGerman, ''de''), (LanguageItalian, ''it''), (LanguagePortuguese, ''pt''),
     (LanguageDutch, ''nl''), (LanguageSwedish, ''sv''), (LanguageNorwegian, ''no''),
     (LanguageDanish, ''da''), (LanguageFinnish, ''fi''), (LanguageIcelandic, ''is''),
     (LanguageRussian, ''ru''), (LanguageUkrainian, ''uk''), (LanguagePolish, ''pl''),
     (LanguageCzech, ''cs''), (LanguageSlovak, ''sk''), (LanguageHungarian, ''hu''),
     (LanguageRomanian, ''ro''), (LanguageBulgarian, ''bg''), (LanguageCroatian, ''hr''),
     (LanguageSerbian, ''sr''), (LanguageBosnian, ''bs''), (LanguageSlovenian, ''sl''),
     (LanguageGreek, ''el''), (LanguageTurkish, ''tr''), (LanguageArabic, ''ar''),
     (LanguageHebrew, ''he''), (LanguagePersian, ''fa''), (LanguageHindi, ''hi''),
     (LanguageUrdu, ''ur''), (LanguageBengali, ''bn''), (LanguagePunjabi, ''pa''),
     (LanguageGujarati, ''gu''), (LanguageMarathi, ''mr''), (LanguageTamil, ''ta''),
     (LanguageTelugu, ''te''), (LanguageKannada, ''kn''), (LanguageMalayalam, ''ml''),
     (LanguageSinhala, ''si''), (LanguageNepali, ''ne''), (LanguageIndonesian, ''id''),
     (LanguageMalay, ''ms''), (LanguageFilipino, ''tl''), (LanguageThai, ''th''),
     (LanguageVietnamese, ''vi''), (LanguageKhmer, ''km''), (LanguageChinese, ''zh''),
     (LanguageTraditionalChinese, ''zh-TW''), (LanguageJapanese, ''ja''),
     (LanguageKorean, ''ko''), (LanguageSwahili, ''sw''), (LanguageAmharic, ''am''),
     (LanguageYoruba, ''yo''), (LanguageHausa, ''ha'')]"

record gemma_Core =
  gm_descriptor :: Descriptor

definition gemma_Capabilities :: Capabilities where
  "gemma_Capabilities =
     \<lparr>cap_PromptKinds = [PromptText], cap_RequiresSourceLanguage = True,
      cap_StructuredUserContent = True, cap_MaxInputTokens = 2048, cap_Glossary = False,
      cap_Style = False, cap_Audience = False, cap_TranslatableAttributes = False,
      cap_Delimiters = False\<rparr>"

definition gemma_SupportsLanguage :: "Language \<Rightarrow> bool" where
  "gemma_SupportsLanguage language \<longleftrightarrow> map_of gemma_languageCodes language \<noteq> None"

definition gemma_hasExtendedInstructions :: "TranslationRequest \<Rightarrow> bool" where
  "gemma_hasExtendedInstructions request \<longleftrightarrow>
     length (glossary_entries request) > 0 \<or> Style request \<noteq> [] \<or> Audience request \<noteq> [] \<or>
     length (TranslatableAttributes request) > 0 \<or> length (Delimiters request) > 0"

definition gemma_BuildInput :: "gemma_Core \<Rightarrow> TranslationRequest \<Rightarrow> go_error + ModelInput" where
  "gemma_BuildInput core request =
     (case ValidateTranslationRequest request of
        Inl err \<Rightarrow> Inl err
      | Inr _ \<Rightarrow>
        let kind = (if Kind request = [] then PromptText else Kind request);
            model = ID (gm_descriptor core)
        in if kind \<noteq> PromptText then Inl (ModelError (OnlyTextSupported model))
           else if SourceLanguage request = [] then Inl (ModelError (SourceLanguageRequired model))
           else if gemma_hasExtendedInstructions request then Inl (ModelError (ExtendedUnsupported model))
           else (case map_of gemma_languageCodes (SourceLanguage request) of
                   None \<Rightarrow> Inl (ModelError (NoSourceLanguage model (SourceLanguage request)))
                 | Some sourceCode \<Rightarrow>
                   (case map_of gemma_languageCodes (TargetLanguage request) of
                      None \<Rightarrow> Inl (ModelError (NoTargetLanguage model (TargetLanguage request)))
                    | Some targetCode \<Rightarrow>
                        Inr \<lparr>Messages = [\<lparr>msg_Role = RoleUser, msg_Text = [],
                          msg_Parts = [\<lparr>part_Type = ''text'', part_Text = Source request,
                            part_SourceLanguageCode = sourceCode,
                            part_TargetLanguageCode = targetCode\<rparr>]\<rparr>]\<rparr>)))"

definition gemma_Options :: "OptionProfile \<Rightarrow> go_error + GenerationOptions" where
  "gemma_Options profile =
     (if profile = ProfileOfficial
      then Inr (zero_options\<lparr>DoSample := Some False, MaxOutputTokens := 200,
                             Provenance := ProvenanceOfficialExample\<rparr>)
      else if profile = ProfileDeterministic
      then Inr (zero_options\<lparr>DoSample := Some False, MaxOutputTokens := 200,
                             Provenance := ProvenanceProjectExperimental\<rparr>)
      else Inl (ModelError (UnsupportedProfile profile)))"

definition gemma_Model :: "gemma_Core \<Rightarrow> Model" where
  "gemma_Model core =
     \<lparr>Model_Descriptor = gm_descriptor core,
      Model_Capabilities = gemma_Capabilities,
      Model_SupportsLanguage = gemma_SupportsLanguage,
      Model_BuildInput = gemma_BuildInput core,
      Model_Options = gemma_Options\<rparr>"

section \<open>The six sizes\<close>

definition hymt2_v1p8b :: hymt2_Core where
  "hymt2_v1p8b =
     \<lparr>hy_descriptor = \<lparr>ID = ''hymt2-1.8b'', Family = ''Hy-MT2'', Parameters = ''1.8B'',
        Repository = ''tencent/Hy-MT2-1.8B'', GGUFRepository = ''tencent/Hy-MT2-1.8B-GGUF''\<rparr>,
      hy_official = \<lparr>Temperature = Some (7 / 10), TopP = Some (6 / 10), TopK = Some 20,
        RepetitionPenalty = Some (105 / 100), DoSample = None, MaxOutputTokens = 4096, Stop = [],
        Provenance = ProvenanceOfficialRecommendation\<rparr>\<rparr>"

definition hymt2_v7b :: hymt2_Core where
  "hymt2_v7b =
     \<lparr>hy_descriptor = \<lparr>ID = ''hymt2-7b'', Family = ''Hy-MT2'', Parameters = ''7B'',
        Repository = ''tencent/Hy-MT2-7B'', GGUFRepository = ''tencent/Hy-MT2-7B-GGUF''\<rparr>,
      hy_official = \<lparr>Temperature = Some (7 / 10), TopP = Some (6 / 10), TopK = Some 20,
        RepetitionPenalty = Some (105 / 100), DoSample = None, MaxOutputTokens = 4096, Stop = [],
        Provenance = ProvenanceOfficialRecommendation\<rparr>\<rparr>"

definition hymt2_v30ba3b :: hymt2_Core where
  "hymt2_v30ba3b =
     \<lparr>hy_descriptor = \<lparr>ID = ''hymt2-30b-a3b'', Family = ''Hy-MT2'', Parameters = ''30B-A3B'',
        Repository = ''tencent/Hy-MT2-30B-A3B'', GGUFRepository = ''tencent/Hy-MT2-30B-A3B-GGUF''\<rparr>,
      hy_official = \<lparr>Temperature = Some (7 / 10), TopP = Some 1, TopK = Some (- 1),
        RepetitionPenalty = Some 1, DoSample = None, MaxOutputTokens = 4096, Stop = [],
        Provenance = ProvenanceOfficialRecommendation\<rparr>\<rparr>"

definition gemma_v4b :: gemma_Core where
  "gemma_v4b =
     \<lparr>gm_descriptor = \<lparr>ID = ''translategemma-4b'', Family = ''TranslateGemma'',
        Parameters = ''4B'', Repository = ''google/translategemma-4b-it'', GGUFRepository = []\<rparr>\<rparr>"

definition gemma_v12b :: gemma_Core where
  "gemma_v12b =
     \<lparr>gm_descriptor = \<lparr>ID = ''translategemma-12b'', Family = ''TranslateGemma'',
        Parameters = ''12B'', Repository = ''google/translategemma-12b-it'', GGUFRepository = []\<rparr>\<rparr>"

definition gemma_v27b :: gemma_Core where
  "gemma_v27b =
     \<lparr>gm_descriptor = \<lparr>ID = ''translategemma-27b'', Family = ''TranslateGemma'',
        Parameters = ''27B'', Repository = ''google/translategemma-27b-it'', GGUFRepository = []\<rparr>\<rparr>"

section \<open>The catalog\<close>

definition catalog_All :: "(nat \<Rightarrow> bool) \<Rightarrow> Model list" where
  "catalog_All tbl =
     [hymt2_Model tbl hymt2_v1p8b, hymt2_Model tbl hymt2_v7b, hymt2_Model tbl hymt2_v30ba3b,
      gemma_Model gemma_v4b, gemma_Model gemma_v12b, gemma_Model gemma_v27b]"

fun find_model :: "Model list \<Rightarrow> ModelID \<Rightarrow> Model option" where
  "find_model [] mid = None"
| "find_model (model # models) mid =
     (if ID (Model_Descriptor model) = mid then Some model else find_model models mid)"

definition catalog_Find :: "(nat \<Rightarrow> bool) \<Rightarrow> ModelID \<Rightarrow> Model option" where
  "catalog_Find tbl mid = find_model (catalog_All tbl) mid"

section \<open>Lemmas on the families\<close>

lemma clonePointer_id [simp]: "clonePointer v = v"
  by (simp add: clonePointer_def split: option.split)

lemma hymt2_cloneOptions_id [simp]: "hymt2_cloneOptions options = options"
  by (simp add: hymt2_cloneOptions_def)

lemma hymt2_languages_known: "set hymt2_supportedLanguages \<subseteq> set supportedLanguages"
  by (simp add: hymt2_supportedLanguages_def supportedLanguages_def)

lemma gemma_languages_known: "fst ` set gemma_languageCodes \<subseteq> set supportedLanguages"
  by (simp add: gemma_languageCodes_def supportedLanguages_def)

lemma every_language_covered:
  "set supportedLanguages \<subseteq> set hymt2_supportedLanguages \<union> fst ` set gemma_languageCodes"
  by (simp add: hymt2_supportedLanguages_def gemma_languageCodes_def supportedLanguages_def)

lemma gemma_codes_nonempty: "map_of gemma_languageCodes l = Some c \<Longrightarrow> strings_TrimSpace c \<noteq> [] \<and> c \<noteq> []"
proof -
  have "list_all (\<lambda>(l, c). strings_TrimSpace c \<noteq> [] \<and> c \<noteq> []) gemma_languageCodes"
    by code_simp
  moreover assume "map_of gemma_languageCodes l = Some c"
  ultimately show ?thesis by (auto simp: list_all_iff dest!: map_of_SomeD)
qed

lemma hymt2_SupportsLanguage_iff:
  "hymt2_SupportsLanguage l \<longleftrightarrow> l \<in> set hymt2_supportedLanguages"
  by (simp add: hymt2_SupportsLanguage_def)

lemma gemma_SupportsLanguage_iff: "gemma_SupportsLanguage l \<longleftrightarrow> l \<in> fst ` set gemma_languageCodes"
  by (auto simp: gemma_SupportsLanguage_def map_of_eq_None_iff)

lemma BuildPrompt_valid: "BuildPrompt tbl r = Inr p \<Longrightarrow> ValidateTranslationRequest r = Inr ()"
  by (cases "ValidateTranslationRequest r") (auto simp: BuildPrompt_def)

lemma BuildPrompt_total: "ValidateTranslationRequest r = Inr () \<Longrightarrow> \<exists>p. BuildPrompt tbl r = Inr p"
  using FenceSource_nolabel [of "Source r"] by (auto simp: BuildPrompt_def Let_def)

lemma hymt2_BuildInput_iff:
  "hymt2_BuildInput tbl core r = Inr i \<longleftrightarrow>
     hymt2_SupportsLanguage (TargetLanguage r) \<and>
     (SourceLanguage r = [] \<or> hymt2_SupportsLanguage (SourceLanguage r)) \<and>
     (\<exists>prompt. BuildPrompt tbl r = Inr prompt \<and>
        i = \<lparr>Messages = [\<lparr>msg_Role = RoleUser, msg_Text = prompt, msg_Parts = []\<rparr>]\<rparr>)"
  by (auto simp: hymt2_BuildInput_def split: sum.splits)

lemma gemma_BuildInput_iff:
  "gemma_BuildInput core r = Inr i \<longleftrightarrow>
     ValidateTranslationRequest r = Inr () \<and> effective_kind r = PromptText \<and>
     SourceLanguage r \<noteq> [] \<and> \<not> gemma_hasExtendedInstructions r \<and>
     (\<exists>sc tc. map_of gemma_languageCodes (SourceLanguage r) = Some sc \<and>
        map_of gemma_languageCodes (TargetLanguage r) = Some tc \<and>
        i = \<lparr>Messages = [\<lparr>msg_Role = RoleUser, msg_Text = [],
               msg_Parts = [\<lparr>part_Type = ''text'', part_Text = Source r,
                 part_SourceLanguageCode = sc, part_TargetLanguageCode = tc\<rparr>]\<rparr>]\<rparr>)"
  unfolding gemma_BuildInput_def effective_kind_def [symmetric] Let_def
  by (auto split: sum.splits option.splits)

lemma hymt2_Options_ok: "is_ok (hymt2_Options core p) \<longleftrightarrow> p = ProfileOfficial \<or> p = ProfileDeterministic"
  by (simp add: hymt2_Options_def)

lemma gemma_Options_ok: "is_ok (gemma_Options p) \<longleftrightarrow> p = ProfileOfficial \<or> p = ProfileDeterministic"
  by (simp add: gemma_Options_def)

section \<open>Every built-in model meets the contract\<close>

interpretation hymt2: translation_model "hymt2_Model tbl core" for tbl core
proof unfold_locales
  show "is_ok (Model_Options (hymt2_Model tbl core) p) \<longleftrightarrow> p = ProfileOfficial \<or> p = ProfileDeterministic" for p
    by (simp add: hymt2_Model_def hymt2_Options_ok)
  show "Model_SupportsLanguage (hymt2_Model tbl core) l \<Longrightarrow> Language_Valid l" for l
    using hymt2_languages_known by (auto simp: hymt2_Model_def hymt2_SupportsLanguage_iff Language_Valid_iff)
qed (auto simp: hymt2_Model_def hymt2_BuildInput_iff hymt2_Capabilities_def request_accepted_iff
    dest!: BuildPrompt_valid)

interpretation gemma: translation_model "gemma_Model core" for core
proof unfold_locales
  show "is_ok (Model_Options (gemma_Model core) p) \<longleftrightarrow> p = ProfileOfficial \<or> p = ProfileDeterministic" for p
    by (simp add: gemma_Model_def gemma_Options_ok)
  show "Model_SupportsLanguage (gemma_Model core) l \<Longrightarrow> Language_Valid l" for l
    using gemma_languages_known by (auto simp: gemma_Model_def gemma_SupportsLanguage_iff Language_Valid_iff)
qed (auto simp: gemma_Model_def gemma_BuildInput_iff gemma_Capabilities_def gemma_SupportsLanguage_def
    gemma_hasExtendedInstructions_def)

lemma catalog_translation_model: "m \<in> set (catalog_All tbl) \<Longrightarrow> translation_model m"
  by (auto simp: catalog_All_def intro: hymt2.translation_model_axioms gemma.translation_model_axioms)

lemma find_model_Some: "find_model ms mid = Some m \<Longrightarrow> m \<in> set ms \<and> ID (Model_Descriptor m) = mid"
  by (induction ms) (auto split: if_splits)

lemma find_model_None:
  "find_model ms mid = None \<longleftrightarrow> mid \<notin> set (map (\<lambda>m. ID (Model_Descriptor m)) ms)"
  by (induction ms) auto

lemma find_model_distinct:
  "distinct (map (\<lambda>m. ID (Model_Descriptor m)) ms) \<Longrightarrow> m \<in> set ms \<Longrightarrow>
     find_model ms (ID (Model_Descriptor m)) = Some m"
  by (induction ms) force+

lemma catalog_IDs:
  "map (\<lambda>m. ID (Model_Descriptor m)) (catalog_All tbl) =
     [''hymt2-1.8b'', ''hymt2-7b'', ''hymt2-30b-a3b'',
      ''translategemma-4b'', ''translategemma-12b'', ''translategemma-27b'']"
  by (simp add: catalog_All_def hymt2_Model_def gemma_Model_def hymt2_v1p8b_def hymt2_v7b_def
      hymt2_v30ba3b_def gemma_v4b_def gemma_v12b_def gemma_v27b_def)

lemma catalog_Find_Some:
  "catalog_Find tbl mid = Some m \<longleftrightarrow> m \<in> set (catalog_All tbl) \<and> ID (Model_Descriptor m) = mid"
  using find_model_distinct [of "catalog_All tbl" m]
  by (auto simp: catalog_Find_def catalog_IDs dest: find_model_Some)

lemma catalog_Find_model: "catalog_Find tbl mid = Some m \<Longrightarrow> translation_model m"
  unfolding catalog_Find_Some by (blast intro: catalog_translation_model)

section \<open>Properties\<close>

text \<open>
  A Hy-MT2 model builds input exactly when it supports the target language and the source
  language if one is given, and the prompt can be built; the input is one user message, the
  prompt. It fails on no other request.
\<close>

lemma hymt2_BuildInput_correct:
  "Model_BuildInput (hymt2_Model tbl core) r = Inr i \<longleftrightarrow>
     TargetLanguage r \<in> set hymt2_supportedLanguages \<and>
     (SourceLanguage r = [] \<or> SourceLanguage r \<in> set hymt2_supportedLanguages) \<and>
     (\<exists>prompt. BuildPrompt tbl r = Inr prompt \<and>
        i = \<lparr>Messages = [\<lparr>msg_Role = RoleUser, msg_Text = prompt, msg_Parts = []\<rparr>]\<rparr>)"
  by (simp add: hymt2_Model_def hymt2_BuildInput_iff hymt2_SupportsLanguage_iff)

text \<open>
  A TranslateGemma model builds input exactly for valid plain-text requests with a source
  language and no extra instruction, between two languages of its table; the input is one user
  message with one text part, the unchanged source text and the two codes of the table.
\<close>

lemma gemma_BuildInput_correct:
  "Model_BuildInput (gemma_Model core) r = Inr i \<longleftrightarrow>
     is_ok (ValidateTranslationRequest r) \<and> effective_kind r = PromptText \<and>
     SourceLanguage r \<noteq> [] \<and>
     glossary_entries r = [] \<and> Style r = [] \<and> Audience r = [] \<and>
     TranslatableAttributes r = [] \<and> Delimiters r = [] \<and>
     (\<exists>sc tc. (SourceLanguage r, sc) \<in> set gemma_languageCodes \<and>
        (TargetLanguage r, tc) \<in> set gemma_languageCodes \<and>
        i = \<lparr>Messages = [\<lparr>msg_Role = RoleUser, msg_Text = [],
               msg_Parts = [\<lparr>part_Type = ''text'', part_Text = Source r,
                 part_SourceLanguageCode = sc, part_TargetLanguageCode = tc\<rparr>]\<rparr>]\<rparr>)"
proof -
  have codes: "map_of gemma_languageCodes l = Some c \<longleftrightarrow> (l, c) \<in> set gemma_languageCodes" for l c
    by (rule map_of_Some_set) (simp add: go_map_def gemma_languageCodes_def)
  have valid: "is_ok (ValidateTranslationRequest r) \<longleftrightarrow> ValidateTranslationRequest r = Inr ()"
    by (simp add: is_ok_iff)
  show ?thesis
    by (simp add: gemma_Model_def gemma_BuildInput_iff codes valid gemma_hasExtendedInstructions_def conj_ac)
qed

text \<open>
  \<open>Find\<close> returns the model with the given identifier, and every catalog entry is found
  by its own identifier: the six identifiers are distinct.
\<close>

theorem catalog_Find_correct:
  "(catalog_Find tbl mid = Some m \<longleftrightarrow> m \<in> set (catalog_All tbl) \<and> ID (Model_Descriptor m) = mid) \<and>
   (catalog_Find tbl mid = None \<longleftrightarrow>
      mid \<notin> {''hymt2-1.8b'', ''hymt2-7b'', ''hymt2-30b-a3b'',
             ''translategemma-4b'', ''translategemma-12b'', ''translategemma-27b''})"
  using find_model_None [of "catalog_All tbl" mid]
  by (simp add: catalog_Find_Some catalog_IDs catalog_Find_def [symmetric])

text \<open>
  C19. Whatever catalog model builds input for a request: the request is valid, the model
  declares its languages, its kind and every extra it uses, and the input is one user message
  that marshals, with content parts exactly when the model declares structured content.
\<close>

theorem catalog_model_contract:
  assumes "catalog_Find tbl mid = Some m" and "Model_BuildInput m r = Inr i"
  shows "ValidateTranslationRequest r = Inr () \<and>
    Model_SupportsLanguage m (TargetLanguage r) \<and>
    (if SourceLanguage r = [] then \<not> cap_RequiresSourceLanguage (Model_Capabilities m)
     else Model_SupportsLanguage m (SourceLanguage r)) \<and>
    effective_kind r \<in> set (cap_PromptKinds (Model_Capabilities m)) \<and>
    (glossary_entries r = [] \<or> cap_Glossary (Model_Capabilities m)) \<and>
    (Style r = [] \<or> cap_Style (Model_Capabilities m)) \<and>
    (Audience r = [] \<or> cap_Audience (Model_Capabilities m)) \<and>
    (TranslatableAttributes r = [] \<or> cap_TranslatableAttributes (Model_Capabilities m)) \<and>
    (Delimiters r = [] \<or> cap_Delimiters (Model_Capabilities m)) \<and>
    is_ok (Messages_json (Messages i)) \<and>
    (\<exists>msg. Messages i = [msg] \<and> msg_Role msg = RoleUser \<and>
       (msg_Parts msg \<noteq> [] \<longleftrightarrow> cap_StructuredUserContent (Model_Capabilities m)))"
proof -
  note model = catalog_Find_model [OF assms(1)]
  obtain msg where "Messages i = [msg]" "msg_Role msg = RoleUser"
    "if cap_StructuredUserContent (Model_Capabilities m)
     then msg_Text msg = [] \<and> length (msg_Parts msg) = 1 else msg_Parts msg = []"
    using translation_model.built_message [OF model assms(2)] by blast
  then have "\<exists>msg. Messages i = [msg] \<and> msg_Role msg = RoleUser \<and>
       (msg_Parts msg \<noteq> [] \<longleftrightarrow> cap_StructuredUserContent (Model_Capabilities m))"
    by (auto split: if_splits)
  then show ?thesis
    using translation_model.built_valid [OF model assms(2)]
      translation_model.built_target [OF model assms(2)]
      translation_model.built_source [OF model assms(2)]
      translation_model.built_kind [OF model assms(2)]
      translation_model.built_extras [OF model assms(2)]
      translation_model.built_marshals [OF model assms(2)]
    by auto
qed

text \<open>A plain-text request from English to Korean, accepted by all six models.\<close>

definition hello_request :: TranslationRequest where
  "hello_request = \<lparr>Source = ''Hello'', TargetLanguage = LanguageKorean, Kind = [],
     SourceLanguage = LanguageEnglish, Glossary = Some [], Style = [], Audience = [],
     TranslatableAttributes = [], Delimiters = []\<rparr>"

lemma catalog_Find_hello:
  "catalog_Find tbl ''translategemma-4b'' = Some (gemma_Model gemma_v4b)"
  "is_ok (Model_BuildInput (gemma_Model gemma_v4b) hello_request)"
proof -
  show "catalog_Find tbl ''translategemma-4b'' = Some (gemma_Model gemma_v4b)"
    by (simp add: catalog_Find_def catalog_All_def hymt2_Model_def gemma_Model_def hymt2_v1p8b_def
        hymt2_v7b_def hymt2_v30ba3b_def gemma_v4b_def)
  show "is_ok (Model_BuildInput (gemma_Model gemma_v4b) hello_request)" by code_simp
qed

theorem catalog_model_contract_witness:
  "\<exists>m r i. catalog_Find (\<lambda>_. True) ''translategemma-4b'' = Some m \<and> Model_BuildInput m r = Inr i \<and>
     effective_kind r \<in> set (cap_PromptKinds (Model_Capabilities m)) \<and> is_ok (Messages_json (Messages i))"
proof -
  obtain i where i: "Model_BuildInput (gemma_Model gemma_v4b) hello_request = Inr i"
    using catalog_Find_hello(2) by (auto simp: is_ok_iff)
  note found = catalog_Find_hello(1) [of "\<lambda>_. True"]
  from catalog_model_contract [OF found i] found i show ?thesis by blast
qed

text \<open>
  The declared languages are exactly those that some catalog model supports, so a
  language accepted by \<open>ParseLanguage\<close> can be translated to by at least one model.
\<close>

theorem Language_Valid_iff_supported:
  "Language_Valid l \<longleftrightarrow> list_ex (\<lambda>m. Model_SupportsLanguage m l) (catalog_All tbl)"
  using hymt2_languages_known gemma_languages_known every_language_covered
  by (auto simp: Language_Valid_iff catalog_All_def hymt2_Model_def gemma_Model_def
      hymt2_SupportsLanguage_iff gemma_SupportsLanguage_iff)


end
