(* ===== verification/Inference.thy ===== *)
theory Inference
  imports Model
begin

text \<open>
  \<open>lib/inference/inference.go\<close>: the transport-neutral request and response and the client
  interface. Requests are immutable values here, so the copies that \<open>NewRequest\<close> and the
  accessors make are written out and proved to be the identity.
\<close>

section \<open>Requests and responses\<close>

record Usage =
  PromptTokens :: int
  CompletionTokens :: int
  TotalTokens :: int

record inference_request =
  inf_modelName :: string
  inf_input :: ModelInput
  inf_options :: GenerationOptions

record inference_response =
  OutputText :: string
  ProviderModel :: string
  FinishReason :: string
  TokenUsage :: Usage

definition inference_clonePointer :: "'a option \<Rightarrow> 'a option" where
  "inference_clonePointer value = (case value of None \<Rightarrow> None | Some x \<Rightarrow> Some x)"

definition cloneInput :: "ModelInput \<Rightarrow> ModelInput" where
  "cloneInput input =
     \<lparr>Messages = map (\<lambda>message. message\<lparr>msg_Parts := [] @ msg_Parts message\<rparr>) (Messages input)\<rparr>"

definition inference_cloneOptions :: "GenerationOptions \<Rightarrow> GenerationOptions" where
  "inference_cloneOptions options =
     options\<lparr>Temperature := inference_clonePointer (Temperature options),
             TopP := inference_clonePointer (TopP options),
             TopK := inference_clonePointer (TopK options),
             RepetitionPenalty := inference_clonePointer (RepetitionPenalty options),
             DoSample := inference_clonePointer (DoSample options),
             Stop := [] @ Stop options\<rparr>"

definition NewRequest :: "string \<Rightarrow> ModelInput \<Rightarrow> GenerationOptions \<Rightarrow> inference_request" where
  "NewRequest modelName input options =
     \<lparr>inf_modelName = modelName, inf_input = cloneInput input,
      inf_options = inference_cloneOptions options\<rparr>"

definition request_ModelName :: "inference_request \<Rightarrow> string" where
  "request_ModelName value = inf_modelName value"

definition request_ModelInput :: "inference_request \<Rightarrow> ModelInput" where
  "request_ModelInput value = cloneInput (inf_input value)"

definition request_GenerationOptions :: "inference_request \<Rightarrow> GenerationOptions" where
  "request_GenerationOptions value = inference_cloneOptions (inf_options value)"

definition NewResponse :: "string \<Rightarrow> string \<Rightarrow> string \<Rightarrow> Usage \<Rightarrow> inference_response" where
  "NewResponse outputText providerModel finishReason usage =
     \<lparr>OutputText = outputText, ProviderModel = providerModel, FinishReason = finishReason,
      TokenUsage = usage\<rparr>"

section \<open>Lemmas\<close>

lemma inference_clonePointer_id [simp]: "inference_clonePointer v = v"
  by (simp add: inference_clonePointer_def split: option.split)

lemma cloneInput_id [simp]: "cloneInput i = i"
  by (simp add: cloneInput_def)

lemma inference_cloneOptions_id [simp]: "inference_cloneOptions o' = o'"
  by (simp add: inference_cloneOptions_def)

lemma NewRequest_accessors [simp]:
  "request_ModelName (NewRequest n i opts) = n"
  "request_ModelInput (NewRequest n i opts) = i"
  "request_GenerationOptions (NewRequest n i opts) = opts"
  by (simp_all add: NewRequest_def request_ModelName_def request_ModelInput_def
      request_GenerationOptions_def)

end
