(* ===== verification/OpenAI.thy ===== *)
theory OpenAI
  imports Inference Errors
begin

text \<open>
  \<open>lib/inference/openai\<close>: the configuration of the client (\<open>config.go\<close>), its codec
  (\<open>codec.go\<close>) and its two calls (\<open>client.go\<close>). \<open>url_parse\<close> is \<open>url.Parse\<close>, \<open>scan\<close> the JSON
  scanner on the bytes of a body, and \<open>exchange\<close> what the HTTP client returns for a call: an
  error, or the status, the content type and the body, which is its bytes and the error that
  ends it early, if any.
\<close>

section \<open>Configuration\<close>

record url =
  url_Scheme :: string
  url_Host :: string
  url_RawQuery :: string
  url_Fragment :: string

record Config =
  BaseURL :: string
  cfg_Model :: string
  Timeout :: duration

definition DefaultBaseURL :: string where "DefaultBaseURL = ''http://127.0.0.1:8080/v1''"
definition DefaultTimeout :: duration where "DefaultTimeout = 120 * Second"

definition normalizeConfig :: "(string \<Rightarrow> go_error + url) \<Rightarrow> Config \<Rightarrow> go_error + Config" where
  "normalizeConfig url_parse config0 =
     (let config1 = (if BaseURL config0 = [] then config0\<lparr>BaseURL := DefaultBaseURL\<rparr> else config0);
          config = config1\<lparr>BaseURL := strings_TrimRight (BaseURL config1) ''/''\<rparr>
      in case url_parse (BaseURL config) of
           Inl err \<Rightarrow> Inl (Wrap ParseBaseURL err)
         | Inr parsed \<Rightarrow>
           if (url_Scheme parsed \<noteq> ''http'' \<and> url_Scheme parsed \<noteq> ''https'') \<or> url_Host parsed = []
           then Inl (InferenceError BadBaseURL)
           else if url_RawQuery parsed \<noteq> [] \<or> url_Fragment parsed \<noteq> []
           then Inl (InferenceError BaseURLQuery)
           else let config2 = (if Timeout config = 0 then config\<lparr>Timeout := DefaultTimeout\<rparr> else config)
             in if Timeout config2 < 0 then Inl (InferenceError NegativeTimeout) else Inr config2)"

definition ConfigFromEnv ::
  "(string \<Rightarrow> string) \<Rightarrow> (string \<Rightarrow> go_error + duration) \<Rightarrow> (string \<Rightarrow> go_error + url) \<Rightarrow> go_error + Config" where
  "ConfigFromEnv getenv parse_duration url_parse =
     (let config = \<lparr>BaseURL = getenv ''TRANSLITER_API_BASE_URL'', cfg_Model = getenv ''TRANSLITER_API_MODEL'',
                    Timeout = 0\<rparr>
      in if getenv ''TRANSLITER_API_TIMEOUT'' \<noteq> [] then
           (case parse_duration (getenv ''TRANSLITER_API_TIMEOUT'') of
              Inl err \<Rightarrow> Inl (Wrap ParseTimeout err)
            | Inr timeout \<Rightarrow> normalizeConfig url_parse (config\<lparr>Timeout := timeout\<rparr>))
         else normalizeConfig url_parse config)"

section \<open>Encoding requests\<close>

definition chatCompletionsPath :: string where "chatCompletionsPath = ''/chat/completions''"
definition completionsPath :: string where "completionsPath = ''/completions''"
definition modelsPath :: string where "modelsPath = ''/models''"

definition requiresCompletionBypass :: "ModelInput \<Rightarrow> bool" where
  "requiresCompletionBypass input \<longleftrightarrow>
     list_ex (\<lambda>message. list_ex (\<lambda>part. part_SourceLanguageCode part \<noteq> [] \<or>
       part_TargetLanguageCode part \<noteq> []) (msg_Parts message)) (Messages input)"

definition RequestPath :: "inference_request \<Rightarrow> string" where
  "RequestPath request =
     (if requiresCompletionBypass (request_ModelInput request) then completionsPath
      else chatCompletionsPath)"

definition end_of_turn :: string where "end_of_turn = ''<end_of_turn>''"

definition renderStructuredCompletionPrompt :: "ModelInput \<Rightarrow> go_error + string" where
  "renderStructuredCompletionPrompt input =
     (if length (Messages input) \<noteq> 1 then Inl (InferenceError OneMessageRequired)
      else let message = hd (Messages input) in
        if msg_Role message \<noteq> RoleUser then Inl (InferenceError UserMessageRequired)
        else if msg_Text message \<noteq> [] then Inl (InferenceError PartsRequired)
        else if length (msg_Parts message) \<noteq> 1 then Inl (InferenceError OnePartRequired)
        else let part = hd (msg_Parts message) in
          if part_Type part \<noteq> [] \<and> part_Type part \<noteq> ''text''
          then Inl (InferenceError (TextPartRequired (part_Type part)))
          else if strings_TrimSpace (part_SourceLanguageCode part) = [] \<or>
            strings_TrimSpace (part_TargetLanguageCode part) = []
          then Inl (InferenceError LanguageCodesRequired)
          else if part_Text part = [] then Inl (InferenceError PromptTextRequired)
          else Inr (''<bos><start_of_turn>user'' @ [NL]
            @ ''source_lang_code: '' @ part_SourceLanguageCode part @ [NL]
            @ ''target_lang_code: '' @ part_TargetLanguageCode part @ [NL]
            @ ''text: '' @ part_Text part
            @ end_of_turn @ [NL] @ ''<start_of_turn>model'' @ [NL]))"

definition completionStopSequences :: "string list \<Rightarrow> string list" where
  "completionStopSequences stop =
     (if list_ex (\<lambda>value. value = end_of_turn) stop then stop else stop @ [end_of_turn])"

text \<open>The fields both payloads share, after the prompt or the messages.\<close>

definition option_fields :: "GenerationOptions \<Rightarrow> string list \<Rightarrow> (string \<times> rat json option) list" where
  "option_fields options stop =
     [(''stream'', Some (JBool False)),
      (''temperature'', map_option JNumber (Temperature options)),
      (''top_p'', map_option JNumber (TopP options)),
      (''top_k'', map_option (\<lambda>n. JNumber (of_int n)) (TopK options)),
      (''repetition_penalty'', map_option JNumber (RepetitionPenalty options)),
      (''do_sample'', map_option JBool (DoSample options)),
      (''max_tokens'', omit_int (MaxOutputTokens options)),
      (''stop'', omit_strings stop)]"

definition completionRequest_json ::
  "string \<Rightarrow> string \<Rightarrow> GenerationOptions \<Rightarrow> string list \<Rightarrow> rat json" where
  "completionRequest_json model prompt options stop = json_struct
     ([(''model'', Some (json_string model)), (''prompt'', Some (json_string prompt))]
      @ option_fields options stop)"

definition chatCompletionRequest_json ::
  "string \<Rightarrow> rat json list \<Rightarrow> GenerationOptions \<Rightarrow> string list \<Rightarrow> rat json" where
  "chatCompletionRequest_json model messages options stop = json_struct
     ([(''model'', Some (json_string model)), (''messages'', Some (JArray messages))]
      @ option_fields options stop)"

definition EncodeRequest :: "inference_request \<Rightarrow> string \<Rightarrow> go_error + rat json" where
  "EncodeRequest request defaultModel =
     (let modelName = (if request_ModelName request = [] then defaultModel else request_ModelName request)
      in if modelName = [] then Inl (InferenceError NoModelName)
         else let input = request_ModelInput request in
           if length (Messages input) = 0 then Inl (InferenceError NoMessages)
           else let options = request_GenerationOptions request in
             if requiresCompletionBypass input then
               (case renderStructuredCompletionPrompt input of
                  Inl err \<Rightarrow> Inl err
                | Inr prompt \<Rightarrow> Inr (completionRequest_json modelName prompt options
                                   (completionStopSequences (Stop options))))
             else (case Messages_json (Messages input) of
                     Inl err \<Rightarrow> Inl err
                   | Inr messages \<Rightarrow> Inr (chatCompletionRequest_json modelName messages options (Stop options))))"

section \<open>Decoding responses\<close>

text \<open>Exactly one JSON value.\<close>

definition decodeSingleJSON ::
  "(rat json \<Rightarrow> 'a \<Rightarrow> go_error + 'a) \<Rightarrow> rat json_input \<Rightarrow> 'a \<Rightarrow> go_error + 'a" where
  "decodeSingleJSON decode reader target =
     (case reader of
        JsonInput [] eof \<Rightarrow> Inl (case eof of None \<Rightarrow> External ''EOF'' | Some err \<Rightarrow> err)
      | JsonInput (v # rest) eof \<Rightarrow>
          (case decode v target of
             Inl err \<Rightarrow> Inl err
           | Inr x \<Rightarrow>
               if rest \<noteq> [] then Inl (InferenceError TrailingResponse)
               else case eof of Some err \<Rightarrow> Inl err | None \<Rightarrow> Inr x))"

record openAIChoice =
  choice_Text :: string
  choice_Content :: string
  choice_FinishReason :: string

record openAIGenerationResponse =
  gen_Model :: string
  gen_Choices :: "openAIChoice list"
  gen_Usage :: Usage

definition zero_choice :: openAIChoice where
  "zero_choice = \<lparr>choice_Text = [], choice_Content = [], choice_FinishReason = []\<rparr>"

definition decode_choice :: "rat json \<Rightarrow> openAIChoice \<Rightarrow> go_error + openAIChoice" where
  "decode_choice = decode_struct [''text'', ''message'', ''finish_reason'']
     (\<lambda>name v c.
        if name = ''text'' then put (decode_string v (choice_Text c)) (\<lambda>x. c\<lparr>choice_Text := x\<rparr>)
        else if name = ''message''
        then put (decode_struct [''content''] (\<lambda>_ w old. decode_string w old) False v (choice_Content c))
               (\<lambda>x. c\<lparr>choice_Content := x\<rparr>)
        else put (decode_string v (choice_FinishReason c)) (\<lambda>x. c\<lparr>choice_FinishReason := x\<rparr>))
     False"

definition decode_usage :: "rat json \<Rightarrow> Usage \<Rightarrow> go_error + Usage" where
  "decode_usage = decode_struct [''prompt_tokens'', ''completion_tokens'', ''total_tokens'']
     (\<lambda>name v u.
        if name = ''prompt_tokens'' then put (decode_int v (PromptTokens u)) (\<lambda>x. u\<lparr>PromptTokens := x\<rparr>)
        else if name = ''completion_tokens''
        then put (decode_int v (CompletionTokens u)) (\<lambda>x. u\<lparr>CompletionTokens := x\<rparr>)
        else put (decode_int v (TotalTokens u)) (\<lambda>x. u\<lparr>TotalTokens := x\<rparr>))
     False"

definition decode_generation ::
  "rat json \<Rightarrow> openAIGenerationResponse \<Rightarrow> go_error + openAIGenerationResponse" where
  "decode_generation = decode_struct [''model'', ''choices'', ''usage'']
     (\<lambda>name v g.
        if name = ''model'' then put (decode_string v (gen_Model g)) (\<lambda>x. g\<lparr>gen_Model := x\<rparr>)
        else if name = ''choices''
        then put (decode_slice decode_choice zero_choice v (gen_Choices g)) (\<lambda>x. g\<lparr>gen_Choices := x\<rparr>)
        else put (decode_usage v (gen_Usage g)) (\<lambda>x. g\<lparr>gen_Usage := x\<rparr>))
     False"

definition zero_generation :: openAIGenerationResponse where
  "zero_generation = \<lparr>gen_Model = [], gen_Choices = [],
     gen_Usage = \<lparr>PromptTokens = 0, CompletionTokens = 0, TotalTokens = 0\<rparr>\<rparr>"

definition DecodeResponse :: "rat json_input \<Rightarrow> go_error + inference_response" where
  "DecodeResponse reader =
     (case decodeSingleJSON decode_generation reader zero_generation of
        Inl err \<Rightarrow> Inl (Wrap DecodeGeneration err)
      | Inr payload \<Rightarrow>
        (case gen_Choices payload of
           [] \<Rightarrow> Inl (InferenceError NoChoices)
         | choice # _ \<Rightarrow>
           let output = (if choice_Content choice = [] then choice_Text choice else choice_Content choice)
           in Inr (NewResponse output (gen_Model payload) (choice_FinishReason choice)
                \<lparr>PromptTokens = PromptTokens (gen_Usage payload),
                 CompletionTokens = CompletionTokens (gen_Usage payload),
                 TotalTokens = TotalTokens (gen_Usage payload)\<rparr>)))"

record errorResponse =
  err_Message :: string
  err_Type :: string
  err_Code :: "rat json option"

definition decode_error_response :: "rat json \<Rightarrow> errorResponse \<Rightarrow> go_error + errorResponse" where
  "decode_error_response = decode_struct [''error'']
     (\<lambda>_ v r0. decode_struct [''message'', ''type'', ''code'']
        (\<lambda>name w r.
           if name = ''message'' then put (decode_string w (err_Message r)) (\<lambda>x. r\<lparr>err_Message := x\<rparr>)
           else if name = ''type'' then put (decode_string w (err_Type r)) (\<lambda>x. r\<lparr>err_Type := x\<rparr>)
           else Inr (r\<lparr>err_Code := (case w of JNull \<Rightarrow> None | _ \<Rightarrow> Some w)\<rparr>))
        False v r0)
     False"

text \<open>An \<open>APIError\<close>; its code is never printed and is left out of the error value.\<close>

definition DecodeError :: "int \<Rightarrow> rat json_input \<Rightarrow> go_error" where
  "DecodeError statusCode reader =
     (case decodeSingleJSON decode_error_response reader \<lparr>err_Message = [], err_Type = [], err_Code = None\<rparr> of
        Inl _ \<Rightarrow> InferenceError (ApiError statusCode [] ''inference server returned a non-JSON error'')
      | Inr payload \<Rightarrow>
          let message = (if err_Message payload = [] then ''inference server returned an error''
                         else err_Message payload)
          in InferenceError (ApiError statusCode (err_Type payload) message))"

section \<open>The client\<close>

record Client =
  client_baseURL :: string
  client_defaultModel :: string
  client_apiKey :: string
  client_maxResponseSize :: int

record http_call =
  call_Method :: string
  call_URL :: string
  call_ContentType :: "string option"
  call_Authorization :: "string option"
  call_Body :: "rat json option"

record http_answer =
  ans_Status :: int
  ans_ContentType :: string
  ans_Bytes :: string
  ans_Error :: "go_error option"

definition defaultMaxResponseBytes :: int where "defaultMaxResponseBytes = 4 * 2 ^ 20"

definition NewClient ::
  "(string \<Rightarrow> string) \<Rightarrow> (string \<Rightarrow> go_error + url) \<Rightarrow> Config \<Rightarrow> go_error + Client" where
  "NewClient getenv url_parse config0 =
     (case normalizeConfig url_parse config0 of
        Inl err \<Rightarrow> Inl err
      | Inr config \<Rightarrow> Inr \<lparr>client_baseURL = BaseURL config, client_defaultModel = cfg_Model config,
          client_apiKey = getenv ''TRANSLITER_API_KEY'', client_maxResponseSize = defaultMaxResponseBytes\<rparr>)"

text \<open>\<open>io.ReadAll\<close> of a body limited to \<open>n\<close> bytes.\<close>

definition read_limited :: "int \<Rightarrow> http_answer \<Rightarrow> go_error + string" where
  "read_limited n answer =
     (if n \<le> int (length (ans_Bytes answer)) then Inr (take (nat n) (ans_Bytes answer))
      else case ans_Error answer of Some err \<Rightarrow> Inl err | None \<Rightarrow> Inr (ans_Bytes answer))"

definition bearer :: "Client \<Rightarrow> string option" where
  "bearer client = (if client_apiKey client \<noteq> [] then Some (''Bearer '' @ client_apiKey client) else None)"

definition Generate ::
  "(string \<Rightarrow> rat json_input) \<Rightarrow> (http_call \<Rightarrow> go_error + http_answer) \<Rightarrow> Client
     \<Rightarrow> inference_request \<Rightarrow> go_error + inference_response" where
  "Generate scan exchange client request =
     (case EncodeRequest request (client_defaultModel client) of
        Inl err \<Rightarrow> Inl err
      | Inr body \<Rightarrow>
        let routed = RequestPath request;
            path = (if routed \<noteq> [] then routed else chatCompletionsPath)
        in case exchange \<lparr>call_Method = ''POST'', call_URL = client_baseURL client @ path,
                call_ContentType = Some ''application/json'', call_Authorization = bearer client,
                call_Body = Some body\<rparr> of
             Inl err \<Rightarrow> Inl (Wrap CallInference err)
           | Inr answer \<Rightarrow>
             (case read_limited (client_maxResponseSize client + 1) answer of
                Inl err \<Rightarrow> Inl (Wrap ReadInference err)
              | Inr data \<Rightarrow>
                if int (length data) > client_maxResponseSize client
                then Inl (InferenceError (ResponseTooLarge (client_maxResponseSize client)))
                else if ans_Status answer < 200 \<or> ans_Status answer \<ge> 300
                then Inl (DecodeError (ans_Status answer) (scan data))
                else DecodeResponse (scan data)))"

definition ListModels ::
  "(http_call \<Rightarrow> go_error + http_answer) \<Rightarrow> Client \<Rightarrow> go_error + (int \<times> string \<times> string)" where
  "ListModels exchange client =
     (case exchange \<lparr>call_Method = ''GET'', call_URL = client_baseURL client @ modelsPath,
           call_ContentType = None, call_Authorization = bearer client, call_Body = None\<rparr> of
        Inl err \<Rightarrow> Inl (Wrap CallModels err)
      | Inr answer \<Rightarrow>
        (case read_limited (client_maxResponseSize client + 1) answer of
           Inl err \<Rightarrow> Inl (Wrap ReadModels err)
         | Inr data \<Rightarrow>
           if int (length data) > client_maxResponseSize client
           then Inl (InferenceError (ModelsTooLarge (client_maxResponseSize client)))
           else Inr (ans_Status answer, ans_ContentType answer, data)))"

fun IsAPIError :: "go_error \<Rightarrow> bool" where
  "IsAPIError (InferenceError (ApiError _ _ _)) = True"
| "IsAPIError (Wrap _ e) = IsAPIError e"
| "IsAPIError _ = False"

section \<open>Lemmas\<close>

lemma decodeSingleJSON_Inr:
  "decodeSingleJSON decode reader target = Inr x \<longleftrightarrow>
     (\<exists>v. reader = JsonInput [v] None \<and> decode v target = Inr x)"
  unfolding decodeSingleJSON_def
  by (cases reader; cases "case reader of JsonInput vs _ \<Rightarrow> vs")
    (auto split: json_input.splits list.splits sum.splits option.splits)

lemma decodeSingleJSON_Inl:
  "decodeSingleJSON decode reader target = Inl e \<Longrightarrow>
     (\<exists>v. decode v target = Inl e) \<or> (\<exists>vs. reader = JsonInput vs (Some e)) \<or>
     e = External ''EOF'' \<or> e = InferenceError TrailingResponse"
  unfolding decodeSingleJSON_def
  by (auto split: json_input.splits list.splits sum.splits option.splits if_splits)

text \<open>What a caller is told of a generation: its first choice, the message before the text.\<close>

definition first_choice :: "openAIGenerationResponse \<Rightarrow> inference_response option" where
  "first_choice g =
     (case gen_Choices g of
        [] \<Rightarrow> None
      | choice # _ \<Rightarrow> Some
          \<lparr>OutputText = (if choice_Content choice = [] then choice_Text choice else choice_Content choice),
           ProviderModel = gen_Model g, FinishReason = choice_FinishReason choice, TokenUsage = gen_Usage g\<rparr>)"

lemma DecodeResponse_Inr:
  "DecodeResponse reader = Inr response \<longleftrightarrow>
     (\<exists>v g. reader = JsonInput [v] None \<and> decode_generation v zero_generation = Inr g \<and>
        first_choice g = Some response)"
proof (cases "decodeSingleJSON decode_generation reader zero_generation")
  case (Inl e)
  then have "\<not> (\<exists>v g. reader = JsonInput [v] None \<and> decode_generation v zero_generation = Inr g)"
    using decodeSingleJSON_Inr [of decode_generation reader zero_generation] by auto
  with Inl show ?thesis by (auto simp: DecodeResponse_def)
next
  case (Inr g)
  then obtain v where "reader = JsonInput [v] None" "decode_generation v zero_generation = Inr g"
    by (auto simp: decodeSingleJSON_Inr)
  with Inr show ?thesis
    by (cases "gen_Choices g") (auto simp: DecodeResponse_def NewResponse_def first_choice_def)
qed

text \<open>Decoding a tree never makes an error of the API.\<close>

lemma decode_fields_Inl:
  "decode_fields names store strict kvs x = Inl e \<Longrightarrow>
     e = unknown_field \<or> (\<exists>n v y. n \<in> set names \<and> store n v y = Inl e)"
  by (induction names store strict kvs x rule: decode_fields.induct)
    (auto split: option.splits if_splits sum.splits dest: json_field_in)

lemma decode_struct_Inl:
  "decode_struct names store strict j x = Inl e \<Longrightarrow>
     e = type_error \<or> e = unknown_field \<or> (\<exists>n v y. n \<in> set names \<and> store n v y = Inl e)"
  unfolding decode_struct_def by (cases j) (auto dest: decode_fields_Inl)

lemma decode_elements_Inl:
  "decode_elements decode zero js olds = Inl e \<Longrightarrow> \<exists>j y. decode j y = Inl e"
  by (induction js arbitrary: olds) (auto split: sum.splits)

lemma put_Inl: "put r f = Inl e \<longleftrightarrow> r = Inl e"
  by (cases r) auto

lemma decode_leaf_errors:
  "decode_string j old = Inl e \<Longrightarrow> e = type_error"
  "decode_int j' old' = Inl e \<Longrightarrow> e = type_error"
  by (auto simp: decode_string_def decode_int_def split: json.splits if_splits)

lemma decode_generation_error: "decode_generation j g = Inl e \<Longrightarrow> e = type_error \<or> e = unknown_field"
proof -
  have choice: "e = type_error \<or> e = unknown_field" if "decode_choice v c = Inl e" for v c e
    using decode_struct_Inl [OF that [unfolded decode_choice_def]]
    by (auto simp: put_Inl split: if_splits dest!: decode_struct_Inl decode_leaf_errors)
  have usage: "e = type_error \<or> e = unknown_field" if "decode_usage v c = Inl e" for v c e
    using decode_struct_Inl [OF that [unfolded decode_usage_def]]
    by (auto simp: put_Inl split: if_splits dest!: decode_leaf_errors)
  assume "decode_generation j g = Inl e"
  from decode_struct_Inl [OF this [unfolded decode_generation_def]] show ?thesis
    by (auto simp: put_Inl decode_slice_def split: if_splits json.splits
        dest!: decode_leaf_errors decode_elements_Inl dest: choice usage)
qed

lemma DecodeResponse_no_api_error:
  assumes "DecodeResponse reader = Inl e" and "\<And>vs err. reader = JsonInput vs (Some err) \<Longrightarrow> \<not> IsAPIError err"
  shows "\<not> IsAPIError e"
  using assms decodeSingleJSON_Inl [of decode_generation reader zero_generation]
  by (auto simp: DecodeResponse_def type_error_def unknown_field_def
      split: sum.splits list.splits dest!: decode_generation_error)

lemma DecodeError_api: "\<exists>kind message. DecodeError code reader = InferenceError (ApiError code kind message)"
  by (auto simp: DecodeError_def split: sum.split)

lemma read_limited_Inr:
  "read_limited (n + 1) answer = Inr data \<and> int (length data) \<le> n \<longleftrightarrow>
     ans_Error answer = None \<and> data = ans_Bytes answer \<and> int (length data) \<le> n"
  by (auto simp: read_limited_def split: if_splits option.splits)

lemma Messages_json_error: "Messages_json ms = Inl e \<Longrightarrow> e \<in> range ModelError"
  by (induction ms) (auto simp: Message_MarshalJSON_def split: sum.splits if_splits)

lemma EncodeRequest_error: "EncodeRequest request defaultModel = Inl e \<Longrightarrow> \<not> IsAPIError e"
  by (auto simp: EncodeRequest_def Let_def renderStructuredCompletionPrompt_def 
     split: if_splits sum.splits dest!: Messages_json_error)

text \<open>The call that \<open>Generate\<close> sends for an encoded body, and what it makes of the answer.\<close>

definition generation_call :: "Client \<Rightarrow> inference_request \<Rightarrow> rat json \<Rightarrow> http_call" where
  "generation_call client request body =
     \<lparr>call_Method = ''POST'', call_URL = client_baseURL client @ RequestPath request,
      call_ContentType = Some ''application/json'', call_Authorization = bearer client, call_Body = Some body\<rparr>"

definition read_answer :: "(string \<Rightarrow> rat json_input) \<Rightarrow> Client \<Rightarrow> http_answer \<Rightarrow> go_error + inference_response" where
  "read_answer scan client answer =
     (case read_limited (client_maxResponseSize client + 1) answer of
        Inl err \<Rightarrow> Inl (Wrap ReadInference err)
      | Inr data \<Rightarrow>
          if int (length data) > client_maxResponseSize client
          then Inl (InferenceError (ResponseTooLarge (client_maxResponseSize client)))
          else if ans_Status answer < 200 \<or> ans_Status answer \<ge> 300
          then Inl (DecodeError (ans_Status answer) (scan data))
          else DecodeResponse (scan data))"

lemma Generate_sent:
  assumes "EncodeRequest request (client_defaultModel client) = Inr body"
  shows "Generate scan exchange client request =
    (case exchange (generation_call client request body) of
       Inl e \<Rightarrow> Inl (Wrap CallInference e) | Inr answer \<Rightarrow> read_answer scan client answer)"
proof -
  have "RequestPath request \<noteq> []" by (simp add: RequestPath_def completionsPath_def chatCompletionsPath_def)
  with assms show ?thesis
    by (simp add: Generate_def generation_call_def read_answer_def Let_def cong: sum.case_cong)
qed

lemma read_answer_cases:
  assumes "\<And>e. ans_Error answer = Some e \<Longrightarrow> \<not> IsAPIError e"
    and "\<And>data vs e. scan data = JsonInput vs (Some e) \<Longrightarrow> \<not> IsAPIError e"
  shows "(\<forall>response. read_answer scan client answer = Inr response \<longleftrightarrow>
      200 \<le> ans_Status answer \<and> ans_Status answer < 300 \<and> ans_Error answer = None \<and>
      int (length (ans_Bytes answer)) \<le> client_maxResponseSize client \<and>
      (\<exists>v g. scan (ans_Bytes answer) = JsonInput [v] None \<and>
         decode_generation v zero_generation = Inr g \<and> first_choice g = Some response)) \<and>
    ((\<exists>e. read_answer scan client answer = Inl e \<and> IsAPIError e) \<longleftrightarrow>
      \<not> (200 \<le> ans_Status answer \<and> ans_Status answer < 300) \<and> ans_Error answer = None \<and>
      int (length (ans_Bytes answer)) \<le> client_maxResponseSize client)"
proof (cases "ans_Error answer = None \<and> int (length (ans_Bytes answer)) \<le> client_maxResponseSize client")
  case fits: True
  then have "read_limited (client_maxResponseSize client + 1) answer = Inr (ans_Bytes answer)"
    using read_limited_Inr by blast
  with fits have "read_answer scan client answer = (if ans_Status answer < 200 \<or> ans_Status answer \<ge> 300
    then Inl (DecodeError (ans_Status answer) (scan (ans_Bytes answer))) else DecodeResponse (scan (ans_Bytes answer)))"
    by (simp add: read_answer_def)
  moreover have "IsAPIError (DecodeError code reader)" for code reader
    using DecodeError_api [of code reader] by auto
  moreover have "\<not> IsAPIError e" if "DecodeResponse (scan (ans_Bytes answer)) = Inl e" for e
    using DecodeResponse_no_api_error [OF that] assms(2) by blast
  ultimately show ?thesis using fits by (auto simp: DecodeResponse_Inr)
next
  case False
  then have "\<exists>e. read_answer scan client answer = Inl e \<and> \<not> IsAPIError e"
    using assms(1) read_limited_Inr [of "client_maxResponseSize client" answer]
    by (fastforce simp: read_answer_def read_limited_def split: if_splits option.splits)
  with False show ?thesis by auto
qed


definition demo_client :: Client where
  "demo_client = \<lparr>client_baseURL = DefaultBaseURL, client_defaultModel = ''m'', client_apiKey = [],
     client_maxResponseSize = defaultMaxResponseBytes\<rparr>"

definition demo_generation :: inference_request where
  "demo_generation = NewRequest [] \<lparr>Messages = [\<lparr>msg_Role = RoleUser, msg_Text = ''Hello'', msg_Parts = []\<rparr>]\<rparr>
     zero_options"

lemma demo_encodes: "is_ok (EncodeRequest demo_generation (client_defaultModel demo_client))"
  by (simp add: EncodeRequest_def demo_generation_def demo_client_def Let_def requiresCompletionBypass_def
      Message_MarshalJSON_def)


text \<open>
  A normalised configuration has an absolute HTTP base URL without a trailing slash, a query
  or a fragment, and a positive timeout; normalising it again changes nothing.
\<close>

theorem normalizeConfig_normal:
  assumes "normalizeConfig url_parse config0 = Inr config" and "url_parse [] = Inr \<lparr>url_Scheme = [],
    url_Host = [], url_RawQuery = [], url_Fragment = []\<rparr>"
  shows "0 < Timeout config \<and> cfg_Model config = cfg_Model config0 \<and>
    BaseURL config \<noteq> [] \<and> last (BaseURL config) \<noteq> CHR ''/'' \<and>
    (\<exists>parsed. url_parse (BaseURL config) = Inr parsed \<and> url_Scheme parsed \<in> {''http'', ''https''} \<and>
       url_Host parsed \<noteq> [] \<and> url_RawQuery parsed = [] \<and> url_Fragment parsed = []) \<and>
    normalizeConfig url_parse config = Inr config"
proof -
  have trim: "strings_TrimRight (strings_TrimRight s ''/'') ''/'' = strings_TrimRight s ''/''" for s
    by (simp add: strings_TrimRight_def dropWhile_idem)
  have end_slash: "strings_TrimRight s ''/'' \<noteq> [] \<Longrightarrow> last (strings_TrimRight s ''/'') \<noteq> CHR ''/''" for s
    using hd_dropWhile [of "\<lambda>c. c \<in> {CHR ''/''}" "rev s"] by (simp add: strings_TrimRight_def last_rev)
  let ?c1 = "if BaseURL config0 = [] then config0\<lparr>BaseURL := DefaultBaseURL\<rparr> else config0"
  let ?u = "strings_TrimRight (BaseURL ?c1) ''/''"
  from assms(1) obtain parsed where p: "url_parse ?u = Inr parsed"
    "url_Scheme parsed = ''http'' \<or> url_Scheme parsed = ''https''" "url_Host parsed \<noteq> []"
    "url_RawQuery parsed = []" "url_Fragment parsed = []"
    and c: "BaseURL config = ?u" "cfg_Model config = cfg_Model config0"
      "Timeout config = (if Timeout config0 = 0 then DefaultTimeout else Timeout config0)" "\<not> Timeout config < 0"
    unfolding normalizeConfig_def Let_def by (auto split: sum.splits if_splits)
  have ne: "?u \<noteq> []" using p assms(2) by auto
  have "0 < Timeout config" using c(3,4) by (auto simp: DefaultTimeout_def Second_def split: if_splits)
  moreover have "normalizeConfig url_parse config = Inr config"
    using p ne c \<open>0 < Timeout config\<close> trim by (cases config) (auto simp: normalizeConfig_def Let_def)
  ultimately show ?thesis using p c ne end_slash by auto
qed

theorem normalizeConfig_normal_witness:
  "let parse = (\<lambda>u. if u = [] then Inr \<lparr>url_Scheme = [], url_Host = [], url_RawQuery = [], url_Fragment = []\<rparr>
      else Inr \<lparr>url_Scheme = ''http'', url_Host = ''h'', url_RawQuery = [], url_Fragment = []\<rparr>);
      config = \<lparr>BaseURL = ''http://h'', cfg_Model = [], Timeout = DefaultTimeout\<rparr>
   in normalizeConfig parse \<lparr>BaseURL = ''http://h//'', cfg_Model = [], Timeout = 0\<rparr> = Inr config \<and>
      normalizeConfig parse config = Inr config"
proof -
  let ?parse = "\<lambda>u. if u = [] then Inr \<lparr>url_Scheme = [], url_Host = [], url_RawQuery = [], url_Fragment = []\<rparr>
      else Inr \<lparr>url_Scheme = ''http'', url_Host = ''h'', url_RawQuery = [], url_Fragment = []\<rparr> :: go_error + url"
  have "normalizeConfig ?parse \<lparr>BaseURL = ''http://h//'', cfg_Model = [], Timeout = 0\<rparr>
    = Inr \<lparr>BaseURL = ''http://h'', cfg_Model = [], Timeout = DefaultTimeout\<rparr>"
    by (simp add: normalizeConfig_def strings_TrimRight_def DefaultTimeout_def Second_def)
  from normalizeConfig_normal [OF this] this show ?thesis by simp
qed

end
