(* ===== verification/Jobs.thy ===== *)
theory Jobs
  imports Model Errors "HOL-Library.Monad_Syntax"
begin

text \<open>
  \<open>lib/jobs/jobs.go\<close>: jobs, their requests, results and updates, the making of a job, the
  JSON of requests and results (struct tags), and the interfaces \<open>Store\<close> and \<open>Queue\<close> with
  their contracts as locales. An implementation of an interface is a record of its methods
  over its own state \<open>'s\<close>; a method returns its result and the state after it.
\<close>

section \<open>Jobs\<close>

type_synonym Status = string

abbreviation StatusQueued :: Status where "StatusQueued \<equiv> ''queued''"
abbreviation StatusRunning :: Status where "StatusRunning \<equiv> ''running''"
abbreviation StatusSucceeded :: Status where "StatusSucceeded \<equiv> ''succeeded''"
abbreviation StatusFailed :: Status where "StatusFailed \<equiv> ''failed''"

record Request =
  ModelCatalog :: ModelID
  req_Model :: string
  Profile :: OptionProfile
  Translation :: TranslationRequest

record Result =
  res_Translation :: string
  res_Model :: string
  res_FinishReason :: string
  res_PromptTokens :: int
  res_OutputTokens :: int
  res_TotalTokens :: int

record Job =
  job_ID :: string
  OwnerID :: string
  job_Status :: Status
  job_Request :: Request
  job_Result :: "Result option"
  job_Error :: string
  CreatedAt :: time
  UpdatedAt :: time
  StartedAt :: "time option"
  CompletedAt :: "time option"
  ExpiresAt :: time

record Update =
  upd_Status :: Status
  upd_Result :: "Result option"
  upd_Error :: string
  upd_UpdatedAt :: time
  upd_StartedAt :: "time option"
  upd_CompletedAt :: "time option"

record ListOptions =
  opt_Limit :: int
  opt_Before :: time

definition zero_translation :: TranslationRequest where
  "zero_translation = \<lparr>Source = [], TargetLanguage = [], Kind = [], SourceLanguage = [],
     Glossary = None, Style = [], Audience = [], TranslatableAttributes = [], Delimiters = []\<rparr>"

definition zero_request :: Request where
  "zero_request = \<lparr>ModelCatalog = [], req_Model = [], Profile = [], Translation = zero_translation\<rparr>"

definition zero_result :: Result where
  "zero_result = \<lparr>res_Translation = [], res_Model = [], res_FinishReason = [],
     res_PromptTokens = 0, res_OutputTokens = 0, res_TotalTokens = 0\<rparr>"

section \<open>Making and copying jobs\<close>

text \<open>\<open>entropy\<close> is what \<open>crypto/rand\<close> returned: 16 bytes or its error.\<close>

definition hex_EncodeToString :: "string \<Rightarrow> string" where
  "hex_EncodeToString bs = concat (map (\<lambda>b. hex_digits 2 (byte b)) bs)"

definition NewID :: "go_error + string \<Rightarrow> go_error + string" where
  "NewID entropy =
     (case entropy of
        Inl err \<Rightarrow> Inl (Wrap GenerateJobID err)
      | Inr value \<Rightarrow> Inr (hex_EncodeToString value))"

definition NewJob ::
  "string \<Rightarrow> Request \<Rightarrow> time \<Rightarrow> duration \<Rightarrow> go_error + string \<Rightarrow> go_error + Job" where
  "NewJob ownerID request now retention entropy =
     (if ownerID = [] then Inl (JobsError JobOwnerEmpty)
      else if retention \<le> 0 then Inl (JobsError RetentionNotPositive)
      else (case NewID entropy of
              Inl err \<Rightarrow> Inl err
            | Inr mid \<Rightarrow> Inr
                \<lparr>job_ID = mid, OwnerID = ownerID, job_Status = StatusQueued, job_Request = request,
                 job_Result = None, job_Error = [], CreatedAt = now, UpdatedAt = now,
                 StartedAt = None, CompletedAt = None, ExpiresAt = now + retention\<rparr>))"

text \<open>A copied map has the same entries; the order in which it is ranged over stays open.\<close>

definition cloneMap :: "(string \<times> string) list option \<Rightarrow> (string \<times> string) list option" where
  "cloneMap value =
     (case value of None \<Rightarrow> None | Some m \<Rightarrow> Some (map (\<lambda>(key, item). (key, item)) m))"

definition cloneTime :: "time option \<Rightarrow> time option" where
  "cloneTime value = (case value of None \<Rightarrow> None | Some t \<Rightarrow> Some t)"

definition CloneJob :: "Job \<Rightarrow> Job" where
  "CloneJob job =
     job\<lparr>job_Request := (job_Request job)\<lparr>Translation := (Translation (job_Request job))
            \<lparr>Glossary := cloneMap (Glossary (Translation (job_Request job))),
             TranslatableAttributes := [] @ TranslatableAttributes (Translation (job_Request job)),
             Delimiters := [] @ Delimiters (Translation (job_Request job))\<rparr>\<rparr>,
         job_Result := (case job_Result job of None \<Rightarrow> None | Some result \<Rightarrow> Some result),
         StartedAt := cloneTime (StartedAt job),
         CompletedAt := cloneTime (CompletedAt job)\<rparr>"

lemma CloneJob_id [simp]: "CloneJob job = job"
proof -
  have "map (\<lambda>(key, item). (key, item)) m = m" for m :: "(string \<times> string) list"
    by (simp add: case_prod_unfold)
  then show ?thesis
    by (simp add: CloneJob_def cloneMap_def cloneTime_def split: option.split)
qed

text \<open>What \<open>Update\<close> does to the job it finds, in every store.\<close>

definition apply_update :: "Update \<Rightarrow> Job \<Rightarrow> Job" where
  "apply_update update job =
     job\<lparr>job_Status := upd_Status update,
         job_Result := upd_Result update,
         job_Error := upd_Error update,
         UpdatedAt := upd_UpdatedAt update,
         StartedAt := (case upd_StartedAt update of None \<Rightarrow> StartedAt job | Some t \<Rightarrow> Some t),
         CompletedAt := (case upd_CompletedAt update of None \<Rightarrow> CompletedAt job | Some t \<Rightarrow> Some t)\<rparr>"

lemma apply_update_simps [simp]:
  "job_ID (apply_update u j) = job_ID j" "OwnerID (apply_update u j) = OwnerID j"
  "job_Request (apply_update u j) = job_Request j" "CreatedAt (apply_update u j) = CreatedAt j"
  "ExpiresAt (apply_update u j) = ExpiresAt j" "job_Status (apply_update u j) = upd_Status u"
  "job_Result (apply_update u j) = upd_Result u" "job_Error (apply_update u j) = upd_Error u"
  "UpdatedAt (apply_update u j) = upd_UpdatedAt u"
  by (simp_all add: apply_update_def)

section \<open>JSON of requests and results\<close>

definition TranslationRequest_json :: "TranslationRequest \<Rightarrow> rat json" where
  "TranslationRequest_json r = json_struct
     [(''source'', Some (json_string (Source r))),
      (''target_language'', Some (json_string (TargetLanguage r))),
      (''kind'', omit_string (Kind r)),
      (''source_language'', omit_string (SourceLanguage r)),
      (''glossary'', Some (json_map (Glossary r))),
      (''style'', omit_string (Style r)),
      (''audience'', omit_string (Audience r)),
      (''translatable_attributes'', omit_strings (TranslatableAttributes r)),
      (''delimiters'', omit_strings (Delimiters r))]"

definition Request_json :: "Request \<Rightarrow> rat json" where
  "Request_json r = json_struct
     [(''model_catalog'', Some (json_string (ModelCatalog r))),
      (''model'', omit_string (req_Model r)),
      (''profile'', omit_string (Profile r)),
      (''translation'', Some (TranslationRequest_json (Translation r)))]"

definition Result_json :: "Result \<Rightarrow> rat json" where
  "Result_json r = json_struct
     [(''translation'', Some (json_string (res_Translation r))),
      (''model'', omit_string (res_Model r)),
      (''finish_reason'', omit_string (res_FinishReason r)),
      (''prompt_tokens'', omit_int (res_PromptTokens r)),
      (''output_tokens'', omit_int (res_OutputTokens r)),
      (''total_tokens'', omit_int (res_TotalTokens r))]"

definition translation_names :: "string list" where
  "translation_names = [''source'', ''target_language'', ''kind'', ''source_language'',
     ''glossary'', ''style'', ''audience'', ''translatable_attributes'', ''delimiters'']"

definition store_translation ::
  "string \<Rightarrow> rat json \<Rightarrow> TranslationRequest \<Rightarrow> go_error + TranslationRequest" where
  "store_translation name v r =
     (if name = ''source'' then put (decode_string v (Source r)) (\<lambda>x. r\<lparr>Source := x\<rparr>)
      else if name = ''target_language''
      then put (decode_string v (TargetLanguage r)) (\<lambda>x. r\<lparr>TargetLanguage := x\<rparr>)
      else if name = ''kind'' then put (decode_string v (Kind r)) (\<lambda>x. r\<lparr>Kind := x\<rparr>)
      else if name = ''source_language''
      then put (decode_string v (SourceLanguage r)) (\<lambda>x. r\<lparr>SourceLanguage := x\<rparr>)
      else if name = ''glossary'' then put (decode_map v (Glossary r)) (\<lambda>x. r\<lparr>Glossary := x\<rparr>)
      else if name = ''style'' then put (decode_string v (Style r)) (\<lambda>x. r\<lparr>Style := x\<rparr>)
      else if name = ''audience'' then put (decode_string v (Audience r)) (\<lambda>x. r\<lparr>Audience := x\<rparr>)
      else if name = ''translatable_attributes''
      then put (decode_strings v (TranslatableAttributes r)) (\<lambda>x. r\<lparr>TranslatableAttributes := x\<rparr>)
      else put (decode_strings v (Delimiters r)) (\<lambda>x. r\<lparr>Delimiters := x\<rparr>))"

definition decode_translation ::
  "bool \<Rightarrow> rat json \<Rightarrow> TranslationRequest \<Rightarrow> go_error + TranslationRequest" where
  "decode_translation strict = decode_struct translation_names store_translation strict"

definition request_names :: "string list" where
  "request_names = [''model_catalog'', ''model'', ''profile'', ''translation'']"

definition store_request :: "bool \<Rightarrow> string \<Rightarrow> rat json \<Rightarrow> Request \<Rightarrow> go_error + Request" where
  "store_request strict name v r =
     (if name = ''model_catalog'' then put (decode_string v (ModelCatalog r)) (\<lambda>x. r\<lparr>ModelCatalog := x\<rparr>)
      else if name = ''model'' then put (decode_string v (req_Model r)) (\<lambda>x. r\<lparr>req_Model := x\<rparr>)
      else if name = ''profile'' then put (decode_string v (Profile r)) (\<lambda>x. r\<lparr>Profile := x\<rparr>)
      else put (decode_translation strict v (Translation r)) (\<lambda>x. r\<lparr>Translation := x\<rparr>))"

definition decode_Request :: "bool \<Rightarrow> rat json \<Rightarrow> Request \<Rightarrow> go_error + Request" where
  "decode_Request strict = decode_struct request_names (store_request strict) strict"

definition result_names :: "string list" where
  "result_names = [''translation'', ''model'', ''finish_reason'', ''prompt_tokens'',
     ''output_tokens'', ''total_tokens'']"

definition store_result :: "string \<Rightarrow> rat json \<Rightarrow> Result \<Rightarrow> go_error + Result" where
  "store_result name v r =
     (if name = ''translation''
      then put (decode_string v (res_Translation r)) (\<lambda>x. r\<lparr>res_Translation := x\<rparr>)
      else if name = ''model'' then put (decode_string v (res_Model r)) (\<lambda>x. r\<lparr>res_Model := x\<rparr>)
      else if name = ''finish_reason''
      then put (decode_string v (res_FinishReason r)) (\<lambda>x. r\<lparr>res_FinishReason := x\<rparr>)
      else if name = ''prompt_tokens''
      then put (decode_int v (res_PromptTokens r)) (\<lambda>x. r\<lparr>res_PromptTokens := x\<rparr>)
      else if name = ''output_tokens''
      then put (decode_int v (res_OutputTokens r)) (\<lambda>x. r\<lparr>res_OutputTokens := x\<rparr>)
      else put (decode_int v (res_TotalTokens r)) (\<lambda>x. r\<lparr>res_TotalTokens := x\<rparr>))"

definition decode_Result :: "rat json \<Rightarrow> Result \<Rightarrow> go_error + Result" where
  "decode_Result = decode_struct result_names store_result False"

section \<open>Stores and queues\<close>

text \<open>
  A \<open>context.Context\<close> at the time of a call is its \<open>Err()\<close>. The methods of \<open>Store\<close>: an
  error other than \<open>ErrNotFound\<close> comes from the driver or the network.
\<close>

datatype (plugins only: code size) cancellation = Canceled | DeadlineExceeded

fun ctx_Err :: "cancellation \<Rightarrow> go_error" where
  "ctx_Err Canceled = External ''context canceled''"
| "ctx_Err DeadlineExceeded = External ''context deadline exceeded''"

type_synonym go_context = "cancellation option"

record 's Store =
  store_Create :: "go_context \<Rightarrow> Job \<Rightarrow> 's \<Rightarrow> (go_error + unit) \<times> 's"
  store_Get :: "go_context \<Rightarrow> string \<Rightarrow> 's \<Rightarrow> (go_error + Job) \<times> 's"
  store_Update :: "go_context \<Rightarrow> string \<Rightarrow> Update \<Rightarrow> 's \<Rightarrow> (go_error + unit) \<times> 's"
  store_List :: "go_context \<Rightarrow> string \<Rightarrow> ListOptions \<Rightarrow> 's \<Rightarrow> (go_error + Job list) \<times> 's"
  store_DeleteExpired :: "go_context \<Rightarrow> time \<Rightarrow> 's \<Rightarrow> (go_error + int) \<times> 's"

text \<open>
  The methods of \<open>Queue\<close> and of its deliveries. \<open>None\<close> is a call that blocks in the given
  state: it returns only after another goroutine or the context changes. A delivery may be nil.
\<close>

record ('s, 'd) Queue =
  queue_Enqueue :: "go_context \<Rightarrow> string \<Rightarrow> 's \<Rightarrow> ((go_error + unit) \<times> 's) option"
  queue_Receive :: "go_context \<Rightarrow> 's \<Rightarrow> ((go_error + 'd option) \<times> 's) option"
  delivery_JobID :: "'d \<Rightarrow> string"
  delivery_Ack :: "go_context \<Rightarrow> 'd \<Rightarrow> 's \<Rightarrow> ((go_error + unit) \<times> 's) option"
  delivery_Nack :: "go_context \<Rightarrow> 'd \<Rightarrow> 's \<Rightarrow> ((go_error + unit) \<times> 's) option"

text \<open>What callers may rely on. \<open>jobs s\<close> are the jobs held in the state \<open>s\<close>, \<open>canon\<close> is the
  form in which a new job is kept and \<open>keep\<close> that of an update (a database may round instants),
  \<open>storable\<close> and \<open>updatable\<close> say which values a store keeps. A failed write may or may not have
  taken effect.\<close>

locale job_store =
  fixes S :: "'s Store"
    and jobs :: "'s \<Rightarrow> string \<Rightarrow> Job option"
    and inv :: "'s \<Rightarrow> bool"
    and canon :: "Job \<Rightarrow> Job"
    and keep :: "Update \<Rightarrow> Update"
    and storable :: "Job \<Rightarrow> bool"
    and updatable :: "Update \<Rightarrow> bool"
  assumes keyed: "inv s \<Longrightarrow> jobs s i = Some j \<Longrightarrow> job_ID j = i"
    and canon_same: "job_ID (canon j) = job_ID j" "OwnerID (canon j) = OwnerID j"
      "job_Status (canon j) = job_Status j"
    and keep_status: "upd_Status (keep u) = upd_Status u"
    and Get: "inv s \<Longrightarrow> store_Get S ctx i s = (rj, s') \<Longrightarrow>
      inv s' \<and> jobs s' = jobs s \<and>
      (case rj of Inr j \<Rightarrow> jobs s i = Some j | Inl e \<Rightarrow> errors_Is e ErrNotFound \<longrightarrow> jobs s i = None)"
    and Create: "inv s \<Longrightarrow> storable job \<Longrightarrow> jobs s (job_ID job) = None \<Longrightarrow>
      store_Create S ctx job s = (r0, s') \<Longrightarrow>
      inv s' \<and> (jobs s' = (jobs s)(job_ID job \<mapsto> canon job) \<or>
                (\<exists>e. r0 = Inl e) \<and> jobs s' = jobs s)"
    and Update: "inv s \<Longrightarrow> updatable u \<Longrightarrow> store_Update S ctx i u s = (r0, s') \<Longrightarrow>
      inv s' \<and>
      ((\<exists>j. jobs s i = Some j \<and> jobs s' = (jobs s)(i \<mapsto> apply_update (keep u) j)) \<and> r0 \<noteq> Inl ErrNotFound \<or>
       (\<exists>e. r0 = Inl e \<and> (errors_Is e ErrNotFound \<longrightarrow> jobs s i = None)) \<and> jobs s' = jobs s)"
begin

lemma Get_found: "inv s \<Longrightarrow> store_Get S ctx i s = (Inr j, s') \<Longrightarrow> jobs s i = Some j \<and> job_ID j = i"
  using Get [of s ctx i "Inr j" s'] keyed by auto

lemma Create_Get:
  assumes "inv s" "storable job" "jobs s (job_ID job) = None"
    and "store_Create S ctx job s = (Inr (), s')" and "store_Get S ctx' (job_ID job) s' = (Inr j, s'')"
  shows "j = canon job"
  using Create [OF assms(1-4)] Get_found [OF _ assms(5)] by auto

text \<open>Whatever an update does, it keeps the identity, the owner, the request and the dates of
  creation and expiry of every job, and adds and removes none.\<close>

lemma Update_frame:
  assumes "inv s" "updatable u" "store_Update S ctx i u s = (r, s')"
  shows "dom (jobs s') = dom (jobs s) \<and>
    (jobs s' k = Some j' \<longrightarrow> (\<exists>j. jobs s k = Some j \<and> job_ID j' = job_ID j \<and> OwnerID j' = OwnerID j \<and>
      job_Request j' = job_Request j \<and> CreatedAt j' = CreatedAt j \<and> ExpiresAt j' = ExpiresAt j \<and>
      (k \<noteq> i \<longrightarrow> j' = j)))"
  using Update [OF assms] by (auto simp: insert_absorb split: if_splits)

lemma Update_ok:
  assumes "inv s" "updatable u" "store_Update S ctx i u s = (Inr (), s')"
  shows "inv s' \<and> (\<exists>j. jobs s i = Some j \<and> jobs s' = (jobs s)(i \<mapsto> apply_update (keep u) j))"
  using Update [OF assms] by auto

end

text \<open>The history of an owner, newest first: at most \<open>limit\<close> jobs created before the bound, and
  a job left out is not newer than any job listed.\<close>

definition effective_limit :: "ListOptions \<Rightarrow> nat" where
  "effective_limit options = nat (if opt_Limit options \<le> 0 then 20 else opt_Limit options)"

definition in_history :: "string \<Rightarrow> ListOptions \<Rightarrow> Job \<Rightarrow> bool" where
  "in_history owner options job \<longleftrightarrow>
     OwnerID job = owner \<and> (IsZero (opt_Before options) \<or> CreatedAt job < opt_Before options)"

locale job_history = job_store +
  fixes listable :: "ListOptions \<Rightarrow> bool"
  assumes List: "inv s \<Longrightarrow> store_List S ctx owner options s = (rl, s') \<Longrightarrow>
      inv s' \<and> jobs s' = jobs s \<and>
      (case rl of Inl _ \<Rightarrow> True
       | Inr history \<Rightarrow>
           distinct (map job_ID history) \<and>
           (\<forall>j \<in> set history. jobs s (job_ID j) = Some j \<and> OwnerID j = owner) \<and>
           sorted (map (\<lambda>j. - CreatedAt j) history) \<and>
           length history \<le> effective_limit options \<and>
           (listable options \<longrightarrow>
              (\<forall>j \<in> set history. in_history owner options j) \<and>
              (\<forall>i j. jobs s i = Some j \<and> in_history owner options j \<and> j \<notin> set history \<longrightarrow>
                 length history = effective_limit options \<and>
                 (\<forall>listed \<in> set history. CreatedAt j \<le> CreatedAt listed))))"
begin

lemma List_owner:
  "inv s \<Longrightarrow> store_List S ctx owner options s = (Inr history, s') \<Longrightarrow> j \<in> set history \<Longrightarrow>
     OwnerID j = owner \<and> jobs s (job_ID j) = Some j"
  using List [of s ctx owner options "Inr history" s'] by auto

end

locale job_expiry = job_store +
  fixes expirable :: "time \<Rightarrow> bool"
  assumes DeleteExpired: "inv s \<Longrightarrow> expirable before \<Longrightarrow> store_DeleteExpired S ctx before s = (rn, s') \<Longrightarrow>
      inv s' \<and>
      (case rn of Inl _ \<Rightarrow> True
       | Inr n \<Rightarrow>
           jobs s' = (\<lambda>i. case jobs s i of None \<Rightarrow> None
                        | Some j \<Rightarrow> if ExpiresAt j \<le> before then None else Some j))"
begin

lemma weaken: "(\<And>t. e t \<Longrightarrow> expirable t) \<Longrightarrow> job_expiry S jobs inv canon keep storable updatable e"
  by unfold_locales (rule DeleteExpired)

end

text \<open>A queue. \<open>waiting s\<close> are the jobs that will be delivered: enqueueing a job the queue \<open>accepts\<close> and
  giving back a delivery add to them, receiving and acknowledging take away the delivered job only. A
  delivery can be settled while it is \<open>outstanding\<close>; a reliable queue says so of every delivery just
  received (a queue that limits the number of deliveries does not).\<close>

locale job_queue =
  fixes Q :: "('s, 'd) Queue"
    and inv :: "'s \<Rightarrow> bool"
    and waiting :: "'s \<Rightarrow> string set"
    and accepts :: "'s \<Rightarrow> string \<Rightarrow> bool"
    and outstanding :: "'s \<Rightarrow> 'd \<Rightarrow> bool"
  assumes enqueued: "inv s \<Longrightarrow> queue_Enqueue Q ctx i s = Some (r0, s') \<Longrightarrow>
      inv s' \<and> waiting s \<subseteq> waiting s' \<and> (r0 = Inr () \<and> accepts s i \<longrightarrow> i \<in> waiting s')"
    and received: "inv s \<Longrightarrow> queue_Receive Q ctx s = Some (rd, s') \<Longrightarrow>
      inv s' \<and>
      (case rd of
         Inr (Some d) \<Rightarrow> delivery_JobID Q d \<in> waiting s \<and> waiting s - {delivery_JobID Q d} \<subseteq> waiting s'
       | _ \<Rightarrow> waiting s \<subseteq> waiting s')"
    and acked: "inv s \<Longrightarrow> outstanding s d \<Longrightarrow> delivery_Ack Q ctx d s = Some (r0, s') \<Longrightarrow>
      inv s' \<and> waiting s - {delivery_JobID Q d} \<subseteq> waiting s'"
    and nacked: "inv s \<Longrightarrow> outstanding s d \<Longrightarrow> delivery_Nack Q ctx d s = Some (r0, s') \<Longrightarrow>
      inv s' \<and> waiting s \<subseteq> waiting s' \<and> (r0 = Inr () \<longrightarrow> delivery_JobID Q d \<in> waiting s')"

locale reliable_queue = job_queue +
  assumes received_outstanding:
    "inv s \<Longrightarrow> queue_Receive Q ctx s = Some (Inr (Some d), s') \<Longrightarrow> outstanding s' d"

text \<open>A store and a queue over one state, where neither part disturbs the other.\<close>

locale job_backend =
  job_store S jobs inv canon keep storable updatable + job_queue Q inv waiting accepts outstanding
  for S :: "'s Store" and jobs :: "'s \<Rightarrow> string \<Rightarrow> Job option" and inv canon keep storable updatable
    and Q :: "('s, 'd) Queue" and waiting :: "'s \<Rightarrow> string set"
    and accepts :: "'s \<Rightarrow> string \<Rightarrow> bool" and outstanding :: "'s \<Rightarrow> 'd \<Rightarrow> bool" +
  assumes Get_waiting: "inv s \<Longrightarrow> store_Get S ctx i s = (rj, s') \<Longrightarrow>
      waiting s' = waiting s \<and> accepts s' = accepts s \<and> outstanding s' = outstanding s"
    and Create_waiting: "inv s \<Longrightarrow> store_Create S ctx job s = (r0, s') \<Longrightarrow>
      waiting s' = waiting s \<and> accepts s' = accepts s \<and> outstanding s' = outstanding s"
    and Update_waiting: "inv s \<Longrightarrow> store_Update S ctx i u s = (r0, s') \<Longrightarrow>
      waiting s' = waiting s \<and> accepts s' = accepts s \<and> outstanding s' = outstanding s"
    and Enqueue_jobs: "inv s \<Longrightarrow> queue_Enqueue Q ctx i s = Some (r0, s') \<Longrightarrow> jobs s' = jobs s"
    and Receive_jobs: "inv s \<Longrightarrow> queue_Receive Q ctx s = Some (rd, s') \<Longrightarrow> jobs s' = jobs s"
    and Ack_jobs: "inv s \<Longrightarrow> delivery_Ack Q ctx d s = Some (r0, s') \<Longrightarrow> jobs s' = jobs s"
    and Nack_jobs: "inv s \<Longrightarrow> delivery_Nack Q ctx d s = Some (r0, s') \<Longrightarrow> jobs s' = jobs s"
begin

lemmas Enqueue = enqueued Enqueue_jobs
lemmas Receive = received Receive_jobs
lemmas Ack = acked Ack_jobs

lemma Nack: "inv s \<Longrightarrow> outstanding s d \<Longrightarrow> delivery_Nack Q ctx d s = Some (r0, s') \<Longrightarrow>
    jobs s' = jobs s \<and> inv s' \<and> waiting s \<subseteq> waiting s' \<and> (r0 = Inr () \<longrightarrow> delivery_JobID Q d \<in> waiting s')"
  using nacked [of s d ctx r0 s'] Nack_jobs [of s ctx d r0 s'] by simp

end

locale reliable_backend = job_backend S jobs inv canon keep storable updatable Q waiting accepts outstanding +
  reliable_queue Q inv waiting accepts outstanding
  for S :: "'s Store" and jobs inv canon keep storable updatable
    and Q :: "('s, 'd) Queue" and waiting accepts outstanding

section \<open>The JSON round trip\<close>

text \<open>
  What comes back from JSON: the same request, its glossary in key order. Strings have to be
  valid UTF-8, as every string that a JSON decoder produced is.
\<close>

definition canon_request :: "Request \<Rightarrow> Request" where
  "canon_request r = r\<lparr>Translation := (Translation r)
     \<lparr>Glossary := map_option (sort_key fst) (Glossary (Translation r))\<rparr>\<rparr>"

definition translation_utf8 :: "TranslationRequest \<Rightarrow> bool" where
  "translation_utf8 r \<longleftrightarrow>
     valid_utf8 (Source r) \<and> valid_utf8 (TargetLanguage r) \<and> valid_utf8 (Kind r) \<and>
     valid_utf8 (SourceLanguage r) \<and> valid_utf8 (Style r) \<and> valid_utf8 (Audience r) \<and>
     list_all valid_utf8 (TranslatableAttributes r) \<and> list_all valid_utf8 (Delimiters r) \<and>
     go_map (glossary_entries r) \<and>
     list_all (\<lambda>(k, v). valid_utf8 k \<and> valid_utf8 v) (glossary_entries r)"

definition request_utf8 :: "Request \<Rightarrow> bool" where
  "request_utf8 r \<longleftrightarrow>
     valid_utf8 (ModelCatalog r) \<and> valid_utf8 (req_Model r) \<and> valid_utf8 (Profile r) \<and>
     translation_utf8 (Translation r)"

definition result_utf8 :: "Result \<Rightarrow> bool" where
  "result_utf8 r \<longleftrightarrow>
     valid_utf8 (res_Translation r) \<and> valid_utf8 (res_Model r) \<and> valid_utf8 (res_FinishReason r) \<and>
     is_int64 (res_PromptTokens r) \<and> is_int64 (res_OutputTokens r) \<and> is_int64 (res_TotalTokens r)"

lemma map_to_valid_utf8: "list_all valid_utf8 ss \<Longrightarrow> map to_valid_utf8 ss = ss"
  by (induction ss) auto

lemma decode_map_Glossary:
  "go_map (glossary_entries r) \<Longrightarrow> list_all (\<lambda>(k, v). valid_utf8 k \<and> valid_utf8 v) (glossary_entries r) \<Longrightarrow>
     decode_map (json_map (Glossary r)) None = Inr (map_option (sort_key fst) (Glossary r))"
proof (cases "Glossary r")
  case None
  then show ?thesis by (simp add: json_map_def decode_map_def)
next
  case (Some m)
  moreover assume "go_map (glossary_entries r)"
    and "list_all (\<lambda>(k, v). valid_utf8 k \<and> valid_utf8 v) (glossary_entries r)"
  ultimately show ?thesis
    by (simp add: glossary_entries_def list_all_iff decode_map_json_map)
qed

lemma decode_translation_json:
  assumes "translation_utf8 r"
  shows "decode_translation strict (TranslationRequest_json r) zero_translation =
    Inr (r\<lparr>Glossary := map_option (sort_key fst) (Glossary r)\<rparr>)"
proof -
  have "decode_map (json_map (Glossary r) :: rat json) None = Inr (map_option (sort_key fst) (Glossary r))"
    using assms by (intro decode_map_Glossary) (auto simp: translation_utf8_def)
  with assms show ?thesis
    by (cases r)
      (auto simp: decode_translation_def TranslationRequest_json_def json_struct_def decode_struct_def
        translation_names_def store_translation_def zero_translation_def omit_string_def
        omit_strings_def translation_utf8_def map_to_valid_utf8)
qed

lemma decode_Request_json:
  assumes "request_utf8 r"
  shows "decode_Request strict (Request_json r) zero_request = Inr (canon_request r)"
  using assms decode_translation_json [of "Translation r" strict]
  by (cases r)
    (auto simp: decode_Request_def Request_json_def json_struct_def decode_struct_def
      request_names_def store_request_def zero_request_def omit_string_def request_utf8_def
      canon_request_def)

lemma decode_Result_json:
  assumes "result_utf8 r"
  shows "decode_Result (Result_json r) zero_result = Inr r"
  using assms decode_int_JNumber [of _ 0]
  by (cases r)
    (auto simp: decode_Result_def Result_json_def json_struct_def decode_struct_def
      result_names_def store_result_def zero_result_def omit_string_def omit_int_def result_utf8_def)

section \<open>An example\<close>

definition demo_job :: Job where
  "demo_job = \<lparr>job_ID = ''a1'', OwnerID = ''alice'', job_Status = StatusQueued,
     job_Request = \<lparr>ModelCatalog = ''hymt2-7b'', req_Model = [], Profile = [],
       Translation = zero_translation\<lparr>Source := ''Hi'', TargetLanguage := LanguageKorean, Glossary := Some []\<rparr>\<rparr>,
     job_Result = None, job_Error = [], CreatedAt = 5, UpdatedAt = 5, StartedAt = None, CompletedAt = None,
     ExpiresAt = 1005\<rparr>"

definition demo_update :: Update where
  "demo_update = \<lparr>upd_Status = StatusFailed, upd_Result = None, upd_Error = ''no server'',
     upd_UpdatedAt = 7, upd_StartedAt = Some 6, upd_CompletedAt = Some 7\<rparr>"

end
