(* ===== verification/Go_Quote.thy ===== *)
theory Go_Quote
  imports Go_Strings
begin

text \<open>
  \<open>strconv.Quote\<close> is a prefix code: what it quoted, and where the quoted text ends, can be read off.
\<close>

section \<open>Bytes of a rune\<close>

lemma byte_less: "byte c < 256"
  by (simp add: byte_def)

lemma byte_inject: "byte c = byte d \<longleftrightarrow> c = d"
  by (simp add: byte_def)

text \<open>A rune as \<open>runes\<close> returns it: an encoded rune, which is read again whatever follows it, or an
  invalid byte.\<close>

definition encoded :: "nat \<times> string \<Rightarrow> bool" where
  "encoded rb \<longleftrightarrow> snd rb \<noteq> [] \<and> \<not> (fst rb = RuneError \<and> length (snd rb) = 1) \<and>
     (\<forall>t. DecodeRune (snd rb @ t) = (fst rb, length (snd rb)))"

definition invalid_byte :: "nat \<times> string \<Rightarrow> bool" where
  "invalid_byte rb \<longleftrightarrow> fst rb = RuneError \<and> (\<exists>c. snd rb = [c] \<and> 0x80 \<le> byte c)"

text \<open>The four lengths of an encoded rune.\<close>

lemma DecodeRune_cases:
  assumes "s \<noteq> []" and "DecodeRune s = (r, n)"
  obtains (ascii) c t where "s = c # t" "byte c < 0x80" "r = byte c" "n = 1"
  | (bad) c t where "s = c # t" "0x80 \<le> byte c" "r = RuneError" "n = 1"
  | (two) c0 c1 t where "s = c0 # c1 # t" "in_range 0xC2 0xDF c0"
      "in_range (fst (second_range c0)) (snd (second_range c0)) c1"
      "r = (byte c0 - 0xC0) * 64 + (byte c1 - 0x80)" "n = 2"
  | (three) c0 c1 c2 t where "s = c0 # c1 # c2 # t" "in_range 0xE0 0xEF c0"
      "in_range (fst (second_range c0)) (snd (second_range c0)) c1" "continuation c2"
      "r = (byte c0 - 0xE0) * 4096 + (byte c1 - 0x80) * 64 + (byte c2 - 0x80)" "n = 3"
  | (four) c0 c1 c2 c3 t where "s = c0 # c1 # c2 # c3 # t" "in_range 0xF0 0xF4 c0"
      "in_range (fst (second_range c0)) (snd (second_range c0)) c1" "continuation c2" "continuation c3"
      "r = (byte c0 - 0xF0) * 262144 + (byte c1 - 0x80) * 4096 + (byte c2 - 0x80) * 64 + (byte c3 - 0x80)" "n = 4"
proof -
  obtain c0 r0 where s: "s = c0 # r0" using assms(1) by (cases s) auto
  show thesis
  proof (cases "byte c0 < 0x80 \<or> n = 1")
    case True
    with assms(2) s ascii bad show thesis
      by (auto simp: DecodeRune_def split: list.splits if_splits)
  next
    case False
    then obtain c1 r1 where r0: "r0 = c1 # r1"
      "in_range (fst (second_range c0)) (snd (second_range c0)) c1"
      using assms(2) s by (auto simp: DecodeRune_def split: list.splits if_splits)
    show thesis
    proof (cases "in_range 0xC2 0xDF c0")
      case True
      with assms(2) s r0 False two show thesis by (simp add: DecodeRune_def)
    next
      case notwo: False
      then obtain c2 r2 where r1: "r1 = c2 # r2" "continuation c2" "in_range 0xE0 0xF4 c0"
        using assms(2) s r0 False by (auto simp: DecodeRune_def split: list.splits if_splits)
      show thesis
      proof (cases "in_range 0xE0 0xEF c0")
        case True
        with assms(2) s r0 r1 notwo False three show thesis by (simp add: DecodeRune_def)
      next
        case nothree: False
        then obtain c3 r3 where "r2 = c3 # r3" "continuation c3"
          using assms(2) s r0 r1 notwo False by (auto simp: DecodeRune_def split: list.splits if_splits)
        moreover have "in_range 0xF0 0xF4 c0" using r1(3) nothree by (simp add: in_range_def)
        ultimately show thesis
          using assms(2) s r0 r1 notwo nothree False four by (simp add: DecodeRune_def)
      qed
    qed
  qed
qed

lemma DecodeRune_parts:
  "byte c < 0x80 \<Longrightarrow> DecodeRune (c # t) = (byte c, 1)"
  "in_range 0xC2 0xDF c0 \<Longrightarrow> in_range (fst (second_range c0)) (snd (second_range c0)) c1 \<Longrightarrow>
     DecodeRune (c0 # c1 # t) = ((byte c0 - 0xC0) * 64 + (byte c1 - 0x80), 2)"
  "in_range 0xE0 0xEF c0 \<Longrightarrow> in_range (fst (second_range c0)) (snd (second_range c0)) c1 \<Longrightarrow> continuation c2 \<Longrightarrow>
     DecodeRune (c0 # c1 # c2 # t) =
       ((byte c0 - 0xE0) * 4096 + (byte c1 - 0x80) * 64 + (byte c2 - 0x80), 3)"
  "in_range 0xF0 0xF4 c0 \<Longrightarrow> in_range (fst (second_range c0)) (snd (second_range c0)) c1 \<Longrightarrow> continuation c2 \<Longrightarrow>
     continuation c3 \<Longrightarrow> DecodeRune (c0 # c1 # c2 # c3 # t) =
       ((byte c0 - 0xF0) * 262144 + (byte c1 - 0x80) * 4096 + (byte c2 - 0x80) * 64 + (byte c3 - 0x80), 4)"
  by (simp_all add: DecodeRune_def in_range_def)

lemma rune_kinds:
  assumes "s \<noteq> []" and "DecodeRune s = (r, n)"
  shows "encoded (r, take n s) \<or> invalid_byte (r, take n s)"
  using assms
  by (cases rule: DecodeRune_cases) (auto simp: encoded_def invalid_byte_def DecodeRune_parts RuneError_def)

lemma runes_kinds: "rb \<in> set (runes s) \<Longrightarrow> encoded rb \<or> invalid_byte rb"
proof (induction s rule: runes.induct)
  case (1 s)
  show ?case
  proof (cases "s = []")
    case False
    obtain r n where d: "DecodeRune s = (r, n)" by force
    with "1.prems" False have "rb = (r, take n s) \<or> rb \<in> set (runes (drop n s))"
      by (simp add: runes.simps [of s])
    with rune_kinds [OF False d] "1.IH" [OF False] d show ?thesis by auto
  qed (use 1 in simp)
qed

text \<open>The rune determines its bytes.\<close>

lemma second_byte: "in_range (fst (second_range c0)) (snd (second_range c0)) c1 \<Longrightarrow> continuation c1"
  by (auto simp: second_range_def in_range_def split: if_splits)

lemma rune_range:
  "in_range 0xC2 0xDF c0 \<Longrightarrow> continuation c1 \<Longrightarrow>
     0x80 \<le> (byte c0 - 0xC0) * 64 + (byte c1 - 0x80) \<and> (byte c0 - 0xC0) * 64 + (byte c1 - 0x80) < 0x800"
  "in_range 0xE0 0xEF c0 \<Longrightarrow> in_range (fst (second_range c0)) (snd (second_range c0)) c1 \<Longrightarrow> continuation c2 \<Longrightarrow>
     0x800 \<le> (byte c0 - 0xE0) * 4096 + (byte c1 - 0x80) * 64 + (byte c2 - 0x80) \<and>
     (byte c0 - 0xE0) * 4096 + (byte c1 - 0x80) * 64 + (byte c2 - 0x80) < 0x10000"
  "in_range 0xF0 0xF4 c0 \<Longrightarrow> in_range (fst (second_range c0)) (snd (second_range c0)) c1 \<Longrightarrow> continuation c2 \<Longrightarrow>
     continuation c3 \<Longrightarrow>
     0x10000 \<le> (byte c0 - 0xF0) * 262144 + (byte c1 - 0x80) * 4096 + (byte c2 - 0x80) * 64 + (byte c3 - 0x80) \<and>
     (byte c0 - 0xF0) * 262144 + (byte c1 - 0x80) * 4096 + (byte c2 - 0x80) * 64 + (byte c3 - 0x80) < 0x200000"
  by (auto simp: second_range_def in_range_def split: if_splits)

lemma digit64: "(a :: nat) * 64 + b = a' * 64 + b' \<Longrightarrow> b < 64 \<Longrightarrow> b' < 64 \<Longrightarrow> a = a' \<and> b = b'"
  using div_mult_self3 [of 64 a b] div_mult_self3 [of 64 a' b'] by (metis add.commute add_left_cancel
      div_less div_mult_self1 mult.commute plus_nat.add_0 zero_neq_numeral)

lemma encoded_length:
  assumes "encoded (r, bs)"
  shows "length bs = (if r < 0x80 then 1 else if r < 0x800 then 2 else if r < 0x10000 then 3 else 4)"
proof -
  have "bs \<noteq> []" and d: "DecodeRune bs = (r, length bs)" and nb: "\<not> (r = RuneError \<and> length bs = 1)"
    using assms unfolding encoded_def by (auto dest: spec [of _ "[]"])
  from this(1) d show ?thesis
  proof (cases rule: DecodeRune_cases)
    case (bad c t)
    with nb show ?thesis by simp
  next
    case (two c0 c1 t)
    with rune_range(1) [of c0 c1] second_byte show ?thesis by simp
  next
    case (three c0 c1 c2 t)
    with rune_range(2) [of c0 c1 c2] show ?thesis by simp
  next
    case (four c0 c1 c2 c3 t)
    with rune_range(3) [of c0 c1 c2 c3] show ?thesis by simp
  qed simp
qed

lemma offset_byte: "lo \<le> byte c \<Longrightarrow> \<exists>x. byte c = x + lo \<and> c = char_of (x + lo)"
  by (intro exI [of _ "byte c - lo"]) (simp add: byte_def)

lemma continuation_offset: "continuation c \<Longrightarrow> \<exists>x. byte c = x + 0x80 \<and> x < 64 \<and> c = char_of (x + 0x80)"
  using offset_byte [of "0x80" c] by (auto simp: in_range_def)

lemma lead_offset: "in_range lo hi c \<Longrightarrow> \<exists>x. byte c = x + lo \<and> c = char_of (x + lo)"
  by (simp add: in_range_def offset_byte)

lemma encoded_bytes:
  assumes "encoded (r, bs)"
  shows "\<exists>cs. length cs = length bs - 1 \<and> list_all (\<lambda>c. c < 64) cs \<and>
    (\<exists>lead. bs = char_of (lead + (if r < 0x80 then 0 else if r < 0x800 then 0xC0 else if r < 0x10000 then 0xE0 else 0xF0))
                # map (\<lambda>c. char_of (c + 0x80)) cs \<and> r = foldl (\<lambda>a c. a * 64 + c) lead cs)"
proof -
  have "bs \<noteq> []" and d: "DecodeRune bs = (r, length bs)" and nb: "\<not> (r = RuneError \<and> length bs = 1)"
    using assms unfolding encoded_def by (auto dest: spec [of _ "[]"])
  from \<open>bs \<noteq> []\<close> d show ?thesis
  proof (cases rule: DecodeRune_cases)
    case (ascii c t)
    then show ?thesis by (intro exI [of _ "[]"]) (auto simp: byte_def)
  next
    case (bad c t)
    with nb show ?thesis by simp
  next
    case (two c0 c1 t)
    note c1 = second_byte [OF two(3)]
    obtain l x1 where l: "byte c0 = l + 0xC0" "c0 = char_of (l + 0xC0)"
      and x1: "byte c1 = x1 + 0x80" "x1 < 64" "c1 = char_of (x1 + 0x80)"
      using offset_byte [of "0xC0" c0] continuation_offset [OF c1] two(2) by (auto simp: in_range_def)
    from two rune_range(1) [OF two(2) c1] l x1 show ?thesis
      by (intro exI [of _ "[x1]"] conjI exI [of _ l]) auto
  next
    case (three c0 c1 c2 t)
    note c1 = second_byte [OF three(3)]
    obtain l x1 x2 where l: "byte c0 = l + 0xE0" "c0 = char_of (l + 0xE0)"
      and x1: "byte c1 = x1 + 0x80" "x1 < 64" "c1 = char_of (x1 + 0x80)"
      and x2: "byte c2 = x2 + 0x80" "x2 < 64" "c2 = char_of (x2 + 0x80)"
      using lead_offset [OF three(2)] continuation_offset [OF c1] continuation_offset [OF three(4)] by blast
    from three rune_range(2) [OF three(2,3,4)] l x1 x2 show ?thesis
      by (intro exI [of _ "[x1, x2]"] conjI exI [of _ l]) auto
  next
    case (four c0 c1 c2 c3 t)
    note c1 = second_byte [OF four(3)]
    obtain l x1 x2 x3 where l: "byte c0 = l + 0xF0" "c0 = char_of (l + 0xF0)"
      and x1: "byte c1 = x1 + 0x80" "x1 < 64" "c1 = char_of (x1 + 0x80)"
      and x2: "byte c2 = x2 + 0x80" "x2 < 64" "c2 = char_of (x2 + 0x80)"
      and x3: "byte c3 = x3 + 0x80" "x3 < 64" "c3 = char_of (x3 + 0x80)"
      using lead_offset [OF four(2)] continuation_offset [OF c1] continuation_offset [OF four(4)]
        continuation_offset [OF four(5)] by blast
    from four rune_range(3) [OF four(2,3,4,5)] l x1 x2 x3 show ?thesis
      by (intro exI [of _ "[x1, x2, x3]"] conjI exI [of _ l]) auto
  qed
qed

lemma foldl_digits64:
  "length cs = length ds \<Longrightarrow> list_all (\<lambda>c. c < 64) cs \<Longrightarrow> list_all (\<lambda>c. c < 64) ds \<Longrightarrow>
     foldl (\<lambda>a c. a * 64 + c) (a :: nat) cs = foldl (\<lambda>a c. a * 64 + c) b ds \<Longrightarrow> a = b \<and> cs = ds"
proof (induction cs arbitrary: ds rule: rev_induct)
  case (snoc c cs)
  then obtain ds' d where ds: "ds = ds' @ [d]" by (cases ds rule: rev_cases) auto
  with snoc.prems digit64 [of "foldl (\<lambda>a c. a * 64 + c) a cs" c "foldl (\<lambda>a c. a * 64 + c) b ds'" d]
    snoc.IH [of ds'] show ?case by simp
qed simp

lemma encoded_unique:
  assumes "encoded (r, bs)" and "encoded (r, bs')"
  shows "bs = bs'"
proof -
  have len: "length bs = length bs'" using assms [THEN encoded_length] by simp
  obtain cs lead where c: "length cs = length bs - 1" "list_all (\<lambda>c. c < 64) cs"
    "bs = char_of (lead + (if r < 0x80 then 0 else if r < 0x800 then 0xC0 else if r < 0x10000 then 0xE0 else 0xF0))
                # map (\<lambda>c. char_of (c + 0x80)) cs" "r = foldl (\<lambda>a c. a * 64 + c) lead cs"
    using encoded_bytes [OF assms(1)] by blast
  obtain cs' lead' where c': "length cs' = length bs' - 1" "list_all (\<lambda>c. c < 64) cs'"
    "bs' = char_of (lead' + (if r < 0x80 then 0 else if r < 0x800 then 0xC0 else if r < 0x10000 then 0xE0 else 0xF0))
                # map (\<lambda>c. char_of (c + 0x80)) cs'" "r = foldl (\<lambda>a c. a * 64 + c) lead' cs'"
    using encoded_bytes [OF assms(2)] by blast
  have "lead = lead' \<and> cs = cs'"
    using foldl_digits64 [of cs cs' lead lead'] c(1,2,4) c'(1,2,4) len by simp
  with c(3) c'(3) show ?thesis by simp
qed

section \<open>Hexadecimal digits\<close>

lemma length_hex_digits [simp]: "length (hex_digits n v) = n"
  by (induction n arbitrary: v) auto

lemma hex_digit_inject: "a < 16 \<Longrightarrow> b < 16 \<Longrightarrow> hex_digit a = hex_digit b \<Longrightarrow> a = b"
proof -
  assume ab: "a < 16" "b < 16" and eq: "hex_digit a = hex_digit b"
  have val: "of_char (hex_digit x) = (if x < 10 then 48 + x else 87 + x)" if "x < 16" for x :: nat
    using that by (simp add: hex_digit_def)
  have "of_char (hex_digit a) = (of_char (hex_digit b) :: nat)" using eq by simp
  with ab show "a = b" by (simp add: val split: if_splits)
qed

lemma hex_digits_inject: "v < 16 ^ n \<Longrightarrow> w < 16 ^ n \<Longrightarrow> hex_digits n v = hex_digits n w \<Longrightarrow> v = w"
proof (induction n arbitrary: v w)
  case (Suc n)
  then have "hex_digits n (v div 16) = hex_digits n (w div 16)" "hex_digit (v mod 16) = hex_digit (w mod 16)"
    by auto
  moreover have "v div 16 < 16 ^ n" "w div 16 < 16 ^ n"
    using Suc.prems(1,2) by (simp_all add: less_mult_imp_div_less mult.commute)
  ultimately have "v div 16 = w div 16" "v mod 16 = w mod 16"
    using Suc.IH hex_digit_inject [of "v mod 16" "w mod 16"] by simp_all
  then show ?case by (metis div_mult_mod_eq)
qed simp

section \<open>The prefix code\<close>

definition good_rune :: "nat \<times> string \<Rightarrow> bool" where
  "good_rune rb \<longleftrightarrow> encoded rb \<or> invalid_byte rb"

text \<open>What a quoted rune begins with: itself, or a backslash and a letter with digits.\<close>

datatype quoted = Raw | Esc char nat nat

definition quoted_as :: "(nat \<Rightarrow> bool) \<Rightarrow> nat \<times> string \<Rightarrow> quoted" where
  "quoted_as tbl rb =
     (let r = fst rb in
      if r = RuneError \<and> length (snd rb) = 1 then Esc (CHR ''x'') 2 (byte (hd (snd rb)))
      else if r = 0x22 then Esc DQ 0 0 else if r = 0x5C then Esc BSL 0 0
      else if is_print tbl r then Raw
      else if r = 7 then Esc (CHR ''a'') 0 0 else if r = 8 then Esc (CHR ''b'') 0 0
      else if r = 12 then Esc (CHR ''f'') 0 0 else if r = 10 then Esc (CHR ''n'') 0 0
      else if r = 13 then Esc (CHR ''r'') 0 0 else if r = 9 then Esc (CHR ''t'') 0 0
      else if r = 11 then Esc (CHR ''v'') 0 0
      else if r < 0x20 \<or> r = 0x7F then Esc (CHR ''x'') 2 r
      else if r < 0x10000 then Esc (CHR ''u'') 4 r else Esc (CHR ''U'') 8 r)"

lemma quote_rune_as:
  "quote_rune tbl rb = (case quoted_as tbl rb of Raw \<Rightarrow> snd rb | Esc c n v \<Rightarrow> BSL # c # hex_digits n v)"
  by (simp add: quote_rune_def quoted_as_def Let_def split_beta
      if_distrib [where f = "case_quoted (snd rb) (\<lambda>c n v. BSL # c # hex_digits n v)"] cong: if_cong split del: if_split)

lemma encoded_ascii: "encoded (r, bs) \<Longrightarrow> r < 0x80 \<Longrightarrow> bs = [char_of r]"
proof -
  assume e: "encoded (r, bs)" and r: "r < 0x80"
  then have "length bs = 1" by (simp add: encoded_length)
  then obtain c where c: "bs = [c]" by (auto simp: length_Suc_conv)
  then have ne: "bs \<noteq> []" by simp
  have "DecodeRune bs = (r, 1)" using e c unfolding encoded_def by (auto dest: spec [of _ "[]"])
  with ne show "bs = [char_of r]"
    by (cases rule: DecodeRune_cases) (use c r in \<open>auto simp: byte_def RuneError_def\<close>)
qed

lemma rune_bound: "encoded (r, bs) \<Longrightarrow> r < 0x200000"
proof -
  assume e: "encoded (r, bs)"
  then have "bs \<noteq> []" "DecodeRune bs = (r, length bs)"
    unfolding encoded_def by (auto dest: spec [of _ "[]"])
  then show ?thesis
  proof (cases rule: DecodeRune_cases)
    case (two c0 c1 t)
    with rune_range(1) [of c0 c1] second_byte show ?thesis by fastforce
  next
    case (three c0 c1 c2 t)
    with rune_range(2) [of c0 c1 c2] show ?thesis by simp
  next
    case (four c0 c1 c2 c3 t)
    with rune_range(3) [of c0 c1 c2 c3] show ?thesis by simp
  qed (simp_all add: RuneError_def)
qed

text \<open>The form determines the rune, unless it is raw.\<close>

lemma quoted_as_Esc:
  assumes "good_rune rb" and "quoted_as tbl rb = Esc c n v"
  shows "v < 16 ^ n"
proof -
  obtain r bs where rb: "rb = (r, bs)" by (cases rb)
  have "r < 0x200000" using assms(1) rb rune_bound [of r bs] by (auto simp: good_rune_def invalid_byte_def RuneError_def)
  then show ?thesis
    using assms(2) byte_less [of "hd bs"] by (auto simp: quoted_as_def rb Let_def split: if_splits)
qed

definition escape_digits :: "char \<Rightarrow> nat" where
  "escape_digits c = (if c = CHR ''x'' then 2 else if c = CHR ''u'' then 4 else if c = CHR ''U'' then 8 else 0)"

definition escaped_rune :: "char \<Rightarrow> nat \<Rightarrow> nat" where
  "escaped_rune c v =
     (case map_of [(DQ, 0x22), (BSL, 0x5C), (CHR ''a'', 7), (CHR ''b'', 8), (CHR ''f'', 12), (CHR ''n'', 10),
                   (CHR ''r'', 13), (CHR ''t'', 9), (CHR ''v'', 11)] c of None \<Rightarrow> v | Some r \<Rightarrow> r)"

lemma escape_table:
  "escape_digits (CHR ''x'') = 2" "escape_digits (CHR ''u'') = 4" "escape_digits (CHR ''U'') = 8"
  "escape_digits DQ = 0" "escape_digits BSL = 0" "escape_digits (CHR ''a'') = 0" "escape_digits (CHR ''b'') = 0"
  "escape_digits (CHR ''f'') = 0" "escape_digits (CHR ''n'') = 0" "escape_digits (CHR ''r'') = 0"
  "escape_digits (CHR ''t'') = 0" "escape_digits (CHR ''v'') = 0"
  "escaped_rune (CHR ''x'') v = v" "escaped_rune (CHR ''u'') v = v" "escaped_rune (CHR ''U'') v = v"
  "escaped_rune DQ v = 0x22" "escaped_rune BSL v = 0x5C" "escaped_rune (CHR ''a'') v = 7"
  "escaped_rune (CHR ''b'') v = 8" "escaped_rune (CHR ''f'') v = 12" "escaped_rune (CHR ''n'') v = 10"
  "escaped_rune (CHR ''r'') v = 13" "escaped_rune (CHR ''t'') v = 9" "escaped_rune (CHR ''v'') v = 11"
  by (simp_all add: escape_digits_def escaped_rune_def)

definition describes :: "nat \<times> string \<Rightarrow> quoted \<Rightarrow> bool" where
  "describes rb q \<longleftrightarrow>
     (case q of Raw \<Rightarrow> True
      | Esc c n v \<Rightarrow> n = escape_digits c \<and>
          (fst rb = RuneError \<and> length (snd rb) = 1 \<or> fst rb = escaped_rune c v))"

lemma describes_quoted: "describes rb (quoted_as tbl rb)"
  unfolding quoted_as_def Let_def
  by (split if_split; intro conjI impI; simp add: describes_def escape_table)+

lemma quoted_as_EscD:
  assumes "quoted_as tbl (r, bs) = Esc c n v"
  shows "n = escape_digits c \<and> (r = RuneError \<and> length bs = 1 \<or> r = escaped_rune c v)"
  using describes_quoted [of "(r, bs)" tbl] assms by (simp add: describes_def)

lemma quoted_as_unique:
  assumes "good_rune rb" "good_rune rb'" and "quoted_as tbl rb = Esc c n v" and "quoted_as tbl rb' = Esc c n v"
  shows "rb = rb'"
proof -
  obtain r bs r' bs' where rb: "rb = (r, bs)" "rb' = (r', bs')" by (cases rb; cases rb')
  have inv: "invalid_byte (q, cs) \<longleftrightarrow> q = RuneError \<and> length cs = 1" if "good_rune (q, cs)" for q cs
    using that by (auto simp: good_rune_def invalid_byte_def encoded_def)
  show ?thesis
  proof (cases "invalid_byte (r, bs) \<or> invalid_byte (r', bs')")
    case True
    have x: "c = CHR ''x'' \<and> v \<ge> 0x80 \<and> invalid_byte (q, cs)"
      if "invalid_byte (q, cs)" "quoted_as tbl (q, cs) = Esc c n v" for q cs
      using that by (auto simp: quoted_as_def invalid_byte_def)
    have y: "invalid_byte (q, cs)"
      if "good_rune (q, cs)" "quoted_as tbl (q, cs) = Esc c n v" "c = CHR ''x''" "v \<ge> 0x80" for q cs
      using that quoted_as_EscD [of tbl q cs c n v] inv [of q cs]
      by (auto simp: quoted_as_def Let_def split: if_split_asm)
    have "invalid_byte (r, bs)" "invalid_byte (r', bs')"
      using True x y assms unfolding rb by blast+
    with assms(3,4) show ?thesis
      by (auto simp: rb quoted_as_def invalid_byte_def byte_inject)
  next
    case False
    then have e: "encoded (r, bs)" "encoded (r', bs')" and ne: "\<not> (r = RuneError \<and> length bs = 1)"
      "\<not> (r' = RuneError \<and> length bs' = 1)"
      using assms(1,2) inv [of r bs] inv [of r' bs'] by (auto simp: rb good_rune_def)
    have "r = r'" using quoted_as_EscD [of tbl r bs] quoted_as_EscD [of tbl r' bs'] assms(3,4) ne by (auto simp: rb)
    with e encoded_unique show ?thesis by (simp add: rb)
  qed
qed

lemma quoted_raw:
  assumes "good_rune rb" and "quoted_as tbl rb = Raw"
  shows "encoded rb \<and> hd (snd rb) \<noteq> BSL \<and> hd (snd rb) \<noteq> DQ"
proof -
  obtain r bs where rb: "rb = (r, bs)" by (cases rb)
  have "\<not> (r = RuneError \<and> length bs = 1)" using assms(2) by (auto simp: rb quoted_as_def)
  then have e: "encoded (r, bs)" using assms(1) by (auto simp: rb good_rune_def invalid_byte_def)
  then have "bs \<noteq> []" "DecodeRune bs = (r, length bs)"
    unfolding encoded_def by (auto dest: spec [of _ "[]"])
  then have "byte (hd bs) = r \<or> 0x80 \<le> byte (hd bs)"
    by (cases rule: DecodeRune_cases) (auto simp: in_range_def)
  moreover have "r \<noteq> 0x22" "r \<noteq> 0x5C" using assms(2) by (auto simp: rb quoted_as_def Let_def split: if_splits)
  ultimately show ?thesis using e by (auto simp: rb byte_def)
qed

lemma quote_rune_prefix:
  assumes "good_rune rb" "good_rune rb'" and "quote_rune tbl rb @ s = quote_rune tbl rb' @ s'"
  shows "rb = rb' \<and> s = s'"
proof -
  have start: "hd (snd q) = hd (snd q @ t) \<and> snd q @ t \<noteq> []" if "encoded q" for q t
    using that by (simp add: encoded_def)
  show ?thesis
  proof (cases "quoted_as tbl rb"; cases "quoted_as tbl rb'")
    assume raw: "quoted_as tbl rb = Raw" "quoted_as tbl rb' = Raw"
    then have eq: "snd rb @ s = snd rb' @ s'" using assms(3) by (simp add: quote_rune_as)
    have e: "encoded rb" "encoded rb'" using quoted_raw assms(1,2) raw by blast+
    then have "(fst rb, length (snd rb)) = (fst rb', length (snd rb'))"
      using eq unfolding encoded_def by metis
    with eq show ?thesis by (auto simp: prod_eq_iff)
  next
    fix c n v
    assume raw: "quoted_as tbl rb = Raw" "quoted_as tbl rb' = Esc c n v"
    with assms(3) have "hd (snd rb @ s) = BSL" by (simp add: quote_rune_as)
    with quoted_raw [OF assms(1) raw(1)] start [of rb s] show ?thesis by simp
  next
    fix c n v
    assume raw: "quoted_as tbl rb = Esc c n v" "quoted_as tbl rb' = Raw"
    with assms(3) have "snd rb' @ s' = BSL # c # hex_digits n v @ s" by (simp add: quote_rune_as)
    then have "hd (snd rb' @ s') = BSL" by simp
    with quoted_raw [OF assms(2) raw(2)] start [of rb' s'] show ?thesis by simp
  next
    fix c n v c' n' v'
    assume esc: "quoted_as tbl rb = Esc c n v" "quoted_as tbl rb' = Esc c' n' v'"
    with assms(3) have eq: "c = c'" "hex_digits n v @ s = hex_digits n' v' @ s'" by (simp_all add: quote_rune_as)
    have "n = n'" using quoted_as_EscD [of tbl "fst rb" "snd rb"] quoted_as_EscD [of tbl "fst rb'" "snd rb'"] esc eq(1)
      by simp
    with eq(2) have "hex_digits n v = hex_digits n v'" "s = s'" by simp_all
    moreover have "v = v'"
      using hex_digits_inject quoted_as_Esc assms(1,2) esc \<open>n = n'\<close> \<open>hex_digits n v = hex_digits n v'\<close> by blast
    ultimately show ?thesis
      using quoted_as_unique [OF assms(1,2)] esc eq(1) \<open>n = n'\<close> by blast
  qed
qed

lemma quote_rune_start:
  assumes "good_rune rb"
  shows "\<exists>c t. quote_rune tbl rb = c # t \<and> c \<noteq> DQ"
proof (cases "quoted_as tbl rb")
  case Raw
  with quoted_raw [OF assms Raw] show ?thesis
    by (cases "snd rb") (auto simp: quote_rune_as encoded_def)
qed (simp add: quote_rune_as)

lemma quote_runes_prefix:
  assumes "list_all good_rune rs" "list_all good_rune rs'"
    and "concat (map (quote_rune tbl) rs) @ DQ # s = concat (map (quote_rune tbl) rs') @ DQ # s'"
  shows "rs = rs' \<and> s = s'"
  using assms
proof (induction rs rs' rule: list_induct2')
  case (2 rb rs)
  with quote_rune_start [of rb tbl] show ?case by auto
next
  case (3 rb' rs')
  with quote_rune_start [of rb' tbl] show ?case by auto
next
  case (4 rb rs rb' rs')
  then have "rb = rb' \<and> concat (map (quote_rune tbl) rs) @ DQ # s = concat (map (quote_rune tbl) rs') @ DQ # s'"
    by (intro quote_rune_prefix [of rb rb' tbl]) simp_all
  with 4 show ?case by simp
qed simp

lemma strconv_Quote_prefix:
  assumes "strconv_Quote tbl a @ s = strconv_Quote tbl b @ s'"
  shows "a = b \<and> s = s'"
proof -
  have good: "list_all good_rune (runes x)" for x
    using runes_kinds [of _ x] by (auto simp: list_all_iff good_rune_def)
  have "concat (map (quote_rune tbl) (runes a)) @ DQ # s = concat (map (quote_rune tbl) (runes b)) @ DQ # s'"
    using assms by (simp add: strconv_Quote_def)
  from quote_runes_prefix [OF good good this] have "runes a = runes b" "s = s'" by simp_all
  then show ?thesis by (metis concat_runes)
qed

end
