(* ===== verification/Job_Creation.thy ===== *)
theory Job_Creation
  imports Jobs Go_Quote
begin

text \<open>
  What \<open>New\<close> and \<open>NewID\<close> of \<open>lib/jobs/jobs.go\<close> make: the fields of a new job and the form of
  its identifier.
\<close>

section \<open>Identifiers\<close>

lemma byte_bound: "byte c < 16 ^ 2"
  using of_char_of [where ?'a = nat] by (simp add: byte_def)

lemma length_hex [simp]: "length (hex_EncodeToString bs) = 2 * length bs"
  by (induction bs) (simp_all add: hex_EncodeToString_def)

lemma hex_inject: "hex_EncodeToString a = hex_EncodeToString b \<longleftrightarrow> a = b"
proof
  have bytes: "byte c = byte d \<Longrightarrow> c = d" for c d by (simp add: byte_def of_char_eq_iff)
  show "hex_EncodeToString a = hex_EncodeToString b \<Longrightarrow> a = b"
  proof (induction a arbitrary: b)
    case Nil
    from arg_cong [OF this, of length] show ?case by simp
  next
    case (Cons c a)
    from arg_cong [OF Cons.prems, of length] obtain d b' where b: "b = d # b'"
      by (cases b) simp_all
    with Cons.prems have "hex_digits 2 (byte c) = hex_digits 2 (byte d)"
      and tails: "hex_EncodeToString a = hex_EncodeToString b'"
      by (simp_all add: hex_EncodeToString_def)
    from hex_digits_inject [OF byte_bound byte_bound this(1)] have "c = d" by (rule bytes)
    with Cons.IH [OF tails] b show ?case by simp
  qed
qed simp

lemma hex_digit_set: "n < 16 \<Longrightarrow> hex_digit n \<in> set ''0123456789abcdef''"
proof -
  have "\<forall>n \<in> set [0..<16]. hex_digit n \<in> set ''0123456789abcdef''" by code_simp
  then show "n < 16 \<Longrightarrow> hex_digit n \<in> set ''0123456789abcdef''" by simp
qed

lemma hex_digits_set: "set (hex_digits n v) \<subseteq> set ''0123456789abcdef''"
proof (induction n arbitrary: v)
  case (Suc n)
  have "hex_digit (v mod 16) \<in> set ''0123456789abcdef''" by (rule hex_digit_set) simp
  with Suc [of "v div 16"] show ?case by (simp only: hex_digits.simps set_append) simp
qed simp

lemma hex_set: "set (hex_EncodeToString bs) \<subseteq> set ''0123456789abcdef''"
  using hex_digits_set unfolding hex_EncodeToString_def set_concat set_map by blast

section \<open>Properties\<close>

text \<open>A job as it is first stored.\<close>

definition new_job :: "string \<Rightarrow> Request \<Rightarrow> time \<Rightarrow> duration \<Rightarrow> Job \<Rightarrow> bool" where
  "new_job owner request now retention job \<longleftrightarrow>
     length (job_ID job) = 32 \<and> set (job_ID job) \<subseteq> set ''0123456789abcdef'' \<and>
     OwnerID job = owner \<and> owner \<noteq> [] \<and> job_Status job = StatusQueued \<and> job_Request job = request \<and>
     job_Result job = None \<and> job_Error job = [] \<and> StartedAt job = None \<and> CompletedAt job = None \<and>
     CreatedAt job = now \<and> UpdatedAt job = now \<and> ExpiresAt job - now = retention \<and> now < ExpiresAt job"

text \<open>
  C10. A new job is well formed. Given the 16 bytes of the random source, \<open>New\<close> makes a job exactly
  when the owner is named and the retention is positive; the job is queued, belongs to that owner,
  carries that request and no result, error, start or completion, expires after it was created, and
  its identifier is 32 lower-case hexadecimal digits. Two jobs have the same identifier only when the
  random source gave the same bytes twice.
\<close>

theorem NewJob_well_formed:
  assumes "length bytes = 16" and "length bytes' = 16"
  shows "(case NewJob owner request now retention (Inr bytes) of
            Inl _ \<Rightarrow> owner = [] \<or> retention \<le> 0
          | Inr job \<Rightarrow> new_job owner request now retention job \<and>
              (\<forall>owner' request' now' retention' job'.
                 NewJob owner' request' now' retention' (Inr bytes') = Inr job' \<longrightarrow>
                 (job_ID job' = job_ID job \<longleftrightarrow> bytes' = bytes)))"
  using assms hex_set [of bytes] by (auto simp: NewJob_def NewID_def new_job_def hex_inject simp del: list.set)

theorem NewJob_well_formed_witness:
  "\<exists>job. NewJob ''alice'' zero_request 5 1000 (Inr (replicate 16 (CHR ''a''))) = Inr job \<and>
     new_job ''alice'' zero_request 5 1000 job"
proof -
  obtain job where "NewJob ''alice'' zero_request 5 1000 (Inr (replicate 16 (CHR ''a''))) = Inr job"
    by (simp add: NewJob_def NewID_def)
  moreover from NewJob_well_formed [of "replicate 16 (CHR ''a'')" "replicate 16 (CHR ''b'')"
      "''alice''" 1000 zero_request 5] calculation
  have "new_job ''alice'' zero_request 5 1000 job" by simp
  ultimately show ?thesis by blast
qed

end
