(* ===== verification/Memory.thy ===== *)
theory Memory
  imports Jobs
begin

text \<open>
  \<open>lib/jobs/memory/backend.go\<close>: the in-process store and queue. The map \<open>values\<close> is an
  association list in the order in which the runtime ranges over it (any order: the laws hold
  in every state); \<open>sort.Slice\<close> may leave equal keys in any order, which the range order
  covers. The channel \<open>queue\<close> is a list bounded by its capacity: a send on a full channel and
  a receive on an empty one block unless the context is done. When both cases of a \<open>select\<close>
  are ready the runtime chooses: \<open>pick\<close> says whether it takes \<open>ctx.Done()\<close>.

  The backend is interpreted as a store with history and expiry and as a queue.
\<close>

section \<open>The backend\<close>

record Backend =
  mem_values :: "(string \<times> Job) list"
  mem_queue :: "string list"
  mem_capacity :: int

definition memory_New :: "int \<Rightarrow> Backend" where
  "memory_New queueCapacity =
     \<lparr>mem_values = [], mem_queue = [],
      mem_capacity = (if queueCapacity \<le> 0 then 1024 else queueCapacity)\<rparr>"

definition memory_Create :: "go_context \<Rightarrow> Job \<Rightarrow> Backend \<Rightarrow> (go_error + unit) \<times> Backend" where
  "memory_Create ctx job backend =
     (Inr (), backend\<lparr>mem_values := AList.update (job_ID job) (CloneJob job) (mem_values backend)\<rparr>)"

definition memory_Get :: "go_context \<Rightarrow> string \<Rightarrow> Backend \<Rightarrow> (go_error + Job) \<times> Backend" where
  "memory_Get ctx mid backend =
     (case map_of (mem_values backend) mid of
        None \<Rightarrow> (Inl ErrNotFound, backend)
      | Some job \<Rightarrow> (Inr (CloneJob job), backend))"

definition memory_Update ::
  "go_context \<Rightarrow> string \<Rightarrow> Update \<Rightarrow> Backend \<Rightarrow> (go_error + unit) \<times> Backend" where
  "memory_Update ctx mid update backend =
     (case map_of (mem_values backend) mid of
        None \<Rightarrow> (Inl ErrNotFound, backend)
      | Some job0 \<Rightarrow>
          let job1 = job0\<lparr>job_Status := upd_Status update, job_Result := upd_Result update,
                          job_Error := upd_Error update, UpdatedAt := upd_UpdatedAt update\<rparr>;
              job2 = (if upd_StartedAt update \<noteq> None
                      then job1\<lparr>StartedAt := upd_StartedAt update\<rparr> else job1);
              job3 = (if upd_CompletedAt update \<noteq> None
                      then job2\<lparr>CompletedAt := upd_CompletedAt update\<rparr> else job2)
          in (Inr (), backend\<lparr>mem_values := AList.update mid (CloneJob job3) (mem_values backend)\<rparr>))"

definition memory_List ::
  "go_context \<Rightarrow> string \<Rightarrow> ListOptions \<Rightarrow> Backend \<Rightarrow> (go_error + Job list) \<times> Backend" where
  "memory_List ctx ownerID options backend =
     (let limit = (if opt_Limit options \<le> 0 then 20 else opt_Limit options);
          selected = filter (\<lambda>job. \<not> OwnerID job \<noteq> ownerID \<and>
            \<not> (\<not> IsZero (opt_Before options) \<and> \<not> CreatedAt job < opt_Before options))
            (map snd (mem_values backend));
          sorted_values = sort_key (\<lambda>job. - CreatedAt job) (map CloneJob selected)
      in (Inr (if int (length sorted_values) > limit then take (nat limit) sorted_values
               else sorted_values), backend))"

fun delete_expired_loop ::
  "time \<Rightarrow> (string \<times> Job) list \<Rightarrow> (string \<times> Job) list \<Rightarrow> int \<Rightarrow> (string \<times> Job) list \<times> int" where
  "delete_expired_loop before [] vals deleted = (vals, deleted)"
| "delete_expired_loop before ((mid, job) # rest) vals deleted =
     (if \<not> ExpiresAt job > before
      then delete_expired_loop before rest (AList.delete mid vals) (deleted + 1)
      else delete_expired_loop before rest vals deleted)"

definition memory_DeleteExpired :: "go_context \<Rightarrow> time \<Rightarrow> Backend \<Rightarrow> (go_error + int) \<times> Backend" where
  "memory_DeleteExpired ctx before backend =
     (let (vals, deleted) = delete_expired_loop before (mem_values backend) (mem_values backend) 0
      in (Inr deleted, backend\<lparr>mem_values := vals\<rparr>))"

definition memory_Enqueue ::
  "bool \<Rightarrow> go_context \<Rightarrow> string \<Rightarrow> Backend \<Rightarrow> ((go_error + unit) \<times> Backend) option" where
  "memory_Enqueue pick ctx jobID backend =
     (let room = int (length (mem_queue backend)) < mem_capacity backend
      in case ctx of
           Some err \<Rightarrow> if \<not> room \<or> pick then Some (Inl (ctx_Err err), backend)
                       else Some (Inr (), backend\<lparr>mem_queue := mem_queue backend @ [jobID]\<rparr>)
         | None \<Rightarrow> if room then Some (Inr (), backend\<lparr>mem_queue := mem_queue backend @ [jobID]\<rparr>)
                   else None)"

text \<open>A delivery holds the backend and the job's identifier.\<close>

definition memory_Receive ::
  "bool \<Rightarrow> go_context \<Rightarrow> Backend \<Rightarrow> ((go_error + string option) \<times> Backend) option" where
  "memory_Receive pick ctx backend =
     (case mem_queue backend of
        [] \<Rightarrow> (case ctx of Some err \<Rightarrow> Some (Inl (ctx_Err err), backend) | None \<Rightarrow> None)
      | mid # rest \<Rightarrow>
          (case ctx of
             Some err \<Rightarrow> if pick then Some (Inl (ctx_Err err), backend)
                         else Some (Inr (Some mid), backend\<lparr>mem_queue := rest\<rparr>)
           | None \<Rightarrow> Some (Inr (Some mid), backend\<lparr>mem_queue := rest\<rparr>)))"

definition memory_JobID :: "string \<Rightarrow> string" where
  "memory_JobID value = value"

definition memory_Ack ::
  "go_context \<Rightarrow> string \<Rightarrow> Backend \<Rightarrow> ((go_error + unit) \<times> Backend) option" where
  "memory_Ack ctx value backend = Some (Inr (), backend)"

definition memory_Nack ::
  "bool \<Rightarrow> go_context \<Rightarrow> string \<Rightarrow> Backend \<Rightarrow> ((go_error + unit) \<times> Backend) option" where
  "memory_Nack pick ctx value backend = memory_Enqueue pick ctx value backend"

definition memory_Store :: "Backend Store" where
  "memory_Store =
     \<lparr>store_Create = memory_Create, store_Get = memory_Get, store_Update = memory_Update,
      store_List = memory_List, store_DeleteExpired = memory_DeleteExpired\<rparr>"

definition memory_Queue :: "bool \<Rightarrow> (Backend, string) Queue" where
  "memory_Queue pick =
     \<lparr>queue_Enqueue = memory_Enqueue pick, queue_Receive = memory_Receive pick,
      delivery_JobID = memory_JobID, delivery_Ack = memory_Ack,
      delivery_Nack = memory_Nack pick\<rparr>"

section \<open>Lemmas\<close>

definition mem_jobs :: "Backend \<Rightarrow> string \<Rightarrow> Job option" where
  "mem_jobs b = map_of (mem_values b)"

definition mem_inv :: "Backend \<Rightarrow> bool" where
  "mem_inv b \<longleftrightarrow> go_map (mem_values b) \<and> list_all (\<lambda>(i, j). job_ID j = i) (mem_values b)"

lemma mem_inv_keyed: "mem_inv b \<Longrightarrow> mem_jobs b i = Some j \<Longrightarrow> job_ID j = i"
  by (auto simp: mem_inv_def mem_jobs_def list_all_iff dest!: map_of_SomeD)

lemma list_all_update:
  "list_all P m \<Longrightarrow> P (k, v) \<Longrightarrow> list_all P (AList.update k v m)"
  by (induction m) auto

lemma mem_inv_New: "mem_inv (memory_New n)"
  by (simp add: mem_inv_def memory_New_def)

lemma mem_inv_put:
  "mem_inv b \<Longrightarrow> job_ID j = i \<Longrightarrow> mem_inv (b\<lparr>mem_values := AList.update i j (mem_values b)\<rparr>)"
  by (simp add: mem_inv_def list_all_update)

lemma mem_jobs_put:
  "mem_jobs (b\<lparr>mem_values := AList.update i j (mem_values b)\<rparr>) = (mem_jobs b)(i \<mapsto> j)"
  by (simp add: mem_jobs_def update_conv')

lemma memory_Update_eq:
  "memory_Update ctx i u b =
     (case mem_jobs b i of
        None \<Rightarrow> (Inl ErrNotFound, b)
      | Some j \<Rightarrow> (Inr (), b\<lparr>mem_values := AList.update i (apply_update u j) (mem_values b)\<rparr>))"
  unfolding memory_Update_def mem_jobs_def apply_update_def Let_def
  by (auto split: option.split)

lemma memory_Update_miss: "mem_jobs b i = None \<Longrightarrow> memory_Update ctx i u b = (Inl ErrNotFound, b)"
  by (simp add: memory_Update_eq)

lemma memory_Update_hit:
  "mem_jobs b i = Some j \<Longrightarrow> memory_Update ctx i u b =
     (Inr (), b\<lparr>mem_values := AList.update i (apply_update u j) (mem_values b)\<rparr>)"
  by (simp add: memory_Update_eq)

interpretation mem: job_store memory_Store mem_jobs mem_inv "\<lambda>j. j" "\<lambda>u. u" "\<lambda>_. True" "\<lambda>_. True"
proof unfold_locales
  fix s s' :: Backend and i ctx and rj :: "go_error + Job"
  show "mem_inv s \<Longrightarrow> mem_jobs s i = Some j \<Longrightarrow> job_ID j = i" for j
    by (rule mem_inv_keyed)
  show "mem_inv s \<Longrightarrow> store_Get memory_Store ctx i s = (rj, s') \<Longrightarrow>
      mem_inv s' \<and> mem_jobs s' = mem_jobs s \<and>
      (case rj of Inl e \<Rightarrow> errors_Is e ErrNotFound \<longrightarrow> mem_jobs s i = None | Inr j \<Rightarrow> mem_jobs s i = Some j)"
    by (auto simp: memory_Store_def memory_Get_def mem_jobs_def split: option.splits)
next
  fix s s' :: Backend and job ctx and r0 :: "go_error + unit"
  show "mem_inv s \<Longrightarrow> store_Create memory_Store ctx job s = (r0, s') \<Longrightarrow>
      mem_inv s' \<and> (mem_jobs s' = (mem_jobs s)(job_ID job \<mapsto> job) \<or>
                    (\<exists>e. r0 = Inl e) \<and> mem_jobs s' = mem_jobs s)"
    by (auto simp: memory_Store_def memory_Create_def mem_inv_put mem_jobs_put)
next
  fix s s' :: Backend and i u ctx and r0 :: "go_error + unit"
  assume "mem_inv s" "store_Update memory_Store ctx i u s = (r0, s')"
  then show "mem_inv s' \<and>
      ((\<exists>j. mem_jobs s i = Some j \<and> mem_jobs s' = (mem_jobs s)(i \<mapsto> apply_update u j)) \<and>
         r0 \<noteq> Inl ErrNotFound \<or>
       (\<exists>e. r0 = Inl e \<and> (errors_Is e ErrNotFound \<longrightarrow> mem_jobs s i = None)) \<and> mem_jobs s' = mem_jobs s)"
    using mem_inv_keyed [of s i]
    by (cases "mem_jobs s i")
      (auto simp: memory_Store_def memory_Update_miss memory_Update_hit mem_inv_put mem_jobs_put)
qed simp_all

subsection \<open>History\<close>

lemma in_history_owner: "in_history owner options j \<Longrightarrow> OwnerID j = owner"
  by (simp add: in_history_def)

lemma memory_List_eq:
  "memory_List ctx owner options b =
     (Inr (take (effective_limit options)
        (sort_key (\<lambda>job. - CreatedAt job) (filter (in_history owner options) (map snd (mem_values b))))), b)"
proof -
  have "filter (\<lambda>job. \<not> OwnerID job \<noteq> owner \<and>
          \<not> (\<not> IsZero (opt_Before options) \<and> \<not> CreatedAt job < opt_Before options)) xs =
        filter (in_history owner options) xs" for xs
    by (intro filter_cong) (auto simp: in_history_def)
  then show ?thesis
    by (simp add: memory_List_def effective_limit_def Let_def map_idI)
qed

lemma mem_IDs: "mem_inv b \<Longrightarrow> map job_ID (map snd (mem_values b)) = map fst (mem_values b)"
  by (auto simp: mem_inv_def list_all_iff)

lemma mem_jobs_value: "mem_inv b \<Longrightarrow> j \<in> set (map snd (mem_values b)) \<longleftrightarrow> mem_jobs b (job_ID j) = Some j"
  by (force simp: mem_inv_def mem_jobs_def list_all_iff map_of_Some_set dest: map_of_SomeD)

interpretation mem: job_history memory_Store mem_jobs mem_inv "\<lambda>j. j" "\<lambda>u. u" "\<lambda>_. True" "\<lambda>_. True" "\<lambda>_. True"
proof unfold_locales
  fix s s' :: Backend and owner options ctx and rl :: "go_error + Job list"
  assume inv: "mem_inv s" and call: "store_List memory_Store ctx owner options s = (rl, s')"
  let ?all = "filter (in_history owner options) (map snd (mem_values s))"
  let ?out = "take (effective_limit options) (sort_key (\<lambda>j. - CreatedAt j) ?all)"
  have r: "rl = Inr ?out" and s': "s' = s"
    using call by (auto simp: memory_Store_def memory_List_eq)
  have "distinct (map job_ID (map snd (mem_values s)))"
    unfolding mem_IDs [OF inv] using inv by (simp add: mem_inv_def go_map_def)
  then have distinct: "distinct (map job_ID ?all)"
    by (rule distinct_map_filter)
  have all: "j \<in> set ?all \<longleftrightarrow> mem_jobs s (job_ID j) = Some j \<and> in_history owner options j" for j
    using mem_jobs_value [OF inv, of j] by auto
  have left: "length ?out = effective_limit options \<and> (\<forall>listed \<in> set ?out. CreatedAt j \<le> CreatedAt listed)"
    if "mem_jobs s i = Some j" "in_history owner options j" "j \<notin> set ?out" for i j
    using take_sort_key(4) [where x = j and xs = ?all and n = "effective_limit options"
        and f = "\<lambda>j. - CreatedAt j"] that all
      mem_inv_keyed [OF inv that(1)] by auto
  show "mem_inv s' \<and> mem_jobs s' = mem_jobs s \<and>
      (case rl of Inl _ \<Rightarrow> True
       | Inr history \<Rightarrow>
           distinct (map job_ID history) \<and>
           (\<forall>j \<in> set history. mem_jobs s (job_ID j) = Some j \<and> OwnerID j = owner) \<and>
           sorted (map (\<lambda>j. - CreatedAt j) history) \<and>
           length history \<le> effective_limit options \<and>
           (True \<longrightarrow>
              (\<forall>j \<in> set history. in_history owner options j) \<and>
              (\<forall>i j. mem_jobs s i = Some j \<and> in_history owner options j \<and> j \<notin> set history \<longrightarrow>
                 length history = effective_limit options \<and>
                 (\<forall>listed \<in> set history. CreatedAt j \<le> CreatedAt listed))))"
    unfolding r s' sum.case
    using inv left take_sort_key(1-3) [where xs = ?all and n = "effective_limit options" and f = "\<lambda>j. - CreatedAt j"]
      take_sort_key(5) [OF distinct] all in_history_owner by blast
qed

subsection \<open>Expiry\<close>

lemma delete_expired_loop_spec:
  assumes "delete_expired_loop before ranged vals n = (vals', n')" and "go_map vals"
    and "distinct (map fst ranged)" and "set ranged \<subseteq> set vals"
  shows "vals' = filter (\<lambda>(i, j). (i, j) \<in> set ranged \<longrightarrow> before < ExpiresAt j) vals \<and>
    n' = n + int (length (filter (\<lambda>(i, j). ExpiresAt j \<le> before) ranged))"
  using assms
proof (induction before ranged vals n rule: delete_expired_loop.induct)
  case (1 before vals deleted)
  then show ?case by (auto intro: filter_True [symmetric])
next
  case (2 before mid job rest vals deleted)
  have mem: "(mid, job) \<in> set vals" and rest: "set rest \<subseteq> set vals" "distinct (map fst rest)"
    and fresh: "mid \<notin> fst ` set rest"
    using 2(5,6) by auto
  have same: "j = job" if "(mid, j) \<in> set vals" for j
    using that mem 2(4) by (metis map_of_Some_set option.inject)
  show ?case
  proof (cases "ExpiresAt job \<le> before")
    case True
    have del: "AList.delete mid vals = filter (\<lambda>(i, j). i \<noteq> mid) vals"
      by (auto simp: AList.delete_eq intro!: filter_cong)
    have "vals' = filter (\<lambda>(i, j). (i, j) \<in> set rest \<longrightarrow> before < ExpiresAt j) (AList.delete mid vals) \<and>
        n' = deleted + 1 + int (length (filter (\<lambda>(i, j). ExpiresAt j \<le> before) rest))"
      using True 2(3,4) rest fresh by (intro 2(1)) (force simp: del)+
    moreover have "filter (\<lambda>(i, j). (i, j) \<in> set rest \<longrightarrow> before < ExpiresAt j) (AList.delete mid vals)
      = filter (\<lambda>(i, j). (i, j) \<in> set ((mid, job) # rest) \<longrightarrow> before < ExpiresAt j) vals"
      unfolding del filter_filter using True same fresh by (intro filter_cong) (force+)
    ultimately show ?thesis using True by simp
  next
    case False
    then have "vals' = filter (\<lambda>(i, j). (i, j) \<in> set rest \<longrightarrow> before < ExpiresAt j) vals \<and>
        n' = deleted + int (length (filter (\<lambda>(i, j). ExpiresAt j \<le> before) rest))"
      using 2(3,4) rest by (intro 2(2)) auto
    with False show ?thesis by (auto intro!: filter_cong)
  qed
qed

lemma memory_DeleteExpired_eq:
  assumes "mem_inv b"
  shows "memory_DeleteExpired ctx before b =
    (Inr (int (length (filter (\<lambda>(i, j). ExpiresAt j \<le> before) (mem_values b)))),
     b\<lparr>mem_values := filter (\<lambda>(i, j). before < ExpiresAt j) (mem_values b)\<rparr>)"
proof -
  obtain vals n where loop: "delete_expired_loop before (mem_values b) (mem_values b) 0 = (vals, n)"
    by force
  have "filter (\<lambda>(i, j). (i, j) \<in> set (mem_values b) \<longrightarrow> before < ExpiresAt j) (mem_values b)
      = filter (\<lambda>(i, j). before < ExpiresAt j) (mem_values b)"
    by (rule filter_cong) auto
  with delete_expired_loop_spec [OF loop] assms show ?thesis
    by (simp add: memory_DeleteExpired_def loop mem_inv_def go_map_def)
qed

interpretation mem: job_expiry memory_Store mem_jobs mem_inv "\<lambda>j. j" "\<lambda>u. u" "\<lambda>_. True" "\<lambda>_. True" "\<lambda>_. True"
proof unfold_locales
  fix s s' :: Backend and before ctx and rn :: "go_error + int"
  assume inv: "mem_inv s" and call: "store_DeleteExpired memory_Store ctx before s = (rn, s')"
  from inv have map: "go_map (mem_values s)" by (simp add: mem_inv_def)
  have s': "s' = s\<lparr>mem_values := filter (\<lambda>(i, j). before < ExpiresAt j) (mem_values s)\<rparr>"
    using call inv by (simp add: memory_Store_def memory_DeleteExpired_eq)
  have "mem_jobs s' = (\<lambda>i. case mem_jobs s i of None \<Rightarrow> None
      | Some j \<Rightarrow> if ExpiresAt j \<le> before then None else Some j)"
    using map by (auto simp: s' mem_jobs_def map_of_filter_key fun_eq_iff split: option.split)
  moreover have "mem_inv s'"
    using inv by (auto simp: s' mem_inv_def list_all_iff)
  ultimately show "mem_inv s' \<and>
      (case rn of Inl _ \<Rightarrow> True
       | Inr n \<Rightarrow> mem_jobs s' = (\<lambda>i. case mem_jobs s i of None \<Rightarrow> None
                        | Some j \<Rightarrow> if ExpiresAt j \<le> before then None else Some j))"
    by (cases rn) auto
qed

subsection \<open>The queue\<close>

definition mem_waiting :: "Backend \<Rightarrow> string set" where
  "mem_waiting b = set (mem_queue b)"

lemma memory_Enqueue_cases:
  assumes "memory_Enqueue pick ctx i s = Some (r0, s')"
  shows "mem_values s' = mem_values s \<and> mem_waiting s \<subseteq> mem_waiting s' \<and> (r0 = Inr () \<longrightarrow> i \<in> mem_waiting s')"
  using assms by (auto simp: memory_Enqueue_def Let_def mem_waiting_def split: option.splits if_splits)

lemma memory_Receive_cases:
  assumes "memory_Receive pick ctx s = Some (rd, s')"
  shows "mem_values s' = mem_values s \<and>
    (case rd of
       Inr (Some d) \<Rightarrow> d \<in> mem_waiting s \<and> mem_waiting s - {d} \<subseteq> mem_waiting s'
     | _ \<Rightarrow> mem_waiting s \<subseteq> mem_waiting s')"
  using assms by (auto simp: memory_Receive_def mem_waiting_def split: list.splits option.splits if_splits)

lemma mem_same_values: "mem_values s' = mem_values s \<Longrightarrow> mem_inv s' = mem_inv s \<and> mem_jobs s' = mem_jobs s"
  by (simp add: mem_inv_def mem_jobs_def)

interpretation mem: reliable_queue "memory_Queue pick" mem_inv mem_waiting "\<lambda>_ _. True" "\<lambda>_ _. True" for pick
proof unfold_locales
  fix s s' :: Backend and ctx i and r0 :: "go_error + unit"
  show "mem_inv s \<Longrightarrow> queue_Enqueue (memory_Queue pick) ctx i s = Some (r0, s') \<Longrightarrow>
      mem_inv s' \<and> mem_waiting s \<subseteq> mem_waiting s' \<and> (r0 = Inr () \<and> True \<longrightarrow> i \<in> mem_waiting s')"
    using memory_Enqueue_cases [of pick ctx i s r0 s'] mem_same_values [of s' s] by (simp add: memory_Queue_def)
  show "mem_inv s \<Longrightarrow> delivery_Nack (memory_Queue pick) ctx i s = Some (r0, s') \<Longrightarrow>
      mem_inv s' \<and> mem_waiting s \<subseteq> mem_waiting s' \<and>
      (r0 = Inr () \<longrightarrow> delivery_JobID (memory_Queue pick) i \<in> mem_waiting s')"
    using memory_Enqueue_cases [of pick ctx i s r0 s'] mem_same_values [of s' s]
    by (simp add: memory_Queue_def memory_Nack_def memory_JobID_def)
  show "mem_inv s \<Longrightarrow> delivery_Ack (memory_Queue pick) ctx i s = Some (r0, s') \<Longrightarrow>
      mem_inv s' \<and> mem_waiting s - {delivery_JobID (memory_Queue pick) i} \<subseteq> mem_waiting s'"
    by (auto simp: memory_Queue_def memory_Ack_def)
next
  fix s s' :: Backend and ctx and rd :: "go_error + string option"
  show "mem_inv s \<Longrightarrow> queue_Receive (memory_Queue pick) ctx s = Some (rd, s') \<Longrightarrow>
      mem_inv s' \<and>
      (case rd of
         Inr (Some d) \<Rightarrow> delivery_JobID (memory_Queue pick) d \<in> mem_waiting s \<and>
           mem_waiting s - {delivery_JobID (memory_Queue pick) d} \<subseteq> mem_waiting s'
       | _ \<Rightarrow> mem_waiting s \<subseteq> mem_waiting s')"
    using memory_Receive_cases [of pick ctx s rd s'] mem_same_values [of s' s]
    by (auto simp: memory_Queue_def memory_JobID_def split: sum.splits option.splits)
qed simp

interpretation mem: reliable_backend memory_Store mem_jobs mem_inv "\<lambda>j. j" "\<lambda>u. u" "\<lambda>_. True" "\<lambda>_. True"
    "memory_Queue pick" mem_waiting "\<lambda>_ _. True" "\<lambda>_ _. True" for pick
proof unfold_locales
  fix s s' :: Backend and i ctx and rj :: "go_error + Job"
  show "mem_inv s \<Longrightarrow> store_Get memory_Store ctx i s = (rj, s') \<Longrightarrow> mem_waiting s' = mem_waiting s \<and> (\<lambda>_ :: string. True) = (\<lambda>_. True) \<and> (\<lambda>_ :: string. True) = (\<lambda>_. True)"
    by (auto simp: memory_Store_def memory_Get_def split: option.splits)
next
  fix s s' :: Backend and job ctx and r0 :: "go_error + unit"
  show "mem_inv s \<Longrightarrow> store_Create memory_Store ctx job s = (r0, s') \<Longrightarrow> mem_waiting s' = mem_waiting s \<and> (\<lambda>_ :: string. True) = (\<lambda>_. True) \<and> (\<lambda>_ :: string. True) = (\<lambda>_. True)"
    by (auto simp: memory_Store_def memory_Create_def mem_waiting_def)
next
  fix s s' :: Backend and i u ctx and r0 :: "go_error + unit"
  show "mem_inv s \<Longrightarrow> store_Update memory_Store ctx i u s = (r0, s') \<Longrightarrow> mem_waiting s' = mem_waiting s \<and> (\<lambda>_ :: string. True) = (\<lambda>_. True) \<and> (\<lambda>_ :: string. True) = (\<lambda>_. True)"
    by (auto simp: memory_Store_def memory_Update_eq mem_waiting_def split: option.splits)
next
  fix s s' :: Backend and i ctx and r0 :: "go_error + unit" and rd :: "go_error + string option"
  show "queue_Enqueue (memory_Queue pick) ctx i s = Some (r0, s') \<Longrightarrow> mem_jobs s' = mem_jobs s"
    "delivery_Nack (memory_Queue pick) ctx i s = Some (r0, s') \<Longrightarrow> mem_jobs s' = mem_jobs s"
    using memory_Enqueue_cases [of pick ctx i s r0 s'] mem_same_values [of s' s]
    by (simp_all add: memory_Queue_def memory_Nack_def)
  show "queue_Receive (memory_Queue pick) ctx s = Some (rd, s') \<Longrightarrow> mem_jobs s' = mem_jobs s"
    using memory_Receive_cases [of pick ctx s rd s'] mem_same_values [of s' s] by (simp add: memory_Queue_def)
  show "delivery_Ack (memory_Queue pick) ctx i s = Some (r0, s') \<Longrightarrow> mem_jobs s' = mem_jobs s"
    by (auto simp: memory_Queue_def memory_Ack_def)
qed

section \<open>Properties\<close>

text \<open>
  C25. The memory backend is a store with history and expiry and a reliable queue: from \<open>New\<close> on, every
  operation does to the jobs held and to the jobs waiting what \<open>Store\<close> and \<open>Queue\<close> promise, for every
  range order of its map and every choice of a \<open>select\<close>.
\<close>

theorem memory_implements_backend:
  "job_history memory_Store mem_jobs mem_inv (\<lambda>j. j) (\<lambda>u. u) (\<lambda>_. True) (\<lambda>_. True) (\<lambda>_. True) \<and>
   job_expiry memory_Store mem_jobs mem_inv (\<lambda>j. j) (\<lambda>u. u) (\<lambda>_. True) (\<lambda>_. True) (\<lambda>_. True) \<and>
   reliable_backend memory_Store mem_jobs mem_inv (\<lambda>j. j) (\<lambda>u. u) (\<lambda>_. True) (\<lambda>_. True)
     (memory_Queue pick) mem_waiting (\<lambda>_ _. True) (\<lambda>_ _. True) \<and>
   mem_inv (memory_New n) \<and> mem_jobs (memory_New n) = Map.empty \<and> mem_waiting (memory_New n) = {}"
  using mem.job_history_axioms mem.job_expiry_axioms mem.reliable_backend_axioms mem_inv_New
  by (simp add: memory_New_def mem_jobs_def mem_waiting_def)

end
