(* ===== verification/Backends.thy ===== *)
theory Backends
  imports Jobs
begin

text \<open>
  A store and a queue that keep their states apart, as every combination of \<open>backendSet\<close> other than the
  memory backend: two servers, or two sets of keys or tables of one server. Together they are a backend
  over the pair of the states.
\<close>

definition in_first :: "('a \<Rightarrow> 'r \<times> 'a) \<Rightarrow> 'a \<times> 'b \<Rightarrow> 'r \<times> 'a \<times> 'b" where
  "in_first f s = (let (r, a) = f (fst s) in (r, a, snd s))"

definition in_second :: "('b \<Rightarrow> ('r \<times> 'b) option) \<Rightarrow> 'a \<times> 'b \<Rightarrow> ('r \<times> 'a \<times> 'b) option" where
  "in_second f s = (case f (snd s) of None \<Rightarrow> None | Some (r, b) \<Rightarrow> Some (r, fst s, b))"

definition paired_Store :: "'a Store \<Rightarrow> ('a \<times> 'b) Store" where
  "paired_Store S =
     \<lparr>store_Create = \<lambda>ctx job. in_first (store_Create S ctx job),
      store_Get = \<lambda>ctx mid. in_first (store_Get S ctx mid),
      store_Update = \<lambda>ctx mid update. in_first (store_Update S ctx mid update),
      store_List = \<lambda>ctx ownerID options. in_first (store_List S ctx ownerID options),
      store_DeleteExpired = \<lambda>ctx before. in_first (store_DeleteExpired S ctx before)\<rparr>"

definition paired_Queue :: "('b, 'd) Queue \<Rightarrow> ('a \<times> 'b, 'd) Queue" where
  "paired_Queue Q =
     \<lparr>queue_Enqueue = \<lambda>ctx jobID. in_second (queue_Enqueue Q ctx jobID),
      queue_Receive = \<lambda>ctx. in_second (queue_Receive Q ctx),
      delivery_JobID = delivery_JobID Q,
      delivery_Ack = \<lambda>ctx d. in_second (delivery_Ack Q ctx d),
      delivery_Nack = \<lambda>ctx d. in_second (delivery_Nack Q ctx d)\<rparr>"

lemma in_first_iff: "in_first f s = (r, s') \<longleftrightarrow> f (fst s) = (r, fst s') \<and> snd s' = snd s"
  by (cases s') (auto simp: in_first_def split: prod.splits)

lemma in_second_iff: "in_second f s = Some (r, s') \<longleftrightarrow> f (snd s) = Some (r, snd s') \<and> fst s' = fst s"
  by (cases s') (auto simp: in_second_def split: option.splits)

lemma paired_simps [simp]:
  "store_Create (paired_Store S) ctx job s = (r0, s') \<longleftrightarrow> store_Create S ctx job (fst s) = (r0, fst s') \<and> snd s' = snd s"
  "store_Get (paired_Store S) ctx i s = (rj, s') \<longleftrightarrow> store_Get S ctx i (fst s) = (rj, fst s') \<and> snd s' = snd s"
  "store_Update (paired_Store S) ctx i u s = (r0, s') \<longleftrightarrow> store_Update S ctx i u (fst s) = (r0, fst s') \<and> snd s' = snd s"
  "store_List (paired_Store S) ctx owner opts s = (rl, s') \<longleftrightarrow>
     store_List S ctx owner opts (fst s) = (rl, fst s') \<and> snd s' = snd s"
  "store_DeleteExpired (paired_Store S) ctx t s = (rn, s') \<longleftrightarrow>
     store_DeleteExpired S ctx t (fst s) = (rn, fst s') \<and> snd s' = snd s"
  "queue_Enqueue (paired_Queue Q) ctx i s = Some (r0, s') \<longleftrightarrow>
     queue_Enqueue Q ctx i (snd s) = Some (r0, snd s') \<and> fst s' = fst s"
  "queue_Receive (paired_Queue Q) ctx s = Some (rd, s') \<longleftrightarrow>
     queue_Receive Q ctx (snd s) = Some (rd, snd s') \<and> fst s' = fst s"
  "delivery_Ack (paired_Queue Q) ctx d s = Some (r0, s') \<longleftrightarrow>
     delivery_Ack Q ctx d (snd s) = Some (r0, snd s') \<and> fst s' = fst s"
  "delivery_Nack (paired_Queue Q) ctx d s = Some (r0, s') \<longleftrightarrow>
     delivery_Nack Q ctx d (snd s) = Some (r0, snd s') \<and> fst s' = fst s"
  "delivery_JobID (paired_Queue Q) = delivery_JobID Q"
  by (simp_all add: paired_Store_def paired_Queue_def in_first_iff in_second_iff)

locale paired_backend =
  st: job_store S jobs sinv canon keep storable updatable + qu: job_queue Q qinv waiting accepts outstanding
  for S :: "'a Store" and jobs sinv canon keep storable updatable
    and Q :: "('b, 'd) Queue" and qinv waiting accepts outstanding
begin

definition pair_jobs :: "'a \<times> 'b \<Rightarrow> string \<Rightarrow> Job option" where
  "pair_jobs s = jobs (fst s)"

definition pair_inv :: "'a \<times> 'b \<Rightarrow> bool" where
  "pair_inv s \<longleftrightarrow> sinv (fst s) \<and> qinv (snd s)"

definition pair_waiting :: "'a \<times> 'b \<Rightarrow> string set" where
  "pair_waiting s = waiting (snd s)"

definition pair_accepts :: "'a \<times> 'b \<Rightarrow> string \<Rightarrow> bool" where
  "pair_accepts s = accepts (snd s)"

definition pair_outstanding :: "'a \<times> 'b \<Rightarrow> 'd \<Rightarrow> bool" where
  "pair_outstanding s = outstanding (snd s)"

lemmas pair_defs = pair_jobs_def pair_inv_def pair_waiting_def pair_accepts_def pair_outstanding_def

sublocale both: job_backend "paired_Store S" pair_jobs pair_inv canon keep storable updatable
  "paired_Queue Q" pair_waiting pair_accepts pair_outstanding
proof unfold_locales
  fix s s' :: "'a \<times> 'b" and i j ctx and rj :: "go_error + Job"
  show "pair_inv s \<Longrightarrow> pair_jobs s i = Some j \<Longrightarrow> job_ID j = i"
    using st.keyed [of "fst s" i] by (simp add: pair_defs)
  assume "pair_inv s" and "store_Get (paired_Store S) ctx i s = (rj, s')"
  then show "pair_inv s' \<and> pair_jobs s' = pair_jobs s \<and>
      (case rj of Inl e \<Rightarrow> errors_Is e ErrNotFound \<longrightarrow> pair_jobs s i = None | Inr j \<Rightarrow> pair_jobs s i = Some j)"
    and "pair_waiting s' = pair_waiting s \<and> pair_accepts s' = pair_accepts s \<and> pair_outstanding s' = pair_outstanding s"
    using st.Get [of "fst s" ctx i rj "fst s'"] by (auto simp: pair_defs split: sum.splits)
next
  fix s s' :: "'a \<times> 'b" and job ctx and r0 :: "go_error + unit"
  assume "pair_inv s" and "store_Create (paired_Store S) ctx job s = (r0, s')"
  then show "storable job \<Longrightarrow> pair_jobs s (job_ID job) = None \<Longrightarrow>
      pair_inv s' \<and> (pair_jobs s' = (pair_jobs s)(job_ID job \<mapsto> canon job) \<or>
                (\<exists>e. r0 = Inl e) \<and> pair_jobs s' = pair_jobs s)"
    and "pair_waiting s' = pair_waiting s \<and> pair_accepts s' = pair_accepts s \<and> pair_outstanding s' = pair_outstanding s"
    using st.Create [of "fst s" job ctx r0 "fst s'"] by (simp_all add: pair_defs)
next
  fix s s' :: "'a \<times> 'b" and i u ctx and r0 :: "go_error + unit"
  assume "pair_inv s" and "store_Update (paired_Store S) ctx i u s = (r0, s')"
  then show "updatable u \<Longrightarrow>
      pair_inv s' \<and>
      ((\<exists>j. pair_jobs s i = Some j \<and> pair_jobs s' = (pair_jobs s)(i \<mapsto> apply_update (keep u) j)) \<and>
         r0 \<noteq> Inl ErrNotFound \<or>
       (\<exists>e. r0 = Inl e \<and> (errors_Is e ErrNotFound \<longrightarrow> pair_jobs s i = None)) \<and> pair_jobs s' = pair_jobs s)"
    and "pair_waiting s' = pair_waiting s \<and> pair_accepts s' = pair_accepts s \<and> pair_outstanding s' = pair_outstanding s"
    using st.Update [of "fst s" u ctx i r0 "fst s'"] by (simp_all add: pair_defs)
next
  fix s s' :: "'a \<times> 'b" and i ctx and r0 :: "go_error + unit"
  assume "pair_inv s" and "queue_Enqueue (paired_Queue Q) ctx i s = Some (r0, s')"
  then show "pair_inv s' \<and> pair_waiting s \<subseteq> pair_waiting s' \<and> (r0 = Inr () \<and> pair_accepts s i \<longrightarrow> i \<in> pair_waiting s')"
    and "pair_jobs s' = pair_jobs s"
    using qu.enqueued [of "snd s" ctx i r0 "snd s'"] by (simp_all add: pair_defs)
next
  fix s s' :: "'a \<times> 'b" and ctx and rd :: "go_error + 'd option"
  assume "pair_inv s" and "queue_Receive (paired_Queue Q) ctx s = Some (rd, s')"
  then show "pair_inv s' \<and>
      (case rd of
         Inr (Some d) \<Rightarrow> delivery_JobID (paired_Queue Q :: ('a \<times> 'b, 'd) Queue) d \<in> pair_waiting s \<and>
           pair_waiting s - {delivery_JobID (paired_Queue Q :: ('a \<times> 'b, 'd) Queue) d} \<subseteq> pair_waiting s'
       | _ \<Rightarrow> pair_waiting s \<subseteq> pair_waiting s')"
    and "pair_jobs s' = pair_jobs s"
    using qu.received [of "snd s" ctx rd "snd s'"]
    by (auto simp: pair_defs split: sum.splits option.splits)
next
  fix s s' :: "'a \<times> 'b" and ctx d and r0 :: "go_error + unit"
  assume "pair_inv s" and "delivery_Ack (paired_Queue Q) ctx d s = Some (r0, s')"
  then show "pair_outstanding s d \<Longrightarrow> pair_inv s' \<and>
      pair_waiting s - {delivery_JobID (paired_Queue Q :: ('a \<times> 'b, 'd) Queue) d} \<subseteq> pair_waiting s'"
    and "pair_jobs s' = pair_jobs s"
    using qu.acked [of "snd s" d ctx r0 "snd s'"] by (simp_all add: pair_defs)
next
  fix s s' :: "'a \<times> 'b" and ctx d and r0 :: "go_error + unit"
  assume "pair_inv s" and "delivery_Nack (paired_Queue Q) ctx d s = Some (r0, s')"
  then show "pair_outstanding s d \<Longrightarrow> pair_inv s' \<and> pair_waiting s \<subseteq> pair_waiting s' \<and>
      (r0 = Inr () \<longrightarrow> delivery_JobID (paired_Queue Q :: ('a \<times> 'b, 'd) Queue) d \<in> pair_waiting s')"
    and "pair_jobs s' = pair_jobs s"
    using qu.nacked [of "snd s" d ctx r0 "snd s'"] by (simp_all add: pair_defs)
qed (simp_all add: st.canon_same st.keep_status)

lemma history:
  assumes "job_history S jobs sinv canon keep storable updatable listable"
  shows "job_history (paired_Store S) pair_jobs pair_inv canon keep storable updatable listable"
proof -
  note List = job_history.List [OF assms]
  show ?thesis
  proof unfold_locales
    fix s s' :: "'a \<times> 'b" and owner options ctx and rl :: "go_error + Job list"
    assume "pair_inv s" and "store_List (paired_Store S) ctx owner options s = (rl, s')"
    then show "pair_inv s' \<and> pair_jobs s' = pair_jobs s \<and>
      (case rl of Inl _ \<Rightarrow> True
       | Inr history \<Rightarrow>
           distinct (map job_ID history) \<and>
           (\<forall>j \<in> set history. pair_jobs s (job_ID j) = Some j \<and> OwnerID j = owner) \<and>
           sorted (map (\<lambda>j. - CreatedAt j) history) \<and>
           length history \<le> effective_limit options \<and>
           (listable options \<longrightarrow>
              (\<forall>j \<in> set history. in_history owner options j) \<and>
              (\<forall>i j. pair_jobs s i = Some j \<and> in_history owner options j \<and> j \<notin> set history \<longrightarrow>
                 length history = effective_limit options \<and>
                 (\<forall>listed \<in> set history. CreatedAt j \<le> CreatedAt listed))))"
      using List [of "fst s" ctx owner options rl "fst s'"] unfolding pair_defs [abs_def] paired_simps by simp
  qed
qed

lemma expiry:
  assumes "job_expiry S jobs sinv canon keep storable updatable expirable"
  shows "job_expiry (paired_Store S) pair_jobs pair_inv canon keep storable updatable expirable"
proof -
  note DeleteExpired = job_expiry.DeleteExpired [OF assms]
  show ?thesis
  proof unfold_locales
    fix s s' :: "'a \<times> 'b" and before ctx and rn :: "go_error + int"
    assume "pair_inv s" and "expirable before" and "store_DeleteExpired (paired_Store S) ctx before s = (rn, s')"
    then show "pair_inv s' \<and>
      (case rn of Inl _ \<Rightarrow> True
       | Inr n \<Rightarrow>
           pair_jobs s' = (\<lambda>i. case pair_jobs s i of None \<Rightarrow> None
                        | Some j \<Rightarrow> if ExpiresAt j \<le> before then None else Some j))"
      using DeleteExpired [of "fst s" before ctx rn "fst s'"] by (cases rn) (simp_all add: pair_defs [abs_def])
  qed
qed

lemma backend:
  "job_backend (paired_Store S) (\<lambda>s. jobs (fst s)) (\<lambda>s. sinv (fst s) \<and> qinv (snd s)) canon keep storable updatable
     (paired_Queue Q) (\<lambda>s. waiting (snd s)) (\<lambda>s. accepts (snd s)) (\<lambda>s. outstanding (snd s))"
  using both.job_backend_axioms by (simp add: pair_defs [abs_def])

lemma reliable:
  assumes "reliable_queue Q qinv waiting accepts outstanding"
  shows "reliable_backend (paired_Store S) pair_jobs pair_inv canon keep storable updatable
    (paired_Queue Q) pair_waiting pair_accepts pair_outstanding"
proof -
  have out: "outstanding s' d" if "qinv s" "queue_Receive Q ctx s = Some (Inr (Some d), s')" for s ctx d s'
    using reliable_queue.received_outstanding [OF assms that] .
  show ?thesis
  proof unfold_locales
    fix s s' :: "'a \<times> 'b" and ctx d
    assume "pair_inv s" and "queue_Receive (paired_Queue Q) ctx s = Some (Inr (Some d), s')"
    then show "pair_outstanding s' d"
      using out [of "snd s" ctx d "snd s'"] by (simp add: pair_defs)
  qed
qed

end

end
