(* ===== verification/Remote.thy ===== *)
theory Remote
  imports Jobs
begin

text \<open>
  A server behind a network connection, as the database and Redis clients see it: its contents, and
  what happens to the next requests. A request may be \<open>Refused\<close> without effect, or \<open>Lost\<close>: it takes
  effect but the client gets an error. A cancelled context stops a request before it is sent.
\<close>

datatype (plugins only: code size) fault = Runs | Refused string | Lost string

record 't Remote =
  contents :: 't
  faults :: "fault list"

type_synonym ('t, 'a) statement = "'t \<Rightarrow> go_error + ('t \<times> 'a)"

section \<open>Sending requests\<close>

definition remote_exec :: "go_context \<Rightarrow> ('t, 'a) statement \<Rightarrow> 't Remote \<Rightarrow> (go_error + 'a) \<times> 't Remote" where
  "remote_exec ctx statement db =
     (case ctx of
        Some cause \<Rightarrow> (Inl (ctx_Err cause), db)
      | None \<Rightarrow>
        let next = (case faults db of [] \<Rightarrow> Runs | f # _ \<Rightarrow> f);
            db' = db\<lparr>faults := tl (faults db)\<rparr>
        in case next of
             Refused err \<Rightarrow> (Inl (External err), db')
           | _ \<Rightarrow>
             (case statement (contents db) of
                Inl err \<Rightarrow> (Inl err, db')
              | Inr (rows, affected) \<Rightarrow>
                  (case next of Lost err \<Rightarrow> Inl (External err) | _ \<Rightarrow> Inr affected,
                   db'\<lparr>contents := rows\<rparr>)))"

definition remote_query :: "go_context \<Rightarrow> ('t \<Rightarrow> 'a) \<Rightarrow> 't Remote \<Rightarrow> (go_error + 'a) \<times> 't Remote" where
  "remote_query ctx select db =
     (case ctx of
        Some cause \<Rightarrow> (Inl (ctx_Err cause), db)
      | None \<Rightarrow>
        let db' = db\<lparr>faults := tl (faults db)\<rparr>
        in case faults db of
             Refused err # _ \<Rightarrow> (Inl (External err), db')
           | Lost err # _ \<Rightarrow> (Inl (External err), db')
           | _ \<Rightarrow> (Inr (select (contents db)), db'))"

section \<open>Lemmas\<close>

lemma ctx_Err_not_found: "\<not> errors_Is (ctx_Err c) ErrNotFound"
  by (cases c) auto

lemma remote_exec_cases:
  assumes "remote_exec ctx statement db = (r, db')"
  shows "(\<exists>e. r = Inl e \<and> \<not> errors_Is e ErrNotFound) \<and> contents db' = contents db \<or>
    (\<exists>e. r = Inl e \<and> statement (contents db) = Inl e) \<and> contents db' = contents db \<or>
    (\<exists>n. statement (contents db) = Inr (contents db', n) \<and>
       (r = Inr n \<or> (\<exists>e. r = Inl e \<and> \<not> errors_Is e ErrNotFound)))"
proof (cases ctx)
  case (Some cause)
  with assms ctx_Err_not_found show ?thesis by (auto simp: remote_exec_def)
next
  case None
  let ?next = "case faults db of [] \<Rightarrow> Runs | f # _ \<Rightarrow> f"
  show ?thesis
  proof (cases "statement (contents db)")
    case (Inl e)
    with None assms show ?thesis by (cases ?next) (auto simp: remote_exec_def Let_def)
  next
    case (Inr ran)
    with None assms show ?thesis by (cases ?next; cases ran) (auto simp: remote_exec_def Let_def)
  qed
qed

lemma remote_query_cases:
  assumes "remote_query ctx select db = (r, db')"
  shows "contents db' = contents db \<and>
    (r = Inr (select (contents db)) \<or> (\<exists>e. r = Inl e \<and> \<not> errors_Is e ErrNotFound))"
  using assms ctx_Err_not_found
  by (auto simp: remote_query_def Let_def split: option.splits list.splits fault.splits)

text \<open>Without faults a request runs.\<close>

lemma remote_exec_runs:
  "faults db = [] \<Longrightarrow> remote_exec None statement db =
     (case statement (contents db) of Inl e \<Rightarrow> (Inl e, db) | Inr (rows, n) \<Rightarrow> (Inr n, db\<lparr>contents := rows\<rparr>))"
  by (cases db) (simp add: remote_exec_def split: sum.split prod.split)

lemma remote_query_runs:
  "faults db = [] \<Longrightarrow> remote_query None select db = (Inr (select (contents db)), db)"
  by (cases db) (simp add: remote_query_def)

end
