(* ===== verification/Sql.thy ===== *)
theory Sql
  imports Remote
begin

text \<open>
  The table \<open>transliter_jobs\<close> of the three SQL stores (\<open>lib/jobs/sqlite\<close>, \<open>lib/jobs/postgres\<close>,
  \<open>lib/jobs/mysql\<close>) and the meaning of the statements they send to it. A JSON column holds the tree
  of its document, \<open>NULL\<close> is \<open>None\<close>, an instant is the integer the store encodes it as. The rows
  are in table order, in which rows that compare equal in an \<open>ORDER BY\<close> are returned.

  The stores differ in the encoding of instants, in their error texts and in the bound of an unbounded
  history; what they have in common is \<open>sql_Create\<close> to \<open>sql_DeleteExpired\<close>, and the locale \<open>sql_store\<close>
  shows that it meets the contracts of \<open>Jobs\<close>.
\<close>

section \<open>The table\<close>

record row =
  row_id :: string
  row_owner_id :: string
  row_status :: string
  row_request :: "rat json"
  row_result :: "rat json option"
  row_error :: string
  row_created_at :: int
  row_updated_at :: int
  row_started_at :: "int option"
  row_completed_at :: "int option"
  row_expires_at :: int

definition insert_row :: "row \<Rightarrow> (row list, int) statement" where
  "insert_row r rows =
     (if row_id r \<in> row_id ` set rows then Inl (External ''duplicate key'') else Inr (rows @ [r], 1))"

definition update_row :: "string \<Rightarrow> (row \<Rightarrow> row) \<Rightarrow> (row list, int) statement" where
  "update_row key f rows =
     Inr (map (\<lambda>r. if row_id r = key then f r else r) rows,
          int (length (filter (\<lambda>r. row_id r = key) rows)))"

definition delete_rows :: "(row \<Rightarrow> bool) \<Rightarrow> (row list, int) statement" where
  "delete_rows P rows = Inr (filter (\<lambda>r. \<not> P r) rows, int (length (filter P rows)))"

text \<open>\<open>SELECT ... WHERE P ORDER BY created_at DESC LIMIT n\<close>.\<close>

definition select_newest :: "(row \<Rightarrow> bool) \<Rightarrow> nat \<Rightarrow> row list \<Rightarrow> row list" where
  "select_newest P n rows = take n (sort_key (\<lambda>r. - row_created_at r) (filter P rows))"

text \<open>\<open>COALESCE(new, old)\<close>.\<close>

definition coalesce :: "'a option \<Rightarrow> 'a option \<Rightarrow> 'a option" where
  "coalesce new old = (case new of None \<Rightarrow> old | Some v \<Rightarrow> Some v)"

text \<open>Scanning the rows of a result in order: the first error is returned.\<close>

fun scan_all :: "(row \<Rightarrow> go_error + Job) \<Rightarrow> row list \<Rightarrow> go_error + Job list" where
  "scan_all scan [] = Inr []"
| "scan_all scan (r # rows) =
     (case scan r of
        Inl err \<Rightarrow> Inl err
      | Inr job \<Rightarrow> (case scan_all scan rows of Inl err \<Rightarrow> Inl err | Inr history \<Rightarrow> Inr (job # history)))"

section \<open>Columns\<close>

text \<open>
  The three stores write and read the same columns; they differ in the encoding of instants and in
  the name in their error texts. The \<open>INSERT\<close> leaves result, start and completion \<open>NULL\<close> and the error
  empty.
\<close>

definition job_columns :: "(time \<Rightarrow> int) \<Rightarrow> Job \<Rightarrow> row" where
  "job_columns enc job =
     \<lparr>row_id = job_ID job, row_owner_id = OwnerID job, row_status = job_Status job,
      row_request = Request_json (job_Request job), row_result = None, row_error = [],
      row_created_at = enc (CreatedAt job), row_updated_at = enc (UpdatedAt job),
      row_started_at = None, row_completed_at = None, row_expires_at = enc (ExpiresAt job)\<rparr>"

definition update_columns :: "(time \<Rightarrow> int) \<Rightarrow> Update \<Rightarrow> row \<Rightarrow> row" where
  "update_columns enc u r = r
     \<lparr>row_status := upd_Status u,
      row_result := (case upd_Result u of None \<Rightarrow> None | Some x \<Rightarrow> Some (Result_json x)),
      row_error := upd_Error u,
      row_updated_at := enc (upd_UpdatedAt u),
      row_started_at := coalesce (map_option enc (upd_StartedAt u)) (row_started_at r),
      row_completed_at := coalesce (map_option enc (upd_CompletedAt u)) (row_completed_at r)\<rparr>"

definition scan_columns :: "string \<Rightarrow> (int \<Rightarrow> time) \<Rightarrow> row \<Rightarrow> go_error + Job" where
  "scan_columns label dec r =
     (case decode_Request False (row_request r) zero_request of
        Inl err \<Rightarrow> Inl (Wrap (DecodeStored (label @ '' job request'')) err)
      | Inr request \<Rightarrow>
        (case (case row_result r of
                 None \<Rightarrow> Inr None
               | Some j \<Rightarrow> (case decode_Result j zero_result of Inl err \<Rightarrow> Inl err | Inr x \<Rightarrow> Inr (Some x))) of
           Inl err \<Rightarrow> Inl (Wrap (DecodeStored (label @ '' job result'')) err)
         | Inr result \<Rightarrow> Inr
             \<lparr>job_ID = row_id r, OwnerID = row_owner_id r, job_Status = row_status r,
              job_Request = request, job_Result = result, job_Error = row_error r,
              CreatedAt = dec (row_created_at r), UpdatedAt = dec (row_updated_at r),
              StartedAt = map_option dec (row_started_at r),
              CompletedAt = map_option dec (row_completed_at r),
              ExpiresAt = dec (row_expires_at r)\<rparr>))"

section \<open>Lemmas\<close>

lemma absent_key:
  "i \<notin> row_id ` set rows \<Longrightarrow> filter (\<lambda>r. row_id r = i) rows = []"
  "i \<notin> row_id ` set rows \<Longrightarrow> map (\<lambda>r. if row_id r = i then f r else r) rows = rows"
  by (auto simp: filter_empty_conv intro!: map_idI)

section \<open>Rows as jobs\<close>

text \<open>
  What a store's \<open>scanJob\<close> makes of the rows. The contract of a scanner: the identifier and the owner
  are columns, and later rows are later jobs.
\<close>

locale job_rows =
  fixes scan :: "row \<Rightarrow> go_error + Job"
    and dec :: "int \<Rightarrow> time"
  assumes scan_row: "scan r = Inr j \<Longrightarrow> job_ID j = row_id r \<and> OwnerID j = row_owner_id r \<and>
      CreatedAt j = dec (row_created_at r) \<and> ExpiresAt j = dec (row_expires_at r)"
    and dec_mono: "x < y \<Longrightarrow> dec x < dec y"
begin

definition held :: "row list \<Rightarrow> string \<Rightarrow> Job option" where
  "held rows i =
     (case find (\<lambda>r. row_id r = i) rows of
        None \<Rightarrow> None
      | Some r \<Rightarrow> (case scan r of Inl _ \<Rightarrow> None | Inr j \<Rightarrow> Some j))"

lemma held_Nil [simp]: "held [] = Map.empty"
  by (simp add: held_def fun_eq_iff)

definition sound :: "row list \<Rightarrow> bool" where
  "sound rows \<longleftrightarrow> distinct (map row_id rows) \<and> list_all (\<lambda>r. is_ok (scan r)) rows"

lemma held_iff: "sound rows \<Longrightarrow> held rows i = Some j \<longleftrightarrow> (\<exists>r \<in> set rows. row_id r = i \<and> scan r = Inr j)"
proof (induction rows)
  case (Cons r rows)
  then show ?case
    by (auto simp: held_def sound_def is_ok_iff image_iff split: if_splits)
qed (simp add: held_def)

lemma held_None_iff: "sound rows \<Longrightarrow> held rows i = None \<longleftrightarrow> i \<notin> row_id ` set rows"
  using held_iff [of rows i] by (force simp: sound_def list_all_iff is_ok_iff simp flip: not_Some_eq)

lemma held_keyed: "sound rows \<Longrightarrow> held rows i = Some j \<Longrightarrow> job_ID j = i"
  using scan_row by (auto simp: held_iff)

lemma held_selected:
  assumes "sound rows"
  shows "case filter (\<lambda>r. row_id r = i) rows of [] \<Rightarrow> held rows i = None
    | r # _ \<Rightarrow> \<exists>j. scan r = Inr j \<and> held rows i = Some j"
proof (cases "filter (\<lambda>r. row_id r = i) rows")
  case Nil
  with held_None_iff [OF assms] show ?thesis by (auto simp: filter_empty_conv)
next
  case (Cons r rs)
  then have "r \<in> set (filter (\<lambda>r. row_id r = i) rows)" by simp
  then have r: "r \<in> set rows" "row_id r = i" by auto
  with assms obtain j where "scan r = Inr j" by (auto simp: sound_def list_all_iff is_ok_iff)
  with r Cons held_iff [OF assms] show ?thesis by auto
qed

lemma held_eqI:
  "(\<And>i j. held rows i = Some j \<longleftrightarrow> f i = Some j) \<Longrightarrow> held rows = f"
  by (rule ext) (metis not_Some_eq)

lemma held_insert:
  assumes "sound rows" and "insert_row r rows = Inr (rows', n)" and "scan r = Inr j"
  shows "sound rows' \<and> held rows' = (held rows)(row_id r \<mapsto> j)"
proof -
  have r': "rows' = rows @ [r]" "row_id r \<notin> row_id ` set rows"
    using assms(2) by (auto simp: insert_row_def split: if_splits)
  have fresh: "row_id q \<noteq> row_id r" if "q \<in> set rows" for q
    using r'(2) that by (metis image_eqI)
  have s: "sound rows'" using assms(1,3) r' by (auto simp: sound_def)
  have "held rows' = (held rows)(row_id r \<mapsto> j)"
  proof (rule held_eqI)
    fix i k
    show "held rows' i = Some k \<longleftrightarrow> ((held rows)(row_id r \<mapsto> j)) i = Some k"
      using r'(1) held_iff [OF assms(1), of i] held_iff [OF s, of i] assms(3) fresh
      by (cases "i = row_id r") auto
  qed
  with s show ?thesis by simp
qed

lemma held_map:
  assumes "sound rows"
    and h: "\<And>r j. scan r = Inr j \<Longrightarrow> row_id (h r) = row_id r \<and> scan (h r) = Inr (k (row_id r) j)"
  shows "sound (map h rows)" and "held (map h rows) = (\<lambda>i. map_option (k i) (held rows i))"
proof -
  have ok: "\<exists>j. scan r = Inr j" if "r \<in> set rows" for r
    using assms(1) that by (auto simp: sound_def list_all_iff is_ok_iff)
  have keep: "row_id (h r) = row_id r" "is_ok (scan (h r))" if "r \<in> set rows" for r
    using ok [OF that] h by (auto simp: is_ok_iff)
  then have ids: "map (\<lambda>r. row_id (h r)) rows = map row_id rows" by simp
  show s: "sound (map h rows)"
    using assms(1) keep(2) unfolding sound_def map_map comp_def ids by (simp add: list_all_iff)
  show "held (map h rows) = (\<lambda>i. map_option (k i) (held rows i))"
  proof (rule held_eqI)
    fix i l
    have "held (map h rows) i = Some l \<longleftrightarrow> (\<exists>r \<in> set rows. row_id r = i \<and> scan (h r) = Inr l)"
      unfolding held_iff [OF s] using keep(1) by auto
    also have "\<dots> \<longleftrightarrow> (\<exists>j. held rows i = Some j \<and> l = k i j)"
    proof -
      have "row_id r = i \<and> scan (h r) = Inr l \<longleftrightarrow> (\<exists>j. row_id r = i \<and> scan r = Inr j \<and> l = k i j)"
        if "r \<in> set rows" for r
        using ok [OF that] h [of r] by auto
      then show ?thesis unfolding held_iff [OF assms(1)] by blast
    qed
    also have "\<dots> \<longleftrightarrow> map_option (k i) (held rows i) = Some l" by (cases "held rows i") auto
    finally show "held (map h rows) i = Some l \<longleftrightarrow> map_option (k i) (held rows i) = Some l" .
  qed
qed

lemma held_update:
  assumes "sound rows" and "update_row i f rows = Inr (rows', n)"
    and f: "\<And>r j. scan r = Inr j \<Longrightarrow> row_id (f r) = row_id r \<and> scan (f r) = Inr (g j)"
  shows "sound rows' \<and> (n = 0 \<longleftrightarrow> held rows i = None) \<and>
    (case held rows i of None \<Rightarrow> held rows' = held rows | Some j \<Rightarrow> held rows' = (held rows)(i \<mapsto> g j))"
proof -
  let ?h = "\<lambda>r. if row_id r = i then f r else r" and ?k = "\<lambda>l j. if l = i then g j else j"
  have rows': "rows' = map ?h rows" and n: "n = int (length (filter (\<lambda>r. row_id r = i) rows))"
    using assms(2) by (simp_all add: update_row_def)
  have "row_id (?h r) = row_id r \<and> scan (?h r) = Inr (?k (row_id r) j)" if "scan r = Inr j" for r j
    using f [OF that] that by simp
  note mapped = held_map [of rows ?h ?k, OF assms(1) this, folded rows']
  have "n = 0 \<longleftrightarrow> held rows i = None"
    using held_None_iff [OF assms(1), of i] by (auto simp: n filter_empty_conv)
  moreover have "map_option (?k l) (held rows l) =
      (case held rows i of None \<Rightarrow> held rows | Some j \<Rightarrow> (held rows)(i \<mapsto> g j)) l" for l
    by (cases "held rows i"; cases "held rows l") auto
  ultimately show ?thesis using mapped by (simp split: option.split)
qed

lemma held_delete:
  assumes "sound rows" and "delete_rows P rows = Inr (rows', n)"
    and P: "\<And>r j. r \<in> set rows \<Longrightarrow> scan r = Inr j \<Longrightarrow> P r \<longleftrightarrow> Q j"
  shows "sound rows' \<and>
    held rows' = (\<lambda>i. case held rows i of None \<Rightarrow> None | Some j \<Rightarrow> if Q j then None else Some j)"
proof -
  have rows': "rows' = filter (\<lambda>r. \<not> P r) rows"
    using assms(2) by (simp add: delete_rows_def)
  have s: "sound rows'"
    using assms(1) by (auto simp: sound_def rows' list_all_iff distinct_map_filter)
  have "held rows' = (\<lambda>i. case held rows i of None \<Rightarrow> None | Some j \<Rightarrow> if Q j then None else Some j)"
  proof (rule held_eqI)
    fix i l
    have "held rows' i = Some l \<longleftrightarrow> held rows i = Some l \<and> \<not> Q l"
      unfolding held_iff [OF s] held_iff [OF assms(1)] using P by (auto simp: rows')
    then show "held rows' i = Some l \<longleftrightarrow>
      (case held rows i of None \<Rightarrow> None | Some j \<Rightarrow> if Q j then None else Some j) = Some l"
      by (auto split: option.splits)
  qed
  with s show ?thesis by blast
qed

text \<open>The rows of a result, scanned: the jobs that the rows hold.\<close>

lemma scan_all_sound:
  assumes "sound rows" and "set selected \<subseteq> set rows"
  shows "\<exists>history. scan_all scan selected = Inr history \<and>
    list_all2 (\<lambda>r j. scan r = Inr j) selected history"
  using assms(2)
proof (induction selected)
  case (Cons r selected)
  then obtain j where "scan r = Inr j"
    using assms(1) by (auto simp: sound_def list_all_iff is_ok_iff)
  with Cons show ?case by auto
qed simp

lemma history:
  assumes "sound rows" and "scan_all scan (select_newest P n rows) = Inr history"
    and P: "\<And>r j. r \<in> set rows \<Longrightarrow> scan r = Inr j \<Longrightarrow> P r \<longleftrightarrow> Q j"
  shows "distinct (map job_ID history) \<and>
    (\<forall>j \<in> set history. held rows (job_ID j) = Some j \<and> Q j) \<and>
    sorted (map (\<lambda>j. - CreatedAt j) history) \<and> length history \<le> n \<and>
    (\<forall>i j. held rows i = Some j \<and> Q j \<and> j \<notin> set history \<longrightarrow>
       length history = n \<and> (\<forall>listed \<in> set history. CreatedAt j \<le> CreatedAt listed))"
proof -
  let ?key = "\<lambda>r. - row_created_at r"
  let ?sel = "select_newest P n rows"
  note out = take_sort_key [where n = n and f = ?key and xs = "filter P rows", folded select_newest_def]
  have sub: "set ?sel \<subseteq> set rows" using out(1) by auto
  with scan_all_sound [OF assms(1) sub] assms(2)
  have rel: "list_all2 (\<lambda>r j. scan r = Inr j) ?sel history" by auto
  have mem: "j \<in> set history \<longleftrightarrow> (\<exists>r \<in> set ?sel. scan r = Inr j)" for j
  proof -
    have "map scan ?sel = map Inr history"
      using rel by (simp add: list_all2_conv_all_nth list_eq_iff_nth_eq)
    then have "scan ` set ?sel = Inr ` set history" by (metis set_map)
    moreover have "j \<in> set history \<longleftrightarrow> Inr j \<in> (Inr ` set history :: (go_error + Job) set)" by auto
    ultimately have "j \<in> set history \<longleftrightarrow> Inr j \<in> scan ` set ?sel" by simp
    then show ?thesis by (metis image_iff)
  qed
  have ids: "map job_ID history = map row_id ?sel" and created: "map CreatedAt history = map (\<lambda>r. dec (row_created_at r)) ?sel"
    using rel scan_row by (auto simp: list_all2_conv_all_nth intro!: nth_equalityI)
  have mono: "dec x \<le> dec y" if "x \<le> y" for x y
    using dec_mono [of x y] that by (cases "x = y") auto
  have "distinct (map row_id (filter P rows))"
    using assms(1) by (simp add: sound_def distinct_map_filter)
  then have d1: "distinct (map job_ID history)" using out(5) by (simp add: ids)
  have d2: "\<forall>j \<in> set history. held rows (job_ID j) = Some j \<and> Q j"
  proof
    fix j
    assume "j \<in> set history"
    then obtain r where r: "r \<in> set ?sel" "scan r = Inr j" using mem by blast
    with out(1) have "r \<in> set rows" "P r" by auto
    with r P scan_row [OF r(2)] held_iff [OF assms(1)] show "held rows (job_ID j) = Some j \<and> Q j" by auto
  qed
  have d3: "sorted (map (\<lambda>j. - CreatedAt j) history)"
  proof -
    have "sorted (map (\<lambda>c. - c) (map CreatedAt history))"
      unfolding created using out(2) mono by (simp add: sorted_iff_nth_mono)
    then show ?thesis by (simp add: comp_def)
  qed
  have len: "length history = length ?sel" using rel by (simp add: list_all2_lengthD)
  have d4: "length history = n \<and> (\<forall>listed \<in> set history. CreatedAt j \<le> CreatedAt listed)"
    if h: "held rows i = Some j" "Q j" "j \<notin> set history" for i j
  proof -
    obtain r where r: "r \<in> set rows" "scan r = Inr j" using h(1) unfolding held_iff [OF assms(1)] by blast
    have "r \<in> set (filter P rows)" using P [OF r] r(1) h(2) by simp
    moreover have "r \<notin> set ?sel" using mem [of j] r(2) h(3) by blast
    ultimately have left: "length ?sel = n" "\<forall>y \<in> set ?sel. row_created_at r \<le> row_created_at y"
      using out(4) by auto
    have "CreatedAt j \<le> CreatedAt listed" if listed: "listed \<in> set history" for listed
    proof -
      obtain y where "y \<in> set ?sel" "scan y = Inr listed" using listed mem by blast
      with left(2) mono scan_row [of y listed] scan_row [OF r(2)] show ?thesis by simp
    qed
    with left(1) len show ?thesis by simp
  qed
  have d5: "length history \<le> n" using out(3) len by simp
  show ?thesis using d1 d2 d3 d5 d4 by blast
qed

text \<open>The calls of a store, on the table before and after.\<close>

lemma exec_insert:
  assumes "sound (contents s)" and "remote_exec ctx (insert_row r) s = (rn, s')" and "scan r = Inr j"
  shows "sound (contents s') \<and>
    (held (contents s') = (held (contents s))(row_id r \<mapsto> j) \<or>
     (\<exists>e. rn = Inl e) \<and> held (contents s') = held (contents s))"
  using remote_exec_cases [OF assms(2)] assms(1) held_insert [OF assms(1) _ assms(3)] by auto

lemma exec_update:
  assumes "sound (contents s)" and "remote_exec ctx (update_row i f) s = (rn, s')"
    and "\<And>r j. scan r = Inr j \<Longrightarrow> row_id (f r) = row_id r \<and> scan (f r) = Inr (g j)"
  shows "sound (contents s') \<and>
    ((\<exists>j. held (contents s) i = Some j \<and> held (contents s') = (held (contents s))(i \<mapsto> g j)) \<and>
       rn \<noteq> Inl ErrNotFound \<and> rn \<noteq> Inr 0 \<or>
     (\<exists>e. rn = Inl e \<and> \<not> errors_Is e ErrNotFound) \<and> held (contents s') = held (contents s) \<or>
     rn = Inr 0 \<and> held (contents s) i = None \<and> held (contents s') = held (contents s))"
  using remote_exec_cases [OF assms(2)]
proof (elim disjE exE conjE)
  fix e
  assume "rn = Inl e" "\<not> errors_Is e ErrNotFound" "contents s' = contents s"
  with assms(1) show ?thesis by auto
next
  fix e
  assume "update_row i f (contents s) = Inl e"
  then show ?thesis by (simp add: update_row_def)
next
  fix n
  assume ran: "update_row i f (contents s) = Inr (contents s', n)" and r: "rn = Inr n"
  from held_update [where g = g, OF assms(1) ran assms(3)] r show ?thesis by (auto split: option.splits)
next
  fix n e
  assume ran: "update_row i f (contents s) = Inr (contents s', n)"
    and r: "rn = Inl e" "\<not> errors_Is e ErrNotFound"
  have "e \<noteq> ErrNotFound" using r(2) by auto
  with held_update [where g = g, OF assms(1) ran assms(3)] r show ?thesis by (auto split: option.splits)
qed

lemma exec_delete:
  assumes "sound (contents s)" and "remote_exec ctx (delete_rows P) s = (rn, s')"
    and "\<And>r j. r \<in> set (contents s) \<Longrightarrow> scan r = Inr j \<Longrightarrow> P r \<longleftrightarrow> Q j"
  shows "sound (contents s') \<and> held (contents s') \<subseteq>\<^sub>m held (contents s) \<and>
    (case rn of Inl _ \<Rightarrow> True | Inr n \<Rightarrow>
     held (contents s') = (\<lambda>i. case held (contents s) i of None \<Rightarrow> None
                            | Some j \<Rightarrow> if Q j then None else Some j))"
  using remote_exec_cases [OF assms(2)] assms(1) held_delete [where P = P and Q = Q, OF assms(1) _ assms(3)]
  by (auto simp: delete_rows_def map_le_def split: option.splits if_splits)

lemma query_key:
  assumes "sound (contents s)" and "remote_query ctx (filter (\<lambda>r. row_id r = i)) s = (rq, s')"
  shows "contents s' = contents s \<and>
    (case rq of
       Inl e \<Rightarrow> \<not> errors_Is e ErrNotFound
     | Inr [] \<Rightarrow> held (contents s) i = None
     | Inr (r # _) \<Rightarrow> \<exists>j. scan r = Inr j \<and> held (contents s) i = Some j)"
  using remote_query_cases [OF assms(2)] held_selected [OF assms(1), of i] by auto

lemma query_newest:
  assumes "sound (contents s)" and "remote_query ctx (select_newest P n) s = (Inr rows, s')"
    and "scan_all scan rows = Inr history"
    and "\<And>r j. r \<in> set (contents s) \<Longrightarrow> scan r = Inr j \<Longrightarrow> P r \<longleftrightarrow> Q j"
  shows "distinct (map job_ID history) \<and>
    (\<forall>j \<in> set history. held (contents s) (job_ID j) = Some j \<and> Q j) \<and>
    sorted (map (\<lambda>j. - CreatedAt j) history) \<and> length history \<le> n \<and>
    (\<forall>i j. held (contents s) i = Some j \<and> Q j \<and> j \<notin> set history \<longrightarrow>
       length history = n \<and> (\<forall>listed \<in> set history. CreatedAt j \<le> CreatedAt listed))"
proof -
  have "rows = select_newest P n (contents s)" using remote_query_cases [OF assms(2)] by simp
  with assms(3) have "scan_all scan (select_newest P n (contents s)) = Inr history" by simp
  from history [where Q = Q, OF assms(1) this assms(4)] show ?thesis .
qed

end

section \<open>Encodings of instants\<close>

text \<open>What a store with an encoding of instants keeps of a new job and of an update.\<close>

definition fresh_job :: "Job \<Rightarrow> bool" where
  "fresh_job job \<longleftrightarrow> request_utf8 (job_Request job) \<and> job_Result job = None \<and> job_Error job = [] \<and>
     StartedAt job = None \<and> CompletedAt job = None"

definition canon_job :: "(time \<Rightarrow> time) \<Rightarrow> Job \<Rightarrow> Job" where
  "canon_job rnd job = job
     \<lparr>job_Request := canon_request (job_Request job), CreatedAt := rnd (CreatedAt job),
      UpdatedAt := rnd (UpdatedAt job), ExpiresAt := rnd (ExpiresAt job)\<rparr>"

definition keep_update :: "(time \<Rightarrow> time) \<Rightarrow> Update \<Rightarrow> Update" where
  "keep_update rnd u = u
     \<lparr>upd_UpdatedAt := rnd (upd_UpdatedAt u), upd_StartedAt := map_option rnd (upd_StartedAt u),
      upd_CompletedAt := map_option rnd (upd_CompletedAt u)\<rparr>"

definition sql_updatable :: "Update \<Rightarrow> bool" where
  "sql_updatable u \<longleftrightarrow> pred_option result_utf8 (upd_Result u)"

lemma canon_job_simps [simp]:
  "job_ID (canon_job f j) = job_ID j" "OwnerID (canon_job f j) = OwnerID j"
  "job_Status (canon_job f j) = job_Status j" "CreatedAt (canon_job f j) = f (CreatedAt j)"
  by (simp_all add: canon_job_def)

lemma keep_update_status [simp]: "upd_Status (keep_update f u) = upd_Status u"
  by (simp add: keep_update_def)

lemma columns_id [simp]:
  "row_id (job_columns enc job) = job_ID job" "row_id (update_columns enc u r) = row_id r"
  by (simp_all add: job_columns_def update_columns_def)

lemma scan_job_columns:
  "fresh_job job \<Longrightarrow> scan_columns label dec (job_columns enc job) = Inr (canon_job (\<lambda>t. dec (enc t)) job)"
  by (cases job) (simp add: scan_columns_def job_columns_def fresh_job_def decode_Request_json canon_job_def)

lemma scan_update_columns:
  assumes "sql_updatable u" and "scan_columns label dec r = Inr j"
  shows "row_id (update_columns enc u r) = row_id r \<and>
    scan_columns label dec (update_columns enc u r) = Inr (apply_update (keep_update (\<lambda>t. dec (enc t)) u) j)"
  using assms
  by (cases "upd_Result u"; cases "upd_StartedAt u"; cases "upd_CompletedAt u")
    (auto simp: scan_columns_def update_columns_def sql_updatable_def apply_update_def keep_update_def
      decode_Result_json coalesce_def split: sum.splits option.splits)

section \<open>The operations\<close>

text \<open>\<open>far\<close> is the bound of a history without one.\<close>

definition sql_Create :: "(time \<Rightarrow> int) \<Rightarrow> go_context \<Rightarrow> Job \<Rightarrow> row list Remote \<Rightarrow> (go_error + unit) \<times> row list Remote" where
  "sql_Create enc ctx job db =
     (case remote_exec ctx (insert_row (job_columns enc job)) db of
        (Inl err, db') \<Rightarrow> (Inl err, db')
      | (Inr _, db') \<Rightarrow> (Inr (), db'))"

text \<open>\<open>QueryRow\<close> of a key: no row is \<open>ErrNoRows\<close>, which becomes \<open>ErrNotFound\<close>.\<close>

definition sql_Get ::
  "string \<Rightarrow> (int \<Rightarrow> time) \<Rightarrow> go_context \<Rightarrow> string \<Rightarrow> row list Remote \<Rightarrow> (go_error + Job) \<times> row list Remote" where
  "sql_Get label dec ctx mid db =
     (case remote_query ctx (filter (\<lambda>r. row_id r = mid)) db of
        (Inl err, db') \<Rightarrow> (Inl err, db')
      | (Inr [], db') \<Rightarrow> (Inl ErrNotFound, db')
      | (Inr (r # _), db') \<Rightarrow> (scan_columns label dec r, db'))"

definition sql_Update ::
  "(time \<Rightarrow> int) \<Rightarrow> go_context \<Rightarrow> string \<Rightarrow> Update \<Rightarrow> row list Remote \<Rightarrow> (go_error + unit) \<times> row list Remote" where
  "sql_Update enc ctx mid update db =
     (case remote_exec ctx (update_row mid (update_columns enc update)) db of
        (Inl err, db') \<Rightarrow> (Inl err, db')
      | (Inr affected, db') \<Rightarrow> if affected = 0 then (Inl ErrNotFound, db') else (Inr (), db'))"

definition sql_List ::
  "string \<Rightarrow> (time \<Rightarrow> int) \<Rightarrow> (int \<Rightarrow> time) \<Rightarrow> time \<Rightarrow> go_context \<Rightarrow> string \<Rightarrow> ListOptions \<Rightarrow> row list Remote
     \<Rightarrow> (go_error + Job list) \<times> row list Remote" where
  "sql_List label enc dec far ctx ownerID options db =
     (let limit = (if opt_Limit options \<le> 0 then 20 else opt_Limit options);
          before = (if IsZero (opt_Before options) then far else opt_Before options) in
      case remote_query ctx (select_newest (\<lambda>r. row_owner_id r = ownerID \<and> row_created_at r < enc before)
             (nat limit)) db of
        (Inl err, db') \<Rightarrow> (Inl err, db')
      | (Inr rows, db') \<Rightarrow> (scan_all (scan_columns label dec) rows, db'))"

definition sql_DeleteExpired ::
  "(time \<Rightarrow> int) \<Rightarrow> go_context \<Rightarrow> time \<Rightarrow> row list Remote \<Rightarrow> (go_error + int) \<times> row list Remote" where
  "sql_DeleteExpired enc ctx before db = remote_exec ctx (delete_rows (\<lambda>r. row_expires_at r \<le> enc before)) db"

definition sql_Store :: "string \<Rightarrow> (time \<Rightarrow> int) \<Rightarrow> (int \<Rightarrow> time) \<Rightarrow> time \<Rightarrow> row list Remote Store" where
  "sql_Store label enc dec far =
     \<lparr>store_Create = sql_Create enc, store_Get = sql_Get label dec, store_Update = sql_Update enc,
      store_List = sql_List label enc dec far, store_DeleteExpired = sql_DeleteExpired enc\<rparr>"

section \<open>The contract\<close>

text \<open>
  Decoding is strictly monotone and the far bound is encoded exactly. Jobs have to be created before
  the far bound. A bound of a history is exact when its encoding is, and expiry is exact when the
  encoding of the instant splits the rows as the instant does.
\<close>

locale sql_store =
  fixes label :: string
    and enc :: "time \<Rightarrow> int"
    and dec :: "int \<Rightarrow> time"
    and far :: time
  assumes decode_mono: "x < y \<Longrightarrow> dec x < dec y"
    and far_exact: "dec (enc far) = far"
begin

sublocale job_rows "scan_columns label dec" dec
  by unfold_locales (auto simp: scan_columns_def decode_mono split: sum.splits)

definition sql_jobs :: "row list Remote \<Rightarrow> string \<Rightarrow> Job option" where
  "sql_jobs db = held (contents db)"

definition sql_inv :: "row list Remote \<Rightarrow> bool" where
  "sql_inv db \<longleftrightarrow> sound (contents db) \<and> (\<forall>j \<in> ran (sql_jobs db). CreatedAt j < far)"

definition rounded :: "time \<Rightarrow> time" where
  "rounded t = dec (enc t)"

definition storable :: "Job \<Rightarrow> bool" where
  "storable job \<longleftrightarrow> fresh_job job \<and> rounded (CreatedAt job) < far"

definition listable :: "ListOptions \<Rightarrow> bool" where
  "listable options \<longleftrightarrow> IsZero (opt_Before options) \<or> rounded (opt_Before options) = opt_Before options"

definition expirable :: "time \<Rightarrow> bool" where
  "expirable before \<longleftrightarrow> (\<forall>x. x \<le> enc before \<longleftrightarrow> dec x \<le> before)"

lemmas scan_new = scan_job_columns [of _ label dec enc, folded rounded_def]
lemmas scan_updated = scan_update_columns [of _ label dec _ _ enc, folded rounded_def]

lemma inv_sound: "sql_inv db \<Longrightarrow> sound (contents db)"
  by (simp add: sql_inv_def)

lemma invI:
  "sound (contents db) \<Longrightarrow> (\<And>i j. sql_jobs db i = Some j \<Longrightarrow> CreatedAt j < far) \<Longrightarrow> sql_inv db"
  by (auto simp: sql_inv_def ran_def)

lemma inv_created: "sql_inv db \<Longrightarrow> sql_jobs db i = Some j \<Longrightarrow> CreatedAt j < far"
  by (auto simp: sql_inv_def ran_def)

lemma inv_empty: "sql_inv \<lparr>contents = [], faults = fs\<rparr>"
  by (simp add: sql_inv_def sql_jobs_def sound_def)

lemma dec_less: "dec x < dec y \<longleftrightarrow> x < y"
  using decode_mono [of x y] decode_mono [of y x] by (cases x y rule: linorder_cases) auto

sublocale st: job_store "sql_Store label enc dec far" sql_jobs sql_inv "canon_job rounded" "keep_update rounded"
  storable sql_updatable
proof unfold_locales
  fix s s' :: "row list Remote" and i ctx and rj :: "go_error + Job"
  show "sql_inv s \<Longrightarrow> sql_jobs s i = Some j \<Longrightarrow> job_ID j = i" for j
    using held_keyed [OF inv_sound] by (simp add: sql_jobs_def)
  assume inv: "sql_inv s" and call: "store_Get (sql_Store label enc dec far) ctx i s = (rj, s')"
  obtain rq s1 where q: "remote_query ctx (filter (\<lambda>r. row_id r = i)) s = (rq, s1)" by force
  have "rj = (case rq of Inl e \<Rightarrow> Inl e | Inr [] \<Rightarrow> Inl ErrNotFound | Inr (r # _) \<Rightarrow> scan_columns label dec r)"
    "s' = s1"
    using call q by (auto simp: sql_Store_def sql_Get_def split: sum.splits list.splits)
  with query_key [OF inv_sound [OF inv] q]
  show "sql_inv s' \<and> sql_jobs s' = sql_jobs s \<and>
      (case rj of Inl e \<Rightarrow> errors_Is e ErrNotFound \<longrightarrow> sql_jobs s i = None | Inr j \<Rightarrow> sql_jobs s i = Some j)"
    using inv by (auto simp: sql_inv_def sql_jobs_def split: sum.splits list.splits)
next
  fix s s' :: "row list Remote" and job ctx and r0 :: "go_error + unit"
  assume inv: "sql_inv s" and job: "storable job"
    and call: "store_Create (sql_Store label enc dec far) ctx job s = (r0, s')"
  obtain rn where e: "remote_exec ctx (insert_row (job_columns enc job)) s = (rn, s')"
    and r0: "r0 = (case rn of Inl e \<Rightarrow> Inl e | Inr _ \<Rightarrow> Inr ())"
    using call by (auto simp: sql_Store_def sql_Create_def split: prod.splits sum.splits)
  have fresh: "fresh_job job" using job by (simp add: storable_def)
  show "sql_inv s' \<and> (sql_jobs s' = (sql_jobs s)(job_ID job \<mapsto> canon_job rounded job) \<or>
                    (\<exists>e. r0 = Inl e) \<and> sql_jobs s' = sql_jobs s)"
    using exec_insert [OF inv_sound [OF inv] e scan_new [OF fresh]] inv_created [OF inv] job
    by (auto simp: sql_jobs_def r0 storable_def split: if_splits intro!: invI)
next
  fix s s' :: "row list Remote" and i u ctx and r0 :: "go_error + unit"
  assume inv: "sql_inv s" and u: "sql_updatable u"
    and call: "store_Update (sql_Store label enc dec far) ctx i u s = (r0, s')"
  obtain rn where e: "remote_exec ctx (update_row i (update_columns enc u)) s = (rn, s')"
    and r0: "r0 = (case rn of Inl e \<Rightarrow> Inl e | Inr n \<Rightarrow> if n = 0 then Inl ErrNotFound else Inr ())"
    using call by (auto simp: sql_Store_def sql_Update_def split: prod.splits sum.splits if_splits)
  show "sql_inv s' \<and>
      ((\<exists>j. sql_jobs s i = Some j \<and> sql_jobs s' = (sql_jobs s)(i \<mapsto> apply_update (keep_update rounded u) j)) \<and>
         r0 \<noteq> Inl ErrNotFound \<or>
       (\<exists>e. r0 = Inl e \<and> (errors_Is e ErrNotFound \<longrightarrow> sql_jobs s i = None)) \<and> sql_jobs s' = sql_jobs s)"
    using exec_update [where g = "apply_update (keep_update rounded u)", OF inv_sound [OF inv] e scan_updated [OF u]]
      inv_created [OF inv]
    by (auto simp: sql_jobs_def r0 split: sum.splits if_splits intro!: invI)
qed simp_all

sublocale st: job_history "sql_Store label enc dec far" sql_jobs sql_inv "canon_job rounded" "keep_update rounded"
  storable sql_updatable listable
proof unfold_locales
  fix s s' :: "row list Remote" and owner options ctx and rl :: "go_error + Job list"
  assume inv: "sql_inv s" and call: "store_List (sql_Store label enc dec far) ctx owner options s = (rl, s')"
  note inv' = inv_sound [OF inv]
  define bound where "bound = enc (if IsZero (opt_Before options) then far else opt_Before options)"
  let ?P = "\<lambda>r. row_owner_id r = owner \<and> row_created_at r < bound"
  let ?Q = "\<lambda>j. OwnerID j = owner \<and> CreatedAt j < dec bound"
  obtain rq s1 where q: "remote_query ctx (select_newest ?P (effective_limit options)) s = (rq, s1)" by force
  have rl: "rl = (case rq of Inl e \<Rightarrow> Inl e | Inr rows \<Rightarrow> scan_all (scan_columns label dec) rows)" "s' = s1"
    using call q by (auto simp: sql_Store_def sql_List_def effective_limit_def Let_def bound_def
        split: sum.splits)
  have PQ: "?P r \<longleftrightarrow> ?Q j" if "scan_columns label dec r = Inr j" for r j
    using scan_row [OF that] by (simp add: dec_less)
  have exact: "?Q j \<longleftrightarrow> in_history owner options j"
    if "listable options" "sql_jobs s i = Some j" for i j
    using that inv_created [OF inv that(2)]
    by (auto simp: in_history_def listable_def bound_def far_exact rounded_def)
  have same: "sql_inv s' \<and> sql_jobs s' = sql_jobs s"
    using remote_query_cases [OF q] rl inv by (simp add: sql_inv_def sql_jobs_def)
  show "sql_inv s' \<and> sql_jobs s' = sql_jobs s \<and>
      (case rl of Inl _ \<Rightarrow> True
       | Inr history \<Rightarrow>
           distinct (map job_ID history) \<and>
           (\<forall>j \<in> set history. sql_jobs s (job_ID j) = Some j \<and> OwnerID j = owner) \<and>
           sorted (map (\<lambda>j. - CreatedAt j) history) \<and>
           length history \<le> effective_limit options \<and>
           (listable options \<longrightarrow>
              (\<forall>j \<in> set history. in_history owner options j) \<and>
              (\<forall>i j. sql_jobs s i = Some j \<and> in_history owner options j \<and> j \<notin> set history \<longrightarrow>
                 length history = effective_limit options \<and>
                 (\<forall>listed \<in> set history. CreatedAt j \<le> CreatedAt listed))))"
  proof (cases rl)
    case (Inl e)
    with same show ?thesis by simp
  next
    case (Inr history)
    with rl obtain rows where "rq = Inr rows" "scan_all (scan_columns label dec) rows = Inr history"
      by (auto split: sum.splits)
    note newest = query_newest [where Q = ?Q, OF inv' q [unfolded this(1)] this(2) PQ, folded sql_jobs_def]
    show ?thesis
      unfolding Inr sum.case using same newest exact by blast
  qed
qed

sublocale st: job_expiry "sql_Store label enc dec far" sql_jobs sql_inv "canon_job rounded" "keep_update rounded"
  storable sql_updatable expirable
proof unfold_locales
  fix s s' :: "row list Remote" and before ctx and rn :: "go_error + int"
  assume inv: "sql_inv s" and before: "expirable before"
    and call: "store_DeleteExpired (sql_Store label enc dec far) ctx before s = (rn, s')"
  have e: "remote_exec ctx (delete_rows (\<lambda>r. row_expires_at r \<le> enc before)) s = (rn, s')"
    using call by (simp add: sql_Store_def sql_DeleteExpired_def)
  have "row_expires_at r \<le> enc before \<longleftrightarrow> ExpiresAt j \<le> before" if "scan_columns label dec r = Inr j" for r j
    using scan_row [OF that] before by (simp add: expirable_def)
  note deleted = exec_delete [where Q = "\<lambda>j. ExpiresAt j \<le> before", OF inv_sound [OF inv] e this]
  have "sql_inv s'"
    using deleted inv_created [OF inv]
    by (intro invI) (auto simp: sql_jobs_def map_le_def dom_def)
  then show "sql_inv s' \<and>
      (case rn of Inl _ \<Rightarrow> True
       | Inr n \<Rightarrow> sql_jobs s' = (\<lambda>i. case sql_jobs s i of None \<Rightarrow> None
                        | Some j \<Rightarrow> if ExpiresAt j \<le> before then None else Some j))"
    using deleted unfolding sql_jobs_def [abs_def] by blast
qed

text \<open>With a server that works, a new job can be stored, updated and read, and nothing else in the
  table changes.\<close>

lemma Create_Update_Get:
  assumes "sql_inv db" and "faults db = []" and "storable job"
    and "sql_jobs db (job_ID job) = None" and "sql_updatable u"
  shows "\<exists>db1 db2. sql_Create enc None job db = (Inr (), db1) \<and>
    sql_Update enc None (job_ID job) u db1 = (Inr (), db2) \<and>
    sql_Get label dec None (job_ID job) db2 =
      (Inr (apply_update (keep_update rounded u) (canon_job rounded job)), db2) \<and>
    (\<forall>k. k \<noteq> job_ID job \<longrightarrow> fst (sql_Get label dec None k db2) = fst (sql_Get label dec None k db))"
proof -
  let ?i = "job_ID job"
  let ?r = "job_columns enc job"
  have fresh: "?i \<notin> row_id ` set (contents db)"
    using assms(4) held_None_iff [OF inv_sound [OF assms(1)]] by (simp add: sql_jobs_def)
  let ?db1 = "db\<lparr>contents := contents db @ [?r]\<rparr>"
  have create: "sql_Create enc None job db = (Inr (), ?db1)"
    using fresh by (simp add: sql_Create_def remote_exec_runs [OF assms(2)] insert_row_def)
  let ?db2 = "db\<lparr>contents := contents db @ [update_columns enc u ?r]\<rparr>"
  have update: "sql_Update enc None ?i u ?db1 = (Inr (), ?db2)"
    using assms(2) fresh by (simp add: sql_Update_def remote_exec_runs update_row_def absent_key)
  have job: "fresh_job job" using assms(3) by (simp add: storable_def)
  have get: "sql_Get label dec None ?i ?db2 =
      (Inr (apply_update (keep_update rounded u) (canon_job rounded job)), ?db2)"
    using scan_updated [OF assms(5) scan_new [OF job]] assms(2) fresh
    by (simp add: sql_Get_def remote_query_runs absent_key)
  have "fst (sql_Get label dec None k ?db2) = fst (sql_Get label dec None k db)" if "k \<noteq> ?i" for k
    using that assms(2) by (simp add: sql_Get_def remote_query_runs split: list.split)
  with create update get show ?thesis by blast
qed

end

section \<open>Clocks of microseconds\<close>

text \<open>
  PostgreSQL's \<open>timestamptz\<close> and MySQL's \<open>datetime(6)\<close> hold microseconds. How the driver and the server
  round an instant is not in this repository: \<open>micro\<close> is any rounding that keeps whole microseconds
  and moves an instant by less than one. A history without a bound ends at the end of the year 9999.
\<close>

definition decode_micros :: "int \<Rightarrow> time" where
  "decode_micros x = 1000 * x"

definition end_of_9999 :: time where
  "end_of_9999 = 253402300799 * Second"

text \<open>What such a store keeps of an instant, which jobs it keeps, and the bounds that are exact.\<close>

definition to_micro :: "(time \<Rightarrow> int) \<Rightarrow> time \<Rightarrow> time" where
  "to_micro micro t = 1000 * micro t"

definition micro_storable :: "(time \<Rightarrow> int) \<Rightarrow> Job \<Rightarrow> bool" where
  "micro_storable micro job \<longleftrightarrow> fresh_job job \<and> to_micro micro (CreatedAt job) < end_of_9999"

definition whole_micros :: "time \<Rightarrow> bool" where
  "whole_micros t \<longleftrightarrow> 1000 dvd t"

definition micro_listable :: "ListOptions \<Rightarrow> bool" where
  "micro_listable options \<longleftrightarrow> IsZero (opt_Before options) \<or> whole_micros (opt_Before options)"

locale micro_clock =
  fixes micro :: "time \<Rightarrow> int"
  assumes micro_exact: "micro (1000 * x) = x"
    and micro_close: "\<bar>1000 * micro t - t\<bar> < 1000"
begin

sublocale sql: sql_store label micro decode_micros end_of_9999 for label
  by unfold_locales
    (auto simp: decode_micros_def end_of_9999_def Second_def micro_exact [of "253402300799000000", simplified])

lemma rounded_eq: "sql.rounded = to_micro micro"
  by (simp add: fun_eq_iff sql.rounded_def to_micro_def decode_micros_def)

lemma whole_exact: "to_micro micro t = t \<longleftrightarrow> whole_micros t"
proof
  assume "whole_micros t"
  then obtain x where "t = 1000 * x" unfolding whole_micros_def by (auto elim: dvdE)
  then show "to_micro micro t = t" by (simp add: to_micro_def micro_exact)
next
  assume "to_micro micro t = t"
  then have "t = 1000 * micro t" by (simp add: to_micro_def)
  then show "whole_micros t" unfolding whole_micros_def by (metis dvd_triv_left)
qed

lemma predicates: "sql.storable = micro_storable micro" "sql.listable = micro_listable"
  by (simp_all add: fun_eq_iff sql.storable_def micro_storable_def rounded_eq sql.listable_def
      micro_listable_def whole_exact)

lemma expirable: "whole_micros t \<Longrightarrow> sql.expirable t"
  using whole_exact [of t] by (auto simp: sql.expirable_def to_micro_def decode_micros_def)

lemmas history_contract = sql.st.job_history_axioms [unfolded predicates rounded_eq]
lemmas expiry_contract = sql.st.weaken [OF expirable, unfolded predicates rounded_eq]
lemmas row_contract = sql.Create_Update_Get [unfolded predicates rounded_eq]

end

interpretation truncating: micro_clock "\<lambda>t. t div 1000"
  by unfold_locales auto

interpretation rounding: micro_clock "\<lambda>t. (t + 500) div 1000"
  by unfold_locales auto

section \<open>An example\<close>

lemma demo_fresh: "fresh_job demo_job"
  by (simp add: fresh_job_def demo_job_def request_utf8_def translation_utf8_def zero_translation_def
      glossary_entries_def valid_utf8_ascii byte_def)

end
