(* ===== verification/Sqlite.thy ===== *)
theory Sqlite
  imports Sql
begin

text \<open>
  \<open>lib/jobs/sqlite/store.go\<close>: jobs in a SQLite table, instants as Unix nanoseconds in 64 bits. The
  driver is a parameter of \<open>New\<close>; the statements run on the table of \<open>Sql\<close>. The lemmas show that the
  store meets the contracts of \<open>Jobs\<close>: what was created is read back, except that the glossary comes
  back in key order.
\<close>

section \<open>Opening\<close>

definition normalizeDSN :: "string \<Rightarrow> string" where
  "normalizeDSN pathOrDSN = strings_TrimSpace pathOrDSN"

definition sqlite_pragmas :: "string list" where
  "sqlite_pragmas =
     [''PRAGMA busy_timeout = 5000'', ''PRAGMA journal_mode = WAL'', ''PRAGMA foreign_keys = ON'',
      ''PRAGMA synchronous = NORMAL'']"

text \<open>\<open>execute\<close> is the driver: the error of a statement, if any.\<close>

fun apply_pragmas_loop :: "(string \<Rightarrow> go_error option) \<Rightarrow> string list \<Rightarrow> go_error + unit" where
  "apply_pragmas_loop execute [] = Inr ()"
| "apply_pragmas_loop execute (pragma # pragmas) =
     (case execute pragma of
        Some err \<Rightarrow>
          if sublist ''journal_mode'' pragma then apply_pragmas_loop execute pragmas
          else Inl (Wrap (Step (''apply SQLite pragma '' @ strconv_Quote (\<lambda>_. True) pragma)) err)
      | None \<Rightarrow> apply_pragmas_loop execute pragmas)"

definition applyPragmas :: "(string \<Rightarrow> go_error option) \<Rightarrow> go_error + unit" where
  "applyPragmas execute = apply_pragmas_loop execute sqlite_pragmas"

text \<open>\<open>open_database\<close>, \<open>ping\<close> and \<open>migrate\<close> are the errors of the driver. The second component tells
  whether a database is open on return.\<close>

definition sqlite_Migrate :: "go_error option \<Rightarrow> go_error + unit" where
  "sqlite_Migrate migrate =
     (case migrate of Some err \<Rightarrow> Inl (Wrap (Step ''migrate SQLite jobs schema'') err) | None \<Rightarrow> Inr ())"

definition sqlite_New ::
  "(string \<Rightarrow> go_error option) \<Rightarrow> go_error option \<Rightarrow> (string \<Rightarrow> go_error option) \<Rightarrow> go_error option
     \<Rightarrow> string \<Rightarrow> (go_error + unit) \<times> bool" where
  "sqlite_New open_database ping execute migrate pathOrDSN =
     (if strings_TrimSpace pathOrDSN = [] then (Inl (BackendError SQLitePathRequired), False)
      else case open_database (normalizeDSN pathOrDSN) of
        Some err \<Rightarrow> (Inl (Wrap (Step ''open SQLite'') err), False)
      | None \<Rightarrow>
        (case ping of
           Some err \<Rightarrow> (Inl (Wrap (Step ''connect SQLite'') err), False)
         | None \<Rightarrow>
           (case applyPragmas execute of
              Inl err \<Rightarrow> (Inl err, False)
            | Inr _ \<Rightarrow>
              (case sqlite_Migrate migrate of
                 Inl err \<Rightarrow> (Inl err, False)
               | Inr _ \<Rightarrow> (Inr (), True)))))"

section \<open>Rows\<close>

text \<open>\<open>UnixNano\<close> of an instant outside its range wraps.\<close>

definition encodeTime :: "time \<Rightarrow> int" where
  "encodeTime value = go_int64 value"

definition decodeTime :: "int \<Rightarrow> time" where
  "decodeTime value = value"

definition sqlite_scanJob :: "row \<Rightarrow> go_error + Job" where
  "sqlite_scanJob = scan_columns ''SQLite'' decodeTime"

section \<open>Operations\<close>

text \<open>The bound of a history without one: \<open>time.Unix(0, 1<<62)\<close>, in the year 2116.\<close>

definition sqlite_far :: time where
  "sqlite_far = 2 ^ 62"

definition sqlite_Create :: "go_context \<Rightarrow> Job \<Rightarrow> row list Remote \<Rightarrow> (go_error + unit) \<times> row list Remote" where
  "sqlite_Create ctx job db =
     (case remote_exec ctx (insert_row (job_columns encodeTime job)) db of
        (Inl err, db') \<Rightarrow> (Inl err, db')
      | (Inr _, db') \<Rightarrow> (Inr (), db'))"

definition sqlite_Get :: "go_context \<Rightarrow> string \<Rightarrow> row list Remote \<Rightarrow> (go_error + Job) \<times> row list Remote" where
  "sqlite_Get ctx mid db =
     (case remote_query ctx (filter (\<lambda>r. row_id r = mid)) db of
        (Inl err, db') \<Rightarrow> (Inl err, db')
      | (Inr [], db') \<Rightarrow> (Inl ErrNotFound, db')
      | (Inr (r # _), db') \<Rightarrow> (sqlite_scanJob r, db'))"

definition sqlite_Update :: "go_context \<Rightarrow> string \<Rightarrow> Update \<Rightarrow> row list Remote \<Rightarrow> (go_error + unit) \<times> row list Remote" where
  "sqlite_Update ctx mid update db =
     (case remote_exec ctx (update_row mid (update_columns encodeTime update)) db of
        (Inl err, db') \<Rightarrow> (Inl err, db')
      | (Inr affected, db') \<Rightarrow> if affected = 0 then (Inl ErrNotFound, db') else (Inr (), db'))"

definition sqlite_List ::
  "go_context \<Rightarrow> string \<Rightarrow> ListOptions \<Rightarrow> row list Remote \<Rightarrow> (go_error + Job list) \<times> row list Remote" where
  "sqlite_List ctx ownerID options db =
     (let limit = (if opt_Limit options \<le> 0 then 20 else opt_Limit options);
          before = (if IsZero (opt_Before options) then sqlite_far else opt_Before options) in
      case remote_query ctx (select_newest (\<lambda>r. row_owner_id r = ownerID \<and> row_created_at r < encodeTime before)
             (nat limit)) db of
        (Inl err, db') \<Rightarrow> (Inl err, db')
      | (Inr rows, db') \<Rightarrow> (scan_all sqlite_scanJob rows, db'))"

definition sqlite_DeleteExpired :: "go_context \<Rightarrow> time \<Rightarrow> row list Remote \<Rightarrow> (go_error + int) \<times> row list Remote" where
  "sqlite_DeleteExpired ctx before db =
     remote_exec ctx (delete_rows (\<lambda>r. row_expires_at r \<le> encodeTime before)) db"

definition sqlite_Store :: "row list Remote Store" where
  "sqlite_Store =
     \<lparr>store_Create = sqlite_Create, store_Get = sqlite_Get, store_Update = sqlite_Update,
      store_List = sqlite_List, store_DeleteExpired = sqlite_DeleteExpired\<rparr>"

section \<open>The contract\<close>

text \<open>Jobs have to be created before the far bound.\<close>

interpretation sqlite: sql_store "''SQLite''" encodeTime decodeTime sqlite_far
  by unfold_locales (simp_all add: sqlite_far_def encodeTime_def decodeTime_def go_int64_id)

definition sqlite_jobs :: "row list Remote \<Rightarrow> string \<Rightarrow> Job option" where
  "sqlite_jobs = sqlite.sql_jobs"

definition sqlite_inv :: "row list Remote \<Rightarrow> bool" where
  "sqlite_inv = sqlite.sql_inv"

definition sqlite_round :: "time \<Rightarrow> time" where
  "sqlite_round t = go_int64 t"

definition sqlite_storable :: "Job \<Rightarrow> bool" where
  "sqlite_storable job \<longleftrightarrow> fresh_job job \<and> sqlite_round (CreatedAt job) < sqlite_far"

definition sqlite_listable :: "ListOptions \<Rightarrow> bool" where
  "sqlite_listable options \<longleftrightarrow> IsZero (opt_Before options) \<or> is_int64 (opt_Before options)"

lemma sqlite_ops:
  "sqlite_Create = sql_Create encodeTime" "sqlite_Get = sql_Get ''SQLite'' decodeTime"
  "sqlite_Update = sql_Update encodeTime" "sqlite_List = sql_List ''SQLite'' encodeTime decodeTime sqlite_far"
  "sqlite_DeleteExpired = sql_DeleteExpired encodeTime"
  unfolding sqlite_Create_def [abs_def] sql_Create_def [abs_def] sqlite_Get_def [abs_def] sql_Get_def [abs_def]
    sqlite_Update_def [abs_def] sql_Update_def [abs_def] sqlite_List_def [abs_def] sql_List_def [abs_def]
    sqlite_DeleteExpired_def [abs_def] sql_DeleteExpired_def [abs_def] sqlite_scanJob_def
  by (rule refl)+

lemma sqlite_Store_eq: "sqlite_Store = sql_Store ''SQLite'' encodeTime decodeTime sqlite_far"
  by (simp add: sqlite_Store_def sql_Store_def sqlite_ops)

lemma sqlite_rounded: "sqlite.rounded = sqlite_round"
  by (simp add: fun_eq_iff sqlite.rounded_def sqlite_round_def encodeTime_def decodeTime_def)

lemma sqlite_eqs:
  "sqlite.storable = sqlite_storable" "sqlite.listable = sqlite_listable"
  by (simp_all add: fun_eq_iff sqlite.storable_def sqlite_storable_def sqlite_rounded
      sqlite.listable_def sqlite_listable_def sqlite_round_def go_int64_iff)

lemma sqlite_expirable: "is_int64 before \<Longrightarrow> sqlite.expirable before"
  by (simp add: sqlite.expirable_def encodeTime_def decodeTime_def go_int64_iff [THEN iffD2])

section \<open>Properties\<close>

text \<open>
  C26. The SQLite store refines the contract of a job store: on a table of sound rows, whatever the
  driver does, every operation acts on the jobs held as \<open>Store\<close> promises, with histories and expiry,
  and an empty table is sound.
\<close>

theorem sqlite_implements_store:
  "job_history sqlite_Store sqlite_jobs sqlite_inv (canon_job sqlite_round) (keep_update sqlite_round) sqlite_storable sql_updatable
     sqlite_listable \<and>
   job_expiry sqlite_Store sqlite_jobs sqlite_inv (canon_job sqlite_round) (keep_update sqlite_round) sqlite_storable sql_updatable
     is_int64 \<and>
   sqlite_inv \<lparr>contents = [], faults = fs\<rparr>"
  using sqlite.st.job_history_axioms sqlite.st.weaken [OF sqlite_expirable] sqlite.inv_empty
  by (simp add: sqlite_Store_eq sqlite_jobs_def sqlite_inv_def sqlite_eqs sqlite_rounded)

text \<open>
  C27. With a driver that works, a new job can be stored, updated and read: what \<open>Get\<close> returns is the
  stored job with the update applied, its request unchanged but for the order of the glossary and its
  instants as 64-bit nanoseconds, and nothing else in the table changes.
\<close>

theorem sqlite_roundtrip:
  assumes "sqlite_inv db" and "faults db = []" and "sqlite_storable job"
    and "sqlite_jobs db (job_ID job) = None" and "sql_updatable u"
  shows "\<exists>db1 db2. sqlite_Create None job db = (Inr (), db1) \<and>
    sqlite_Update None (job_ID job) u db1 = (Inr (), db2) \<and>
    sqlite_Get None (job_ID job) db2 =
      (Inr (apply_update (keep_update sqlite_round u) (canon_job sqlite_round job)), db2) \<and>
    (\<forall>k. k \<noteq> job_ID job \<longrightarrow> fst (sqlite_Get None k db2) = fst (sqlite_Get None k db))"
  using sqlite.Create_Update_Get [of db job u] assms
  by (simp add: sqlite_ops sqlite_eqs sqlite_rounded sqlite_jobs_def sqlite_inv_def)

lemma demo_kept: "sqlite_storable demo_job" "sql_updatable demo_update"
  using demo_fresh
  by (simp_all add: sqlite_storable_def sql_updatable_def demo_update_def demo_job_def sqlite_round_def sqlite_far_def go_int64_id)

theorem sqlite_roundtrip_witness:
  "\<exists>db1 db2 j. sqlite_Create None demo_job \<lparr>contents = [], faults = []\<rparr> = (Inr (), db1) \<and>
     sqlite_Update None ''a1'' demo_update db1 = (Inr (), db2) \<and>
     sqlite_Get None ''a1'' db2 = (Inr j, db2) \<and> job_Status j = StatusFailed \<and> OwnerID j = ''alice''"
proof -
  let ?db = "\<lparr>contents = [], faults = []\<rparr> :: row list Remote"
  have "sqlite_inv ?db" "faults ?db = []" "sqlite_jobs ?db (job_ID demo_job) = None"
    by (simp_all add: sqlite_inv_def sqlite.inv_empty sqlite_jobs_def sqlite.sql_jobs_def)
  from sqlite_roundtrip [OF this(1,2) demo_kept(1) this(3) demo_kept(2)] show ?thesis
    by (auto simp: demo_job_def demo_update_def)
qed

text \<open>
  \<open>New\<close> succeeds exactly when the path is not blank and the driver opens, answers, accepts every
  pragma except possibly \<open>journal_mode\<close>, and migrates; and it leaves a database open exactly then.
\<close>

theorem sqlite_New_correct:
  "(fst (sqlite_New open_database ping execute migrate path) = Inr () \<longleftrightarrow>
      strings_TrimSpace path \<noteq> [] \<and> open_database (strings_TrimSpace path) = None \<and> ping = None \<and>
      execute ''PRAGMA busy_timeout = 5000'' = None \<and> execute ''PRAGMA foreign_keys = ON'' = None \<and>
      execute ''PRAGMA synchronous = NORMAL'' = None \<and> migrate = None) \<and>
   (snd (sqlite_New open_database ping execute migrate path) \<longleftrightarrow>
      is_ok (fst (sqlite_New open_database ping execute migrate path)))"
proof
  have "sublist ''journal_mode'' ''PRAGMA journal_mode = WAL''"
    "\<not> sublist ''journal_mode'' ''PRAGMA busy_timeout = 5000''"
    "\<not> sublist ''journal_mode'' ''PRAGMA foreign_keys = ON''"
    "\<not> sublist ''journal_mode'' ''PRAGMA synchronous = NORMAL''"
    by code_simp+
  then show "fst (sqlite_New open_database ping execute migrate path) = Inr () \<longleftrightarrow>
      strings_TrimSpace path \<noteq> [] \<and> open_database (strings_TrimSpace path) = None \<and> ping = None \<and>
      execute ''PRAGMA busy_timeout = 5000'' = None \<and> execute ''PRAGMA foreign_keys = ON'' = None \<and>
      execute ''PRAGMA synchronous = NORMAL'' = None \<and> migrate = None"
    by (auto simp: sqlite_New_def applyPragmas_def sqlite_pragmas_def normalizeDSN_def sqlite_Migrate_def
        split: option.splits)
  show "snd (sqlite_New open_database ping execute migrate path) \<longleftrightarrow>
      is_ok (fst (sqlite_New open_database ping execute migrate path))"
    by (auto simp: sqlite_New_def split: option.splits sum.splits)
qed

end
