(* ===== verification/Postgres.thy ===== *)
theory Postgres
  imports Sql Backends
begin

text \<open>
  \<open>lib/jobs/postgres/backend.go\<close>: store and queue in two PostgreSQL tables. The job table is that of
  \<open>Sql\<close>, with the driver's rounding \<open>micro\<close> as a parameter. The queue table has a row per job with the
  instant from which it is available and the end of its lease. \<open>now()\<close> is the server's clock, in
  microseconds; each statement runs at once and alone (one \<open>UPDATE\<close> with \<open>FOR UPDATE SKIP LOCKED\<close>).

  The lemmas show that the backend meets the contracts of \<open>Jobs\<close> and that a lease is exclusive.
\<close>

section \<open>Opening\<close>

text \<open>\<open>execute\<close> is the server: the error of a statement, if any.\<close>

fun pg_migrate_loop :: "(string \<Rightarrow> go_error option) \<Rightarrow> string list \<Rightarrow> go_error + unit" where
  "pg_migrate_loop execute [] = Inr ()"
| "pg_migrate_loop execute (statement # statements) =
     (let trimmed = strings_TrimSpace statement in
      if trimmed = [] then pg_migrate_loop execute statements
      else (case execute trimmed of
              Some err \<Rightarrow> Inl (Wrap (Step ''migrate PostgreSQL jobs schema'') err)
            | None \<Rightarrow> pg_migrate_loop execute statements))"

definition pg_Migrate :: "(string \<Rightarrow> go_error option) \<Rightarrow> string \<Rightarrow> go_error + unit" where
  "pg_Migrate execute schema = pg_migrate_loop execute (strings_Split schema (CHR '';''))"

definition pg_NewWithPool :: "duration \<Rightarrow> duration" where
  "pg_NewWithPool lease = (if lease \<le> 0 then 10 * Minute else lease)"

text \<open>\<open>New\<close>: the lease of the backend, and whether the pool is open on return.\<close>

definition pg_New ::
  "go_error option \<Rightarrow> (string \<Rightarrow> go_error option) \<Rightarrow> string \<Rightarrow> duration \<Rightarrow> (go_error + duration) \<times> bool" where
  "pg_New connect execute schema lease =
     (case connect of
        Some err \<Rightarrow> (Inl (Wrap (Step ''connect PostgreSQL'') err), False)
      | None \<Rightarrow>
        (let backend = pg_NewWithPool lease in
         case pg_Migrate execute schema of
           Inl err \<Rightarrow> (Inl err, False)
         | Inr _ \<Rightarrow> (Inr backend, True)))"

section \<open>The store\<close>

definition pg_scanJob :: "row \<Rightarrow> go_error + Job" where
  "pg_scanJob = scan_columns ''PostgreSQL'' decode_micros"

definition pg_Create :: "(time \<Rightarrow> int) \<Rightarrow> go_context \<Rightarrow> Job \<Rightarrow> row list Remote \<Rightarrow> (go_error + unit) \<times> row list Remote" where
  "pg_Create micro = sql_Create micro"

definition pg_Get :: "go_context \<Rightarrow> string \<Rightarrow> row list Remote \<Rightarrow> (go_error + Job) \<times> row list Remote" where
  "pg_Get = sql_Get ''PostgreSQL'' decode_micros"

definition pg_Update ::
  "(time \<Rightarrow> int) \<Rightarrow> go_context \<Rightarrow> string \<Rightarrow> Update \<Rightarrow> row list Remote \<Rightarrow> (go_error + unit) \<times> row list Remote" where
  "pg_Update micro = sql_Update micro"

definition pg_List ::
  "(time \<Rightarrow> int) \<Rightarrow> go_context \<Rightarrow> string \<Rightarrow> ListOptions \<Rightarrow> row list Remote \<Rightarrow> (go_error + Job list) \<times> row list Remote" where
  "pg_List micro = sql_List ''PostgreSQL'' micro decode_micros end_of_9999"

definition pg_DeleteExpired :: "(time \<Rightarrow> int) \<Rightarrow> go_context \<Rightarrow> time \<Rightarrow> row list Remote \<Rightarrow> (go_error + int) \<times> row list Remote" where
  "pg_DeleteExpired micro = sql_DeleteExpired micro"

definition pg_table_Store :: "(time \<Rightarrow> int) \<Rightarrow> row list Remote Store" where
  "pg_table_Store micro =
     \<lparr>store_Create = pg_Create micro, store_Get = pg_Get, store_Update = pg_Update micro,
      store_List = pg_List micro, store_DeleteExpired = pg_DeleteExpired micro\<rparr>"

lemma pg_table_Store_eq: "pg_table_Store micro = sql_Store ''PostgreSQL'' micro decode_micros end_of_9999"
  by (simp add: pg_table_Store_def sql_Store_def pg_Create_def pg_Get_def pg_Update_def pg_List_def
      pg_DeleteExpired_def)

section \<open>The queue table\<close>

record queue_row =
  q_job_id :: string
  q_available_at :: int
  q_lease_until :: "int option"

record Pg_queue =
  pq_table :: "queue_row list Remote"
  pq_now :: int

definition queue_ids :: "queue_row list \<Rightarrow> string set" where
  "queue_ids rows = q_job_id ` set rows"

abbreviation queued_ids :: "Pg_queue \<Rightarrow> string set" where
  "queued_ids q \<equiv> queue_ids (contents (pq_table q))"

text \<open>\<open>SET ... WHERE job_id = mid\<close>.\<close>

definition set_where :: "string \<Rightarrow> (queue_row \<Rightarrow> queue_row) \<Rightarrow> queue_row list \<Rightarrow> queue_row list" where
  "set_where mid f rows = map (\<lambda>r. if q_job_id r = mid then f r else r) rows"

definition upsert_queue :: "int \<Rightarrow> string \<Rightarrow> (queue_row list, int) statement" where
  "upsert_queue now jobID rows =
     Inr (if jobID \<in> queue_ids rows
          then set_where jobID (\<lambda>r. r\<lparr>q_available_at := now, q_lease_until := None\<rparr>) rows
          else rows @ [\<lparr>q_job_id = jobID, q_available_at = now, q_lease_until = None\<rparr>], 1)"

definition claimable :: "int \<Rightarrow> queue_row \<Rightarrow> bool" where
  "claimable now r \<longleftrightarrow> q_available_at r \<le> now \<and> (case q_lease_until r of None \<Rightarrow> True | Some u \<Rightarrow> u \<le> now)"

definition Milliseconds :: "duration \<Rightarrow> int" where
  "Milliseconds d = d div 1000000"

definition claim_row :: "int \<Rightarrow> int \<Rightarrow> (queue_row list, string option) statement" where
  "claim_row now lease_ms rows =
     Inr (case sort_key q_available_at (filter (claimable now) rows) of
            [] \<Rightarrow> (rows, None)
          | c # _ \<Rightarrow>
            (set_where (q_job_id c) (\<lambda>r. r\<lparr>q_lease_until := Some (now + lease_ms * 1000)\<rparr>) rows,
             Some (q_job_id c)))"

definition release_row :: "int \<Rightarrow> string \<Rightarrow> (queue_row list, int) statement" where
  "release_row now mid rows =
     Inr (set_where mid (\<lambda>r. r\<lparr>q_available_at := now, q_lease_until := None\<rparr>) rows,
          int (length (filter (\<lambda>r. q_job_id r = mid) rows)))"

definition remove_row :: "string \<Rightarrow> (queue_row list, int) statement" where
  "remove_row mid rows =
     Inr (filter (\<lambda>r. q_job_id r \<noteq> mid) rows, int (length (filter (\<lambda>r. q_job_id r = mid) rows)))"

section \<open>The queue\<close>

text \<open>\<open>_, err := pool.Exec(...)\<close>, the error returned.\<close>

definition pg_exec_queue ::
  "go_context \<Rightarrow> (queue_row list, int) statement \<Rightarrow> Pg_queue \<Rightarrow> ((go_error + unit) \<times> Pg_queue) option" where
  "pg_exec_queue ctx statement q =
     (case remote_exec ctx statement (pq_table q) of
        (Inl err, table) \<Rightarrow> Some (Inl err, q\<lparr>pq_table := table\<rparr>)
      | (Inr _, table) \<Rightarrow> Some (Inr (), q\<lparr>pq_table := table\<rparr>))"

definition pg_Enqueue :: "go_context \<Rightarrow> string \<Rightarrow> Pg_queue \<Rightarrow> ((go_error + unit) \<times> Pg_queue) option" where
  "pg_Enqueue ctx jobID q = pg_exec_queue ctx (upsert_queue (pq_now q) jobID) q"

text \<open>
  \<open>Receive\<close> polls. After a poll that found nothing it waits: \<open>Poll now\<close> is the timer with the clock
  then, \<open>Done cause\<close> the end of the context. A call that outlives the given waits still blocks.
\<close>

datatype (plugins only: code size) poll_wait = Poll int | Done cancellation

fun pg_Receive ::
  "duration \<Rightarrow> poll_wait list \<Rightarrow> go_context \<Rightarrow> Pg_queue \<Rightarrow> ((go_error + string option) \<times> Pg_queue) option" where
  "pg_Receive lease waits ctx q =
     (case remote_exec ctx (claim_row (pq_now q) (Milliseconds lease)) (pq_table q) of
        (Inl err, table) \<Rightarrow> Some (Inl err, q\<lparr>pq_table := table\<rparr>)
      | (Inr (Some mid), table) \<Rightarrow> Some (Inr (Some mid), q\<lparr>pq_table := table\<rparr>)
      | (Inr None, table) \<Rightarrow>
        (case waits of
           [] \<Rightarrow> None
         | Done cause # _ \<Rightarrow> Some (Inl (ctx_Err cause), q\<lparr>pq_table := table\<rparr>)
         | Poll now # rest \<Rightarrow> pg_Receive lease rest ctx (q\<lparr>pq_table := table, pq_now := now\<rparr>)))"

declare pg_Receive.simps [simp del]

definition pg_JobID :: "string \<Rightarrow> string" where
  "pg_JobID value = value"

definition pg_Ack :: "go_context \<Rightarrow> string \<Rightarrow> Pg_queue \<Rightarrow> ((go_error + unit) \<times> Pg_queue) option" where
  "pg_Ack ctx value q = pg_exec_queue ctx (remove_row value) q"

definition pg_Nack :: "go_context \<Rightarrow> string \<Rightarrow> Pg_queue \<Rightarrow> ((go_error + unit) \<times> Pg_queue) option" where
  "pg_Nack ctx value q = pg_exec_queue ctx (release_row (pq_now q) value) q"

definition pg_table_Queue :: "duration \<Rightarrow> poll_wait list \<Rightarrow> (Pg_queue, string) Queue" where
  "pg_table_Queue lease waits =
     \<lparr>queue_Enqueue = pg_Enqueue, queue_Receive = pg_Receive lease waits, delivery_JobID = pg_JobID,
      delivery_Ack = pg_Ack, delivery_Nack = pg_Nack\<rparr>"

definition pg_Store :: "(time \<Rightarrow> int) \<Rightarrow> (row list Remote \<times> Pg_queue) Store" where
  "pg_Store micro = paired_Store (pg_table_Store micro)"

definition pg_Queue :: "duration \<Rightarrow> poll_wait list \<Rightarrow> (row list Remote \<times> Pg_queue, string) Queue" where
  "pg_Queue lease waits = paired_Queue (pg_table_Queue lease waits)"

section \<open>Lemmas\<close>

lemma remote_exec_total:
  assumes "remote_exec ctx statement db = (r, db')" and "\<And>rows. statement rows = Inr (f rows, g rows)"
  shows "(contents db' = contents db \<and> (\<exists>e. r = Inl e)) \<or>
    (contents db' = f (contents db) \<and> (r = Inr (g (contents db)) \<or> (\<exists>e. r = Inl e)))"
  using remote_exec_cases [OF assms(1)] assms(2) by auto

lemma pg_exec_queue_cases:
  assumes "pg_exec_queue ctx statement q = Some (r0, q')" and "\<And>rows. statement rows = Inr (f rows, g rows)"
  shows "contents (pq_table q') = f (contents (pq_table q)) \<or>
    (\<exists>e. r0 = Inl e) \<and> contents (pq_table q') = contents (pq_table q)"
proof -
  obtain r db' where e: "remote_exec ctx statement (pq_table q) = (r, db')" by force
  with assms(1) have "q' = q\<lparr>pq_table := db'\<rparr>" "r0 = (case r of Inl err \<Rightarrow> Inl err | Inr _ \<Rightarrow> Inr ())"
    by (auto simp: pg_exec_queue_def split: sum.splits)
  with remote_exec_total [OF e assms(2)] show ?thesis by auto
qed

lemma set_where_ids [simp]:
  "(\<And>r. q_job_id (f r) = q_job_id r) \<Longrightarrow> queue_ids (set_where i f rows) = queue_ids rows"
  unfolding queue_ids_def set_where_def set_map image_image by (rule image_cong) auto

lemma claim_row_cases:
  obtains "claim_row now ms rows = Inr (rows, None)" and "filter (claimable now) rows = []"
  | c where "claim_row now ms rows =
      Inr (set_where (q_job_id c) (\<lambda>r. r\<lparr>q_lease_until := Some (now + ms * 1000)\<rparr>) rows,
           Some (q_job_id c))"
    and "c \<in> set rows" and "claimable now c"
proof (cases "sort_key q_available_at (filter (claimable now) rows)")
  case Nil
  then have "filter (claimable now) rows = []" by (metis length_0_conv length_sort)
  with that(1) show thesis by (simp add: claim_row_def)
next
  case (Cons c cs)
  then have "c \<in> set (sort_key q_available_at (filter (claimable now) rows))" by simp
  then have "c \<in> set rows" "claimable now c" by auto
  with that(2) [of c] Cons show thesis by (simp add: claim_row_def)
qed

text \<open>An invariant of the polls of one \<open>Receive\<close>, and what holds of the job it returns.\<close>

lemma pg_Receive_steps:
  assumes "pg_Receive lease waits ctx q = Some (rd, q')" and "P q"
    and step: "\<And>q1 r table. P q1 \<Longrightarrow>
      remote_exec ctx (claim_row (pq_now q1) (Milliseconds lease)) (pq_table q1) = (r, table) \<Longrightarrow>
      P (q1\<lparr>pq_table := table\<rparr>) \<and> (\<forall>i. r = Inr (Some i) \<longrightarrow> good i)"
    and clock: "\<And>q1 now. Poll now \<in> set waits \<Longrightarrow> P q1 \<Longrightarrow> P (q1\<lparr>pq_now := now\<rparr>)"
  shows "P q' \<and> rd \<noteq> Inr None \<and> (\<forall>i. rd = Inr (Some i) \<longrightarrow> good i)"
  using assms(1,2) clock
proof (induction waits arbitrary: q)
  case Nil
  obtain r table where e: "remote_exec ctx (claim_row (pq_now q) (Milliseconds lease)) (pq_table q) = (r, table)"
    by force
  from Nil.prems(1) e step [OF Nil.prems(2) e] show ?case
    by (auto simp: pg_Receive.simps [of _ "[]"] split: sum.splits option.splits)
next
  case (Cons w waits)
  obtain r table where e: "remote_exec ctx (claim_row (pq_now q) (Milliseconds lease)) (pq_table q) = (r, table)"
    by force
  note next_inv = step [OF Cons.prems(2) e]
  note call = Cons.prems(1) [unfolded pg_Receive.simps [of lease "w # waits"] e prod.case list.case]
  show ?case
  proof (cases "\<exists>now. r = Inr None \<and> w = Poll now")
    case True
    then obtain now where w: "r = Inr None" "w = Poll now" by blast
    let ?q = "q\<lparr>pq_table := table, pq_now := now\<rparr>"
    have again: "pg_Receive lease waits ctx ?q = Some (rd, q')"
      using call w by simp
    have "P ?q"
      using Cons.prems(3) [of now "q\<lparr>pq_table := table\<rparr>"] w next_inv by simp
    then show ?thesis
      by (rule Cons.IH [OF again]) (rule Cons.prems(3), simp_all)
  next
    case False
    with call next_inv show ?thesis
      by (auto split: sum.splits option.splits poll_wait.splits)
  qed
qed

lemma claim_ids:
  assumes "remote_exec ctx (claim_row now ms) db = (r, db')"
  shows "queue_ids (contents db') = queue_ids (contents db) \<and>
    (\<forall>i. r = Inr (Some i) \<longrightarrow> i \<in> queue_ids (contents db))"
proof (cases rule: claim_row_cases [of now ms "contents db"])
  case 1
  with remote_exec_cases [OF assms] show ?thesis by auto
next
  case (2 c)
  let ?rows = "set_where (q_job_id c) (\<lambda>r. r\<lparr>q_lease_until := Some (now + ms * 1000)\<rparr>) (contents db)"
  have "contents db' = contents db \<or> contents db' = ?rows" and "\<forall>i. r = Inr (Some i) \<longrightarrow> i = q_job_id c"
    using remote_exec_cases [OF assms] 2(1) by auto
  moreover have "q_job_id c \<in> queue_ids (contents db)" using 2(2) by (simp add: queue_ids_def)
  moreover have "queue_ids ?rows = queue_ids (contents db)" by simp
  ultimately show ?thesis by metis
qed

lemma pg_Receive_ids:
  assumes "pg_Receive lease waits ctx q = Some (rd, q')"
  shows "queued_ids q' = queued_ids q \<and> rd \<noteq> Inr None \<and> (\<forall>i. rd = Inr (Some i) \<longrightarrow> i \<in> queued_ids q)"
  by (rule pg_Receive_steps [OF assms]) (auto dest: claim_ids)

lemma upsert_ids:
  "upsert_queue now i rows = Inr (rows', n) \<Longrightarrow> queue_ids rows' = insert i (queue_ids rows)"
  by (auto simp: upsert_queue_def insert_absorb split: if_splits) (auto simp: queue_ids_def)

lemma release_ids: "release_row now i rows = Inr (rows', n) \<Longrightarrow> queue_ids rows' = queue_ids rows"
  by (auto simp: release_row_def)

lemma remove_ids: "remove_row i rows = Inr (rows', n) \<Longrightarrow> queue_ids rows' = queue_ids rows - {i}"
  by (auto simp: remove_row_def queue_ids_def)

lemma pg_exec_queue_ids:
  assumes "pg_exec_queue ctx statement q = Some (r0, q')"
    and "\<And>rows. \<exists>rows' n. statement rows = Inr (rows', n)"
  shows "(\<exists>rows' n. statement (contents (pq_table q)) = Inr (rows', n) \<and> queued_ids q' = queue_ids rows') \<or>
    (\<exists>e. r0 = Inl e) \<and> queued_ids q' = queued_ids q"
proof -
  obtain r db' where e: "remote_exec ctx statement (pq_table q) = (r, db')" by force
  with assms(1) have "q' = q\<lparr>pq_table := db'\<rparr>" "r0 = (case r of Inl err \<Rightarrow> Inl err | Inr _ \<Rightarrow> Inr ())"
    by (auto simp: pg_exec_queue_def split: sum.splits)
  moreover obtain rows' n where "statement (contents (pq_table q)) = Inr (rows', n)"
    using assms(2) by blast
  ultimately show ?thesis using remote_exec_cases [OF e] by auto
qed

interpretation pg_table: reliable_queue "pg_table_Queue lease waits" "\<lambda>_. True" queued_ids
    "\<lambda>_ _. True" "\<lambda>q i. i \<in> queued_ids q"
  for lease waits
proof unfold_locales
  fix s s' :: Pg_queue and ctx i and r0 :: "go_error + unit"
  show "queue_Enqueue (pg_table_Queue lease waits) ctx i s = Some (r0, s') \<Longrightarrow>
      True \<and> queued_ids s \<subseteq> queued_ids s' \<and> (r0 = Inr () \<and> True \<longrightarrow> i \<in> queued_ids s')"
    using pg_exec_queue_ids [of ctx "upsert_queue (pq_now s) i" s r0 s'] upsert_ids [of "pq_now s" i]
    by (fastforce simp: pg_table_Queue_def pg_Enqueue_def upsert_queue_def)
  show "delivery_Ack (pg_table_Queue lease waits) ctx i s = Some (r0, s') \<Longrightarrow>
      True \<and> queued_ids s - {delivery_JobID (pg_table_Queue lease waits) i} \<subseteq> queued_ids s'"
    using pg_exec_queue_ids [of ctx "remove_row i" s r0 s'] remove_ids [of i]
    by (fastforce simp: pg_table_Queue_def pg_Ack_def pg_JobID_def remove_row_def)
  show "i \<in> queued_ids s \<Longrightarrow> delivery_Nack (pg_table_Queue lease waits) ctx i s = Some (r0, s') \<Longrightarrow>
      True \<and> queued_ids s \<subseteq> queued_ids s' \<and>
      (r0 = Inr () \<longrightarrow> delivery_JobID (pg_table_Queue lease waits) i \<in> queued_ids s')"
    using pg_exec_queue_ids [of ctx "release_row (pq_now s) i" s r0 s'] release_ids [of "pq_now s" i]
    by (fastforce simp: pg_table_Queue_def pg_Nack_def pg_JobID_def release_row_def)
next
  fix s s' :: Pg_queue and ctx and rd :: "go_error + string option"
  assume "queue_Receive (pg_table_Queue lease waits) ctx s = Some (rd, s')"
  then show "True \<and>
      (case rd of
         Inr (Some d) \<Rightarrow> delivery_JobID (pg_table_Queue lease waits) d \<in> queued_ids s \<and>
           queued_ids s - {delivery_JobID (pg_table_Queue lease waits) d} \<subseteq> queued_ids s'
       | _ \<Rightarrow> queued_ids s \<subseteq> queued_ids s')"
    using pg_Receive_ids [of lease waits ctx s rd s']
    by (auto simp: pg_table_Queue_def pg_JobID_def split: sum.splits option.splits)
next
  fix s s' :: Pg_queue and ctx and d
  assume "queue_Receive (pg_table_Queue lease waits) ctx s = Some (Inr (Some d), s')"
  then show "d \<in> queued_ids s'"
    using pg_Receive_ids [of lease waits ctx s "Inr (Some d)" s'] by (simp add: pg_table_Queue_def)
qed

section \<open>The backend\<close>

definition pg_jobs :: "row list Remote \<times> Pg_queue \<Rightarrow> string \<Rightarrow> Job option" where
  "pg_jobs s = sql_store.sql_jobs ''PostgreSQL'' decode_micros (fst s)"

definition pg_inv :: "row list Remote \<times> Pg_queue \<Rightarrow> bool" where
  "pg_inv s \<longleftrightarrow> sql_store.sql_inv ''PostgreSQL'' decode_micros end_of_9999 (fst s)"

definition pg_waiting :: "row list Remote \<times> Pg_queue \<Rightarrow> string set" where
  "pg_waiting s = queued_ids (snd s)"

definition pg_outstanding :: "row list Remote \<times> Pg_queue \<Rightarrow> string \<Rightarrow> bool" where
  "pg_outstanding s i \<longleftrightarrow> i \<in> queued_ids (snd s)"

context micro_clock
begin

lemma pg_history: "job_history (pg_table_Store micro) (sql.sql_jobs ''PostgreSQL'') (sql.sql_inv ''PostgreSQL'')
    (canon_job (to_micro micro)) (keep_update (to_micro micro)) (micro_storable micro) sql_updatable micro_listable"
  unfolding pg_table_Store_eq by (rule history_contract)

lemma pg_expiry: "job_expiry (pg_table_Store micro) (sql.sql_jobs ''PostgreSQL'') (sql.sql_inv ''PostgreSQL'')
    (canon_job (to_micro micro)) (keep_update (to_micro micro)) (micro_storable micro) sql_updatable whole_micros"
  unfolding pg_table_Store_eq by (rule expiry_contract)

sublocale pg: paired_backend "pg_table_Store micro" "sql.sql_jobs ''PostgreSQL''" "sql.sql_inv ''PostgreSQL''"
  "canon_job (to_micro micro)" "keep_update (to_micro micro)" "micro_storable micro" sql_updatable
  "pg_table_Queue lease waits" "\<lambda>_. True" queued_ids "\<lambda>_ _. True" "\<lambda>q i. i \<in> queued_ids q" for lease waits
  by (rule paired_backend.intro [OF job_history.axioms(1) [OF pg_history] pg_table.job_queue_axioms])

lemma pg_predicates:
  "pg.pair_jobs = pg_jobs" "pg.pair_inv = pg_inv" "pg.pair_waiting = pg_waiting" "pg.pair_outstanding = pg_outstanding"
  "pg.pair_accepts = (\<lambda>_ _. True)"
  by (simp_all add: fun_eq_iff pg.pair_defs pg_jobs_def pg_inv_def pg_waiting_def pg_outstanding_def)

lemmas pg_backend_history = pg.history [OF pg_history, folded pg_Store_def, unfolded pg_predicates]
lemmas pg_backend_expiry = pg.expiry [OF pg_expiry, folded pg_Store_def, unfolded pg_predicates]
lemmas pg_backend_reliable =
  pg.reliable [OF pg_table.reliable_queue_axioms, folded pg_Store_def pg_Queue_def, unfolded pg_predicates]

end

section \<open>Leases\<close>

text \<open>\<open>leased i t q\<close>: no row of the job \<open>i\<close> can be claimed before \<open>t\<close>.\<close>

definition leased :: "string \<Rightarrow> int \<Rightarrow> Pg_queue \<Rightarrow> bool" where
  "leased i t q \<longleftrightarrow>
     (\<forall>r \<in> set (contents (pq_table q)). q_job_id r = i \<longrightarrow> (\<exists>u. q_lease_until r = Some u \<and> t \<le> u))"

lemma leased_set_where:
  assumes "\<forall>r \<in> set rows. q_job_id r = i \<longrightarrow> (\<exists>u. q_lease_until r = Some u \<and> t \<le> u)"
    and "\<And>r. q_job_id (f r) = q_job_id r" and "k = i \<Longrightarrow> \<forall>r. \<exists>u. q_lease_until (f r) = Some u \<and> t \<le> u"
  shows "\<forall>r \<in> set (set_where k f rows). q_job_id r = i \<longrightarrow> (\<exists>u. q_lease_until r = Some u \<and> t \<le> u)"
  using assms by (auto simp: set_where_def)

lemma leased_claim:
  assumes "leased i t q" and "remote_exec ctx (claim_row (pq_now q) ms) (pq_table q) = (r, table)"
    and "pq_now q < t"
  shows "leased i t (q\<lparr>pq_table := table\<rparr>) \<and> (\<forall>k. r = Inr (Some k) \<longrightarrow> k \<noteq> i)"
proof (cases rule: claim_row_cases [of "pq_now q" ms "contents (pq_table q)"])
  case 1
  with remote_exec_cases [OF assms(2)] assms(1) show ?thesis by (auto simp: leased_def)
next
  case (2 c)
  let ?f = "\<lambda>r. r\<lparr>q_lease_until := Some (pq_now q + ms * 1000)\<rparr>"
  let ?rows = "set_where (q_job_id c) ?f (contents (pq_table q))"
  have "contents table = contents (pq_table q) \<or> contents table = ?rows"
    and r: "\<forall>k. r = Inr (Some k) \<longrightarrow> k = q_job_id c"
    using remote_exec_cases [OF assms(2)] 2(1) by auto
  moreover have other: "q_job_id c \<noteq> i"
    using 2(2,3) assms(1,3) by (force simp: leased_def claimable_def)
  have "\<forall>r \<in> set ?rows. q_job_id r = i \<longrightarrow> (\<exists>u. q_lease_until r = Some u \<and> t \<le> u)"
    using assms(1) other by (intro leased_set_where) (auto simp: leased_def)
  ultimately show ?thesis using assms(1) r other by (auto simp: leased_def)
qed

lemma claim_leases:
  assumes "remote_exec ctx (claim_row (pq_now q) ms) (pq_table q) = (Inr (Some i), table)"
  shows "leased i (pq_now q + ms * 1000) (q\<lparr>pq_table := table\<rparr>)"
proof (cases rule: claim_row_cases [of "pq_now q" ms "contents (pq_table q)"])
  case 1
  with remote_exec_cases [OF assms] show ?thesis by auto
next
  case (2 c)
  with remote_exec_cases [OF assms]
  have "i = q_job_id c" "contents table =
      set_where i (\<lambda>r. r\<lparr>q_lease_until := Some (pq_now q + ms * 1000)\<rparr>) (contents (pq_table q))"
    by auto
  then show ?thesis by (auto simp: leased_def set_where_def)
qed

definition polls_before :: "int \<Rightarrow> poll_wait list \<Rightarrow> bool" where
  "polls_before t waits \<longleftrightarrow> list_all (\<lambda>w. case w of Poll now \<Rightarrow> now < t | Done _ \<Rightarrow> True) waits"

lemma pg_Receive_leased:
  assumes "pg_Receive lease waits ctx q = Some (rd, q')" and "leased i t q" and "pq_now q < t"
    and "polls_before t waits"
  shows "leased i t q' \<and> pq_now q' < t \<and> rd \<noteq> Inr (Some i)"
proof -
  have "(leased i t q' \<and> pq_now q' < t) \<and> rd \<noteq> Inr None \<and> (\<forall>k. rd = Inr (Some k) \<longrightarrow> k \<noteq> i)"
  proof (rule pg_Receive_steps [OF assms(1)])
    fix q1 r table
    assume "leased i t q1 \<and> pq_now q1 < t"
      and "remote_exec ctx (claim_row (pq_now q1) (Milliseconds lease)) (pq_table q1) = (r, table)"
    with leased_claim [of i t q1] show "(leased i t (q1\<lparr>pq_table := table\<rparr>) \<and> pq_now (q1\<lparr>pq_table := table\<rparr>) < t) \<and>
        (\<forall>k. r = Inr (Some k) \<longrightarrow> k \<noteq> i)"
      by simp
  qed (use assms in \<open>auto simp: leased_def polls_before_def list_all_iff\<close>)
  then show ?thesis by auto
qed

lemma pg_Receive_leases:
  assumes "pg_Receive lease waits ctx q = Some (Inr (Some i), q')"
  shows "leased i (pq_now q' + Milliseconds lease * 1000) q'"
  using assms
proof (induction lease waits ctx q rule: pg_Receive.induct)
  case (1 lease waits ctx q)
  obtain r table where e: "remote_exec ctx (claim_row (pq_now q) (Milliseconds lease)) (pq_table q) = (r, table)"
    by force
  note call = "1.prems" [unfolded pg_Receive.simps [of lease waits] e prod.case]
  consider k where "r = Inr (Some k)" | now rest where "r = Inr None" "waits = Poll now # rest"
    using call by (auto split: sum.splits option.splits list.splits poll_wait.splits)
  then show ?case
  proof cases
    case (1 k)
    with call have "k = i" "q' = q\<lparr>pq_table := table\<rparr>" by simp_all
    with claim_leases [OF e [unfolded 1]] show ?thesis by simp
  next
    case (2 now rest)
    with call have "pg_Receive lease rest ctx (q\<lparr>pq_table := table, pq_now := now\<rparr>) = Some (Inr (Some i), q')"
      by simp
    from "1.IH" [OF e [symmetric] _ _ _ _ this] 2 show ?thesis by simp
  qed
qed

text \<open>The receives of other workers, each at its instant.\<close>

fun pg_receives ::
  "duration \<Rightarrow> (int \<times> poll_wait list \<times> go_context) list \<Rightarrow> Pg_queue
     \<Rightarrow> ((go_error + string option) list \<times> Pg_queue) option" where
  "pg_receives lease [] q = Some ([], q)"
| "pg_receives lease ((now, waits, ctx) # calls) q =
     (case pg_Receive lease waits ctx (q\<lparr>pq_now := now\<rparr>) of
        None \<Rightarrow> None
      | Some (rd, q1) \<Rightarrow>
        (case pg_receives lease calls q1 of None \<Rightarrow> None | Some (rds, q2) \<Rightarrow> Some (rd # rds, q2)))"

lemma pg_receives_leased:
  assumes "pg_receives lease calls q = Some (rds, q')" and "leased i t q"
    and "list_all (\<lambda>(now, waits, ctx). now < t \<and> polls_before t waits) calls"
  shows "Inr (Some i) \<notin> set rds"
  using assms
proof (induction lease calls q arbitrary: rds rule: pg_receives.induct)
  case (2 lease now waits ctx calls q)
  then obtain rd q1 rds' where first: "pg_Receive lease waits ctx (q\<lparr>pq_now := now\<rparr>) = Some (rd, q1)"
    and rest: "pg_receives lease calls q1 = Some (rds', q')" and rds: "rds = rd # rds'"
    by (auto split: option.splits)
  have "leased i t (q\<lparr>pq_now := now\<rparr>)" using "2.prems"(2) by (simp add: leased_def)
  from pg_Receive_leased [OF first this] "2.prems"(3)
  have "leased i t q1" "rd \<noteq> Inr (Some i)" by simp_all
  with "2.IH" [OF first refl rest] "2.prems"(3) rds show ?case by simp
qed simp

section \<open>Properties\<close>

text \<open>
  C28. The PostgreSQL backend refines the contracts of a store with history and expiry and of a reliable
  queue, whatever the server does to its statements, when the driver keeps whole microseconds: jobs
  come back with their instants rounded, a received job stays in the queue table until it is
  acknowledged, and empty tables are sound.
\<close>

theorem postgres_implements_backend:
  assumes "micro_clock micro"
  shows "job_history (pg_Store micro) pg_jobs pg_inv (canon_job (to_micro micro)) (keep_update (to_micro micro))
      (micro_storable micro) sql_updatable micro_listable \<and>
    job_expiry (pg_Store micro) pg_jobs pg_inv (canon_job (to_micro micro)) (keep_update (to_micro micro))
      (micro_storable micro) sql_updatable whole_micros \<and>
    reliable_backend (pg_Store micro) pg_jobs pg_inv (canon_job (to_micro micro)) (keep_update (to_micro micro))
      (micro_storable micro) sql_updatable (pg_Queue lease waits) pg_waiting (\<lambda>_ _. True) pg_outstanding \<and>
    pg_inv (\<lparr>contents = [], faults = fs\<rparr>, q)"
  using micro_clock.pg_backend_history [OF assms] micro_clock.pg_backend_expiry [OF assms]
    micro_clock.pg_backend_reliable [OF assms] truncating.sql.inv_empty
  by (simp add: pg_inv_def)

theorem postgres_implements_backend_witness:
  "reliable_backend (pg_Store (\<lambda>t. t div 1000)) pg_jobs pg_inv (canon_job (\<lambda>t. 1000 * (t div 1000)))
     (keep_update (\<lambda>t. 1000 * (t div 1000))) (micro_storable (\<lambda>t. t div 1000)) sql_updatable
     (pg_Queue Minute []) pg_waiting (\<lambda>_ _. True) pg_outstanding"
  using postgres_implements_backend [OF truncating.micro_clock_axioms] by (simp add: to_micro_def [abs_def])


definition demo_queue :: Pg_queue where
  "demo_queue = \<lparr>pq_table = \<lparr>contents =
     [\<lparr>q_job_id = ''a'', q_available_at = 0, q_lease_until = None\<rparr>,
      \<lparr>q_job_id = ''b'', q_available_at = 5, q_lease_until = None\<rparr>], faults = []\<rparr>, pq_now = 10\<rparr>"


end
