(* ===== verification/Mysql.thy ===== *)
theory Mysql
  imports Sql
begin

text \<open>
  \<open>lib/jobs/mysql/store.go\<close>: jobs in a MySQL table. The driver's and the server's rounding of instants to
  the microseconds of \<open>datetime(6)\<close> is the parameter \<open>micro\<close>.

  MySQL reports as affected the rows that an \<open>UPDATE\<close> changed, unless the connection asks for the rows
  found (\<open>clientFoundRows\<close> in the DSN, which \<open>New\<close> neither sets nor clears): \<open>found_rows\<close>. With it the
  store meets the contract; without it an update that changes nothing is reported as \<open>ErrNotFound\<close>.
\<close>

section \<open>Opening\<close>

text \<open>What \<open>New\<close> changes of the parsed DSN; \<open>Loc\<close> is the name of the location.\<close>

record mysql_config =
  ParseTime :: bool
  Loc :: string
  ClientFoundRows :: bool

definition mysql_Migrate :: "go_error option \<Rightarrow> go_error + unit" where
  "mysql_Migrate migrate =
     (case migrate of Some err \<Rightarrow> Inl (Wrap (Step ''migrate MySQL jobs schema'') err) | None \<Rightarrow> Inr ())"

text \<open>\<open>parse_dsn\<close>, \<open>open_database\<close>, \<open>ping\<close> and \<open>migrate\<close> are the driver. The result is the configuration
  of the open database.\<close>

definition mysql_New ::
  "(string \<Rightarrow> go_error + mysql_config) \<Rightarrow> (mysql_config \<Rightarrow> go_error option) \<Rightarrow> go_error option
     \<Rightarrow> go_error option \<Rightarrow> string \<Rightarrow> (go_error + mysql_config) \<times> bool" where
  "mysql_New parse_dsn open_database ping migrate rawDSN =
     (case parse_dsn rawDSN of
        Inl err \<Rightarrow> (Inl (Wrap (Step ''parse MySQL DSN'') err), False)
      | Inr parsed \<Rightarrow>
        (let config = parsed\<lparr>ParseTime := True, Loc := ''UTC''\<rparr> in
         case open_database config of
           Some err \<Rightarrow> (Inl (Wrap (Step ''open MySQL'') err), False)
         | None \<Rightarrow>
           (case ping of
              Some err \<Rightarrow> (Inl (Wrap (Step ''connect MySQL'') err), False)
            | None \<Rightarrow>
              (case mysql_Migrate migrate of
                 Inl err \<Rightarrow> (Inl err, False)
               | Inr _ \<Rightarrow> (Inr config, True)))))"

section \<open>Operations\<close>

definition mysql_scanJob :: "row \<Rightarrow> go_error + Job" where
  "mysql_scanJob = scan_columns ''MySQL'' decode_micros"

definition mysql_Create :: "(time \<Rightarrow> int) \<Rightarrow> go_context \<Rightarrow> Job \<Rightarrow> row list Remote \<Rightarrow> (go_error + unit) \<times> row list Remote" where
  "mysql_Create micro = sql_Create micro"

definition mysql_Get :: "go_context \<Rightarrow> string \<Rightarrow> row list Remote \<Rightarrow> (go_error + Job) \<times> row list Remote" where
  "mysql_Get = sql_Get ''MySQL'' decode_micros"

text \<open>The rows an \<open>UPDATE\<close> reports.\<close>

definition mysql_update_row :: "bool \<Rightarrow> string \<Rightarrow> (row \<Rightarrow> row) \<Rightarrow> (row list, int) statement" where
  "mysql_update_row found_rows key f rows =
     (if found_rows then update_row key f rows
      else Inr (map (\<lambda>r. if row_id r = key then f r else r) rows,
                int (length (filter (\<lambda>r. row_id r = key \<and> f r \<noteq> r) rows))))"

definition mysql_Update ::
  "bool \<Rightarrow> (time \<Rightarrow> int) \<Rightarrow> go_context \<Rightarrow> string \<Rightarrow> Update \<Rightarrow> row list Remote \<Rightarrow> (go_error + unit) \<times> row list Remote" where
  "mysql_Update found_rows micro ctx mid update db =
     (case remote_exec ctx (mysql_update_row found_rows mid (update_columns micro update)) db of
        (Inl err, db') \<Rightarrow> (Inl err, db')
      | (Inr affected, db') \<Rightarrow> if affected = 0 then (Inl ErrNotFound, db') else (Inr (), db'))"

definition mysql_List ::
  "(time \<Rightarrow> int) \<Rightarrow> go_context \<Rightarrow> string \<Rightarrow> ListOptions \<Rightarrow> row list Remote \<Rightarrow> (go_error + Job list) \<times> row list Remote" where
  "mysql_List micro = sql_List ''MySQL'' micro decode_micros end_of_9999"

definition mysql_DeleteExpired :: "(time \<Rightarrow> int) \<Rightarrow> go_context \<Rightarrow> time \<Rightarrow> row list Remote \<Rightarrow> (go_error + int) \<times> row list Remote" where
  "mysql_DeleteExpired micro = sql_DeleteExpired micro"

definition mysql_Store :: "bool \<Rightarrow> (time \<Rightarrow> int) \<Rightarrow> row list Remote Store" where
  "mysql_Store found_rows micro =
     \<lparr>store_Create = mysql_Create micro, store_Get = mysql_Get, store_Update = mysql_Update found_rows micro,
      store_List = mysql_List micro, store_DeleteExpired = mysql_DeleteExpired micro\<rparr>"

section \<open>Lemmas\<close>

lemma mysql_Update_found: "mysql_Update True micro = sql_Update micro"
  unfolding mysql_Update_def [abs_def] sql_Update_def [abs_def] mysql_update_row_def [abs_def] by simp

lemma mysql_Store_eq: "mysql_Store True micro = sql_Store ''MySQL'' micro decode_micros end_of_9999"
  by (simp add: mysql_Store_def sql_Store_def mysql_Create_def mysql_Get_def mysql_Update_found mysql_List_def
      mysql_DeleteExpired_def)

definition mysql_jobs :: "row list Remote \<Rightarrow> string \<Rightarrow> Job option" where
  "mysql_jobs = sql_store.sql_jobs ''MySQL'' decode_micros"

definition mysql_inv :: "row list Remote \<Rightarrow> bool" where
  "mysql_inv = sql_store.sql_inv ''MySQL'' decode_micros end_of_9999"

context micro_clock
begin

lemmas mysql_history = history_contract [of "''MySQL''", folded mysql_Store_eq mysql_jobs_def mysql_inv_def]
lemmas mysql_expiry = expiry_contract [where label = "''MySQL''" and e = whole_micros,
    folded mysql_Store_eq mysql_jobs_def mysql_inv_def]

end

text \<open>An update repeated: the columns are already as it sets them.\<close>

lemma update_columns_again: "update_columns enc u (update_columns enc u r) = update_columns enc u r"
  by (simp add: update_columns_def coalesce_def split: option.split)

section \<open>Properties\<close>



text \<open>
  C31. With the connection settings that \<open>New\<close> leaves in place, a server that works answers an update
  that was already applied with \<open>ErrNotFound\<close>, though the job is there and reads back: the update is
  not idempotent in its result.
\<close>

theorem mysql_repeated_update_not_found:
  assumes "faults db = []" and "r \<in> set (contents db)" and "row_id r = mid"
    and "mysql_Update False micro None mid update db = (r0, db1)"
  shows "mysql_Update False micro None mid update db1 = (Inl ErrNotFound, db1) \<and>
    fst (mysql_Get None mid db1) \<noteq> Inl ErrNotFound"
proof -
  let ?f = "update_columns micro update"
  let ?rows = "map (\<lambda>r. if row_id r = mid then ?f r else r) (contents db)"
  have db1: "db1 = db\<lparr>contents := ?rows\<rparr>"
    using assms(1,4) by (simp add: mysql_Update_def remote_exec_runs mysql_update_row_def split: if_splits)
  have none: "filter (\<lambda>r. row_id r = mid \<and> ?f r \<noteq> r) ?rows = []"
    unfolding filter_empty_conv set_map ball_simps by (simp add: update_columns_again)
  have same: "map (\<lambda>r. if row_id r = mid then ?f r else r) ?rows = ?rows"
    by (simp add: update_columns_again)
  have "mysql_Update False micro None mid update db1 = (Inl ErrNotFound, db1)"
    unfolding db1 using assms(1) none same by (simp add: mysql_Update_def remote_exec_runs mysql_update_row_def)
  moreover have "?f r \<in> set (filter (\<lambda>r. row_id r = mid) ?rows)"
    using assms(2,3) by auto
  then obtain q qs where "filter (\<lambda>r. row_id r = mid) ?rows = q # qs"
    by (cases "filter (\<lambda>r. row_id r = mid) ?rows") auto
  then have "fst (mysql_Get None mid db1) = scan_columns ''MySQL'' decode_micros q"
    using assms(1) by (simp add: mysql_Get_def sql_Get_def db1 remote_query_runs)
  then have "fst (mysql_Get None mid db1) \<noteq> Inl ErrNotFound"
    by (simp add: scan_columns_def split: sum.splits)
  ultimately show ?thesis by blast
qed

theorem mysql_repeated_update_not_found_witness:
  "\<exists>db1. mysql_Update False (\<lambda>t. (t + 500) div 1000) None ''a1'' demo_update
       \<lparr>contents = [job_columns (\<lambda>t. (t + 500) div 1000) demo_job], faults = []\<rparr> = (Inr (), db1) \<and>
     mysql_Update False (\<lambda>t. (t + 500) div 1000) None ''a1'' demo_update db1 = (Inl ErrNotFound, db1)"
proof -
  let ?m = "\<lambda>t. (t + 500) div 1000 :: int"
  let ?r = "job_columns ?m demo_job"
  let ?db = "\<lparr>contents = [?r], faults = []\<rparr> :: row list Remote"
  have r: "?r \<in> set (contents ?db)" "row_id ?r = ''a1''" "faults ?db = []"
    by (simp_all add: job_columns_def demo_job_def)
  have "update_columns ?m demo_update ?r \<noteq> ?r"
    by (simp add: job_columns_def update_columns_def demo_job_def demo_update_def)
  then have u: "mysql_Update False ?m None ''a1'' demo_update ?db =
      (Inr (), \<lparr>contents = [update_columns ?m demo_update ?r], faults = []\<rparr>)"
    using r(2) by (simp add: mysql_Update_def remote_exec_runs mysql_update_row_def)
  from mysql_repeated_update_not_found [OF r(3,1,2) u] u show ?thesis by blast
qed

end
