(* ===== verification/Go_Time_Inverse.thy ===== *)
theory Go_Time_Inverse
  imports Go_Time
begin

text \<open>
  Reading what \<open>time\<close> prints: an instant between the years 0 and 9999 formatted with \<open>RFC3339Nano\<close>, as
  \<open>time.Time\<close> marshals to JSON, is parsed back to the same nanosecond.
\<close>

section \<open>The date of a day\<close>

text \<open>The first day of a year that begins in March, counted from the beginning of its era.\<close>

definition year_start :: "int \<Rightarrow> int" where
  "year_start y = 365 * y + y div 4 - y div 100 + y div 400"

definition year_days :: "int \<Rightarrow> int" where
  "year_days y = (if is_leap (y + 1) then 366 else 365)"

definition era_years :: "int \<Rightarrow> int" where
  "era_years doe = doe - doe div 1460 + doe div 36524 - doe div 146096"

lemma div_step: "0 < k \<Longrightarrow> (n + 1) div k = n div k + (if (n + 1) mod k = 0 then 1 else 0)" for k n :: int
proof -
  assume k: "0 < k"
  have n: "n = k * (n div k) + n mod k" by simp
  show ?thesis
  proof (cases "n mod k = k - 1")
    case True
    then have "n + 1 = k * (n div k) + k * 1" using n by linarith
    then have "n + 1 = k * (n div k + 1)" by (simp only: distrib_left)
    then show ?thesis using k by simp
  next
    case False
    then have r: "0 \<le> n mod k + 1" "n mod k + 1 < k"
      using k pos_mod_bound [OF k, of n] pos_mod_sign [OF k, of n] by auto
    have "n + 1 = k * (n div k) + (n mod k + 1)" using n by linarith
    then have "(n + 1) div k = n div k" "(n + 1) mod k = n mod k + 1"
      using int_div_pos_eq int_mod_pos_eq r by blast+
    with r pos_mod_sign [OF k, of n] show ?thesis by simp
  qed
qed

lemma div_slow:
  fixes a b k :: int
  assumes "0 < k" and "a \<le> b"
  shows "a - a div k \<le> b - b div k"
  using assms(2)
proof (induction b rule: int_ge_induct)
  case (step b)
  then show ?case using div_step [OF assms(1), of b] by simp
qed simp

lemma year_start_mono: "a \<le> b \<Longrightarrow> year_start a \<le> year_start b"
  using div_slow [of 100 a b] zdiv_mono1 [of a b 4] zdiv_mono1 [of a b 400] by (simp add: year_start_def)

lemma leap_count: "(B \<Longrightarrow> A) \<Longrightarrow> (C \<Longrightarrow> B) \<Longrightarrow>
    (if A \<and> (\<not> B \<or> C) then 366 else 365 :: int) = 365 + (if A then 1 else 0) - (if B then 1 else 0) + (if C then 1 else 0)"
  by (cases A; cases B; cases C) simp_all

lemma year_start_next: "year_start (y + 1) = year_start y + year_days y"
proof -
  let ?e = "\<lambda>k :: int. if (y + 1) mod k = 0 then 1 else 0 :: int"
  have "(y + 1) mod 4 = 0" if "(y + 1) mod 100 = 0"
    using dvd_trans [of 4 100 "y + 1"] that by (simp add: mod_eq_0_iff_dvd)
  moreover have "(y + 1) mod 100 = 0" if "(y + 1) mod 400 = 0"
    using dvd_trans [of 100 400 "y + 1"] that by (simp add: mod_eq_0_iff_dvd)
  ultimately have days: "year_days y = 365 + ?e 4 - ?e 100 + ?e 400"
    unfolding year_days_def is_leap_def by (rule leap_count)
  have "(y + 1) div 4 = y div 4 + ?e 4" "(y + 1) div 100 = y div 100 + ?e 100"
    "(y + 1) div 400 = y div 400 + ?e 400"
    by (rule div_step, simp)+
  then have "year_start (y + 1) =
      365 * (y + 1) + (y div 4 + ?e 4) - (y div 100 + ?e 100) + (y div 400 + ?e 400)"
    by (simp only: year_start_def)
  also have "\<dots> = year_start y + (365 + ?e 4 - ?e 100 + ?e 400)"
    by (simp only: year_start_def algebra_simps)
  finally show ?thesis by (simp only: days)
qed

lemma year_of_day:
  assumes "0 \<le> doe" and "doe < year_start (int n)"
  shows "\<exists>y. 0 \<le> y \<and> y < int n \<and> year_start y \<le> doe \<and> doe < year_start (y + 1)"
  using assms(2)
proof (induction n)
  case 0
  with assms(1) show ?case by (simp add: year_start_def)
next
  case (Suc n)
  show ?case
  proof (cases "doe < year_start (int n)")
    case True
    from Suc.IH [OF this] show ?thesis by force
  next
    case False
    with Suc.prems show ?thesis by (intro exI [of _ "int n"]) (simp add: add.commute)
  qed
qed

text \<open>The formula for the year is exact on the first day of a year and one less on the day before.\<close>

lemma year_start_parts:
  assumes "0 \<le> y" "y < 400"
  shows "year_start y div 1460 = y div 4" "0 < y \<Longrightarrow> year_start y mod 1460 \<noteq> 0"
    "year_start y div 36524 = y div 100" "year_start y < 146096" "0 \<le> year_start y"
proof -
  define q where "q = y div 4"
  define r where "r = y mod 4"
  define c where "c = y div 100"
  define z where "z = y mod 100"
  have y: "y = 4 * q + r" "0 \<le> r" "r \<le> 3" "y = 100 * c + z" "0 \<le> z" "z \<le> 99"
    using pos_mod_bound [of 4 y] pos_mod_bound [of 100 y] by (simp_all add: q_def r_def c_def z_def)
  have s: "year_start y = 365 * y + q - c" using assms by (simp add: year_start_def q_def c_def)
  have s1: "year_start y = 1460 * q + (365 * r + q - c)" and s2: "year_start y = 36524 * c + (365 * z + q - 25 * c)"
    using s y(1) y(4) by linarith+
  have c: "0 \<le> q - 25 * c" "q - 25 * c \<le> 24" "0 \<le> c" using y assms by linarith+
  then have b: "0 \<le> 365 * r + q - c" "365 * r + q - c < 1460" "0 \<le> 365 * z + q - 25 * c" "365 * z + q - 25 * c < 36524"
    using y assms by linarith+
  show "year_start y div 1460 = y div 4" "year_start y div 36524 = y div 100"
    using int_div_pos_eq [OF s1 b(1,2)] int_div_pos_eq [OF s2 b(3,4)] by (simp_all add: q_def c_def)
  show "year_start y mod 1460 \<noteq> 0" if "0 < y"
    using int_mod_pos_eq [OF s1 b(1,2)] that y c by linarith
  show "year_start y < 146096" "0 \<le> year_start y" using s y c assms by linarith+
qed

lemma era_years_start:
  assumes "0 \<le> y" "y < 400"
  shows "era_years (year_start y) = 365 * y" "0 < y \<Longrightarrow> era_years (year_start y - 1) < 365 * y"
proof -
  note parts = year_start_parts [OF assms]
  have small: "year_start y div 146096 = 0" using parts by (intro div_pos_pos_trivial) auto
  have exact: "year_start y - y div 4 + y div 100 = 365 * y" using assms by (simp add: year_start_def)
  with parts small show "era_years (year_start y) = 365 * y" by (simp only: era_years_def diff_zero)
  show "era_years (year_start y - 1) < 365 * y" if y: "0 < y"
  proof -
    have "0 < year_start y" using year_start_parts [OF assms] y parts(2) [OF y] by (metis mod_0 order_less_le)
    then have "(year_start y - 1) div 146096 = 0" using parts(4) by (intro div_pos_pos_trivial) auto
    moreover have "(year_start y - 1) div 1460 = y div 4"
      using div_step [of 1460 "year_start y - 1"] parts(1,2) y by simp
    moreover have "(year_start y - 1) div 36524 \<le> y div 100"
      using zdiv_mono1 [of "year_start y - 1" "year_start y" 36524] parts(3) by simp
    ultimately have "era_years (year_start y - 1) \<le> year_start y - 1 - y div 4 + y div 100 - 0"
      unfolding era_years_def by (simp only: diff_zero)
    with exact show ?thesis by linarith
  qed
qed

lemma era_years_end: "era_years 146096 = 145999"
  by (simp add: era_years_def)

lemma era_years_mono:
  assumes "0 \<le> a" "a \<le> b" "b \<le> 146096"
  shows "era_years a \<le> era_years b"
proof -
  have step: "a - a div 1460 \<le> b - b div 1460" using assms by (intro div_slow) auto
  have "a div 36524 \<le> b div 36524" using assms by (intro zdiv_mono1) auto
  show ?thesis
  proof (cases "b = 146096")
    case False
    with assms have "a div 146096 = 0" "b div 146096 = 0" by auto
    with add_mono [OF step \<open>a div 36524 \<le> b div 36524\<close>] show ?thesis by (simp only: era_years_def diff_zero)
  next
    case b: True
    show ?thesis
    proof (cases "a = b")
      case False
      with assms b have a: "a \<le> 146095" "0 \<le> a" by auto
      then have "a - a div 1460 \<le> 146095 - 146095 div 1460" by (intro div_slow) auto
      moreover have "a div 36524 \<le> 146095 div 36524" using a by (intro zdiv_mono1) auto
      moreover have "a div 146096 = 0" using a by auto
      ultimately show ?thesis using b by (simp add: era_years_def)
    qed simp
  qed
qed

lemma year_of_era:
  assumes "0 \<le> doe" "doe < 146097"
  defines "yoe \<equiv> era_years doe div 365"
  shows "0 \<le> yoe \<and> yoe < 400 \<and> year_start yoe \<le> doe \<and> doe < year_start yoe + year_days yoe"
proof -
  have "doe < year_start (int 400)" using assms by (simp add: year_start_def)
  from year_of_day [OF assms(1) this]
  obtain y where y: "0 \<le> y" "y < 400" "year_start y \<le> doe" "doe < year_start (y + 1)" by auto
  have "365 * y \<le> era_years (year_start y)" using era_years_start(1) [OF y(1,2)] by simp
  moreover have "era_years (year_start (y + 1) - 1) < 365 * (y + 1)"
  proof (cases "y + 1 < 400")
    case True
    with era_years_start(2) [of "y + 1"] y(1) show ?thesis by simp
  next
    case False
    with y(2) have "y + 1 = 400" by simp
    then show ?thesis using era_years_end by (simp add: year_start_def)
  qed
  moreover have "era_years (year_start y) \<le> era_years doe"
    using y assms(2) by (intro era_years_mono) (auto simp: year_start_def)
  moreover have "year_start (y + 1) \<le> year_start 400" using y by (intro year_start_mono) simp
  then have "year_start (y + 1) \<le> 146097" by (simp add: year_start_def)
  ultimately have "yoe = y"
    using era_years_mono [of doe "year_start (y + 1) - 1"] y assms by simp
  with y year_start_next [of y] show ?thesis by simp
qed

text \<open>The date of a day exists and gives the day back.\<close>

lemma month_numbers: "0 \<le> mp \<Longrightarrow> mp \<le> 11 \<Longrightarrow> mp \<in> set [0, 1, 2, 3, 4, 5, 6, 7, 8, 9, 10, 11]" for mp :: int
  by (simp only: set_simps insert_iff empty_iff) presburger

lemma month_of_day:
  fixes doy :: int
  assumes "0 \<le> doy" "doy < 366"
  defines "mp \<equiv> (5 * doy + 2) div 153"
  defines "d \<equiv> doy - (153 * mp + 2) div 5 + 1"
  shows "0 \<le> mp" "mp \<le> 11" "1 \<le> d"
    and "mp \<in> {0, 2, 4, 5, 7, 9, 10} \<Longrightarrow> d \<le> 31" "mp \<in> {1, 3, 6, 8} \<Longrightarrow> d \<le> 30"
    and "mp = 11 \<Longrightarrow> d \<le> doy - 336"
proof -
  have mp: "153 * mp \<le> 5 * doy + 2" "5 * doy + 2 < 153 * mp + 153"
    unfolding mp_def by presburger+
  then show "0 \<le> mp" "mp \<le> 11" using assms(1,2) by linarith+
  then have "mp \<in> set [0, 1, 2, 3, 4, 5, 6, 7, 8, 9, 10, 11]" by (rule month_numbers)
  then show "1 \<le> d" "mp \<in> {0, 2, 4, 5, 7, 9, 10} \<Longrightarrow> d \<le> 31" "mp \<in> {1, 3, 6, 8} \<Longrightarrow> d \<le> 30"
    "mp = 11 \<Longrightarrow> d \<le> doy - 336"
    using mp unfolding d_def by auto
qed

lemma civil_inverse:
  assumes "civil_from_days days = (y, m, d)"
  shows "days_from_civil y m d = days" "1 \<le> m" "m \<le> 12" "1 \<le> d" "d \<le> days_in m y"
proof -
  define doe where "doe = (days + 719468) mod 146097"
  define era where "era = (days + 719468) div 146097"
  define yoe where "yoe = era_years doe div 365"
  define doy where "doy = doe - (365 * yoe + yoe div 4 - yoe div 100)"
  define mp where "mp = (5 * doy + 2) div 153"
  have "0 \<le> doe" "doe < 146097" by (simp_all add: doe_def)
  from year_of_era [OF this, folded yoe_def]
  have yoe: "0 \<le> yoe" "yoe < 400" and "year_start yoe \<le> doe" "doe < year_start yoe + year_days yoe" by auto
  then have doy: "0 \<le> doy" "doy < year_days yoe" by (simp_all add: doy_def year_start_def)
  then have "doy < 366" by (simp add: year_days_def split: if_splits)
  note month = month_of_day [OF doy(1) this, folded mp_def]
  have parts: "m = (if mp < 10 then mp + 3 else mp - 9)" "d = doy - (153 * mp + 2) div 5 + 1"
    "y = yoe + era * 400 + (if m \<le> 2 then 1 else 0)"
    using assms unfolding civil_from_days_def Let_def
    unfolding doe_def [symmetric] era_def [symmetric] era_years_def [symmetric] yoe_def [symmetric]
      doy_def [symmetric] mp_def [symmetric]
    by (auto simp only: prod.inject split: if_split)
  show "1 \<le> m" "m \<le> 12" "1 \<le> d" using parts month by (auto split: if_splits)
  have small: "m \<le> 2 \<longleftrightarrow> 10 \<le> mp" using parts(1) month by auto
  have "(yoe + era * 400) mod 400 = yoe" "(yoe + era * 400) div 400 = era" using yoe by simp_all
  moreover have "(if m \<le> 2 then y - 1 else y) = yoe + era * 400" using parts(3) by simp
  moreover have "(if m > 2 then m - 3 else m + 9) = mp" using parts(1) small by auto
  moreover have "(153 * mp + 2) div 5 + d - 1 = doy" using parts(2) by simp
  moreover have "era * 146097 + doe = days + 719468" unfolding era_def doe_def by (rule div_mult_mod_eq)
  ultimately show "days_from_civil y m d = days"
    unfolding days_from_civil_def Let_def by (simp add: doy_def)
  have "yoe + era * 400 + 1 = yoe + 1 + (era * 100) * 4" "yoe + era * 400 + 1 = yoe + 1 + (era * 4) * 100"
    "yoe + era * 400 + 1 = yoe + 1 + era * 400" by simp_all
  then have "(yoe + era * 400 + 1) mod 4 = (yoe + 1) mod 4" "(yoe + era * 400 + 1) mod 100 = (yoe + 1) mod 100"
    "(yoe + era * 400 + 1) mod 400 = (yoe + 1) mod 400" by (metis mod_mult_self1)+
  then have leap: "is_leap (yoe + era * 400 + 1) = is_leap (yoe + 1)"
    unfolding is_leap_def by (simp only:)
  have "mp \<in> set [0, 1, 2, 3, 4, 5, 6, 7, 8, 9, 10, 11]" using month(1,2) by (rule month_numbers)
  then consider "mp \<in> {0, 2, 4, 5, 7, 9, 10}" | "mp \<in> {1, 3, 6, 8}" | "mp = 11" by auto
  then show "d \<le> days_in m y"
  proof cases
    case 1
    with month(4) parts(1,2) show ?thesis by (auto simp: days_in_def)
  next
    case 2
    with month(5) parts(1,2) show ?thesis by (auto simp: days_in_def)
  next
    case 3
    with parts have "m = 2" "y = yoe + era * 400 + 1" by auto
    with 3 month(6) parts(2) doy(2) leap show ?thesis by (auto simp: days_in_def year_days_def split: if_splits)
  qed
qed

section \<open>Digits\<close>

lemma is_digit_char: "0 \<le> v \<Longrightarrow> v < 10 \<Longrightarrow> is_digit (char_of (nat (48 + v))) \<and> digit_value (char_of (nat (48 + v))) = v"
  by (simp add: is_digit_def digit_value_def in_range_def byte_def nat_le_iff le_nat_iff)

lemma length_decimal [simp]: "length (decimal n v) = n"
  by (induction n arbitrary: v) auto

lemma decimal_digits: "list_all is_digit (decimal n v)"
  using is_digit_char by (induction n arbitrary: v) auto

lemma digits_value_append: "digits_value (a @ b) acc = digits_value b (digits_value a acc)"
  by (induction a arbitrary: acc) auto

lemma digits_value_acc: "digits_value a acc = acc * 10 ^ length a + digits_value a 0"
proof (induction a arbitrary: acc)
  case (Cons c a)
  show ?case using Cons.IH [of "10 * acc + digit_value c"] Cons.IH [of "digit_value c"]
    by (simp add: algebra_simps)
qed simp

lemma digits_value_decimal: "0 \<le> v \<Longrightarrow> v < 10 ^ n \<Longrightarrow> digits_value (decimal n v) 0 = v"
proof (induction n arbitrary: v)
  case (Suc n)
  have "digits_value (decimal n (v div 10)) 0 = v div 10"
    using Suc.prems by (intro Suc.IH) auto
  then show ?case using is_digit_char [of "v mod 10"] by (simp add: digits_value_append)
qed simp

lemma take_digits_decimal: "0 \<le> v \<Longrightarrow> v < 10 ^ n \<Longrightarrow> take_digits n (decimal n v @ rest) = Some (v, rest)"
  using decimal_digits [of n v] by (simp add: take_digits_def digits_value_decimal)

lemma take_char_Cons [simp]: "take_char c (c # s) = Some s"
  by (simp add: take_char_def)

text \<open>The fraction loses its trailing zeros and gets them back.\<close>

lemma split_zeros: "\<exists>k. s = rev (dropWhile (\<lambda>c. c = CHR ''0'') (rev s)) @ replicate k (CHR ''0'')"
proof -
  define z where "z = takeWhile (\<lambda>c. c = CHR ''0'') (rev s)"
  define ds where "ds = dropWhile (\<lambda>c. c = CHR ''0'') (rev s)"
  have "rev s = z @ ds" by (simp add: z_def ds_def)
  then have "rev (rev s) = rev ds @ rev z" by (simp only: rev_append)
  moreover have "\<forall>c \<in> set z. c = CHR ''0''" using set_takeWhileD by (fastforce simp: z_def)
  then have "replicate (length z) (CHR ''0'') = z" by (intro replicate_length_same) simp
  then have "rev z = replicate (length z) (CHR ''0'')" by (metis rev_replicate)
  ultimately show ?thesis unfolding ds_def [symmetric] by auto
qed

lemma digits_value_zeros: "digits_value (replicate k (CHR ''0'')) 0 = 0"
  by (induction k) (simp_all add: digit_value_def byte_def)

lemma take_fraction_format:
  assumes "0 \<le> ns" "ns < 10 ^ 9"
  shows "take_fraction (format_fraction ns @ ''Z'') = (ns, ''Z'')"
proof (cases "ns = 0")
  case False
  define ds where "ds = rev (dropWhile (\<lambda>c. c = CHR ''0'') (rev (decimal 9 ns)))"
  obtain k where k: "decimal 9 ns = ds @ replicate k (CHR ''0'')" using split_zeros unfolding ds_def by blast
  have len: "length ds + k = 9" using arg_cong [OF k, of length] by simp
  have dig: "list_all is_digit ds" using decimal_digits [of 9 ns] unfolding k by simp
  have ns: "ns = digits_value ds 0 * 10 ^ k"
    using digits_value_decimal [OF assms] digits_value_acc [of "replicate k (CHR ''0'')" "digits_value ds 0"]
      digits_value_zeros [of k] unfolding k by (simp add: digits_value_append)
  have ne: "ds \<noteq> []" using False ns by auto
  have z: "\<not> is_digit (CHR ''Z'')" by (simp add: is_digit_def in_range_def byte_def)
  have "takeWhile is_digit (ds @ ''Z'') = ds" "dropWhile is_digit (ds @ ''Z'') = ''Z''"
    using dig z by (simp_all add: list_all_iff)
  moreover have "take 9 ds = ds" "9 - length ds = k" using len by simp_all
  moreover have "is_digit ((ds @ ''Z'') ! 0)" using ne dig by (cases ds) auto
  moreover have "format_fraction ns @ ''Z'' = CHR ''.'' # ds @ ''Z''"
    using False by (simp add: format_fraction_def ds_def del: decimal.simps)
  moreover have "2 \<le> length (CHR ''.'' # ds @ ''Z'')" by simp
  ultimately show ?thesis
    unfolding take_fraction_def Let_def by (simp only: list.sel nth_Cons_Suc One_nat_def simp_thms if_True ns [symmetric])
qed (simp add: take_fraction_def format_fraction_def)

section \<open>Instants\<close>

definition rfc_time :: "time \<Rightarrow> bool" where
  "rfc_time t \<longleftrightarrow> (let y = fst (civil_from_days (t div 1000000000 div 86400)) in 0 \<le> y \<and> y < 10000)"

lemma take_hour_decimal: "0 \<le> v \<Longrightarrow> v < 100 \<Longrightarrow> take_hour (decimal 2 v @ rest) = Some (v, rest)"
  using take_digits_decimal [of v 2 rest] by (simp add: take_hour_def)

lemma parse_printed:
  assumes "0 \<le> y" "y < 10 ^ 4" "1 \<le> m" "m \<le> 12" "1 \<le> d" "d \<le> days_in m y"
    and "0 \<le> hh" "hh \<le> 23" "0 \<le> mi" "mi \<le> 59" "0 \<le> ss" "ss \<le> 59" "0 \<le> ns" "ns < 10 ^ 9"
  shows "parse_RFC3339Nano (decimal 4 y @ ''-'' @ decimal 2 m @ ''-'' @ decimal 2 d @ ''T''
      @ decimal 2 hh @ '':'' @ decimal 2 mi @ '':'' @ decimal 2 ss @ format_fraction ns @ ''Z'') =
    Some ((days_from_civil y m d * 86400 + hh * 3600 + mi * 60 + ss) * 1000000000 + ns)"
proof -
  have z: "take_zone ''Z'' = Some (0, [])" by (simp add: take_zone_def)
  have "d \<le> 31" using assms(6) by (auto simp: days_in_def split: if_splits)
  then have two: "0 \<le> m" "m < 10 ^ 2" "0 \<le> d" "d < 10 ^ 2" "hh < 100" "mi < 10 ^ 2" "ss < 10 ^ 2"
    using assms by simp_all
  show ?thesis
    unfolding parse_RFC3339Nano_def take_digits_decimal [OF assms(1,2)] take_digits_decimal [OF two(1,2)]
      take_digits_decimal [OF two(3,4)] take_hour_decimal [OF assms(7) two(5)]
      take_digits_decimal [OF assms(9) two(6)] take_digits_decimal [OF assms(11) two(7)]
      take_fraction_format [OF assms(13,14)] z append_Cons append_Nil take_char_Cons Option.bind.bind_lunit
      prod.case Let_def
    using assms by simp
qed

lemma parse_format:
  assumes "rfc_time t"
  shows "parse_RFC3339Nano (format_RFC3339Nano t) = Some t"
proof -
  define secs where "secs = t div 1000000000"
  define ns where "ns = t mod 1000000000"
  define sod where "sod = secs mod 86400"
  obtain y m d where civil: "civil_from_days (secs div 86400) = (y, m, d)" by (metis prod_cases3)
  note date = civil_inverse [OF civil]
  have y: "0 \<le> y" "y < 10 ^ 4" using assms civil by (simp_all add: rfc_time_def Let_def secs_def)
  have sod: "0 \<le> sod" "sod < 86400" by (simp_all add: sod_def)
  then have clock: "0 \<le> sod div 3600" "sod div 3600 \<le> 23" "0 \<le> sod div 60 mod 60" "sod div 60 mod 60 \<le> 59"
    "0 \<le> sod mod 60" "sod mod 60 \<le> 59" by auto
  have ns: "0 \<le> ns" "ns < 10 ^ 9" by (simp_all add: ns_def)
  have join: "(p + a + b + c) * k + n = v" if "a + b + c = s" "p + s = q" "q * k + n = v"
    for a b c k n p q s v :: int using that by (metis add.assoc)
  have split: "a * 3600 + b * 60 + c = s" if "a * 60 + b = q" "q * 60 + c = s" for a b c q s :: int
    using that by linarith
  have "sod div 3600 = sod div 60 div 60" using zdiv_zmult2_eq [of 60 sod 60] by simp
  then have "sod div 3600 * 3600 + sod div 60 mod 60 * 60 + sod mod 60 = sod"
    using split [OF div_mult_mod_eq div_mult_mod_eq] by (simp only:)
  moreover have "secs div 86400 * 86400 + sod = secs" by (simp add: sod_def)
  moreover have "secs * 1000000000 + ns = t" by (simp add: secs_def ns_def)
  ultimately have t: "(secs div 86400 * 86400 + sod div 3600 * 3600 + sod div 60 mod 60 * 60 + sod mod 60)
      * 1000000000 + ns = t" by (rule join)
  have printed: "format_RFC3339Nano t = decimal 4 y @ ''-'' @ decimal 2 m @ ''-'' @ decimal 2 d @ ''T''
      @ decimal 2 (sod div 3600) @ '':'' @ decimal 2 (sod div 60 mod 60) @ '':'' @ decimal 2 (sod mod 60)
      @ format_fraction ns @ ''Z''"
    using civil by (simp add: format_RFC3339Nano_def Let_def secs_def ns_def sod_def)
  from parse_printed [OF y date(2-5) clock ns] show ?thesis
    unfolding printed date(1) t .
qed

end
