(* ===== verification/Job_Json.thy ===== *)
theory Job_Json
  imports Jobs Go_Time_Inverse
begin

text \<open>
  The JSON of a job (the struct tags of \<open>jobs.Job\<close> in \<open>lib/jobs/jobs.go\<close>), as the REST API and the Redis
  backend write it and as the Redis backend and a client read it. An instant is the \<open>RFC3339Nano\<close> text
  of \<open>time.Time\<close>, in UTC; outside the years 0 to 9999 it has none. The owner is not part of the
  document.

  The lemmas show that a document read back is the same job without its owner.
\<close>

section \<open>Encoding\<close>

definition json_time :: "time \<Rightarrow> rat json" where
  "json_time t = JString (format_RFC3339Nano t)"

definition omit_time :: "time option \<Rightarrow> rat json option" where
  "omit_time t = map_option json_time t"

definition Job_json :: "Job \<Rightarrow> rat json" where
  "Job_json job = json_struct
     [(''id'', Some (json_string (job_ID job))),
      (''status'', Some (json_string (job_Status job))),
      (''request'', Some (Request_json (job_Request job))),
      (''result'', map_option Result_json (job_Result job)),
      (''error'', omit_string (job_Error job)),
      (''created_at'', Some (json_time (CreatedAt job))),
      (''updated_at'', Some (json_time (UpdatedAt job))),
      (''started_at'', omit_time (StartedAt job)),
      (''completed_at'', omit_time (CompletedAt job)),
      (''expires_at'', Some (json_time (ExpiresAt job)))]"

text \<open>Whether a job has a document: every instant is in range.\<close>

definition job_marshals :: "Job \<Rightarrow> bool" where
  "job_marshals job \<longleftrightarrow>
     rfc_time (CreatedAt job) \<and> rfc_time (UpdatedAt job) \<and> pred_option rfc_time (StartedAt job) \<and>
     pred_option rfc_time (CompletedAt job) \<and> rfc_time (ExpiresAt job)"

definition time_range_error :: go_error where
  "time_range_error = External ''json: error calling MarshalJSON for type time.Time''"

section \<open>Decoding\<close>

text \<open>\<open>UnmarshalJSON\<close> refuses what \<open>time.Parse\<close> lets through beyond RFC 3339: an hour of one digit, a
  comma before the fraction, and an offset of 24 hours or 60 minutes.\<close>

definition strict_RFC3339 :: "string \<Rightarrow> bool" where
  "strict_RFC3339 s \<longleftrightarrow>
     s ! 12 \<noteq> CHR '':'' \<and> s ! 19 \<noteq> CHR '','' \<and>
     (last s = CHR ''Z'' \<or>
      digits_value (take 2 (drop (length s - 5) s)) 0 < 24 \<and> digits_value (drop (length s - 2) s) 0 < 60)"

definition decode_time :: "rat json \<Rightarrow> time \<Rightarrow> go_error + time" where
  "decode_time j old =
     (case j of
        JNull \<Rightarrow> Inr old
      | JString s \<Rightarrow>
          (case parse_RFC3339Nano s of
             None \<Rightarrow> Inl type_error
           | Some t \<Rightarrow> if strict_RFC3339 s then Inr t else Inl type_error)
      | _ \<Rightarrow> Inl type_error)"

text \<open>A pointer: \<open>null\<close> makes it nil, another value is decoded into what it points to.\<close>

definition decode_pointer ::
  "(rat json \<Rightarrow> 'a \<Rightarrow> go_error + 'a) \<Rightarrow> 'a \<Rightarrow> rat json \<Rightarrow> 'a option \<Rightarrow> go_error + 'a option" where
  "decode_pointer decode zero j old =
     (if j = JNull then Inr None
      else put (decode j (case old of None \<Rightarrow> zero | Some x \<Rightarrow> x)) Some)"

definition job_names :: "string list" where
  "job_names = [''id'', ''status'', ''request'', ''result'', ''error'', ''created_at'', ''updated_at'',
     ''started_at'', ''completed_at'', ''expires_at'']"

definition store_job :: "string \<Rightarrow> rat json \<Rightarrow> Job \<Rightarrow> go_error + Job" where
  "store_job name v job =
     (if name = ''id'' then put (decode_string v (job_ID job)) (\<lambda>x. job\<lparr>job_ID := x\<rparr>)
      else if name = ''status'' then put (decode_string v (job_Status job)) (\<lambda>x. job\<lparr>job_Status := x\<rparr>)
      else if name = ''request''
      then put (decode_Request False v (job_Request job)) (\<lambda>x. job\<lparr>job_Request := x\<rparr>)
      else if name = ''result''
      then put (decode_pointer decode_Result zero_result v (job_Result job)) (\<lambda>x. job\<lparr>job_Result := x\<rparr>)
      else if name = ''error'' then put (decode_string v (job_Error job)) (\<lambda>x. job\<lparr>job_Error := x\<rparr>)
      else if name = ''created_at'' then put (decode_time v (CreatedAt job)) (\<lambda>x. job\<lparr>CreatedAt := x\<rparr>)
      else if name = ''updated_at'' then put (decode_time v (UpdatedAt job)) (\<lambda>x. job\<lparr>UpdatedAt := x\<rparr>)
      else if name = ''started_at''
      then put (decode_pointer decode_time zero_time v (StartedAt job)) (\<lambda>x. job\<lparr>StartedAt := x\<rparr>)
      else if name = ''completed_at''
      then put (decode_pointer decode_time zero_time v (CompletedAt job)) (\<lambda>x. job\<lparr>CompletedAt := x\<rparr>)
      else put (decode_time v (ExpiresAt job)) (\<lambda>x. job\<lparr>ExpiresAt := x\<rparr>))"

definition decode_Job :: "rat json \<Rightarrow> Job \<Rightarrow> go_error + Job" where
  "decode_Job = decode_struct job_names store_job False"

definition zero_job :: Job where
  "zero_job = \<lparr>job_ID = [], OwnerID = [], job_Status = [], job_Request = zero_request, job_Result = None,
     job_Error = [], CreatedAt = zero_time, UpdatedAt = zero_time, StartedAt = None, CompletedAt = None,
     ExpiresAt = zero_time\<rparr>"

section \<open>The round trip\<close>

definition job_utf8 :: "Job \<Rightarrow> bool" where
  "job_utf8 job \<longleftrightarrow>
     valid_utf8 (job_ID job) \<and> valid_utf8 (job_Status job) \<and> request_utf8 (job_Request job) \<and>
     pred_option result_utf8 (job_Result job) \<and> valid_utf8 (job_Error job)"

text \<open>A job as it comes back: its glossary is in key order.\<close>

definition read_job :: "Job \<Rightarrow> Job" where
  "read_job job = job\<lparr>job_Request := canon_request (job_Request job)\<rparr>"

lemma format_strict: "strict_RFC3339 (format_RFC3339Nano t)"
proof -
  obtain y m d where civil: "civil_from_days (t div 1000000000 div 86400) = (y, m, d)" by (metis prod_cases3)
  let ?sod = "t div 1000000000 mod 86400"
  let ?h = "decimal 2 (?sod div 3600)"
  have "is_digit (?h ! 1)" using decimal_digits [of 2 "?sod div 3600"] by (simp add: list_all_length)
  then have h: "?h ! 1 \<noteq> CHR '':''" by (auto simp: is_digit_def in_range_def byte_def)
  have printed: "format_RFC3339Nano t = decimal 4 y @ ''-'' @ decimal 2 m @ ''-'' @ decimal 2 d @ ''T''
      @ ?h @ '':'' @ decimal 2 (?sod div 60 mod 60) @ '':'' @ decimal 2 (?sod mod 60)
      @ format_fraction (t mod 1000000000) @ ''Z''"
    using civil by (simp add: format_RFC3339Nano_def Let_def)
  show ?thesis
    unfolding strict_RFC3339_def printed
    using h by (simp add: nth_append format_fraction_def del: decimal.simps)
qed

lemma decode_time_json: "rfc_time t \<Longrightarrow> decode_time (json_time t) old = Inr t"
  by (simp add: decode_time_def json_time_def parse_format format_strict)

lemma json_not_null [simp]: "json_time t \<noteq> JNull" "Result_json r \<noteq> JNull"
  by (simp_all add: json_time_def Result_json_def json_struct_def)

lemma decode_Job_json:
  assumes "job_marshals job" and "job_utf8 job"
  shows "decode_Job (Job_json job) zero_job = Inr (read_job job\<lparr>OwnerID := []\<rparr>)"
  using assms decode_Request_json [of "job_Request job" False]
  by (cases job; cases "job_Result job"; cases "StartedAt job"; cases "CompletedAt job")
    (auto simp: decode_Job_def Job_json_def json_struct_def decode_struct_def job_names_def store_job_def
      zero_job_def omit_string_def omit_time_def job_utf8_def job_marshals_def decode_time_json decode_Result_json
      decode_pointer_def read_job_def)

end
