(* ===== verification/Redis.thy ===== *)
theory Redis
  imports Remote Job_Json
begin

text \<open>
  \<open>lib/jobs/redis/backend.go\<close>: store and queue in one Redis server. \<open>Keyspace\<close> is what the server holds
  for the backend: string keys and owner indexes (sorted sets), each with the instant at which it
  expires, and the stream of the queue with its consumer group. Its clock counts milliseconds. The
  commands and the scripts the code sends are functions on it, as Redis documents them; a script runs
  at once and alone. A JSON value is the tree of its document.

  The store has no expiry of its own: the server forgets a job at its deadline. The queue delivers an
  entry once and again when it has been pending for \<open>claimIdle\<close>.
\<close>

section \<open>The server\<close>

record entry =
  entry_ID :: nat
  entry_job_id :: string

record Keyspace =
  ks_strings :: "(string \<times> rat json \<times> int option) list"
  ks_zsets :: "(string \<times> (string \<times> int) list \<times> int option) list"
  ks_stream :: "entry list"
  ks_next :: nat
  ks_group :: "nat option"
  ks_pending :: "(nat \<times> int) list"
  ks_clock :: int

text \<open>A key is there until its deadline has passed.\<close>

definition lives :: "int \<Rightarrow> int option \<Rightarrow> bool" where
  "lives clock deadline \<longleftrightarrow> (case deadline of None \<Rightarrow> True | Some d \<Rightarrow> clock \<le> d)"

definition live :: "int \<Rightarrow> (string \<times> 'v \<times> int option) list \<Rightarrow> string \<Rightarrow> ('v \<times> int option) option" where
  "live clock m key =
     (case map_of m key of
        None \<Rightarrow> None
      | Some (v, deadline) \<Rightarrow> if lives clock deadline then Some (v, deadline) else None)"

text \<open>\<open>GET\<close>, \<open>SET EX\<close>, \<open>SET KEEPTTL\<close>. A key that is not there keeps no deadline.\<close>

definition redis_GET :: "string \<Rightarrow> Keyspace \<Rightarrow> rat json option" where
  "redis_GET key ks = map_option fst (live (ks_clock ks) (ks_strings ks) key)"

definition redis_SET_EX :: "string \<Rightarrow> rat json \<Rightarrow> int \<Rightarrow> Keyspace \<Rightarrow> Keyspace" where
  "redis_SET_EX key v seconds ks =
     ks\<lparr>ks_strings := AList.update key (v, Some (ks_clock ks + seconds * 1000)) (ks_strings ks)\<rparr>"

definition redis_SET_KEEPTTL :: "string \<Rightarrow> rat json \<Rightarrow> (Keyspace, unit) statement" where
  "redis_SET_KEEPTTL key v ks =
     (let deadline = (case live (ks_clock ks) (ks_strings ks) key of None \<Rightarrow> None | Some (_, d) \<Rightarrow> d)
      in Inr (ks\<lparr>ks_strings := AList.update key (v, deadline) (ks_strings ks)\<rparr>, ()))"

text \<open>The members of a sorted set with their scores.\<close>

definition zmembers :: "string \<Rightarrow> Keyspace \<Rightarrow> (string \<times> int) list" where
  "zmembers key ks = (case live (ks_clock ks) (ks_zsets ks) key of None \<Rightarrow> [] | Some (ms, _) \<Rightarrow> ms)"

text \<open>\<open>ZREVRANGEBYSCORE key max -inf LIMIT 0 n\<close>: by falling score, equal scores by falling member;
  \<open>below\<close> is the exclusive bound, \<open>None\<close> is \<open>+inf\<close>.\<close>

definition redis_ZREVRANGEBYSCORE :: "string \<Rightarrow> int option \<Rightarrow> nat \<Rightarrow> Keyspace \<Rightarrow> string list" where
  "redis_ZREVRANGEBYSCORE key below n ks =
     map fst (take n (rev (sort_key snd (sort_key fst
       (filter (\<lambda>(_, score). case below of None \<Rightarrow> True | Some b \<Rightarrow> score < b) (zmembers key ks))))))"

text \<open>The script of \<open>Create\<close>: \<open>SET EX\<close>, \<open>ZREMRANGEBYSCORE -inf cutoff\<close>, \<open>ZADD\<close>, \<open>EXPIRE\<close>.\<close>

definition create_script ::
  "string \<Rightarrow> string \<Rightarrow> rat json \<Rightarrow> int \<Rightarrow> string \<Rightarrow> int \<Rightarrow> int \<Rightarrow> (Keyspace, unit) statement" where
  "create_script key index v score mid seconds cutoff ks =
     (let ks1 = redis_SET_EX key v seconds ks;
          kept = filter (\<lambda>(_, s). \<not> s \<le> cutoff) (zmembers index ks1);
          members = AList.update mid score kept
      in Inr (ks1\<lparr>ks_zsets :=
                    AList.update index (members, Some (ks_clock ks1 + seconds * 1000)) (ks_zsets ks1)\<rparr>, ()))"

text \<open>\<open>XADD key * job_id v\<close>, and the scripts of \<open>ack\<close> and \<open>Nack\<close>: \<open>XACK\<close>, \<open>XDEL\<close> and, for \<open>Nack\<close>,
  \<open>XADD\<close>.\<close>

definition redis_XADD :: "string \<Rightarrow> Keyspace \<Rightarrow> Keyspace" where
  "redis_XADD jobID ks =
     ks\<lparr>ks_stream := ks_stream ks @ [\<lparr>entry_ID = ks_next ks, entry_job_id = jobID\<rparr>], ks_next := ks_next ks + 1\<rparr>"

definition redis_XACK :: "nat \<Rightarrow> Keyspace \<Rightarrow> Keyspace" where
  "redis_XACK mid ks = ks\<lparr>ks_pending := filter (\<lambda>(i, _). i \<noteq> mid) (ks_pending ks)\<rparr>"

definition redis_XDEL :: "nat \<Rightarrow> Keyspace \<Rightarrow> Keyspace" where
  "redis_XDEL mid ks = ks\<lparr>ks_stream := filter (\<lambda>e. entry_ID e \<noteq> mid) (ks_stream ks)\<rparr>"

definition enqueue_command :: "string \<Rightarrow> (Keyspace, unit) statement" where
  "enqueue_command jobID ks = Inr (redis_XADD jobID ks, ())"

definition ack_script :: "nat \<Rightarrow> (Keyspace, unit) statement" where
  "ack_script mid ks = Inr (redis_XDEL mid (redis_XACK mid ks), ())"

definition nack_script :: "nat \<Rightarrow> string \<Rightarrow> (Keyspace, unit) statement" where
  "nack_script mid jobID ks = Inr (redis_XADD jobID (redis_XDEL mid (redis_XACK mid ks)), ())"

text \<open>\<open>XGROUP CREATE key group 0 MKSTREAM\<close>: the group has delivered nothing.\<close>

definition redis_XGROUP_CREATE :: "(Keyspace, unit) statement" where
  "redis_XGROUP_CREATE ks =
     (if ks_group ks \<noteq> None then Inl (External ''BUSYGROUP Consumer Group name already exists'')
      else Inr (ks\<lparr>ks_group := Some 0\<rparr>, ()))"

text \<open>\<open>XREADGROUP ... COUNT 1 ... >\<close>: the first entry that the group has not delivered becomes pending;
  \<open>None\<close> is the nil reply after the second it blocks.\<close>

definition redis_XREADGROUP :: "(Keyspace, entry option) statement" where
  "redis_XREADGROUP ks =
     (case ks_group ks of
        None \<Rightarrow> Inl (External ''NOGROUP No such key or consumer group'')
      | Some last_id \<Rightarrow>
        (case filter (\<lambda>e. last_id < entry_ID e) (ks_stream ks) of
           [] \<Rightarrow> Inr (ks, None)
         | e # _ \<Rightarrow> Inr (ks\<lparr>ks_group := Some (entry_ID e),
                            ks_pending := ks_pending ks @ [(entry_ID e, ks_clock ks)]\<rparr>, Some e)))"

text \<open>\<open>XAUTOCLAIM ... min-idle 0-0 COUNT 1\<close>: of the first ten pending entries, the first that has been
  pending for that long is delivered again; one before it that has left the stream is dropped instead.
  The reply is an array: a cursor, the entries, the identifiers of dropped entries.\<close>

definition redis_XAUTOCLAIM :: "int \<Rightarrow> (Keyspace, entry list list option) statement" where
  "redis_XAUTOCLAIM min_idle ks =
     (if ks_group ks = None then Inl (External ''NOGROUP No such key or consumer group'')
      else case filter (\<lambda>(i, since). i \<notin> entry_ID ` set (ks_stream ks) \<or> min_idle \<le> ks_clock ks - since)
                   (take 10 (ks_pending ks)) of
        [] \<Rightarrow> Inr (ks, Some [[], [], []])
      | (mid, _) # _ \<Rightarrow>
        (case find (\<lambda>e. entry_ID e = mid) (ks_stream ks) of
           None \<Rightarrow> Inr (redis_XACK mid ks, Some [[], [], []])
         | Some e \<Rightarrow> Inr (ks\<lparr>ks_pending := map (\<lambda>(i, since). (i, if i = mid then ks_clock ks else since))
                                              (ks_pending ks)\<rparr>, Some [[], [e], []])))"

section \<open>The client\<close>

record redis_config =
  rc_prefix :: string
  rc_group :: string
  rc_consumer :: string
  rc_claimIdle :: duration

text \<open>The state of a backend: the server, and whether this process has made the group.\<close>

record redis_state =
  rs_server :: "Keyspace Remote"
  rs_groupOK :: bool

definition redis_NewWithClient :: "bool \<Rightarrow> string \<Rightarrow> string \<Rightarrow> go_error + redis_config" where
  "redis_NewWithClient has_client prefix0 consumer0 =
     (if \<not> has_client then Inl (BackendError RedisClientRequired)
      else let key_prefix = (if prefix0 = [] then ''transliter'' else prefix0);
               consumer = (if consumer0 = [] then ''worker'' else consumer0)
           in Inr \<lparr>rc_prefix = key_prefix, rc_group = key_prefix @ ''-workers'', rc_consumer = consumer,
                   rc_claimIdle = 10 * Minute\<rparr>)"

text \<open>\<open>New\<close>, with the errors of \<open>rueidis\<close> when it parses the URL and connects, and whether a client is open
  on return.\<close>

definition redis_New ::
  "(string \<Rightarrow> go_error option) \<Rightarrow> go_error option \<Rightarrow> string \<Rightarrow> string \<Rightarrow> string
     \<Rightarrow> (go_error + redis_config) \<times> bool" where
  "redis_New parse_URL connect rawURL prefix0 consumer0 =
     (case parse_URL rawURL of
        Some err \<Rightarrow> (Inl (Wrap (Step ''parse Redis URL'') err), False)
      | None \<Rightarrow>
        (case connect of
           Some err \<Rightarrow> (Inl (Wrap (Step ''connect Redis'') err), False)
         | None \<Rightarrow>
           (case redis_NewWithClient True prefix0 consumer0 of
              Inl err \<Rightarrow> (Inl err, False)
            | Inr backend \<Rightarrow> (Inr backend, True))))"

definition redis_SetClaimIdle :: "duration \<Rightarrow> redis_config \<Rightarrow> (go_error + unit) \<times> redis_config" where
  "redis_SetClaimIdle duration backend =
     (if duration \<le> 0 then (Inl (BackendError ClaimIdleNotPositive), backend)
      else (Inr (), backend\<lparr>rc_claimIdle := duration\<rparr>))"

definition jobKey :: "redis_config \<Rightarrow> string \<Rightarrow> string" where
  "jobKey backend mid = rc_prefix backend @ '':job:'' @ mid"

definition ownerKey :: "redis_config \<Rightarrow> string \<Rightarrow> string" where
  "ownerKey backend ownerID = rc_prefix backend @ '':owner:'' @ ownerID"

definition streamKey :: "redis_config \<Rightarrow> string" where
  "streamKey backend = rc_prefix backend @ '':queue''"

section \<open>The store\<close>

text \<open>\<open>storedJob\<close>.\<close>

definition storedJob_json :: "Job \<Rightarrow> rat json" where
  "storedJob_json job = json_struct
     [(''owner_id'', Some (json_string (OwnerID job))), (''job'', Some (Job_json job))]"

definition store_storedJob :: "string \<Rightarrow> rat json \<Rightarrow> string \<times> Job \<Rightarrow> go_error + string \<times> Job" where
  "store_storedJob name v stored =
     (if name = ''owner_id'' then put (decode_string v (fst stored)) (\<lambda>x. (x, snd stored))
      else put (decode_Job v (snd stored)) (\<lambda>x. (fst stored, x)))"

definition decode_storedJob :: "rat json \<Rightarrow> go_error + string \<times> Job" where
  "decode_storedJob v = decode_struct [''owner_id'', ''job''] store_storedJob False v ([], zero_job)"

definition marshal_stored :: "Job \<Rightarrow> go_error + rat json" where
  "marshal_stored job = (if job_marshals job then Inr (storedJob_json job) else Inl time_range_error)"

text \<open>\<open>time.Until\<close> saturates. \<open>UnixMilli\<close> rounds down.\<close>

definition time_Until :: "time \<Rightarrow> time \<Rightarrow> duration" where
  "time_Until now t = max (- (2 ^ 63)) (min (2 ^ 63 - 1) (t - now))"

definition UnixMilli :: "time \<Rightarrow> int" where
  "UnixMilli t = t div 1000000"

definition redis_Create ::
  "redis_config \<Rightarrow> time \<Rightarrow> go_context \<Rightarrow> Job \<Rightarrow> redis_state \<Rightarrow> (go_error + unit) \<times> redis_state" where
  "redis_Create backend now ctx job s =
     (case marshal_stored job of
        Inl err \<Rightarrow> (Inl err, s)
      | Inr data \<Rightarrow>
        (let ttl = time_Until now (ExpiresAt job) in
         if ttl \<le> 0 then (Inl (BackendError JobAlreadyExpired), s)
         else
           let score = UnixMilli (CreatedAt job);
               seconds = max (ttl div Second) 1;
               cutoff = UnixMilli (CreatedAt job - ttl);
               (r, server) = remote_exec ctx
                 (create_script (jobKey backend (job_ID job)) (ownerKey backend (OwnerID job)) data score
                    (job_ID job) seconds cutoff) (rs_server s)
           in (r, s\<lparr>rs_server := server\<rparr>)))"

definition redis_Get ::
  "redis_config \<Rightarrow> go_context \<Rightarrow> string \<Rightarrow> redis_state \<Rightarrow> (go_error + Job) \<times> redis_state" where
  "redis_Get backend ctx mid s =
     (case remote_query ctx (redis_GET (jobKey backend mid)) (rs_server s) of
        (Inl err, server) \<Rightarrow> (Inl err, s\<lparr>rs_server := server\<rparr>)
      | (Inr None, server) \<Rightarrow> (Inl ErrNotFound, s\<lparr>rs_server := server\<rparr>)
      | (Inr (Some data), server) \<Rightarrow>
        (case decode_storedJob data of
           Inl err \<Rightarrow> (Inl (Wrap (DecodeStored ''Redis job'') err), s\<lparr>rs_server := server\<rparr>)
         | Inr (owner, job) \<Rightarrow> (Inr (job\<lparr>OwnerID := owner\<rparr>), s\<lparr>rs_server := server\<rparr>)))"

text \<open>Time passes on the server: \<open>pause\<close> milliseconds lie between the two commands of an update.\<close>

definition wait_ms :: "int \<Rightarrow> redis_state \<Rightarrow> redis_state" where
  "wait_ms pause s =
     s\<lparr>rs_server := (rs_server s)\<lparr>contents :=
         (contents (rs_server s))\<lparr>ks_clock := ks_clock (contents (rs_server s)) + pause\<rparr>\<rparr>\<rparr>"

definition redis_Update ::
  "redis_config \<Rightarrow> int \<Rightarrow> go_context \<Rightarrow> string \<Rightarrow> Update \<Rightarrow> redis_state \<Rightarrow> (go_error + unit) \<times> redis_state" where
  "redis_Update backend pause ctx mid update s =
     (case redis_Get backend ctx mid s of
        (Inl err, s1) \<Rightarrow> (Inl err, s1)
      | (Inr job, s1) \<Rightarrow>
        (let job' = job\<lparr>job_Status := upd_Status update, job_Result := upd_Result update,
               job_Error := upd_Error update, UpdatedAt := upd_UpdatedAt update,
               StartedAt := (if upd_StartedAt update \<noteq> None then upd_StartedAt update else StartedAt job),
               CompletedAt := (if upd_CompletedAt update \<noteq> None then upd_CompletedAt update
                               else CompletedAt job)\<rparr>
         in case marshal_stored job' of
              Inl err \<Rightarrow> (Inl err, s1)
            | Inr data \<Rightarrow>
              (let s2 = wait_ms pause s1;
                   (r, server) = remote_exec ctx (redis_SET_KEEPTTL (jobKey backend mid) data) (rs_server s2)
               in (r, s2\<lparr>rs_server := server\<rparr>))))"

fun redis_list_loop ::
  "redis_config \<Rightarrow> go_context \<Rightarrow> string \<Rightarrow> string list \<Rightarrow> Job list \<Rightarrow> redis_state
     \<Rightarrow> (go_error + Job list) \<times> redis_state" where
  "redis_list_loop backend ctx ownerID [] history s = (Inr history, s)"
| "redis_list_loop backend ctx ownerID (mid # messages) history s =
     (case redis_Get backend ctx mid s of
        (Inl err, s1) \<Rightarrow>
          if errors_Is err ErrNotFound then redis_list_loop backend ctx ownerID messages history s1
          else (Inl err, s1)
      | (Inr job, s1) \<Rightarrow>
          redis_list_loop backend ctx ownerID messages
            (if OwnerID job = ownerID then history @ [job] else history) s1)"

definition redis_List ::
  "redis_config \<Rightarrow> go_context \<Rightarrow> string \<Rightarrow> ListOptions \<Rightarrow> redis_state \<Rightarrow> (go_error + Job list) \<times> redis_state" where
  "redis_List backend ctx ownerID options s =
     (let limit = (if opt_Limit options \<le> 0 then 20 else opt_Limit options);
          maximum = (if IsZero (opt_Before options) then None else Some (UnixMilli (opt_Before options)))
      in case remote_query ctx (redis_ZREVRANGEBYSCORE (ownerKey backend ownerID) maximum (nat limit))
                (rs_server s) of
           (Inl err, server) \<Rightarrow> (Inl err, s\<lparr>rs_server := server\<rparr>)
         | (Inr messages, server) \<Rightarrow>
             redis_list_loop backend ctx ownerID messages [] (s\<lparr>rs_server := server\<rparr>))"

definition redis_DeleteExpired :: "go_context \<Rightarrow> time \<Rightarrow> redis_state \<Rightarrow> (go_error + int) \<times> redis_state" where
  "redis_DeleteExpired ctx before s = (Inr 0, s)"

section \<open>The queue\<close>

definition redis_exec ::
  "go_context \<Rightarrow> (Keyspace, 'a) statement \<Rightarrow> redis_state \<Rightarrow> (go_error + 'a) \<times> redis_state" where
  "redis_exec ctx command s =
     (let (r, server) = remote_exec ctx command (rs_server s) in (r, s\<lparr>rs_server := server\<rparr>))"

definition redis_Enqueue ::
  "go_context \<Rightarrow> string \<Rightarrow> redis_state \<Rightarrow> ((go_error + unit) \<times> redis_state) option" where
  "redis_Enqueue ctx jobID s = Some (redis_exec ctx (enqueue_command jobID) s)"

text \<open>A delivery is the identifier of its entry and the job.\<close>

type_synonym redis_delivery = "nat \<times> string"

definition redis_JobID :: "redis_delivery \<Rightarrow> string" where
  "redis_JobID value = snd value"

definition redis_ack :: "go_context \<Rightarrow> nat \<Rightarrow> redis_state \<Rightarrow> (go_error + unit) \<times> redis_state" where
  "redis_ack ctx messageID s = redis_exec ctx (ack_script messageID) s"

definition redis_Ack ::
  "go_context \<Rightarrow> redis_delivery \<Rightarrow> redis_state \<Rightarrow> ((go_error + unit) \<times> redis_state) option" where
  "redis_Ack ctx value s = Some (redis_ack ctx (fst value) s)"

definition redis_Nack ::
  "go_context \<Rightarrow> redis_delivery \<Rightarrow> redis_state \<Rightarrow> ((go_error + unit) \<times> redis_state) option" where
  "redis_Nack ctx value s = Some (redis_exec ctx (nack_script (fst value) (snd value)) s)"

definition redis_ensureGroup :: "go_context \<Rightarrow> redis_state \<Rightarrow> (go_error + unit) \<times> redis_state" where
  "redis_ensureGroup ctx s =
     (if rs_groupOK s then (Inr (), s)
      else case redis_exec ctx redis_XGROUP_CREATE s of
        (Inl err, s1) \<Rightarrow>
          if \<not> sublist ''BUSYGROUP'' (Error_text (\<lambda>_. True) err)
          then (Inl (Wrap (Step ''create Redis consumer group'') err), s1)
          else (Inr (), s1\<lparr>rs_groupOK := True\<rparr>)
      | (Inr _, s1) \<Rightarrow> (Inr (), s1\<lparr>rs_groupOK := True\<rparr>))"

definition redis_reclaim ::
  "redis_config \<Rightarrow> go_context \<Rightarrow> redis_state \<Rightarrow> (go_error + redis_delivery option) \<times> redis_state" where
  "redis_reclaim backend ctx s =
     (case redis_exec ctx (redis_XAUTOCLAIM (rc_claimIdle backend div 1000000)) s of
        (Inl err, s1) \<Rightarrow> (Inl err, s1)
      | (Inr None, s1) \<Rightarrow> (Inr None, s1)
      | (Inr (Some parts), s1) \<Rightarrow>
          if length parts < 2 then (Inl (BackendError UnexpectedClaimResponse), s1)
          else
            (case parts ! 1 of
               [] \<Rightarrow> (Inr None, s1)
             | e # _ \<Rightarrow>
                 if entry_job_id e = []
                 then (let (_, s2) = redis_ack ctx (entry_ID e) s1 in (Inr None, s2))
                 else (Inr (Some (entry_ID e, entry_job_id e)), s1)))"

text \<open>\<open>Receive\<close> goes round until there is something. Each further turn begins with the server's clock and
  the context of that time; a call that outlives the given turns still blocks.\<close>

definition set_clock :: "int \<Rightarrow> redis_state \<Rightarrow> redis_state" where
  "set_clock clock s =
     s\<lparr>rs_server := (rs_server s)\<lparr>contents := (contents (rs_server s))\<lparr>ks_clock := clock\<rparr>\<rparr>\<rparr>"

fun redis_receive_loop ::
  "redis_config \<Rightarrow> (int \<times> go_context) list \<Rightarrow> go_context \<Rightarrow> redis_state
     \<Rightarrow> ((go_error + redis_delivery option) \<times> redis_state) option" where
  "redis_receive_loop backend turns ctx s =
     (case redis_reclaim backend ctx s of
        (Inl err, s1) \<Rightarrow> Some (Inl err, s1)
      | (Inr (Some d), s1) \<Rightarrow> Some (Inr (Some d), s1)
      | (Inr None, s1) \<Rightarrow>
        (case redis_exec ctx redis_XREADGROUP s1 of
           (Inl err, s2) \<Rightarrow> Some (Inl err, s2)
         | (Inr (Some e), s2) \<Rightarrow>
             if entry_job_id e \<noteq> [] then Some (Inr (Some (entry_ID e, entry_job_id e)), s2)
             else (let (_, s3) = redis_ack ctx (entry_ID e) s2 in
                   case turns of [] \<Rightarrow> None
                   | (clock, next_ctx) # rest \<Rightarrow> redis_receive_loop backend rest next_ctx (set_clock clock s3))
         | (Inr None, s2) \<Rightarrow>
             (case turns of [] \<Rightarrow> None
              | (clock, next_ctx) # rest \<Rightarrow> redis_receive_loop backend rest next_ctx (set_clock clock s2))))"

declare redis_receive_loop.simps [simp del]

definition redis_Receive ::
  "redis_config \<Rightarrow> (int \<times> go_context) list \<Rightarrow> go_context \<Rightarrow> redis_state
     \<Rightarrow> ((go_error + redis_delivery option) \<times> redis_state) option" where
  "redis_Receive backend turns ctx s =
     (case redis_ensureGroup ctx s of
        (Inl err, s1) \<Rightarrow> Some (Inl err, s1)
      | (Inr _, s1) \<Rightarrow> redis_receive_loop backend turns ctx s1)"

section \<open>The interfaces\<close>

definition redis_Store :: "redis_config \<Rightarrow> time \<Rightarrow> int \<Rightarrow> redis_state Store" where
  "redis_Store backend now pause =
     \<lparr>store_Create = redis_Create backend now, store_Get = redis_Get backend,
      store_Update = redis_Update backend pause, store_List = redis_List backend,
      store_DeleteExpired = redis_DeleteExpired\<rparr>"

definition redis_Queue :: "redis_config \<Rightarrow> (int \<times> go_context) list \<Rightarrow> (redis_state, redis_delivery) Queue" where
  "redis_Queue backend turns =
     \<lparr>queue_Enqueue = redis_Enqueue, queue_Receive = redis_Receive backend turns,
      delivery_JobID = redis_JobID, delivery_Ack = redis_Ack, delivery_Nack = redis_Nack\<rparr>"

end
