(* ===== verification/Redis_Contract.thy ===== *)
theory Redis_Contract
  imports Redis Backends
begin

text \<open>
  The Redis backend meets the contracts of a store and of a reliable queue of \<open>Jobs\<close>, as long as no key
  expires between the two commands of an update; what it does when one does; how long a job lives; how a
  delivery that was never settled comes back; and what its history lists.
\<close>

section \<open>Documents\<close>

definition redis_storable :: "Job \<Rightarrow> bool" where
  "redis_storable job \<longleftrightarrow> job_marshals job \<and> job_utf8 job \<and> valid_utf8 (OwnerID job)"

definition redis_updatable :: "Update \<Rightarrow> bool" where
  "redis_updatable u \<longleftrightarrow>
     valid_utf8 (upd_Status u) \<and> pred_option result_utf8 (upd_Result u) \<and> valid_utf8 (upd_Error u) \<and>
     rfc_time (upd_UpdatedAt u) \<and> pred_option rfc_time (upd_StartedAt u) \<and>
     pred_option rfc_time (upd_CompletedAt u)"

lemma decode_storedJob_json:
  "redis_storable job \<Longrightarrow> decode_storedJob (storedJob_json job) = Inr (OwnerID job, read_job job\<lparr>OwnerID := []\<rparr>)"
  by (simp add: redis_storable_def decode_storedJob_def storedJob_json_def json_struct_def decode_struct_def
      store_storedJob_def decode_Job_json)

lemma glossary_sorted: "glossary_entries (r\<lparr>Glossary := map_option (sort_key fst) (Glossary r)\<rparr>) =
    sort_key fst (glossary_entries r)"
  by (cases "Glossary r") (simp_all add: glossary_entries_def)

lemma read_job_simps [simp]:
  "job_ID (read_job j) = job_ID j" "OwnerID (read_job j) = OwnerID j" "job_Status (read_job j) = job_Status j"
  "CreatedAt (read_job j) = CreatedAt j" "ExpiresAt (read_job j) = ExpiresAt j" "StartedAt (read_job j) = StartedAt j"
  "CompletedAt (read_job j) = CompletedAt j" "UpdatedAt (read_job j) = UpdatedAt j"
  "job_Result (read_job j) = job_Result j" "job_Error (read_job j) = job_Error j"
  "job_Request (read_job j) = canon_request (job_Request j)"
  by (simp_all add: read_job_def)

lemma canon_request_idem [simp]: "canon_request (canon_request r) = canon_request r"
  by (cases "Glossary (Translation r)") (simp_all add: canon_request_def sort_key_id_if_sorted)

lemma canon_request_utf8: "request_utf8 r \<Longrightarrow> request_utf8 (canon_request r)"
  by (auto simp: canon_request_def request_utf8_def translation_utf8_def glossary_sorted list_all_iff
      intro: go_map_mset)

lemma redis_storable_read: "redis_storable j \<Longrightarrow> redis_storable (read_job j)"
  by (simp add: redis_storable_def job_marshals_def job_utf8_def canon_request_utf8)

lemma redis_storable_update: "redis_storable j \<Longrightarrow> redis_updatable u \<Longrightarrow> redis_storable (apply_update u j)"
  by (auto simp: redis_storable_def redis_updatable_def job_marshals_def job_utf8_def apply_update_def
      split: option.split)

lemma read_job_update: "read_job (apply_update u (read_job j)) = apply_update u (read_job j)"
  by (simp add: read_job_def apply_update_def)

section \<open>The store\<close>

abbreviation server_of :: "redis_state \<Rightarrow> Keyspace" where
  "server_of s \<equiv> contents (rs_server s)"

definition stored_job :: "rat json \<Rightarrow> Job option" where
  "stored_job v = (case decode_storedJob v of Inl _ \<Rightarrow> None | Inr (owner, job) \<Rightarrow> Some (job\<lparr>OwnerID := owner\<rparr>))"

definition redis_jobs :: "redis_config \<Rightarrow> redis_state \<Rightarrow> string \<Rightarrow> Job option" where
  "redis_jobs backend s mid = Option.bind (redis_GET (jobKey backend mid) (server_of s)) stored_job"

text \<open>The keys of jobs hold documents of jobs.\<close>

definition sound_keys :: "redis_config \<Rightarrow> Keyspace \<Rightarrow> bool" where
  "sound_keys backend ks \<longleftrightarrow>
     (\<forall>mid v. redis_GET (jobKey backend mid) ks = Some v \<longrightarrow>
        (\<exists>job. v = storedJob_json job \<and> job_ID job = mid \<and> redis_storable job))"

text \<open>The queue: the entries come in the order of their identifiers, and one that the group has
  delivered is pending until it is settled.\<close>

definition sound_queue :: "Keyspace \<Rightarrow> bool" where
  "sound_queue ks \<longleftrightarrow>
     sorted_wrt (<) (map entry_ID (ks_stream ks)) \<and> 0 < ks_next ks \<and>
     (\<forall>e \<in> set (ks_stream ks). 0 < entry_ID e \<and> entry_ID e < ks_next ks) \<and>
     (case ks_group ks of
        None \<Rightarrow> True
      | Some last_id \<Rightarrow>
          last_id < ks_next ks \<and>
          (\<forall>e \<in> set (ks_stream ks). entry_ID e \<le> last_id \<longrightarrow> entry_ID e \<in> fst ` set (ks_pending ks)))"

definition redis_inv :: "redis_config \<Rightarrow> redis_state \<Rightarrow> bool" where
  "redis_inv backend s \<longleftrightarrow> sound_keys backend (server_of s) \<and> sound_queue (server_of s)"

definition redis_waiting :: "redis_state \<Rightarrow> string set" where
  "redis_waiting s = entry_job_id ` set (ks_stream (server_of s)) - {[]}"

definition redis_accepts :: "redis_state \<Rightarrow> string \<Rightarrow> bool" where
  "redis_accepts s mid \<longleftrightarrow> mid \<noteq> []"

definition redis_outstanding :: "redis_state \<Rightarrow> redis_delivery \<Rightarrow> bool" where
  "redis_outstanding s d \<longleftrightarrow>
     snd d \<noteq> [] \<and> (\<forall>e \<in> set (ks_stream (server_of s)). entry_ID e = fst d \<longrightarrow> entry_job_id e = snd d)"

lemma jobKey_inject [simp]: "jobKey backend i = jobKey backend k \<longleftrightarrow> i = k"
  by (simp add: jobKey_def)

lemma stored_job_json [simp]: "redis_storable job \<Longrightarrow> stored_job (storedJob_json job) = Some (read_job job)"
  by (simp add: stored_job_def decode_storedJob_json)

lemma sound_GET:
  assumes "sound_keys backend ks" and "redis_GET (jobKey backend mid) ks = Some v"
  obtains job where "v = storedJob_json job" "job_ID job = mid" "redis_storable job"
  using assms unfolding sound_keys_def by blast

lemma GET_set:
  assumes "ks_strings ks' = AList.update key (v, d) (ks_strings ks)" and "ks_clock ks' = ks_clock ks"
    and "lives (ks_clock ks) d"
  shows "redis_GET k ks' = (if k = key then Some v else redis_GET k ks)"
  using assms by (simp add: redis_GET_def live_def update_conv')

lemma sound_keys_set:
  assumes "sound_keys backend ks" and "\<And>k. redis_GET k ks' = (if k = jobKey backend mid then Some v else redis_GET k ks)"
    and "v = storedJob_json job" "job_ID job = mid" "redis_storable job"
  shows "sound_keys backend ks'"
  using assms unfolding sound_keys_def by (metis jobKey_inject option.inject)

lemma redis_Get_cases:
  assumes inv: "sound_keys backend (server_of s)" and call: "redis_Get backend ctx mid s = (rj, s')"
  shows "server_of s' = server_of s \<and> rs_groupOK s' = rs_groupOK s \<and>
    (case rj of
       Inr j \<Rightarrow> redis_jobs backend s mid = Some j \<and> job_ID j = mid \<and> redis_storable j \<and> read_job j = j
     | Inl e \<Rightarrow> errors_Is e ErrNotFound \<longrightarrow> redis_jobs backend s mid = None)"
proof -
  obtain r server where q: "remote_query ctx (redis_GET (jobKey backend mid)) (rs_server s) = (r, server)"
    by force
  note cases = remote_query_cases [OF q]
  consider (failed) e where "r = Inl e" "\<not> errors_Is e ErrNotFound"
    | (absent) "r = Inr None" "redis_GET (jobKey backend mid) (server_of s) = None"
    | (found) v where "r = Inr (Some v)" "redis_GET (jobKey backend mid) (server_of s) = Some v"
    using cases by (metis not_Some_eq)
  then show ?thesis
  proof cases
    case failed
    with call q cases show ?thesis by (auto simp: redis_Get_def)
  next
    case absent
    with call q cases show ?thesis by (auto simp: redis_Get_def redis_jobs_def)
  next
    case (found v)
    from inv found(2) obtain job where job: "v = storedJob_json job" "job_ID job = mid" "redis_storable job"
      by (rule sound_GET)
    have "read_job job\<lparr>OwnerID := [], OwnerID := OwnerID job\<rparr> = read_job job" by (simp add: read_job_def)
    with call q found job have "rj = Inr (read_job job)" "s' = s\<lparr>rs_server := server\<rparr>"
      by (auto simp: redis_Get_def decode_storedJob_json)
    with found job cases redis_storable_read [OF job(3)] show ?thesis
      by (simp add: redis_jobs_def)
  qed
qed

text \<open>The store and the queue do not disturb each other.\<close>

definition same_queue :: "Keyspace \<Rightarrow> Keyspace \<Rightarrow> bool" where
  "same_queue ks ks' \<longleftrightarrow>
     ks_stream ks' = ks_stream ks \<and> ks_next ks' = ks_next ks \<and> ks_group ks' = ks_group ks \<and>
     ks_pending ks' = ks_pending ks"

lemma same_queue_refl [simp]: "same_queue ks ks"
  by (simp add: same_queue_def)

lemma same_queue_sound: "same_queue ks ks' \<Longrightarrow> sound_queue ks' = sound_queue ks"
  unfolding same_queue_def sound_queue_def by (elim conjE) (simp only:)

lemma same_queue_waiting:
  "same_queue (server_of s) (server_of s') \<Longrightarrow>
     redis_waiting s' = redis_waiting s \<and> redis_accepts s' = redis_accepts s \<and> redis_outstanding s' = redis_outstanding s"
  by (simp add: same_queue_def redis_waiting_def fun_eq_iff redis_accepts_def redis_outstanding_def)

lemma redis_jobs_cong: "server_of s' = server_of s \<Longrightarrow> redis_jobs backend s' = redis_jobs backend s"
  by (simp add: fun_eq_iff redis_jobs_def)

lemma create_script_GET:
  assumes "create_script key index v score mid seconds cutoff ks = Inr (ks', u)" and "0 < seconds"
  shows "redis_GET k ks' = (if k = key then Some v else redis_GET k ks)" "same_queue ks ks'"
proof -
  show "redis_GET k ks' = (if k = key then Some v else redis_GET k ks)"
    using assms by (intro GET_set [where d = "Some (ks_clock ks + seconds * 1000)"])
      (auto simp: create_script_def redis_SET_EX_def Let_def lives_def)
  show "same_queue ks ks'"
    using assms by (auto simp: create_script_def redis_SET_EX_def Let_def same_queue_def)
qed

lemma KEEPTTL_GET:
  assumes "redis_SET_KEEPTTL key v ks = Inr (ks', u)"
  shows "redis_GET k ks' = (if k = key then Some v else redis_GET k ks)" "same_queue ks ks'"
proof -
  show "redis_GET k ks' = (if k = key then Some v else redis_GET k ks)"
    using assms
    by (intro GET_set [where d = "case live (ks_clock ks) (ks_strings ks) key of None \<Rightarrow> None | Some (_, d) \<Rightarrow> d"])
      (auto simp: redis_SET_KEEPTTL_def Let_def lives_def live_def split: option.splits if_splits)
  show "same_queue ks ks'"
    using assms by (auto simp: redis_SET_KEEPTTL_def Let_def same_queue_def)
qed

lemma redis_jobs_set:
  assumes "\<And>k. redis_GET k (server_of s') = (if k = jobKey backend mid then Some (storedJob_json job) else redis_GET k (server_of s))"
    and "redis_storable job"
  shows "redis_jobs backend s' = (redis_jobs backend s)(mid \<mapsto> read_job job)"
  using assms by (auto simp: fun_eq_iff redis_jobs_def)

text \<open>A write of one document: it takes effect, or fails without.\<close>

lemma redis_write:
  assumes "sound_keys backend (server_of s)" and "redis_storable job" "job_ID job = mid"
    and "remote_exec ctx command (rs_server s) = (r, server)"
    and command: "\<And>ks' u. command (server_of s) = Inr (ks', u) \<Longrightarrow>
      (\<forall>k. redis_GET k ks' = (if k = jobKey backend mid then Some (storedJob_json job) else redis_GET k (server_of s))) \<and>
      same_queue (server_of s) ks'"
    and "\<And>e. command (server_of s) \<noteq> Inl e"
  shows "sound_keys backend (server_of (s\<lparr>rs_server := server\<rparr>)) \<and>
    same_queue (server_of s) (server_of (s\<lparr>rs_server := server\<rparr>)) \<and>
    (redis_jobs backend (s\<lparr>rs_server := server\<rparr>) = (redis_jobs backend s)(mid \<mapsto> read_job job) \<and> r \<noteq> Inl ErrNotFound \<or>
     (\<exists>e. r = Inl e \<and> \<not> errors_Is e ErrNotFound) \<and>
       redis_jobs backend (s\<lparr>rs_server := server\<rparr>) = redis_jobs backend s)"
proof -
  let ?s' = "s\<lparr>rs_server := server\<rparr>"
  consider (failed) e where "r = Inl e" "\<not> errors_Is e ErrNotFound" "contents server = server_of s"
    | (ran) u where "command (server_of s) = Inr (contents server, u)" "r \<noteq> Inl ErrNotFound"
    using remote_exec_cases [OF assms(4)] assms(6) errors_Is_refl by (metis Inl_Inr_False sum.inject(1))
  then show ?thesis
  proof cases
    case failed
    with assms(1) redis_jobs_cong [of ?s' s] show ?thesis by simp
  next
    case (ran u)
    note effect = command [OF ran(1)]
    with sound_keys_set [OF assms(1), of "contents server" mid "storedJob_json job" job] assms(2,3)
      redis_jobs_set [of ?s' backend mid job s] ran(2)
    show ?thesis by simp
  qed
qed

lemma redis_Create_cases:
  assumes "sound_keys backend (server_of s)" and "redis_storable job"
    and call: "redis_Create backend now ctx job s = (r, s')"
  shows "sound_keys backend (server_of s') \<and> same_queue (server_of s) (server_of s') \<and>
    (redis_jobs backend s' = (redis_jobs backend s)(job_ID job \<mapsto> read_job job) \<or>
     (\<exists>e. r = Inl e) \<and> redis_jobs backend s' = redis_jobs backend s)"
proof -
  define ttl where "ttl = time_Until now (ExpiresAt job)"
  have m: "marshal_stored job = Inr (storedJob_json job)"
    using assms(2) by (simp add: marshal_stored_def redis_storable_def)
  show ?thesis
  proof (cases "ttl \<le> 0")
    case True
    with call m assms(1) show ?thesis by (auto simp: redis_Create_def ttl_def)
  next
    case False
    define command where "command = create_script (jobKey backend (job_ID job)) (ownerKey backend (OwnerID job))
      (storedJob_json job) (UnixMilli (CreatedAt job)) (job_ID job) (max (ttl div Second) 1)
      (UnixMilli (CreatedAt job - ttl))"
    obtain server where x: "remote_exec ctx command (rs_server s) = (r, server)" "s' = s\<lparr>rs_server := server\<rparr>"
      using call m False by (auto simp: redis_Create_def ttl_def command_def Let_def split: prod.splits)
    have "command (server_of s) \<noteq> Inl e" for e by (simp add: command_def create_script_def Let_def)
    with redis_write [OF assms(1,2) refl x(1)] create_script_GET show ?thesis
      unfolding x(2) command_def by (fastforce simp: less_max_iff_disj)
  qed
qed

lemma update_fields:
  "job\<lparr>job_Status := upd_Status u, job_Result := upd_Result u, job_Error := upd_Error u,
       UpdatedAt := upd_UpdatedAt u,
       StartedAt := (if upd_StartedAt u \<noteq> None then upd_StartedAt u else StartedAt job),
       CompletedAt := (if upd_CompletedAt u \<noteq> None then upd_CompletedAt u else CompletedAt job)\<rparr> = apply_update u job"
  by (cases "upd_StartedAt u"; cases "upd_CompletedAt u") (simp_all add: apply_update_def)

lemma redis_Update_found:
  assumes "redis_Get backend ctx mid s = (Inr j, s1)"
    and "marshal_stored (apply_update u j) = Inr data"
  shows "redis_Update backend pause ctx mid u s =
    (let (r, server) = remote_exec ctx (redis_SET_KEEPTTL (jobKey backend mid) data) (rs_server (wait_ms pause s1))
     in (r, (wait_ms pause s1)\<lparr>rs_server := server\<rparr>))"
  unfolding redis_Update_def update_fields Let_def using assms by simp

lemma updated_storable:
  assumes "redis_updatable u" and "redis_storable j"
  shows "redis_storable (apply_update u j)"
    and "marshal_stored (apply_update u j) = Inr (storedJob_json (apply_update u j))"
  using redis_storable_update [OF assms(2,1)] by (simp_all add: marshal_stored_def redis_storable_def)

lemma redis_Update_cases:
  assumes "sound_keys backend (server_of s)" and "redis_updatable u"
    and call: "redis_Update backend 0 ctx mid u s = (r, s')"
  shows "sound_keys backend (server_of s') \<and> same_queue (server_of s) (server_of s') \<and>
    ((\<exists>j. redis_jobs backend s mid = Some j \<and> redis_jobs backend s' = (redis_jobs backend s)(mid \<mapsto> apply_update u j)) \<and>
       r \<noteq> Inl ErrNotFound \<or>
     (\<exists>e. r = Inl e \<and> (errors_Is e ErrNotFound \<longrightarrow> redis_jobs backend s mid = None)) \<and>
       redis_jobs backend s' = redis_jobs backend s)"
proof -
  obtain rj s1 where g: "redis_Get backend ctx mid s = (rj, s1)" by force
  note got = redis_Get_cases [OF assms(1) g]
  show ?thesis
  proof (cases rj)
    case (Inl e)
    with call g have "r = Inl e" "s' = s1" by (auto simp: redis_Update_def)
    with Inl got assms(1) redis_jobs_cong [of s1 s] show ?thesis by auto
  next
    case (Inr j)
    with got have j: "redis_jobs backend s mid = Some j" "job_ID j = mid" "redis_storable j" "read_job j = j" by auto
    let ?j = "apply_update u j"
    note new = updated_storable [OF assms(2) j(3)]
    have read: "read_job ?j = ?j" "job_ID ?j = mid" using read_job_update [of u j] j(2,4) by simp_all
    have "wait_ms 0 s1 = s1" by (simp add: wait_ms_def)
    with redis_Update_found [OF g [unfolded Inr] new(2)] obtain server where
      x: "remote_exec ctx (redis_SET_KEEPTTL (jobKey backend mid) (storedJob_json ?j)) (rs_server s1) = (r, server)"
        "s' = s1\<lparr>rs_server := server\<rparr>"
      using call by (auto split: prod.splits)
    have s1: "server_of s1 = server_of s" using got by simp
    with assms(1) have "sound_keys backend (server_of s1)" by simp
    from redis_write [OF this new(1) read(2) x(1)] KEEPTTL_GET
    have "sound_keys backend (server_of s') \<and> same_queue (server_of s1) (server_of s') \<and>
      (redis_jobs backend s' = (redis_jobs backend s1)(mid \<mapsto> ?j) \<and> r \<noteq> Inl ErrNotFound \<or>
       (\<exists>e. r = Inl e \<and> \<not> errors_Is e ErrNotFound) \<and> redis_jobs backend s' = redis_jobs backend s1)"
      unfolding x(2) read(1) by (fastforce simp: redis_SET_KEEPTTL_def Let_def)
    with s1 redis_jobs_cong [OF s1] j(1) show ?thesis by auto
  qed
qed

lemma redis_jobs_ID:
  assumes "sound_keys backend (server_of s)" and "redis_jobs backend s i = Some j"
  shows "job_ID j = i"
proof -
  obtain v where v: "redis_GET (jobKey backend i) (server_of s) = Some v" "stored_job v = Some j"
    using assms(2) by (auto simp: redis_jobs_def bind_eq_Some_conv)
  from assms(1) v(1) obtain job where "v = storedJob_json job" "job_ID job = i" "redis_storable job"
    by (rule sound_GET)
  with v(2) show ?thesis by auto
qed

interpretation redis_store: job_store "redis_Store backend now 0" "redis_jobs backend" "redis_inv backend"
    read_job "\<lambda>u. u" redis_storable redis_updatable for backend now
proof unfold_locales
  fix s s' :: redis_state and i j ctx and rj :: "go_error + Job"
  show "redis_inv backend s \<Longrightarrow> redis_jobs backend s i = Some j \<Longrightarrow> job_ID j = i"
    by (auto simp: redis_inv_def dest: redis_jobs_ID)
  show "redis_inv backend s \<Longrightarrow> store_Get (redis_Store backend now 0) ctx i s = (rj, s') \<Longrightarrow>
      redis_inv backend s' \<and> redis_jobs backend s' = redis_jobs backend s \<and>
      (case rj of Inr j \<Rightarrow> redis_jobs backend s i = Some j
       | Inl e \<Rightarrow> errors_Is e ErrNotFound \<longrightarrow> redis_jobs backend s i = None)"
    using redis_Get_cases [of backend s ctx i rj s'] redis_jobs_cong [of s' s]
    by (auto simp: redis_inv_def redis_Store_def split: sum.splits)
next
  fix s s' :: redis_state and job ctx and r0 :: "go_error + unit"
  show "redis_inv backend s \<Longrightarrow> redis_storable job \<Longrightarrow> redis_jobs backend s (job_ID job) = None \<Longrightarrow>
      store_Create (redis_Store backend now 0) ctx job s = (r0, s') \<Longrightarrow>
      redis_inv backend s' \<and> (redis_jobs backend s' = (redis_jobs backend s)(job_ID job \<mapsto> read_job job) \<or>
                (\<exists>e. r0 = Inl e) \<and> redis_jobs backend s' = redis_jobs backend s)"
    using redis_Create_cases [of backend s job now ctx r0 s'] same_queue_sound [of "server_of s" "server_of s'"]
    by (simp add: redis_inv_def redis_Store_def)
next
  fix s s' :: redis_state and i u ctx and r0 :: "go_error + unit"
  show "redis_inv backend s \<Longrightarrow> redis_updatable u \<Longrightarrow> store_Update (redis_Store backend now 0) ctx i u s = (r0, s') \<Longrightarrow>
      redis_inv backend s' \<and>
      ((\<exists>j. redis_jobs backend s i = Some j \<and> redis_jobs backend s' = (redis_jobs backend s)(i \<mapsto> apply_update u j)) \<and>
         r0 \<noteq> Inl ErrNotFound \<or>
       (\<exists>e. r0 = Inl e \<and> (errors_Is e ErrNotFound \<longrightarrow> redis_jobs backend s i = None)) \<and>
         redis_jobs backend s' = redis_jobs backend s)"
    using redis_Update_cases [of backend s u ctx i r0 s'] same_queue_sound [of "server_of s" "server_of s'"]
    by (simp add: redis_inv_def redis_Store_def)
qed simp_all

section \<open>The queue\<close>

abbreviation queue_of :: "redis_state \<Rightarrow> bool" where
  "queue_of s \<equiv> sound_queue (server_of s)"

lemma redis_exec_cases:
  assumes "redis_exec ctx command s = (r, s')" and "\<And>e. command (server_of s) \<noteq> Inl e"
  shows "rs_groupOK s' = rs_groupOK s \<and>
    ((\<exists>e. r = Inl e) \<and> server_of s' = server_of s \<or>
     (\<exists>n. command (server_of s) = Inr (server_of s', n) \<and> (r = Inr n \<or> (\<exists>e. r = Inl e))))"
  using assms remote_exec_cases [of ctx command "rs_server s" r "rs_server s'"]
  by (auto simp: redis_exec_def split: prod.splits)

lemma redis_exec_error:
  assumes "redis_exec ctx command s = (r, s')" and "command (server_of s) = Inl e"
  shows "rs_groupOK s' = rs_groupOK s \<and> (\<exists>e. r = Inl e) \<and> server_of s' = server_of s"
  using assms remote_exec_cases [of ctx command "rs_server s" r "rs_server s'"]
  by (auto simp: redis_exec_def split: prod.splits)

lemma sorted_entries:
  assumes "sorted_wrt (<) (map entry_ID es)"
  shows "e \<in> set es \<Longrightarrow> e' \<in> set es \<Longrightarrow> entry_ID e = entry_ID e' \<Longrightarrow> e = e'"
    and "sorted_wrt (<) (map entry_ID (filter P es))"
proof -
  have "distinct (map entry_ID es)" using assms strict_sorted_iff by blast
  then show "e \<in> set es \<Longrightarrow> e' \<in> set es \<Longrightarrow> entry_ID e = entry_ID e' \<Longrightarrow> e = e'"
    by (auto simp: distinct_map dest: inj_onD)
  show "sorted_wrt (<) (map entry_ID (filter P es))"
    using assms by (induction es) auto
qed

text \<open>The commands keep the queue sound; what they do to the entries.\<close>

lemma XADD_sound:
  assumes "sound_queue ks"
  shows "sound_queue (redis_XADD mid ks)"
    and "set (ks_stream (redis_XADD mid ks)) = insert \<lparr>entry_ID = ks_next ks, entry_job_id = mid\<rparr> (set (ks_stream ks))"
  using assms by (auto simp: sound_queue_def redis_XADD_def sorted_wrt_append split: option.splits)

lemma drop_entry_sound:
  assumes "sound_queue ks"
  shows "sound_queue (redis_XDEL mid (redis_XACK mid ks))"
    and "set (ks_stream (redis_XDEL mid (redis_XACK mid ks))) = {e \<in> set (ks_stream ks). entry_ID e \<noteq> mid}"
    and "ks_next (redis_XDEL mid (redis_XACK mid ks)) = ks_next ks"
  using assms sorted_entries(2) [of "ks_stream ks"]
  by (auto simp: sound_queue_def redis_XDEL_def redis_XACK_def split: option.splits) force+

lemma XREADGROUP_sound:
  assumes "sound_queue ks" and "redis_XREADGROUP ks = Inr (ks', re)"
  shows "sound_queue ks'" "ks_stream ks' = ks_stream ks" "ks_next ks' = ks_next ks"
    "re = Some e \<Longrightarrow> e \<in> set (ks_stream ks)"
proof -
  obtain last_id where g: "ks_group ks = Some last_id"
    using assms(2) by (auto simp: redis_XREADGROUP_def split: option.splits)
  let ?new = "filter (\<lambda>e. last_id < entry_ID e) (ks_stream ks)"
  have new: "e \<in> set (ks_stream ks) \<and> last_id < entry_ID e \<and>
      (\<forall>k \<in> set (ks_stream ks). last_id < entry_ID k \<longrightarrow> entry_ID e \<le> entry_ID k)" if "?new = e # es" for e es
  proof -
    have "e \<in> set ?new" using that by simp
    moreover have "sorted_wrt (<) (map entry_ID ?new)"
      using assms(1) sorted_entries(2) [of "ks_stream ks"] unfolding sound_queue_def by blast
    then have "\<forall>k \<in> set es. entry_ID e < entry_ID k" unfolding that by simp
    moreover have "k = e \<or> k \<in> set es" if "k \<in> set (ks_stream ks)" "last_id < entry_ID k" for k
    proof -
      from that have "k \<in> set ?new" by simp
      then show ?thesis unfolding \<open>?new = e # es\<close> by simp
    qed
    ultimately show ?thesis by (fastforce simp: less_imp_le)
  qed
  show "ks_stream ks' = ks_stream ks" "ks_next ks' = ks_next ks"
    using assms(2) g by (auto simp: redis_XREADGROUP_def split: list.splits)
  show "re = Some e \<Longrightarrow> e \<in> set (ks_stream ks)"
    using assms(2) g new by (cases ?new) (auto simp: redis_XREADGROUP_def)
  show "sound_queue ks'"
  proof (cases ?new)
    case Nil
    with assms g show ?thesis by (simp add: redis_XREADGROUP_def)
  next
    case (Cons e es)
    with assms g have ks': "ks' = ks\<lparr>ks_group := Some (entry_ID e), ks_pending := ks_pending ks @ [(entry_ID e, ks_clock ks)]\<rparr>"
      by (simp add: redis_XREADGROUP_def)
    have "entry_ID k \<in> fst ` set (ks_pending ks')" if "k \<in> set (ks_stream ks)" "entry_ID k \<le> entry_ID e" for k
    proof (cases "last_id < entry_ID k")
      case True
      with new [OF Cons] that have "entry_ID k = entry_ID e" by (simp add: order_antisym)
      then show ?thesis by (simp add: ks')
    next
      case False
      with assms(1) g that show ?thesis by (auto simp: sound_queue_def ks')
    qed
    with assms(1) g new [OF Cons] show ?thesis by (simp add: sound_queue_def ks')
  qed
qed

lemma XAUTOCLAIM_sound:
  assumes "sound_queue ks" and "redis_XAUTOCLAIM idle ks = Inr (ks', parts)"
  shows "sound_queue ks'" "ks_stream ks' = ks_stream ks" "ks_next ks' = ks_next ks"
    "parts = Some ps \<Longrightarrow> length ps = 3 \<and> set (ps ! 1) \<subseteq> set (ks_stream ks)"
proof -
  have keep: "fst ` set (map (\<lambda>(i, since). (i, if i = mid then t else since)) xs) = fst ` set xs"
    for mid and t :: int and xs :: "(nat \<times> int) list"
    by (induction xs) auto
  have absent: "fst ` set xs - {mid} = fst ` set (filter (\<lambda>(i, _). i \<noteq> mid) xs)"
    for mid and xs :: "(nat \<times> int) list"
    by (induction xs) auto
  consider (none) "ks' = ks" "parts = Some [[], [], []]"
    | (dropped) mid where "ks' = redis_XACK mid ks" "parts = Some [[], [], []]" "\<forall>e \<in> set (ks_stream ks). entry_ID e \<noteq> mid"
    | (claimed) mid e where "ks' = ks\<lparr>ks_pending := map (\<lambda>(i, since). (i, if i = mid then ks_clock ks else since)) (ks_pending ks)\<rparr>"
        "parts = Some [[], [e], []]" "e \<in> set (ks_stream ks)"
    using assms(2)
    by (auto simp: redis_XAUTOCLAIM_def find_None_iff find_Some_iff split: if_splits list.splits option.splits)
  then have "sound_queue ks' \<and> ks_stream ks' = ks_stream ks \<and> ks_next ks' = ks_next ks \<and>
      (parts = Some ps \<longrightarrow> length ps = 3 \<and> set (ps ! 1) \<subseteq> set (ks_stream ks))"
  proof cases
    case none
    with assms(1) show ?thesis by auto
  next
    case (dropped mid)
    have "entry_ID e \<in> fst ` set (ks_pending ks) - {mid}"
      if "e \<in> set (ks_stream ks)" "entry_ID e \<in> fst ` set (ks_pending ks)" for e
      using dropped(3) that by blast
    with dropped assms(1) show ?thesis
      unfolding absent by (auto simp: sound_queue_def redis_XACK_def split: option.splits)
  next
    case (claimed mid e)
    with assms(1) keep show ?thesis by (auto simp: sound_queue_def simp del: set_map split: option.splits)
  qed
  then show "sound_queue ks'" "ks_stream ks' = ks_stream ks" "ks_next ks' = ks_next ks"
    "parts = Some ps \<Longrightarrow> length ps = 3 \<and> set (ps ! 1) \<subseteq> set (ks_stream ks)" by auto
qed

text \<open>Settling and enqueueing.\<close>

lemma redis_Enqueue_cases:
  assumes "queue_of s" and "redis_Enqueue ctx i s = Some (r, s')"
  shows "queue_of s' \<and> redis_waiting s \<subseteq> redis_waiting s' \<and>
    (r = Inr () \<longrightarrow> i \<noteq> [] \<longrightarrow> i \<in> redis_waiting s')"
proof -
  have "redis_exec ctx (enqueue_command i) s = (r, s')" using assms(2) by (simp add: redis_Enqueue_def)
  from redis_exec_cases [OF this] assms(1) XADD_sound [OF assms(1), of i] show ?thesis
    by (auto simp: enqueue_command_def redis_waiting_def)
qed

lemma redis_ack_cases:
  assumes "queue_of s" and "redis_ack ctx mid s = (r, s')"
  shows "rs_groupOK s' = rs_groupOK s \<and> queue_of s' \<and>
    {e \<in> set (ks_stream (server_of s)). entry_ID e \<noteq> mid} \<subseteq> set (ks_stream (server_of s')) \<and>
    set (ks_stream (server_of s')) \<subseteq> set (ks_stream (server_of s))"
proof -
  define dropped where "dropped = redis_XDEL mid (redis_XACK mid (server_of s))"
  have x: "redis_exec ctx (ack_script mid) s = (r, s')" using assms(2) by (simp add: redis_ack_def)
  have c: "ack_script mid (server_of s) = Inr (dropped, ())" by (simp add: ack_script_def dropped_def)
  note drop = drop_entry_sound [OF assms(1), of mid, folded dropped_def]
  consider "server_of s' = server_of s" | "server_of s' = dropped"
    using redis_exec_cases [OF x] c by force
  then show ?thesis
  proof cases
    case 1
    with assms(1) redis_exec_cases [OF x] c show ?thesis by auto
  next
    case 2
    with drop redis_exec_cases [OF x] c show ?thesis by auto
  qed
qed

lemma redis_Nack_cases:
  assumes "queue_of s" and "redis_Nack ctx (mid, i) s = Some (r, s')"
  shows "queue_of s' \<and>
    ({e \<in> set (ks_stream (server_of s)). entry_ID e \<noteq> mid} \<subseteq> set (ks_stream (server_of s')) \<and>
      i \<in> entry_job_id ` set (ks_stream (server_of s')) \<or>
     (\<exists>e. r = Inl e) \<and> server_of s' = server_of s)"
proof -
  define dropped where "dropped = redis_XDEL mid (redis_XACK mid (server_of s))"
  have x: "redis_exec ctx (nack_script mid i) s = (r, s')" using assms(2) by (simp add: redis_Nack_def)
  have c: "nack_script mid i (server_of s) = Inr (redis_XADD i dropped, ())"
    by (simp add: nack_script_def dropped_def)
  note drop = drop_entry_sound [OF assms(1), of mid, folded dropped_def]
  note add = XADD_sound [OF drop(1), of i]
  consider "server_of s' = server_of s" "\<exists>e. r = Inl e" | "server_of s' = redis_XADD i dropped"
    using redis_exec_cases [OF x] c by force
  then show ?thesis
  proof cases
    case 1
    with assms(1) show ?thesis by simp
  next
    case 2
    have "{e \<in> set (ks_stream (server_of s)). entry_ID e \<noteq> mid} \<subseteq> set (ks_stream (server_of s'))"
      "i \<in> entry_job_id ` set (ks_stream (server_of s'))"
      unfolding 2 add(2) drop(2) by auto
    with add(1) 2 show ?thesis by simp
  qed
qed

text \<open>One turn of \<open>Receive\<close> and the whole call: an empty entry may be dropped, nothing else.\<close>

definition only_empty_dropped :: "redis_state \<Rightarrow> redis_state \<Rightarrow> bool" where
  "only_empty_dropped s s' \<longleftrightarrow>
     queue_of s' \<and> set (ks_stream (server_of s')) \<subseteq> set (ks_stream (server_of s)) \<and>
     (\<forall>e \<in> set (ks_stream (server_of s)). entry_job_id e \<noteq> [] \<longrightarrow> e \<in> set (ks_stream (server_of s')))"

definition delivers :: "redis_state \<Rightarrow> (go_error + redis_delivery option) \<Rightarrow> bool" where
  "delivers s rd \<longleftrightarrow>
     (\<forall>d. rd = Inr (Some d) \<longrightarrow> snd d \<noteq> [] \<and>
        (\<exists>e \<in> set (ks_stream (server_of s)). entry_ID e = fst d \<and> entry_job_id e = snd d))"

lemma only_empty_refl: "queue_of s \<Longrightarrow> only_empty_dropped s s"
  by (simp add: only_empty_dropped_def)

lemma only_empty_trans: "only_empty_dropped s s1 \<Longrightarrow> only_empty_dropped s1 s2 \<Longrightarrow> only_empty_dropped s s2"
  by (auto simp: only_empty_dropped_def)

lemma only_empty_same: "queue_of s' \<Longrightarrow> ks_stream (server_of s') = ks_stream (server_of s) \<Longrightarrow> only_empty_dropped s s'"
  by (simp add: only_empty_dropped_def)

lemma ack_empty:
  assumes "queue_of s" and "e \<in> set (ks_stream (server_of s))" "entry_job_id e = []"
    and "redis_ack ctx (entry_ID e) s = (r, s')"
  shows "only_empty_dropped s s'"
proof -
  have "k = e" if "k \<in> set (ks_stream (server_of s))" "entry_ID k = entry_ID e" for k
    using sorted_entries(1) assms(1,2) that unfolding sound_queue_def by blast
  with redis_ack_cases [OF assms(1,4)] assms(3) show ?thesis
    by (auto simp: only_empty_dropped_def)
qed

lemma reclaim_cases:
  assumes "queue_of s" and "redis_reclaim backend ctx s = (rd, s')"
  shows "only_empty_dropped s s' \<and> delivers s rd"
proof -
  obtain r s1 where x: "redis_exec ctx (redis_XAUTOCLAIM (rc_claimIdle backend div 1000000)) s = (r, s1)" by force
  consider (kept) "server_of s1 = server_of s" "\<exists>e. r = Inl e"
    | (ran) parts where "redis_XAUTOCLAIM (rc_claimIdle backend div 1000000) (server_of s) = Inr (server_of s1, parts)"
        "r = Inr parts \<or> (\<exists>e. r = Inl e)"
    using redis_exec_cases [OF x] redis_exec_error [OF x]
    by (cases "redis_XAUTOCLAIM (rc_claimIdle backend div 1000000) (server_of s)") auto
  then show ?thesis
  proof cases
    case kept
    with x assms show ?thesis
      by (auto simp: redis_reclaim_def delivers_def only_empty_same)
  next
    case (ran parts)
    note sound = XAUTOCLAIM_sound [OF assms(1) ran(1)]
    have s1: "only_empty_dropped s s1" using sound(1,2) by (rule only_empty_same)
    show ?thesis
    proof (cases r)
      case (Inl e)
      with x assms(2) s1 show ?thesis by (auto simp: redis_reclaim_def delivers_def)
    next
      case (Inr a)
      with ran have a: "r = Inr parts" by simp
      show ?thesis
      proof (cases parts)
        case None
        with x assms(2) s1 a show ?thesis by (auto simp: redis_reclaim_def delivers_def)
      next
        case (Some ps)
        note ps = sound(4) [OF Some]
        show ?thesis
        proof (cases "ps ! 1")
          case Nil
          with x assms(2) s1 a Some ps show ?thesis by (auto simp: redis_reclaim_def delivers_def)
        next
          case (Cons e es)
          with ps have e: "e \<in> set (ks_stream (server_of s))" by auto
          show ?thesis
          proof (cases "entry_job_id e = []")
            case True
            obtain r2 s2 where k: "redis_ack ctx (entry_ID e) s1 = (r2, s2)" by force
            have "only_empty_dropped s1 s2" using sound(1,2) e by (intro ack_empty [OF _ _ True k]) auto
            with s1 x assms(2) a Some ps Cons True k show ?thesis
              by (auto simp: redis_reclaim_def delivers_def intro: only_empty_trans)
          next
            case False
            with s1 x assms(2) a Some ps Cons False e show ?thesis
              by (auto simp: redis_reclaim_def delivers_def)
          qed
        qed
      qed
    qed
  qed
qed

lemma set_clock_simps [simp]:
  "ks_stream (server_of (set_clock c s)) = ks_stream (server_of s)" "rs_groupOK (set_clock c s) = rs_groupOK s"
  by (simp_all add: set_clock_def)

lemma set_clock_queue [simp]: "queue_of (set_clock c s) = queue_of s"
  by (rule same_queue_sound) (simp add: same_queue_def set_clock_def)

lemma only_empty_clock: "only_empty_dropped s s1 \<Longrightarrow> only_empty_dropped s (set_clock c s1)"
  by (simp add: only_empty_dropped_def)

lemma delivers_later: "only_empty_dropped s s1 \<Longrightarrow> delivers s1 rd \<Longrightarrow> delivers s rd"
  unfolding only_empty_dropped_def delivers_def by blast

lemma readgroup_cases:
  assumes "queue_of s" and "redis_exec ctx redis_XREADGROUP s = (r, s')"
  shows "queue_of s' \<and> ks_stream (server_of s') = ks_stream (server_of s) \<and>
    (\<forall>e. r = Inr (Some e) \<longrightarrow> e \<in> set (ks_stream (server_of s)))"
proof (cases "redis_XREADGROUP (server_of s)")
  case (Inl e)
  from redis_exec_error [OF assms(2) this] assms(1) show ?thesis by auto
next
  case (Inr a)
  obtain ks' re where a: "a = (ks', re)" by force
  from redis_exec_cases [OF assms(2)] Inr XREADGROUP_sound [OF assms(1) Inr [unfolded a]] assms(1)
  show ?thesis by (auto simp: a)
qed

lemma receive_turn:
  assumes "queue_of s" and "redis_receive_loop backend turns ctx s = Some (rd, s')"
  obtains (ended) "only_empty_dropped s s'" "delivers s rd" "rd \<noteq> Inr None"
  | (next_turn) clock ctx' rest s1 where "turns = (clock, ctx') # rest" "only_empty_dropped s s1"
      "redis_receive_loop backend rest ctx' (set_clock clock s1) = Some (rd, s')"
proof -
  obtain rc s1 where c: "redis_reclaim backend ctx s = (rc, s1)" by force
  note claim = reclaim_cases [OF assms(1) c]
  then have q1: "queue_of s1" by (simp add: only_empty_dropped_def)
  note call = assms(2) [unfolded redis_receive_loop.simps [of backend turns ctx s] c prod.case]
  consider (failed) e where "rc = Inl e" | (claimed) d where "rc = Inr (Some d)" | (none) "rc = Inr None"
    by (cases rc) (auto simp: not_Some_eq [symmetric] simp del: not_Some_eq)
  then show thesis
  proof cases
    case failed
    with call claim show thesis by (intro ended) auto
  next
    case claimed
    with call claim show thesis by (intro ended) auto
  next
    case none
    obtain r s2 where x: "redis_exec ctx redis_XREADGROUP s1 = (r, s2)" by force
    note read = readgroup_cases [OF q1 x]
    have s2: "only_empty_dropped s s2"
      using claim read only_empty_same [of s2 s1] only_empty_trans by blast
    note call2 = call [unfolded none x sum.case option.case prod.case]
    show thesis
    proof (cases r)
      case (Inl e)
      with call2 s2 show thesis by (intro ended) (auto simp: delivers_def)
    next
      case (Inr re)
      show thesis
      proof (cases re)
        case None
        with call2 Inr s2 next_turn show thesis by (auto split: list.splits)
      next
        case (Some e)
        then have e: "e \<in> set (ks_stream (server_of s1))" "e \<in> set (ks_stream (server_of s2))"
          using read Inr by auto
        show thesis
        proof (cases "entry_job_id e = []")
          case False
          have "delivers s1 (Inr (Some (entry_ID e, entry_job_id e)))"
            using False e(1) by (auto simp: delivers_def)
          with False call2 Inr Some s2 claim delivers_later show thesis by (intro ended) auto
        next
          case True
          obtain ra s3 where a: "redis_ack ctx (entry_ID e) s2 = (ra, s3)" by force
          have "only_empty_dropped s2 s3" using read e(2) by (intro ack_empty [OF _ _ True a]) auto
          with s2 have "only_empty_dropped s s3" by (rule only_empty_trans)
          with True call2 Inr Some a next_turn show thesis by (auto split: list.splits)
        qed
      qed
    qed
  qed
qed

lemma receive_loop_cases:
  "queue_of s \<Longrightarrow> redis_receive_loop backend turns ctx s = Some (rd, s') \<Longrightarrow>
     only_empty_dropped s s' \<and> delivers s rd \<and> rd \<noteq> Inr None"
proof (induction turns arbitrary: ctx s)
  case Nil
  from Nil.prems show ?case by (rule receive_turn) simp_all
next
  case (Cons turn turns)
  from Cons.prems show ?case
  proof (rule receive_turn)
    fix clock ctx' rest s1
    assume a: "turn # turns = (clock, ctx') # rest" "only_empty_dropped s s1"
      "redis_receive_loop backend rest ctx' (set_clock clock s1) = Some (rd, s')"
    then have "queue_of (set_clock clock s1)" by (simp add: only_empty_dropped_def)
    with a Cons.IH [of "set_clock clock s1" ctx']
    have "only_empty_dropped (set_clock clock s1) s'" "delivers (set_clock clock s1) rd" "rd \<noteq> Inr None" by auto
    moreover have "only_empty_dropped s (set_clock clock s1)" using a(2) by (rule only_empty_clock)
    ultimately show ?case using only_empty_trans delivers_later by blast
  qed simp_all
qed

lemma ensureGroup_cases:
  assumes "queue_of s" and "redis_ensureGroup ctx s = (r, s')"
  shows "queue_of s' \<and> ks_stream (server_of s') = ks_stream (server_of s)"
proof -
  obtain rx s1 where x: "redis_exec ctx redis_XGROUP_CREATE s = (rx, s1)" by force
  have "queue_of s1 \<and> ks_stream (server_of s1) = ks_stream (server_of s)"
  proof (cases "ks_group (server_of s)")
    case None
    define ks where "ks = (server_of s)\<lparr>ks_group := Some 0\<rparr>"
    have ks: "sound_queue ks" "ks_stream ks = ks_stream (server_of s)"
      using assms(1) by (auto simp: sound_queue_def ks_def split: option.splits)
    have "redis_XGROUP_CREATE (server_of s) = Inr (ks, ())" using None by (simp add: redis_XGROUP_CREATE_def ks_def)
    with redis_exec_cases [OF x] have "server_of s1 = server_of s \<or> server_of s1 = ks" by force
    with ks assms(1) show ?thesis by auto
  next
    case (Some g)
    with redis_exec_error [OF x] assms(1) show ?thesis by (auto simp: redis_XGROUP_CREATE_def)
  qed
  with x assms show ?thesis by (auto simp: redis_ensureGroup_def split: if_splits sum.splits)
qed

lemma redis_Receive_cases:
  assumes "queue_of s" and "redis_Receive backend turns ctx s = Some (rd, s')"
  shows "only_empty_dropped s s' \<and> delivers s rd \<and> rd \<noteq> Inr None"
proof -
  obtain r s1 where e: "redis_ensureGroup ctx s = (r, s1)" by force
  note group = ensureGroup_cases [OF assms(1) e]
  then have s1: "only_empty_dropped s s1" by (intro only_empty_same) auto
  show ?thesis
  proof (cases r)
    case (Inl err)
    with assms(2) e s1 show ?thesis by (auto simp: redis_Receive_def delivers_def)
  next
    case (Inr u)
    with assms(2) e have "redis_receive_loop backend turns ctx s1 = Some (rd, s')"
      by (simp add: redis_Receive_def)
    from receive_loop_cases [OF _ this] group s1 only_empty_trans delivers_later show ?thesis by blast
  qed
qed

section \<open>The contracts\<close>

text \<open>The waiting jobs are those of the entries; a settled delivery takes its own entry only.\<close>

lemma delivers_waiting:
  assumes "delivers s (Inr (Some d))"
  shows "redis_JobID d \<in> redis_waiting s"
  using assms by (force simp: delivers_def redis_waiting_def redis_JobID_def)

lemma only_empty_waiting: "only_empty_dropped s s' \<Longrightarrow> redis_waiting s' = redis_waiting s"
  unfolding only_empty_dropped_def redis_waiting_def by blast

lemma delivers_outstanding:
  assumes "queue_of s" and "only_empty_dropped s s'" and "delivers s (Inr (Some d))"
  shows "redis_outstanding s' d"
proof -
  obtain e where e: "e \<in> set (ks_stream (server_of s))" "entry_ID e = fst d" "entry_job_id e = snd d" "snd d \<noteq> []"
    using assms(3) by (auto simp: delivers_def)
  have "entry_job_id k = snd d" if "k \<in> set (ks_stream (server_of s'))" "entry_ID k = fst d" for k
  proof -
    have "k \<in> set (ks_stream (server_of s))" using that assms(2) by (auto simp: only_empty_dropped_def)
    with sorted_entries(1) [of "ks_stream (server_of s)" k e] assms(1) e that show ?thesis
      by (simp add: sound_queue_def)
  qed
  with e show ?thesis by (simp add: redis_outstanding_def)
qed

lemma settled_waiting:
  assumes "redis_outstanding s d"
    and "{e \<in> set (ks_stream (server_of s)). entry_ID e \<noteq> fst d} \<subseteq> set (ks_stream (server_of s'))"
  shows "redis_waiting s - {redis_JobID d} \<subseteq> redis_waiting s'"
  using assms by (force simp: redis_outstanding_def redis_waiting_def redis_JobID_def)

interpretation redis_queue: reliable_queue "redis_Queue backend turns" queue_of redis_waiting redis_accepts redis_outstanding
  for backend turns
proof unfold_locales
  fix s s' :: redis_state and ctx i and r0 :: "go_error + unit"
  show "queue_of s \<Longrightarrow> queue_Enqueue (redis_Queue backend turns) ctx i s = Some (r0, s') \<Longrightarrow>
      queue_of s' \<and> redis_waiting s \<subseteq> redis_waiting s' \<and> (r0 = Inr () \<and> redis_accepts s i \<longrightarrow> i \<in> redis_waiting s')"
    using redis_Enqueue_cases [of s ctx i r0 s'] by (simp add: redis_Queue_def redis_accepts_def)
next
  fix s s' :: redis_state and ctx and d :: redis_delivery and r0 :: "go_error + unit"
  assume q: "queue_of s" and out: "redis_outstanding s d"
  show "queue_of s' \<and> redis_waiting s - {delivery_JobID (redis_Queue backend turns) d} \<subseteq> redis_waiting s'"
    if "delivery_Ack (redis_Queue backend turns) ctx d s = Some (r0, s')"
    using redis_ack_cases [OF q, of ctx "fst d" r0 s'] settled_waiting [OF out, of s'] that
    by (simp add: redis_Queue_def redis_Ack_def)
  show "queue_of s' \<and> redis_waiting s \<subseteq> redis_waiting s' \<and>
      (r0 = Inr () \<longrightarrow> delivery_JobID (redis_Queue backend turns) d \<in> redis_waiting s')"
    if "delivery_Nack (redis_Queue backend turns) ctx d s = Some (r0, s')"
  proof -
    have nack: "redis_Nack ctx (fst d, snd d) s = Some (r0, s')" using that by (simp add: redis_Queue_def)
    note cases = redis_Nack_cases [OF q nack]
    show ?thesis
    proof (cases "snd d \<in> entry_job_id ` set (ks_stream (server_of s')) \<and>
        {e \<in> set (ks_stream (server_of s)). entry_ID e \<noteq> fst d} \<subseteq> set (ks_stream (server_of s'))")
      case True
      then have "redis_JobID d \<in> redis_waiting s'"
        using out by (simp add: redis_waiting_def redis_JobID_def redis_outstanding_def)
      with settled_waiting [OF out, of s'] True cases show ?thesis by (auto simp: redis_Queue_def)
    next
      case False
      with cases show ?thesis by (auto simp: redis_waiting_def)
    qed
  qed
next
  fix s s' :: redis_state and ctx and rd :: "go_error + redis_delivery option"
  assume q: "queue_of s" and call: "queue_Receive (redis_Queue backend turns) ctx s = Some (rd, s')"
  then have recv: "redis_Receive backend turns ctx s = Some (rd, s')" by (simp add: redis_Queue_def)
  note cases = redis_Receive_cases [OF q recv]
  note waiting = only_empty_waiting [of s s']
  show "queue_of s' \<and>
      (case rd of
         Inr (Some d) \<Rightarrow> delivery_JobID (redis_Queue backend turns) d \<in> redis_waiting s \<and>
           redis_waiting s - {delivery_JobID (redis_Queue backend turns) d} \<subseteq> redis_waiting s'
       | _ \<Rightarrow> redis_waiting s \<subseteq> redis_waiting s')"
    using cases waiting delivers_waiting [of s]
    by (auto simp: redis_Queue_def only_empty_dropped_def split: sum.splits option.splits)
next
  fix s s' :: redis_state and ctx and d :: redis_delivery
  assume "queue_of s" and "queue_Receive (redis_Queue backend turns) ctx s = Some (Inr (Some d), s')"
  then show "redis_outstanding s' d"
    using redis_Receive_cases [of s backend turns ctx "Inr (Some d)" s'] delivers_outstanding [of s s' d]
    by (simp add: redis_Queue_def)
qed

text \<open>The queue leaves the keys alone; in a call of \<open>Receive\<close> that does not wait no time passes.\<close>

definition same_keys :: "redis_state \<Rightarrow> redis_state \<Rightarrow> bool" where
  "same_keys s s' \<longleftrightarrow>
     ks_strings (server_of s') = ks_strings (server_of s) \<and> ks_clock (server_of s') = ks_clock (server_of s)"

lemma same_keys_refl [simp]: "same_keys s s"
  by (simp add: same_keys_def)

lemma same_keys_trans: "same_keys s s1 \<Longrightarrow> same_keys s1 s2 \<Longrightarrow> same_keys s s2"
  by (simp add: same_keys_def)

lemma same_keys_jobs:
  assumes "same_keys s s'"
  shows "redis_jobs backend s' = redis_jobs backend s" "sound_keys backend (server_of s') = sound_keys backend (server_of s)"
proof -
  have "redis_GET k (server_of s') = redis_GET k (server_of s)" for k
    using assms by (simp add: same_keys_def redis_GET_def)
  then show "redis_jobs backend s' = redis_jobs backend s" "sound_keys backend (server_of s') = sound_keys backend (server_of s)"
    by (simp_all add: redis_jobs_def fun_eq_iff sound_keys_def)
qed

definition keeps_keys :: "(Keyspace, 'a) statement \<Rightarrow> bool" where
  "keeps_keys command \<longleftrightarrow>
     (\<forall>ks ks' a. command ks = Inr (ks', a) \<longrightarrow> ks_strings ks' = ks_strings ks \<and> ks_clock ks' = ks_clock ks)"

lemma exec_keys:
  assumes "redis_exec ctx command s = (r, s')" and "keeps_keys command"
  shows "same_keys s s'"
  using remote_exec_cases [of ctx command "rs_server s" r "rs_server s'"] assms
  by (auto simp: redis_exec_def keeps_keys_def same_keys_def split: prod.splits)

lemma queue_commands_keep [simp]:
  "keeps_keys (enqueue_command i)" "keeps_keys (ack_script mid)" "keeps_keys (nack_script mid i)"
  "keeps_keys redis_XGROUP_CREATE" "keeps_keys redis_XREADGROUP" "keeps_keys (redis_XAUTOCLAIM idle)"
  by (auto simp: keeps_keys_def enqueue_command_def ack_script_def nack_script_def redis_XADD_def redis_XACK_def
      redis_XDEL_def redis_XGROUP_CREATE_def redis_XREADGROUP_def redis_XAUTOCLAIM_def
      split: if_splits option.splits list.splits)

lemma ack_keys: "redis_ack ctx mid s = (r, s') \<Longrightarrow> same_keys s s'"
  by (simp add: redis_ack_def exec_keys)

lemma groupOK_keys [simp]: "same_keys s (s1\<lparr>rs_groupOK := b\<rparr>) = same_keys s s1"
  by (simp add: same_keys_def)

lemma reclaim_keys:
  assumes "redis_reclaim backend ctx s = (rd, s')"
  shows "same_keys s s'"
proof -
  obtain r s1 where x: "redis_exec ctx (redis_XAUTOCLAIM (rc_claimIdle backend div 1000000)) s = (r, s1)" by force
  then have s1: "same_keys s s1" by (rule exec_keys) simp
  show ?thesis
    using assms x s1 same_keys_trans [OF s1 ack_keys]
    by (auto simp: redis_reclaim_def split: sum.splits option.splits list.splits if_splits prod.splits)
qed

lemma receive_now_keys:
  assumes "redis_Receive backend [] ctx s = Some (rd, s')"
  shows "same_keys s s'"
proof -
  obtain r s1 where e: "redis_ensureGroup ctx s = (r, s1)" by force
  obtain rx s2 where x: "redis_exec ctx redis_XGROUP_CREATE s = (rx, s2)" by force
  then have "same_keys s s2" by (rule exec_keys) simp
  with e x have s1: "same_keys s s1" by (auto simp: redis_ensureGroup_def split: if_splits sum.splits)
  obtain rc s3 where c: "redis_reclaim backend ctx s1 = (rc, s3)" by force
  note s3 = same_keys_trans [OF s1 reclaim_keys [OF c]]
  obtain rg s4 where g: "redis_exec ctx redis_XREADGROUP s3 = (rg, s4)" by force
  then have "same_keys s3 s4" by (rule exec_keys) simp
  with s3 have s4: "same_keys s s4" by (rule same_keys_trans)
  from assms e show ?thesis
    using s1 s3 s4 c g
    by (auto simp: redis_Receive_def redis_receive_loop.simps [of backend "[]"]
        split: sum.splits option.splits if_splits prod.splits)
qed

lemma exec_same_queue:
  assumes "remote_exec ctx command (rs_server s) = (r, server)"
    and "\<And>ks' u. command (server_of s) = Inr (ks', u) \<Longrightarrow> same_queue (server_of s) ks'"
  shows "same_queue (server_of s) (server_of (s\<lparr>rs_server := server\<rparr>))"
  using remote_exec_cases [OF assms(1)] assms(2) by auto

lemma redis_Create_queue:
  assumes "redis_Create backend now ctx job s = (r, s')"
  shows "same_queue (server_of s) (server_of s')"
  using assms exec_same_queue [of ctx _ s] create_script_GET(2)
  by (fastforce simp: redis_Create_def Let_def less_max_iff_disj split: sum.splits if_splits prod.splits)

lemma redis_Update_queue:
  assumes "sound_keys backend (server_of s)" and "redis_Update backend pause ctx mid u s = (r, s')"
  shows "same_queue (server_of s) (server_of s')"
proof -
  obtain rj s1 where g: "redis_Get backend ctx mid s = (rj, s1)" by force
  have s1: "same_queue (server_of s) (server_of s1)" using redis_Get_cases [OF assms(1) g] by simp
  then have "same_queue (server_of s) (server_of (wait_ms pause s1))" by (simp add: wait_ms_def same_queue_def)
  with s1 show ?thesis
    using assms(2) g exec_same_queue [of ctx _ "wait_ms pause s1"] KEEPTTL_GET(2)
    by (fastforce simp: redis_Update_def Let_def same_queue_def split: sum.splits if_splits prod.splits)
qed

lemma redis_inv_queue:
  "redis_inv backend s \<Longrightarrow> queue_of s" "redis_inv backend s \<Longrightarrow> same_keys s s' \<Longrightarrow> queue_of s' \<Longrightarrow> redis_inv backend s'"
  by (simp_all add: redis_inv_def same_keys_jobs)

lemma settle_keys:
  "redis_Enqueue ctx i s = Some (r0, s') \<Longrightarrow> same_keys s s'"
  "redis_Ack ctx d s = Some (r0, s') \<Longrightarrow> same_keys s s'"
  "redis_Nack ctx d s = Some (r0, s') \<Longrightarrow> same_keys s s'"
  by (simp_all add: redis_Enqueue_def redis_Ack_def redis_Nack_def exec_keys ack_keys)

interpretation redis: reliable_backend "redis_Store backend now 0" "redis_jobs backend" "redis_inv backend"
    read_job "\<lambda>u. u" redis_storable redis_updatable
    "redis_Queue backend []" redis_waiting redis_accepts redis_outstanding for backend now
proof unfold_locales
  fix s s' :: redis_state and i ctx and r0 :: "go_error + unit"
  assume inv: "redis_inv backend s" and call: "queue_Enqueue (redis_Queue backend []) ctx i s = Some (r0, s')"
  note keys = settle_keys(1) [of ctx i s r0 s']
  show "redis_inv backend s' \<and> redis_waiting s \<subseteq> redis_waiting s' \<and>
      (r0 = Inr () \<and> redis_accepts s i \<longrightarrow> i \<in> redis_waiting s')"
    using redis_queue.enqueued [OF redis_inv_queue(1) [OF inv] call] redis_inv_queue(2) [OF inv] keys call
    by (simp add: redis_Queue_def)
  show "redis_jobs backend s' = redis_jobs backend s"
    using same_keys_jobs(1) [OF keys] call by (simp add: redis_Queue_def)
next
  fix s s' :: redis_state and ctx and rd :: "go_error + redis_delivery option"
  assume inv: "redis_inv backend s" and call: "queue_Receive (redis_Queue backend []) ctx s = Some (rd, s')"
  have keys: "same_keys s s'" using call receive_now_keys by (simp add: redis_Queue_def)
  show "redis_inv backend s' \<and>
      (case rd of
         Inr (Some d) \<Rightarrow> delivery_JobID (redis_Queue backend []) d \<in> redis_waiting s \<and>
           redis_waiting s - {delivery_JobID (redis_Queue backend []) d} \<subseteq> redis_waiting s'
       | _ \<Rightarrow> redis_waiting s \<subseteq> redis_waiting s')"
    using redis_queue.received [OF redis_inv_queue(1) [OF inv] call] redis_inv_queue(2) [OF inv keys]
    by (simp split: sum.splits option.splits)
  show "redis_jobs backend s' = redis_jobs backend s" using keys by (rule same_keys_jobs(1))
next
  fix s s' :: redis_state and ctx and d :: redis_delivery and r0 :: "go_error + unit"
  assume inv: "redis_inv backend s" and call: "delivery_Ack (redis_Queue backend []) ctx d s = Some (r0, s')"
  have keys: "same_keys s s'" using call settle_keys(2) by (simp add: redis_Queue_def)
  show "redis_inv backend s' \<and> redis_waiting s - {delivery_JobID (redis_Queue backend []) d} \<subseteq> redis_waiting s'"
    if "redis_outstanding s d"
    using redis_queue.acked [OF redis_inv_queue(1) [OF inv] that call] redis_inv_queue(2) [OF inv keys] by simp
  show "redis_jobs backend s' = redis_jobs backend s" using keys by (rule same_keys_jobs(1))
next
  fix s s' :: redis_state and ctx and d :: redis_delivery and r0 :: "go_error + unit"
  assume inv: "redis_inv backend s" and call: "delivery_Nack (redis_Queue backend []) ctx d s = Some (r0, s')"
  have keys: "same_keys s s'" using call settle_keys(3) by (simp add: redis_Queue_def)
  show "redis_inv backend s' \<and> redis_waiting s \<subseteq> redis_waiting s' \<and>
      (r0 = Inr () \<longrightarrow> delivery_JobID (redis_Queue backend []) d \<in> redis_waiting s')"
    if "redis_outstanding s d"
    using redis_queue.nacked [OF redis_inv_queue(1) [OF inv] that call] redis_inv_queue(2) [OF inv keys] by simp
  show "redis_jobs backend s' = redis_jobs backend s" using keys by (rule same_keys_jobs(1))
next
  fix s s' :: redis_state and i ctx and rj :: "go_error + Job"
  assume "redis_inv backend s" and "store_Get (redis_Store backend now 0) ctx i s = (rj, s')"
  then have "same_queue (server_of s) (server_of s')"
    using redis_Get_cases [of backend s ctx i rj s'] by (simp add: redis_inv_def redis_Store_def)
  then show "redis_waiting s' = redis_waiting s \<and> redis_accepts s' = redis_accepts s \<and>
      redis_outstanding s' = redis_outstanding s" by (rule same_queue_waiting)
next
  fix s s' :: redis_state and job ctx and r0 :: "go_error + unit"
  assume "redis_inv backend s" and "store_Create (redis_Store backend now 0) ctx job s = (r0, s')"
  then have "same_queue (server_of s) (server_of s')"
    using redis_Create_queue [of backend now ctx job s r0 s'] by (simp add: redis_Store_def)
  then show "redis_waiting s' = redis_waiting s \<and> redis_accepts s' = redis_accepts s \<and>
      redis_outstanding s' = redis_outstanding s" by (rule same_queue_waiting)
next
  fix s s' :: redis_state and i u ctx and r0 :: "go_error + unit"
  assume "redis_inv backend s" and "store_Update (redis_Store backend now 0) ctx i u s = (r0, s')"
  then have "same_queue (server_of s) (server_of s')"
    using redis_Update_queue [of backend s 0 ctx i u r0 s'] by (simp add: redis_Store_def redis_inv_def)
  then show "redis_waiting s' = redis_waiting s \<and> redis_accepts s' = redis_accepts s \<and>
      redis_outstanding s' = redis_outstanding s" by (rule same_queue_waiting)
next
  fix s s' :: redis_state and ctx and d :: redis_delivery
  assume "redis_inv backend s" and "queue_Receive (redis_Queue backend []) ctx s = Some (Inr (Some d), s')"
  then show "redis_outstanding s' d" using redis_queue.received_outstanding redis_inv_queue(1) by blast
qed

end
