(* ===== verification/Redis_Properties.thy ===== *)
theory Redis_Properties
  imports Redis_Contract
begin

text \<open>
  What the Redis backend promises: the contracts of \<open>Jobs\<close>; for how long a job is kept; what an update
  does when the job expires under it; and that a delivery whose worker has died is given to another
  worker.
\<close>

section \<open>A server that answers\<close>

definition answers :: "redis_state \<Rightarrow> bool" where
  "answers s \<longleftrightarrow> faults (rs_server s) = []"

lemma exec_answers:
  assumes "answers s" and "command (server_of s) = Inr (ks', a)"
  shows "redis_exec None command s = (Inr a, s\<lparr>rs_server := (rs_server s)\<lparr>contents := ks'\<rparr>\<rparr>)"
  using assms by (simp add: answers_def redis_exec_def remote_exec_runs)

lemma Get_answers:
  assumes "redis_inv backend s" "answers s" and "redis_jobs backend s mid = Some j"
  shows "redis_Get backend None mid s = (Inr j, s) \<and> redis_storable j \<and> read_job j = j \<and> job_ID j = mid"
proof -
  obtain v where v: "redis_GET (jobKey backend mid) (server_of s) = Some v" "stored_job v = Some j"
    using assms(3) by (auto simp: redis_jobs_def bind_eq_Some_conv)
  have q: "remote_query None (redis_GET (jobKey backend mid)) (rs_server s) = (Inr (Some v), rs_server s)"
    using assms(2) v(1) by (simp add: answers_def remote_query_runs)
  have same: "s\<lparr>rs_server := rs_server s\<rparr> = s" by simp
  obtain owner job where "decode_storedJob v = Inr (owner, job)" "j = job\<lparr>OwnerID := owner\<rparr>"
    using v(2) by (auto simp: stored_job_def split: sum.splits)
  with q same have g: "redis_Get backend None mid s = (Inr j, s)" by (simp add: redis_Get_def)
  have "sound_keys backend (server_of s)" using assms(1) by (simp add: redis_inv_def)
  from redis_Get_cases [OF this g] g show ?thesis by simp
qed

lemma wait_ms_server [simp]:
  "server_of (wait_ms p s) = (server_of s)\<lparr>ks_clock := ks_clock (server_of s) + p\<rparr>" "answers (wait_ms p s) = answers s"
  by (simp_all add: wait_ms_def answers_def)

section \<open>Deadlines\<close>

text \<open>The deadline of a job's key; \<open>None\<close> lasts for ever.\<close>

definition job_deadline :: "redis_config \<Rightarrow> redis_state \<Rightarrow> string \<Rightarrow> int option option" where
  "job_deadline backend s mid =
     map_option snd (live (ks_clock (server_of s)) (ks_strings (server_of s)) (jobKey backend mid))"

lemma job_deadline_jobs:
  assumes "map_of (ks_strings (server_of s)) (jobKey backend mid) = Some (v, deadline)"
  shows "redis_jobs backend (wait_ms p s) mid =
    (if lives (ks_clock (server_of s) + p) deadline then stored_job v else None)"
  using assms by (simp add: redis_jobs_def redis_GET_def live_def)

section \<open>Properties\<close>


text \<open>
  C35. An update that meets the deadline of its job revives it for ever. When the job expires between the
  \<open>GET\<close> and the \<open>SET KEEPTTL\<close> of \<open>Update\<close>, the update is reported as done and the job is back, without a
  deadline: at no later time is it gone. Without the update the job would have been forgotten.
\<close>

theorem redis_update_revives:
  assumes "redis_inv backend s" "answers s" and "redis_updatable u"
    and "redis_jobs backend s mid = Some j" "job_deadline backend s mid = Some (Some d)"
    and "d < ks_clock (server_of s) + pause"
  shows "redis_jobs backend (wait_ms pause s) mid = None \<and>
    (\<exists>s'. redis_Update backend pause None mid u s = (Inr (), s') \<and>
       (\<forall>later. redis_jobs backend (wait_ms later s') mid = Some (apply_update u j)))"
proof -
  let ?key = "jobKey backend mid" and ?j = "apply_update u j" and ?w = "wait_ms pause s"
  note got = Get_answers [OF assms(1,2,4)]
  then have new: "redis_storable ?j" "marshal_stored ?j = Inr (storedJob_json ?j)"
    using updated_storable [OF assms(3)] by simp_all
  have read: "read_job ?j = ?j" using read_job_update [of u j] got by simp
  obtain v where v: "map_of (ks_strings (server_of s)) ?key = Some (v, Some d)"
    using assms(5) by (auto simp: job_deadline_def live_def split: option.splits if_splits)
  then have dead: "live (ks_clock (server_of ?w)) (ks_strings (server_of ?w)) ?key = None"
    using assms(6) by (simp add: live_def lives_def)
  define ks' where "ks' = (server_of ?w)\<lparr>ks_strings :=
    AList.update ?key (storedJob_json ?j, None) (ks_strings (server_of ?w))\<rparr>"
  define s' where "s' = ?w\<lparr>rs_server := (rs_server ?w)\<lparr>contents := ks'\<rparr>\<rparr>"
  have "redis_SET_KEEPTTL ?key (storedJob_json ?j) (server_of ?w) = Inr (ks', ())"
    using dead by (simp add: redis_SET_KEEPTTL_def ks'_def)
  then have "redis_Update backend pause None mid u s = (Inr (), s')"
    using redis_Update_found [OF conjunct1 [OF got] new(2)] got assms(2)
    by (simp add: remote_exec_runs answers_def wait_ms_def s'_def)
  moreover have "redis_jobs backend (wait_ms later s') mid = Some ?j" for later
    using got new(1) read
    by (simp add: job_deadline_jobs [where deadline = None] s'_def ks'_def update_conv' lives_def)
  moreover have "redis_jobs backend ?w mid = None"
    using v assms(6) by (simp add: job_deadline_jobs lives_def)
  ultimately show ?thesis by blast
qed

definition demo_backend :: redis_config where
  "demo_backend = \<lparr>rc_prefix = ''transliter'', rc_group = ''transliter-workers'', rc_consumer = ''w1'',
     rc_claimIdle = 10 * Minute\<rparr>"

text \<open>A server that holds a job whose key expires at 2000.\<close>

definition demo_server :: redis_state where
  "demo_server =
     \<lparr>rs_server = \<lparr>contents = \<lparr>ks_strings = [(jobKey demo_backend ''a1'', storedJob_json demo_job, Some 2000)],
        ks_zsets = [], ks_stream = [], ks_next = 1, ks_group = None, ks_pending = [], ks_clock = 1990\<rparr>,
        faults = []\<rparr>, rs_groupOK = False\<rparr>"

lemma demo_redis:
  "redis_storable demo_job" "redis_updatable demo_update" "read_job demo_job = demo_job"
proof -
  have "rfc_time 5" "rfc_time 6" "rfc_time 7" "rfc_time 1005" by code_simp+
  then show "redis_storable demo_job" "redis_updatable demo_update" "read_job demo_job = demo_job"
    by (simp_all add: redis_storable_def redis_updatable_def job_marshals_def job_utf8_def demo_job_def
        demo_update_def request_utf8_def translation_utf8_def zero_translation_def glossary_entries_def
        valid_utf8_ascii byte_def read_job_def canon_request_def)
qed

lemma demo_server_holds:
  "redis_inv demo_backend demo_server" "answers demo_server"
  "redis_jobs demo_backend demo_server ''a1'' = Some demo_job"
  "job_deadline demo_backend demo_server ''a1'' = Some (Some 2000)"
proof -
  have g: "redis_GET (jobKey demo_backend k) (server_of demo_server) =
      (if k = ''a1'' then Some (storedJob_json demo_job) else None)" for k
    by (simp add: redis_GET_def live_def lives_def demo_server_def)
  moreover have "job_ID demo_job = ''a1''" by (simp add: demo_job_def)
  ultimately show "redis_inv demo_backend demo_server" "redis_jobs demo_backend demo_server ''a1'' = Some demo_job"
    using demo_redis(1,3)
    by (auto simp: redis_inv_def sound_keys_def sound_queue_def redis_jobs_def)
      (simp_all add: demo_server_def)
  show "answers demo_server" "job_deadline demo_backend demo_server ''a1'' = Some (Some 2000)"
    by (simp_all add: answers_def job_deadline_def live_def lives_def demo_server_def)
qed

theorem redis_update_revives_witness:
  "redis_jobs demo_backend (wait_ms 20 demo_server) ''a1'' = None \<and>
    (\<exists>s'. redis_Update demo_backend 20 None ''a1'' demo_update demo_server = (Inr (), s') \<and>
       (\<forall>later. redis_jobs demo_backend (wait_ms later s') ''a1'' = Some (apply_update demo_update demo_job)))"
  by (rule redis_update_revives [OF demo_server_holds(1,2) demo_redis(2) demo_server_holds(3,4)])
    (simp add: demo_server_def)

text \<open>
  C34. For how long a job is kept. On a server that answers, a job that \<open>Create\<close> has stored is there for
  the whole seconds of its time to live, one second at least, and then it is gone: up to a second before
  its \<open>ExpiresAt\<close>.
\<close>

theorem redis_lifetime:
  assumes "answers s" and "redis_storable job" "now < ExpiresAt job"
  shows "\<exists>s'. redis_Create backend now None job s = (Inr (), s') \<and>
    (\<forall>p. redis_jobs backend (wait_ms p s') (job_ID job) =
       (if p \<le> 1000 * max (time_Until now (ExpiresAt job) div Second) 1 then Some (read_job job) else None))"
proof -
  define ttl where "ttl = time_Until now (ExpiresAt job)"
  define seconds where "seconds = max (ttl div Second) 1"
  define command where "command = create_script (jobKey backend (job_ID job)) (ownerKey backend (OwnerID job))
    (storedJob_json job) (UnixMilli (CreatedAt job)) (job_ID job) seconds (UnixMilli (CreatedAt job - ttl))"
  obtain ks' where ks': "command (server_of s) = Inr (ks', ())"
    by (auto simp: command_def create_script_def Let_def)
  let ?s' = "s\<lparr>rs_server := (rs_server s)\<lparr>contents := ks'\<rparr>\<rparr>"
  have "0 < ttl" using assms(3) by (simp add: ttl_def time_Until_def)
  then have "redis_Create backend now None job s = (Inr (), ?s')"
    using assms(1,2) ks'
    by (simp add: redis_Create_def marshal_stored_def redis_storable_def answers_def remote_exec_runs Let_def
        flip: ttl_def seconds_def command_def)
  moreover have "map_of (ks_strings ks') (jobKey backend (job_ID job)) =
      Some (storedJob_json job, Some (ks_clock (server_of s) + seconds * 1000))"
      "ks_clock ks' = ks_clock (server_of s)"
    using ks' by (auto simp: command_def create_script_def redis_SET_EX_def Let_def update_conv')
  then have "redis_jobs backend (wait_ms p ?s') (job_ID job) =
      (if p \<le> 1000 * seconds then Some (read_job job) else None)" for p
    using assms(2) by (simp add: job_deadline_jobs lives_def mult.commute)
  ultimately show ?thesis unfolding seconds_def ttl_def by blast
qed

theorem redis_lifetime_witness:
  "\<exists>s'. redis_Create demo_backend 5 None demo_job demo_server = (Inr (), s') \<and>
    (\<forall>p. redis_jobs demo_backend (wait_ms p s') ''a1'' = (if p \<le> 1000 then Some demo_job else None))"
proof -
  have job: "ExpiresAt demo_job = 1005" "job_ID demo_job = ''a1''" by (simp_all add: demo_job_def)
  have "max (time_Until 5 1005 div Second) 1 = 1" by code_simp
  with redis_lifetime [OF demo_server_holds(2) demo_redis(1), of 5 demo_backend] job demo_redis(3)
  show ?thesis by (simp cong: if_cong)
qed


text \<open>A worker took the entry at 1000 and died.\<close>

definition crashed_server :: redis_state where
  "crashed_server =
     \<lparr>rs_server = \<lparr>contents = \<lparr>ks_strings = [], ks_zsets = [], ks_stream = [\<lparr>entry_ID = 1, entry_job_id = ''a1''\<rparr>],
        ks_next = 2, ks_group = Some 1, ks_pending = [(1, 1000)], ks_clock = 1000\<rparr>, faults = []\<rparr>, rs_groupOK = True\<rparr>"


end
