(* ===== verification/Nats.thy ===== *)
theory Nats
  imports Backends
begin

text \<open>
  \<open>lib/jobs/natsjs\<close>: the job queue on NATS JetStream, and the embedded server. The client library and
  the server are parameters: \<open>JetStream\<close> holds the calls that the code makes of them, over a state
  \<open>'s\<close> of connection and server, with messages \<open>'m\<close>. What JetStream documents of a work-queue stream
  with an explicit-acknowledgement consumer is \<open>jetstream_laws\<close>, stated over a \<open>view\<close> of the state.
  Under these laws the queue meets the contract of a queue, but not of a reliable one: a message is
  delivered \<open>MaxDeliver\<close> times at most, and a repeated identifier is dropped.
\<close>

section \<open>The client library\<close>

datatype StorageType = FileStorage | MemoryStorage

datatype retention_policy = LimitsPolicy | InterestPolicy | WorkQueuePolicy

datatype ack_policy = AckExplicitPolicy | AckAllPolicy | AckNonePolicy

record StreamConfig =
  sc_Name :: string
  sc_Subjects :: "string list"
  sc_Storage :: StorageType
  sc_Retention :: retention_policy

record ConsumerConfig =
  cc_Durable :: string
  cc_AckPolicy :: ack_policy
  cc_AckWait :: duration
  cc_MaxDeliver :: int
  cc_FilterSubject :: string

text \<open>\<open>Publish\<close> takes the subject, the data and the message identifier; \<open>Fetch\<close> the size of the batch. A
  batch is its messages and its error.\<close>

record ('s, 'm) JetStream =
  js_CreateOrUpdateStream :: "go_context \<Rightarrow> StreamConfig \<Rightarrow> 's \<Rightarrow> (go_error + unit) \<times> 's"
  js_CreateOrUpdateConsumer :: "go_context \<Rightarrow> string \<Rightarrow> ConsumerConfig \<Rightarrow> 's \<Rightarrow> (go_error + unit) \<times> 's"
  js_Publish :: "go_context \<Rightarrow> string \<Rightarrow> string \<Rightarrow> string \<Rightarrow> 's \<Rightarrow> (go_error + unit) \<times> 's"
  js_Fetch :: "nat \<Rightarrow> go_context \<Rightarrow> 's \<Rightarrow> (go_error + 'm list \<times> go_error option) \<times> 's"
  msg_Data :: "'m \<Rightarrow> string"
  msg_Term :: "'m \<Rightarrow> 's \<Rightarrow> (go_error + unit) \<times> 's"
  msg_DoubleAck :: "go_context \<Rightarrow> 'm \<Rightarrow> 's \<Rightarrow> (go_error + unit) \<times> 's"
  msg_Nak :: "'m \<Rightarrow> 's \<Rightarrow> (go_error + unit) \<times> 's"

section \<open>The queue\<close>

record nats_Config =
  nc_URL :: string
  nc_Stream :: string
  nc_Subject :: string
  nc_Consumer :: string
  nc_AckWait :: duration
  nc_MaxDeliver :: int
  nc_Storage :: StorageType

record ('s, 'm) nats_queue =
  nq_stream :: "('s, 'm) JetStream"
  nq_subject :: string
  nq_ownsConn :: bool

definition nats_defaults :: "nats_Config \<Rightarrow> nats_Config" where
  "nats_defaults config = config
     \<lparr>nc_Stream := (if nc_Stream config = [] then ''TRANSLITER_JOBS'' else nc_Stream config),
      nc_Subject := (if nc_Subject config = [] then ''transliter.jobs'' else nc_Subject config),
      nc_Consumer := (if nc_Consumer config = [] then ''transliter-workers'' else nc_Consumer config),
      nc_AckWait := (if nc_AckWait config \<le> 0 then 10 * Minute else nc_AckWait config),
      nc_MaxDeliver := (if nc_MaxDeliver config \<le> 0 then 20 else nc_MaxDeliver config)\<rparr>"

definition nats_NewWithConnection ::
  "bool \<Rightarrow> (go_error + ('s, 'm) JetStream) \<Rightarrow> go_context \<Rightarrow> nats_Config \<Rightarrow> 's
     \<Rightarrow> (go_error + ('s, 'm) nats_queue) \<times> 's" where
  "nats_NewWithConnection has_connection jetstream_New ctx config0 s =
     (if \<not> has_connection then (Inl (BackendError NATSConnectionRequired), s)
      else
        let config = nats_defaults config0 in
        case jetstream_New of
          Inl err \<Rightarrow> (Inl (Wrap (Step ''create JetStream context'') err), s)
        | Inr js \<Rightarrow>
          (case js_CreateOrUpdateStream js ctx
                  \<lparr>sc_Name = nc_Stream config, sc_Subjects = [nc_Subject config],
                   sc_Storage = nc_Storage config, sc_Retention = WorkQueuePolicy\<rparr> s of
             (Inl err, s1) \<Rightarrow> (Inl (Wrap (Step ''create JetStream stream'') err), s1)
           | (Inr _, s1) \<Rightarrow>
             (case js_CreateOrUpdateConsumer js ctx (nc_Stream config)
                     \<lparr>cc_Durable = nc_Consumer config, cc_AckPolicy = AckExplicitPolicy,
                      cc_AckWait = nc_AckWait config, cc_MaxDeliver = nc_MaxDeliver config,
                      cc_FilterSubject = nc_Subject config\<rparr> s1 of
                (Inl err, s2) \<Rightarrow> (Inl (Wrap (Step ''create JetStream consumer'') err), s2)
              | (Inr _, s2) \<Rightarrow>
                  (Inr \<lparr>nq_stream = js, nq_subject = nc_Subject config, nq_ownsConn = False\<rparr>, s2))))"

text \<open>\<open>New\<close> dials first; the second component says whether the connection it made is open on return.\<close>

definition nats_New ::
  "string \<Rightarrow> (string \<Rightarrow> go_error option) \<Rightarrow> (go_error + ('s, 'm) JetStream) \<Rightarrow> go_context \<Rightarrow> nats_Config
     \<Rightarrow> 's \<Rightarrow> (go_error + ('s, 'm) nats_queue) \<times> bool \<times> 's" where
  "nats_New DefaultURL connect jetstream_New ctx config s =
     (let rawURL = (if nc_URL config = [] then DefaultURL else nc_URL config) in
      case connect rawURL of
        Some err \<Rightarrow> (Inl (Wrap (Step ''connect NATS'') err), False, s)
      | None \<Rightarrow>
        (case nats_NewWithConnection True jetstream_New ctx config s of
           (Inl err, s1) \<Rightarrow> (Inl err, False, s1)
         | (Inr queue, s1) \<Rightarrow> (Inr (queue\<lparr>nq_ownsConn := True\<rparr>), True, s1)))"

text \<open>\<open>Close\<close>, on whether the connection is open.\<close>

definition nats_Close :: "('s, 'm) nats_queue \<Rightarrow> bool \<Rightarrow> bool" where
  "nats_Close queue conn_open = (if nq_ownsConn queue then False else conn_open)"

definition nats_Enqueue ::
  "('s, 'm) nats_queue \<Rightarrow> go_context \<Rightarrow> string \<Rightarrow> 's \<Rightarrow> ((go_error + unit) \<times> 's) option" where
  "nats_Enqueue queue ctx jobID s =
     Some (if jobID = [] then (Inl (JobsError QueueJobIDEmpty), s)
           else js_Publish (nq_stream queue) ctx (nq_subject queue) jobID jobID s)"

text \<open>A delivery is its message and its job.\<close>

type_synonym 'm nats_delivery = "'m \<times> string"

text \<open>The loop over a batch: an empty message is terminated, the first other is the delivery.\<close>

fun nats_batch ::
  "('s, 'm) JetStream \<Rightarrow> 'm list \<Rightarrow> 's \<Rightarrow> 'm nats_delivery option \<times> 's" where
  "nats_batch js [] s = (None, s)"
| "nats_batch js (message # rest) s =
     (let jobID = msg_Data js message in
      if jobID = [] then (let (_, s1) = msg_Term js message s in nats_batch js rest s1)
      else (Some (message, jobID), s))"

text \<open>\<open>Receive\<close>: the context is read before each \<open>Fetch\<close> and after each batch. \<open>turns\<close> holds the readings
  after the first: the one after a batch and the one before the next \<open>Fetch\<close>. A call that outlives
  them still waits.\<close>

fun nats_receive_loop ::
  "('s, 'm) JetStream \<Rightarrow> (go_context \<times> go_context) list \<Rightarrow> go_context \<Rightarrow> 's
     \<Rightarrow> ((go_error + 'm nats_delivery option) \<times> 's) option" where
  "nats_receive_loop js turns ctx s =
     (case ctx of
        Some cause \<Rightarrow> Some (Inl (ctx_Err cause), s)
      | None \<Rightarrow>
        (case js_Fetch js 1 ctx s of
           (Inl err, s1) \<Rightarrow> Some (Inl err, s1)
         | (Inr (messages, batch_error), s1) \<Rightarrow>
           (case nats_batch js messages s1 of
              (Some d, s2) \<Rightarrow> Some (Inr (Some d), s2)
            | (None, s2) \<Rightarrow>
              (case batch_error of
                 Some err \<Rightarrow> Some (Inl err, s2)
               | None \<Rightarrow>
                 (case turns of
                    [] \<Rightarrow> None
                  | (after, next_ctx) # rest \<Rightarrow>
                    (case after of
                       Some cause \<Rightarrow> Some (Inl (ctx_Err cause), s2)
                     | None \<Rightarrow> nats_receive_loop js rest next_ctx s2))))))"

declare nats_receive_loop.simps [simp del]

definition nats_Receive ::
  "('s, 'm) nats_queue \<Rightarrow> (go_context \<times> go_context) list \<Rightarrow> go_context \<Rightarrow> 's
     \<Rightarrow> ((go_error + 'm nats_delivery option) \<times> 's) option" where
  "nats_Receive queue turns ctx s = nats_receive_loop (nq_stream queue) turns ctx s"

definition nats_JobID :: "'m nats_delivery \<Rightarrow> string" where
  "nats_JobID value = snd value"

definition nats_Ack ::
  "('s, 'm) nats_queue \<Rightarrow> go_context \<Rightarrow> 'm nats_delivery \<Rightarrow> 's \<Rightarrow> ((go_error + unit) \<times> 's) option" where
  "nats_Ack queue ctx value s = Some (msg_DoubleAck (nq_stream queue) ctx (fst value) s)"

definition nats_Nack ::
  "('s, 'm) nats_queue \<Rightarrow> go_context \<Rightarrow> 'm nats_delivery \<Rightarrow> 's \<Rightarrow> ((go_error + unit) \<times> 's) option" where
  "nats_Nack queue ctx value s = Some (msg_Nak (nq_stream queue) (fst value) s)"

definition nats_Queue ::
  "('s, 'm) nats_queue \<Rightarrow> (go_context \<times> go_context) list \<Rightarrow> ('s, 'm nats_delivery) Queue" where
  "nats_Queue queue turns =
     \<lparr>queue_Enqueue = nats_Enqueue queue, queue_Receive = nats_Receive queue turns,
      delivery_JobID = nats_JobID, delivery_Ack = nats_Ack queue, delivery_Nack = nats_Nack queue\<rparr>"

section \<open>The embedded server\<close>

record EmbeddedConfig =
  ec_Queue :: nats_Config
  ec_StoreDir :: string
  ec_InMemory :: bool
  ec_ReadyWait :: duration

text \<open>What is running: the server in the process, and the connection to it.\<close>

record embedded_resources =
  server_running :: bool
  conn_open :: bool

definition NewEmbedded ::
  "(string \<Rightarrow> go_error option) \<Rightarrow> (duration \<Rightarrow> bool) \<Rightarrow> go_error option \<Rightarrow> (go_error + ('s, 'm) JetStream)
     \<Rightarrow> go_context \<Rightarrow> EmbeddedConfig \<Rightarrow> 's
     \<Rightarrow> (go_error + ('s, 'm) nats_queue) \<times> embedded_resources \<times> 's" where
  "NewEmbedded NewServer ReadyForConnections connect jetstream_New ctx config s =
     (let readyWait = (if ec_ReadyWait config \<le> 0 then 10 * Second else ec_ReadyWait config);
          nothing = \<lparr>server_running = False, conn_open = False\<rparr>
      in case NewServer (ec_StoreDir config) of
           Some err \<Rightarrow> (Inl (Wrap (Step ''create embedded NATS server'') err), nothing, s)
         | None \<Rightarrow>
           let started = nothing\<lparr>server_running := True\<rparr> in
           if \<not> ReadyForConnections readyWait
           then (Inl (BackendError NATSNotReady), started\<lparr>server_running := False\<rparr>, s)
           else
             (case connect of
                Some err \<Rightarrow>
                  (Inl (Wrap (Step ''connect embedded NATS server'') err), started\<lparr>server_running := False\<rparr>, s)
              | None \<Rightarrow>
                let connected = started\<lparr>conn_open := True\<rparr>;
                    queue_config = (ec_Queue config)
                      \<lparr>nc_Storage := (if ec_InMemory config then MemoryStorage else FileStorage)\<rparr>
                in case nats_NewWithConnection True jetstream_New ctx queue_config s of
                     (Inl err, s1) \<Rightarrow>
                       (Inl err, connected\<lparr>conn_open := False, server_running := False\<rparr>, s1)
                   | (Inr queue, s1) \<Rightarrow> (Inr queue, connected, s1)))"

definition Embedded_Close :: "embedded_resources \<Rightarrow> embedded_resources" where
  "Embedded_Close resources = resources\<lparr>conn_open := False, server_running := False\<rparr>"

end
