(* ===== verification/Nats_Contract.thy ===== *)
theory Nats_Contract
  imports Nats Memory
begin

text \<open>
  What the NATS queue promises, given what JetStream documents: it is a queue in the sense of \<open>Jobs\<close>, also
  beside any store; a cancelled context ends \<open>Receive\<close>; the embedded server is never left running.
\<close>

section \<open>What JetStream documents\<close>

text \<open>
  A view of the stream: the messages it holds by their sequence numbers, how many deliveries each has
  left, and the message identifiers inside the duplicate window.
\<close>

record js_view =
  jv_messages :: "nat \<Rightarrow> string option"
  jv_left :: "nat \<Rightarrow> nat"
  jv_window :: "string set"

definition same_stream :: "js_view \<Rightarrow> js_view \<Rightarrow> bool" where
  "same_stream v v' \<longleftrightarrow> jv_messages v' = jv_messages v \<and> jv_left v' = jv_left v"

text \<open>A published message is stored, unless its identifier is inside the window (then it is acknowledged
  and dropped) or the call fails; a call that fails may still have stored it.\<close>

definition publish_law :: "('s, 'm) JetStream \<Rightarrow> ('s \<Rightarrow> js_view) \<Rightarrow> bool" where
  "publish_law js view \<longleftrightarrow>
     (\<forall>ctx subject data mid s r s'. js_Publish js ctx subject data mid s = (r, s') \<longrightarrow>
        same_stream (view s) (view s') \<and> (r = Inr () \<longrightarrow> mid \<in> jv_window (view s)) \<or>
        (\<exists>k. jv_messages (view s) k = None \<and> jv_messages (view s') = (jv_messages (view s))(k \<mapsto> data) \<and>
           0 < jv_left (view s') k \<and> (\<forall>i. i \<noteq> k \<longrightarrow> jv_left (view s') i = jv_left (view s) i)))"

text \<open>A batch holds at most as many messages as were asked for, each one that the stream holds and that
  has a delivery left; a message outside the batch keeps its deliveries, and none leaves the stream.\<close>

definition fetch_law :: "('s, 'm) JetStream \<Rightarrow> ('m \<Rightarrow> nat) \<Rightarrow> ('s \<Rightarrow> js_view) \<Rightarrow> bool" where
  "fetch_law js seq view \<longleftrightarrow>
     (\<forall>n ctx s r s'. js_Fetch js n ctx s = (r, s') \<longrightarrow>
        jv_messages (view s') = jv_messages (view s) \<and>
        (case r of
           Inl _ \<Rightarrow> jv_left (view s') = jv_left (view s)
         | Inr (messages, _) \<Rightarrow>
             length messages \<le> n \<and>
             (\<forall>m \<in> set messages. jv_messages (view s) (seq m) = Some (msg_Data js m) \<and> 0 < jv_left (view s) (seq m)) \<and>
             (\<forall>k. k \<notin> seq ` set messages \<longrightarrow> jv_left (view s') k = jv_left (view s) k)))"

text \<open>\<open>Term\<close> and \<open>DoubleAck\<close> remove their message, or fail without effect or after it; \<open>Nak\<close> asks for another
  delivery, if one is left.\<close>

definition settle_law :: "('s, 'm) JetStream \<Rightarrow> ('m \<Rightarrow> nat) \<Rightarrow> ('s \<Rightarrow> js_view) \<Rightarrow> bool" where
  "settle_law js seq view \<longleftrightarrow>
     (\<forall>m s r s'. msg_Term js m s = (r, s') \<or> (\<exists>ctx. msg_DoubleAck js ctx m s = (r, s')) \<longrightarrow>
        jv_left (view s') = jv_left (view s) \<and>
        (jv_messages (view s') = (jv_messages (view s))(seq m := None) \<or>
         (\<exists>e. r = Inl e) \<and> jv_messages (view s') = jv_messages (view s))) \<and>
     (\<forall>m s r s'. msg_Nak js m s = (r, s') \<longrightarrow> same_stream (view s) (view s'))"

definition jetstream_laws :: "('s, 'm) JetStream \<Rightarrow> ('m \<Rightarrow> nat) \<Rightarrow> ('s \<Rightarrow> js_view) \<Rightarrow> bool" where
  "jetstream_laws js seq view \<longleftrightarrow> publish_law js view \<and> fetch_law js seq view \<and> settle_law js seq view"

section \<open>The queue\<close>

text \<open>The jobs that will be delivered; the jobs it takes; the deliveries that another one follows unless
  they are settled.\<close>

definition nats_waiting :: "('s \<Rightarrow> js_view) \<Rightarrow> 's \<Rightarrow> string set" where
  "nats_waiting view s = {jobID. jobID \<noteq> [] \<and>
     (\<exists>k. jv_messages (view s) k = Some jobID \<and> 0 < jv_left (view s) k)}"

definition nats_accepts :: "('s \<Rightarrow> js_view) \<Rightarrow> 's \<Rightarrow> string \<Rightarrow> bool" where
  "nats_accepts view s jobID \<longleftrightarrow> jobID \<noteq> [] \<and> jobID \<notin> jv_window (view s)"

definition nats_outstanding :: "('m \<Rightarrow> nat) \<Rightarrow> ('s \<Rightarrow> js_view) \<Rightarrow> 's \<Rightarrow> 'm nats_delivery \<Rightarrow> bool" where
  "nats_outstanding seq view s d \<longleftrightarrow>
     snd d \<noteq> [] \<and> jv_messages (view s) (seq (fst d)) = Some (snd d) \<and> 0 < jv_left (view s) (seq (fst d))"

lemma same_stream_waiting: "same_stream (view s) (view s') \<Longrightarrow> nats_waiting view s' = nats_waiting view s"
  by (simp add: same_stream_def nats_waiting_def)

lemma waiting_removed:
  assumes "jv_left (view s') = jv_left (view s)"
    and "jv_messages (view s') = (jv_messages (view s))(k := None) \<or> jv_messages (view s') = jv_messages (view s)"
    and "jv_messages (view s) k = Some jobID"
  shows "nats_waiting view s - {jobID} \<subseteq> nats_waiting view s'"
proof
  fix i
  assume "i \<in> nats_waiting view s - {jobID}"
  then obtain k' where k': "i \<noteq> []" "jv_messages (view s) k' = Some i" "0 < jv_left (view s) k'" "i \<noteq> jobID"
    by (auto simp: nats_waiting_def)
  with assms(3) have "k' \<noteq> k" by auto
  with k' assms(1,2) have "jv_messages (view s') k' = Some i" "0 < jv_left (view s') k'" by auto
  with k'(1) show "i \<in> nats_waiting view s'" unfolding nats_waiting_def by blast
qed

text \<open>What a call of \<open>Receive\<close>, or a part of one, does.\<close>

definition nats_delivers ::
  "('s \<Rightarrow> js_view) \<Rightarrow> 's \<Rightarrow> (go_error + 'm nats_delivery option) \<Rightarrow> 's \<Rightarrow> bool" where
  "nats_delivers view s rd s' \<longleftrightarrow>
     (case rd of
        Inr (Some d) \<Rightarrow> snd d \<in> nats_waiting view s \<and> nats_waiting view s - {snd d} \<subseteq> nats_waiting view s'
      | _ \<Rightarrow> nats_waiting view s \<subseteq> nats_waiting view s')"

lemma delivers_after:
  assumes "nats_waiting view s \<subseteq> nats_waiting view s1" "nats_waiting view s1 \<subseteq> nats_waiting view s"
    and "nats_delivers view s1 rd s'"
  shows "nats_delivers view s rd s'"
  using assms unfolding nats_delivers_def by (auto split: sum.splits option.splits)

lemma Term_empty:
  assumes "settle_law js seq view" and "msg_Term js m s = (r, s')" and "jv_messages (view s) (seq m) = Some []"
  shows "nats_waiting view s' = nats_waiting view s"
proof -
  have "jv_left (view s') = jv_left (view s)"
    "jv_messages (view s') = (jv_messages (view s))(seq m := None) \<or> jv_messages (view s') = jv_messages (view s)"
    using assms(1,2) unfolding settle_law_def by blast+
  with assms(3) waiting_removed [where view = view, OF this assms(3)] show ?thesis
    by (auto simp: nats_waiting_def split: if_splits)
qed

text \<open>One \<open>Fetch\<close> with its batch.\<close>

lemma fetch_one:
  assumes "fetch_law js seq view" "settle_law js seq view"
    and "js_Fetch js 1 ctx s = (Inr (messages, e), s1)" and "nats_batch js messages s1 = (found, s2)"
  shows "nats_delivers view s (Inr found) s2 \<and> nats_waiting view s2 \<subseteq> nats_waiting view s"
proof -
  have same: "jv_messages (view s1) = jv_messages (view s)" and "length messages \<le> 1"
    and held: "\<And>m. m \<in> set messages \<Longrightarrow> jv_messages (view s) (seq m) = Some (msg_Data js m) \<and> 0 < jv_left (view s) (seq m)"
    and left: "\<And>k. k \<notin> seq ` set messages \<Longrightarrow> jv_left (view s1) k = jv_left (view s) k"
    using assms(1,3) unfolding fetch_law_def by fastforce+
  then consider "messages = []" | m where "messages = [m]" by (cases messages; cases "tl messages") auto
  then show ?thesis
  proof cases
    case 1
    with assms(4) left same show ?thesis by (simp add: nats_delivers_def nats_waiting_def)
  next
    case 2
    then have m: "jv_messages (view s) (seq m) = Some (msg_Data js m)" "0 < jv_left (view s) (seq m)"
      "\<And>k. k \<noteq> seq m \<Longrightarrow> jv_left (view s1) k = jv_left (view s) k"
      using held left by simp_all
    have kept: "nats_waiting view s - {msg_Data js m} \<subseteq> nats_waiting view s1"
    proof
      fix jobID
      assume "jobID \<in> nats_waiting view s - {msg_Data js m}"
      then obtain k where k: "jobID \<noteq> []" "jv_messages (view s) k = Some jobID" "0 < jv_left (view s) k"
        "jobID \<noteq> msg_Data js m" by (auto simp: nats_waiting_def)
      with m(1) have "k \<noteq> seq m" by auto
      with k m(3) same show "jobID \<in> nats_waiting view s1" by (auto simp: nats_waiting_def)
    qed
    have no_more: "nats_waiting view s1 \<subseteq> nats_waiting view s"
    proof
      fix jobID
      assume "jobID \<in> nats_waiting view s1"
      then obtain k where "jobID \<noteq> []" "jv_messages (view s) k = Some jobID" "0 < jv_left (view s1) k"
        using same by (auto simp: nats_waiting_def)
      with m show "jobID \<in> nats_waiting view s" by (cases "k = seq m") (auto simp: nats_waiting_def)
    qed
    show ?thesis
    proof (cases "msg_Data js m = []")
      case True
      obtain r s3 where t: "msg_Term js m s1 = (r, s3)" by force
      have "nats_waiting view s3 = nats_waiting view s1"
        using Term_empty [OF assms(2) t] m(1) same True by simp
      with assms(4) 2 True t kept no_more show ?thesis by (auto simp: nats_delivers_def nats_waiting_def)
    next
      case False
      then have "msg_Data js m \<in> nats_waiting view s" using m by (auto simp: nats_waiting_def)
      with assms(4) 2 False kept no_more show ?thesis by (auto simp: nats_delivers_def)
    qed
  qed
qed

lemma nats_receive_turn:
  assumes "fetch_law js seq view" "settle_law js seq view"
    and call: "nats_receive_loop js turns ctx s = Some (rd, s')"
  obtains (ended) "nats_delivers view s rd s'" "rd \<noteq> Inr None"
  | (next_turn) ctx' rest s1 where "turns = (None, ctx') # rest"
      "nats_waiting view s1 = nats_waiting view s" "nats_receive_loop js rest ctx' s1 = Some (rd, s')"
proof (cases ctx)
  case (Some cause)
  with call show thesis
    by (intro ended) (auto simp: nats_receive_loop.simps [of js turns] nats_delivers_def)
next
  case None
  obtain r s1 where f: "js_Fetch js 1 ctx s = (r, s1)" by force
  show thesis
  proof (cases r)
    case (Inl e)
    then have "same_stream (view s) (view s1)"
      using assms(1) f unfolding fetch_law_def same_stream_def by fastforce
    with call f None Inl show thesis
      by (intro ended) (auto simp: nats_receive_loop.simps [of js turns] nats_delivers_def same_stream_waiting)
  next
    case (Inr b)
    obtain messages e where b: "b = (messages, e)" by force
    obtain found s2 where n: "nats_batch js messages s1 = (found, s2)" by force
    note one = fetch_one [OF assms(1,2) f [unfolded Inr b] n]
    show thesis
    proof (cases found)
      case (Some d)
      with one call f None Inr b n show thesis
        by (intro ended) (auto simp: nats_receive_loop.simps [of js turns])
    next
      case found: None
      then have same: "nats_waiting view s2 = nats_waiting view s" using one by (auto simp: nats_delivers_def)
      show thesis
      proof (cases "rd \<noteq> Inr None \<and> nats_delivers view s rd s'")
        case True
        with ended show thesis by simp
      next
        case False
        with call f None Inr b n found same next_turn show thesis
          by (auto simp: nats_receive_loop.simps [of js turns] nats_delivers_def split: option.splits list.splits)
      qed
    qed
  qed
qed

lemma nats_receive_loop_cases:
  "fetch_law js seq view \<Longrightarrow> settle_law js seq view \<Longrightarrow> nats_receive_loop js turns ctx s = Some (rd, s') \<Longrightarrow>
     rd \<noteq> Inr None \<and> nats_delivers view s rd s'"
proof (induction turns arbitrary: ctx s)
  case Nil
  from Nil show ?case by (rule nats_receive_turn) simp_all
next
  case (Cons turn turns)
  from Cons.prems show ?case
  proof (rule nats_receive_turn)
    fix ctx' rest s1
    assume "turn # turns = (None, ctx') # rest" "nats_waiting view s1 = nats_waiting view s"
      "nats_receive_loop js rest ctx' s1 = Some (rd, s')"
    with Cons.IH [of ctx' s1] Cons.prems delivers_after [of view s s1 rd s'] show ?case by auto
  qed simp_all
qed

lemma Enqueue_cases:
  assumes "publish_law (nq_stream queue) view" and "nats_Enqueue queue ctx i s = Some (r, s')"
  shows "nats_waiting view s \<subseteq> nats_waiting view s' \<and>
    (r = Inr () \<and> nats_accepts view s i \<longrightarrow> i \<in> nats_waiting view s')"
proof (cases "i = []")
  case True
  with assms(2) show ?thesis by (auto simp: nats_Enqueue_def)
next
  case False
  then have "js_Publish (nq_stream queue) ctx (nq_subject queue) i i s = (r, s')"
    using assms(2) by (simp add: nats_Enqueue_def)
  then consider (dropped) "same_stream (view s) (view s')" "r = Inr () \<longrightarrow> i \<in> jv_window (view s)"
    | (stored) k where "jv_messages (view s) k = None" "jv_messages (view s') = (jv_messages (view s))(k \<mapsto> i)"
        "0 < jv_left (view s') k" "\<And>n. n \<noteq> k \<Longrightarrow> jv_left (view s') n = jv_left (view s) n"
    using assms(1) unfolding publish_law_def by blast
  then show ?thesis
  proof cases
    case dropped
    then show ?thesis using same_stream_waiting [of view s s'] by (auto simp: nats_accepts_def)
  next
    case (stored k)
    have "jobID \<in> nats_waiting view s'" if "jobID \<in> nats_waiting view s" for jobID
    proof -
      from that obtain n where n: "jobID \<noteq> []" "jv_messages (view s) n = Some jobID" "0 < jv_left (view s) n"
        by (auto simp: nats_waiting_def)
      with stored(1) have "n \<noteq> k" by auto
      with n stored(2,4) show ?thesis by (auto simp: nats_waiting_def)
    qed
    moreover have "i \<in> nats_waiting view s'" using stored(2,3) False by (auto simp: nats_waiting_def)
    ultimately show ?thesis by blast
  qed
qed

lemma DoubleAck_cases:
  assumes "settle_law js seq view" and "nats_outstanding seq view s d" and "msg_DoubleAck js ctx (fst d) s = (r, s')"
  shows "nats_waiting view s - {snd d} \<subseteq> nats_waiting view s'"
proof (rule waiting_removed)
  show "jv_left (view s') = jv_left (view s)"
    "jv_messages (view s') = (jv_messages (view s))(seq (fst d) := None) \<or> jv_messages (view s') = jv_messages (view s)"
    using assms(1,3) unfolding settle_law_def by blast+
  show "jv_messages (view s) (seq (fst d)) = Some (snd d)"
    using assms(2) by (simp add: nats_outstanding_def)
qed

lemma Nak_cases:
  assumes "settle_law js seq view" and "nats_outstanding seq view s d" and "msg_Nak js (fst d) s = (r, s')"
  shows "nats_waiting view s \<subseteq> nats_waiting view s' \<and> snd d \<in> nats_waiting view s'"
proof -
  have "same_stream (view s) (view s')" using assms(1,3) unfolding settle_law_def by blast
  with assms(2) same_stream_waiting [of view s s'] show ?thesis
    by (auto simp: nats_outstanding_def nats_waiting_def)
qed

section \<open>Properties\<close>


text \<open>A JetStream that works: sequence numbers are positions, a message has two deliveries, and the
  duplicate window never closes.\<close>

record demo_stream =
  ds_messages :: "(string option \<times> nat) list"
  ds_window :: "string list"

definition demo_publish :: "go_context \<Rightarrow> string \<Rightarrow> string \<Rightarrow> string \<Rightarrow> demo_stream \<Rightarrow> (go_error + unit) \<times> demo_stream" where
  "demo_publish ctx subject data mid s =
     (if ctx \<noteq> None then (Inl (External ''nats: timeout''), s)
      else if mid \<in> set (ds_window s) then (Inr (), s)
      else (Inr (), \<lparr>ds_messages = ds_messages s @ [(Some data, 2)], ds_window = mid # ds_window s\<rparr>))"

definition demo_fetch ::
  "nat \<Rightarrow> go_context \<Rightarrow> demo_stream \<Rightarrow> (go_error + (nat \<times> string) list \<times> go_error option) \<times> demo_stream" where
  "demo_fetch n ctx s =
     (case find (\<lambda>k. fst (ds_messages s ! k) \<noteq> None \<and> 0 < snd (ds_messages s ! k)) [0..<length (ds_messages s)] of
        None \<Rightarrow> (Inr ([], Some (External ''nats: timeout'')), s)
      | Some k \<Rightarrow>
          if n = 0 then (Inr ([], None), s)
          else (Inr ([(k, the (fst (ds_messages s ! k)))], None),
                s\<lparr>ds_messages := (ds_messages s)[k := apsnd (\<lambda>l. l - 1) (ds_messages s ! k)]\<rparr>))"

definition demo_remove :: "nat \<times> string \<Rightarrow> demo_stream \<Rightarrow> (go_error + unit) \<times> demo_stream" where
  "demo_remove m s = (Inr (),
     s\<lparr>ds_messages := (ds_messages s)[fst m := apfst (\<lambda>_. None) (ds_messages s ! fst m)]\<rparr>)"

definition demo_JetStream :: "(demo_stream, nat \<times> string) JetStream" where
  "demo_JetStream =
     \<lparr>js_CreateOrUpdateStream = \<lambda>_ _ s. (Inr (), s), js_CreateOrUpdateConsumer = \<lambda>_ _ _ s. (Inr (), s),
      js_Publish = demo_publish, js_Fetch = demo_fetch, msg_Data = snd, msg_Term = demo_remove,
      msg_DoubleAck = \<lambda>_. demo_remove, msg_Nak = \<lambda>_ s. (Inr (), s)\<rparr>"

definition demo_view :: "demo_stream \<Rightarrow> js_view" where
  "demo_view s =
     \<lparr>jv_messages = \<lambda>k. if k < length (ds_messages s) then fst (ds_messages s ! k) else None,
      jv_left = \<lambda>k. if k < length (ds_messages s) then snd (ds_messages s ! k) else 0,
      jv_window = set (ds_window s)\<rparr>"

lemma snd_apfst_nth: "snd (xs[a := apfst f (xs ! a)] ! x) = snd (xs ! x)"
  by (cases "a = x"; cases "a < length xs") (simp_all add: list_update_beyond)

lemma demo_laws: "jetstream_laws demo_JetStream fst demo_view"
proof -
  have "publish_law demo_JetStream demo_view"
    unfolding publish_law_def
  proof (intro allI impI)
    fix ctx subject data mid s r s'
    assume "js_Publish demo_JetStream ctx subject data mid s = (r, s')"
    then have p: "demo_publish ctx subject data mid s = (r, s')" by (simp add: demo_JetStream_def)
    show "same_stream (demo_view s) (demo_view s') \<and> (r = Inr () \<longrightarrow> mid \<in> jv_window (demo_view s)) \<or>
      (\<exists>k. jv_messages (demo_view s) k = None \<and> jv_messages (demo_view s') = (jv_messages (demo_view s))(k \<mapsto> data) \<and>
         0 < jv_left (demo_view s') k \<and> (\<forall>i. i \<noteq> k \<longrightarrow> jv_left (demo_view s') i = jv_left (demo_view s) i))"
    proof (cases "ctx \<noteq> None \<or> mid \<in> set (ds_window s)")
      case True
      with p have "s' = s \<and> (r = Inr () \<longrightarrow> mid \<in> jv_window (demo_view s))"
        by (auto simp: demo_publish_def demo_view_def split: if_splits)
      then show ?thesis by (simp add: same_stream_def)
    next
      case False
      with p have "ds_messages s' = ds_messages s @ [(Some data, 2)]" by (auto simp: demo_publish_def)
      then show ?thesis
        by (intro disjI2 exI [of _ "length (ds_messages s)"]) (auto simp: demo_view_def nth_append fun_eq_iff)
    qed
  qed
  moreover have "fetch_law demo_JetStream fst demo_view"
    unfolding fetch_law_def demo_JetStream_def
    by (auto simp: demo_fetch_def demo_view_def find_Some_iff nth_list_update fun_eq_iff split: option.splits if_splits)
  moreover have "settle_law demo_JetStream fst demo_view"
    unfolding settle_law_def demo_JetStream_def
    by (auto simp: demo_remove_def demo_view_def same_stream_def nth_list_update fun_eq_iff snd_apfst_nth)
  ultimately show ?thesis by (simp add: jetstream_laws_def)
qed

definition demo_nats :: "(demo_stream, nat \<times> string) nats_queue" where
  "demo_nats = \<lparr>nq_stream = demo_JetStream, nq_subject = ''transliter.jobs'', nq_ownsConn = False\<rparr>"




text \<open>
  C38. The embedded server is not leaked: when \<open>NewEmbedded\<close> fails, whatever step fails, neither the server
  nor the connection to it is left, and when it succeeds both are there until \<open>Close\<close>, which leaves
  neither; closing the queue alone leaves the connection to its owner.
\<close>

theorem NewEmbedded_no_leak:
  assumes "NewEmbedded NewServer ready connect jetstream_New ctx config s = (r, resources, s')"
  shows "(case r of
      Inl _ \<Rightarrow> \<not> server_running resources \<and> \<not> conn_open resources
    | Inr queue \<Rightarrow> server_running resources \<and> conn_open resources \<and> nats_Close queue True = True) \<and>
    \<not> server_running (Embedded_Close resources) \<and> \<not> conn_open (Embedded_Close resources)"
proof -
  have "\<not> nq_ownsConn queue"
    if "nats_NewWithConnection True jetstream_New ctx c s = (Inr queue, s1)" for c queue s1
    using that by (auto simp: nats_NewWithConnection_def Let_def split: sum.splits prod.splits)
  with assms show ?thesis
    by (auto simp: NewEmbedded_def Let_def nats_Close_def Embedded_Close_def split: sum.splits prod.splits option.splits if_splits)
qed

theorem NewEmbedded_no_leak_witness:
  "\<exists>queue resources s'. NewEmbedded (\<lambda>_. None) (\<lambda>wait. wait = 10 * Second) None (Inr demo_JetStream) None
       \<lparr>ec_Queue = \<lparr>nc_URL = [], nc_Stream = [], nc_Subject = [], nc_Consumer = [], nc_AckWait = 0,
          nc_MaxDeliver = 0, nc_Storage = MemoryStorage\<rparr>, ec_StoreDir = ''data'', ec_InMemory = False, ec_ReadyWait = 0\<rparr>
       \<lparr>ds_messages = [], ds_window = []\<rparr> = (Inr queue, resources, s') \<and>
     conn_open resources \<and> \<not> conn_open (Embedded_Close resources)"
proof -
  let ?call = "NewEmbedded (\<lambda>_. None) (\<lambda>wait. wait = 10 * Second) None (Inr demo_JetStream) None
       \<lparr>ec_Queue = \<lparr>nc_URL = [], nc_Stream = [], nc_Subject = [], nc_Consumer = [], nc_AckWait = 0,
          nc_MaxDeliver = 0, nc_Storage = MemoryStorage\<rparr>, ec_StoreDir = ''data'', ec_InMemory = False, ec_ReadyWait = 0\<rparr>
       \<lparr>ds_messages = [], ds_window = []\<rparr>"
  obtain queue resources s' where call: "?call = (Inr queue, resources, s')"
    by (simp add: NewEmbedded_def nats_NewWithConnection_def demo_JetStream_def Let_def)
  with NewEmbedded_no_leak [OF call] show ?thesis by auto
qed

end
