(* ===== verification/Auth.thy ===== *)
theory Auth
  imports Sha256 Jobs
begin

text \<open>
  \<open>lib/jobs/auth.go\<close>: API keys. The authenticator holds the SHA-256 digests of the keys in
  the order in which the map of owners was ranged over. A nil authenticator is \<open>None\<close>. The
  environment is a function (\<open>os.Getenv\<close>); \<open>parse\<close> is the JSON scanner.
\<close>

definition EnvServerAPIKeys :: string where "EnvServerAPIKeys = ''TRANSLITER_SERVER_API_KEYS''"

definition AnonymousOwnerID :: string where "AnonymousOwnerID = ''anonymous''"

record Principal =
  principal_ID :: string

record staticKey =
  key_ownerID :: string
  key_digest :: string

record StaticAuthenticator =
  auth_keys :: "staticKey list"

fun static_keys :: "(string \<times> string) list \<Rightarrow> staticKey list \<Rightarrow> go_error + StaticAuthenticator" where
  "static_keys [] keys = Inr \<lparr>auth_keys = keys\<rparr>"
| "static_keys ((ownerID, key) # rest) keys =
     (if ownerID = [] \<or> key = [] then Inl (JobsError KeyOwnerEmpty)
      else static_keys rest (keys @ [\<lparr>key_ownerID = ownerID, key_digest = Sum256 key\<rparr>]))"

definition NewStaticAuthenticator :: "(string \<times> string) list \<Rightarrow> go_error + StaticAuthenticator" where
  "NewStaticAuthenticator keysByOwner = static_keys keysByOwner []"

definition StaticAuthenticatorFromEnv ::
  "(string \<Rightarrow> string) \<Rightarrow> (string \<Rightarrow> go_error + rat json) \<Rightarrow> go_error + StaticAuthenticator" where
  "StaticAuthenticatorFromEnv getenv parse =
     (let raw = strings_TrimSpace (getenv EnvServerAPIKeys)
      in if raw = [] then NewStaticAuthenticator []
         else (case (case parse raw of Inl err \<Rightarrow> Inl err | Inr j \<Rightarrow> decode_map j None) of
                 Inl err \<Rightarrow> Inl (Wrap ParseKeys err)
               | Inr keys \<Rightarrow> NewStaticAuthenticator (case keys of None \<Rightarrow> [] | Some m \<Rightarrow> m)))"

definition ConstantTimeCompare :: "string \<Rightarrow> string \<Rightarrow> nat" where
  "ConstantTimeCompare x y = (if x = y then 1 else 0)"

fun match_keys :: "string \<Rightarrow> staticKey list \<Rightarrow> string \<Rightarrow> nat \<Rightarrow> string \<times> nat" where
  "match_keys digest [] matchedOwner matched = (matchedOwner, matched)"
| "match_keys digest (candidate # rest) matchedOwner matched =
     (let equal = ConstantTimeCompare digest (key_digest candidate)
      in match_keys digest rest
           (if equal = 1 then key_ownerID candidate else matchedOwner) (or matched equal))"

definition Authenticate :: "StaticAuthenticator option \<Rightarrow> string \<Rightarrow> go_error + Principal" where
  "Authenticate authenticator apiKey =
     (case authenticator of
        None \<Rightarrow> Inr \<lparr>principal_ID = AnonymousOwnerID\<rparr>
      | Some a \<Rightarrow>
          if length (auth_keys a) = 0 then Inr \<lparr>principal_ID = AnonymousOwnerID\<rparr>
          else if apiKey = [] then Inl ErrUnauthorized
          else let (matchedOwner, matched) = match_keys (Sum256 apiKey) (auth_keys a) [] 0
               in if matched \<noteq> 1 then Inl ErrUnauthorized
                  else Inr \<lparr>principal_ID = matchedOwner\<rparr>)"

definition auth_Open :: "StaticAuthenticator option \<Rightarrow> bool" where
  "auth_Open authenticator \<longleftrightarrow>
     (case authenticator of None \<Rightarrow> True | Some a \<Rightarrow> length (auth_keys a) = 0)"

section \<open>Lemmas\<close>

lemma static_keys_iff:
  "static_keys m keys = Inr a \<longleftrightarrow>
     list_all (\<lambda>(owner, key). owner \<noteq> [] \<and> key \<noteq> []) m \<and>
     auth_keys a = keys @ map (\<lambda>(owner, key). \<lparr>key_ownerID = owner, key_digest = Sum256 key\<rparr>) m"
  by (induction m keys rule: static_keys.induct) (cases a, auto)+

lemma static_keys_Inl: "static_keys m keys = Inl e \<Longrightarrow> e = JobsError KeyOwnerEmpty"
  by (induction m keys rule: static_keys.induct) (auto split: if_splits)

text \<open>The last key that matches gives the owner.\<close>

lemma match_keys_eq:
  "matched \<in> {0, 1} \<Longrightarrow> match_keys digest keys owner matched =
     (case filter (\<lambda>k. key_digest k = digest) keys of
        [] \<Rightarrow> (owner, matched)
      | ks \<Rightarrow> (key_ownerID (last ks), 1))"
proof (induction digest keys owner matched rule: match_keys.induct)
  case (1 digest owner matched)
  then show ?case by simp
next
  case (2 digest candidate rest owner matched)
  have "or matched (ConstantTimeCompare digest (key_digest candidate)) \<in> {0, 1}"
    using 2(2) by (auto simp: ConstantTimeCompare_def)
  then show ?case
    using 2(1) [OF refl] 2(2)
    by (auto simp: Let_def ConstantTimeCompare_def split: list.split)
qed

lemma Authenticate_eq:
  "auth_keys a \<noteq> [] \<Longrightarrow> apiKey \<noteq> [] \<Longrightarrow> Authenticate (Some a) apiKey =
     (case filter (\<lambda>k. key_digest k = Sum256 apiKey) (auth_keys a) of
        [] \<Rightarrow> Inl ErrUnauthorized
      | ks \<Rightarrow> Inr \<lparr>principal_ID = key_ownerID (last ks)\<rparr>)"
  by (simp add: Authenticate_def match_keys_eq split: list.split)

lemma Authenticate_Open: "auth_Open a \<Longrightarrow> Authenticate a apiKey = Inr \<lparr>principal_ID = AnonymousOwnerID\<rparr>"
  by (auto simp: auth_Open_def Authenticate_def split: option.splits)

lemma filter_last_mem: "filter P xs = y # ys \<Longrightarrow> last (y # ys) \<in> set xs \<and> P (last (y # ys))"
proof -
  assume "filter P xs = y # ys"
  moreover have "last (y # ys) \<in> set (y # ys)" by (rule last_in_set) simp
  ultimately have "last (y # ys) \<in> set (filter P xs)" by (simp only:)
  then show ?thesis by simp
qed

lemma mset_eq_short: "mset xs = mset ys \<Longrightarrow> length ys \<le> 1 \<Longrightarrow> xs = ys"
proof (cases ys)
  case (Cons y ys')
  assume "mset xs = mset ys" "length ys \<le> 1"
  then show ?thesis using Cons by simp
qed simp

lemma Authenticate_cases:
  assumes "auth_keys a \<noteq> []"
  shows "(is_ok (Authenticate (Some a) apiKey) \<longleftrightarrow>
            apiKey \<noteq> [] \<and> (\<exists>k \<in> set (auth_keys a). key_digest k = Sum256 apiKey)) \<and>
    (\<forall>p. Authenticate (Some a) apiKey = Inr p \<longrightarrow>
       (\<exists>k \<in> set (auth_keys a). key_digest k = Sum256 apiKey \<and> key_ownerID k = principal_ID p)) \<and>
    (\<forall>e. Authenticate (Some a) apiKey = Inl e \<longrightarrow> e = ErrUnauthorized)"
proof (cases "apiKey = []")
  case True
  with assms show ?thesis by (simp add: Authenticate_def)
next
  case False
  show ?thesis
  proof (cases "filter (\<lambda>k. key_digest k = Sum256 apiKey) (auth_keys a)")
    case Nil
    with assms False show ?thesis by (auto simp: Authenticate_eq filter_empty_conv)
  next
    case (Cons k ks)
    from filter_last_mem [OF this] have "last (k # ks) \<in> set (auth_keys a)"
      "key_digest (last (k # ks)) = Sum256 apiKey" by auto
    with assms False Cons show ?thesis
      by (auto simp del: last.simps simp: Authenticate_eq)
  qed
qed

section \<open>Properties\<close>

text \<open>
  C14. A server configured with no key accepts every request as the anonymous owner. With keys,
  a request is accepted exactly when it carries a non-empty key whose digest is that of a
  configured key, and it is then attributed to an owner configured with such a key; otherwise
  the error is \<open>ErrUnauthorized\<close>.
\<close>

theorem Authenticate_correct:
  assumes "NewStaticAuthenticator m = Inr a"
  shows "(m = [] \<longrightarrow> Authenticate (Some a) apiKey = Inr \<lparr>principal_ID = ''anonymous''\<rparr>) \<and>
    (m \<noteq> [] \<longrightarrow>
       (is_ok (Authenticate (Some a) apiKey) \<longleftrightarrow>
          apiKey \<noteq> [] \<and> (\<exists>(owner, key) \<in> set m. Sum256 key = Sum256 apiKey)) \<and>
       (\<forall>p. Authenticate (Some a) apiKey = Inr p \<longrightarrow>
          (\<exists>(owner, key) \<in> set m. Sum256 key = Sum256 apiKey \<and> owner = principal_ID p \<and> owner \<noteq> [])) \<and>
       (\<forall>e. Authenticate (Some a) apiKey = Inl e \<longrightarrow> e = ErrUnauthorized))"
proof (cases "m = []")
  case True
  with assms show ?thesis
    by (auto simp: NewStaticAuthenticator_def Authenticate_def AnonymousOwnerID_def)
next
  case False
  have keys: "auth_keys a = map (\<lambda>(owner, key). \<lparr>key_ownerID = owner, key_digest = Sum256 key\<rparr>) m"
    and ok: "list_all (\<lambda>(owner, key). owner \<noteq> [] \<and> key \<noteq> []) m"
    using assms by (simp_all add: NewStaticAuthenticator_def static_keys_iff)
  have all: "\<forall>x \<in> set m. fst x \<noteq> []"
    using ok by (auto simp: list_all_iff)
  show ?thesis
    using Authenticate_cases [of a apiKey] False all
    by (simp add: keys case_prod_unfold)
qed

theorem Authenticate_correct_witness:
  "\<exists>a p. NewStaticAuthenticator [(''alice'', ''k1''), (''bob'', ''k2'')] = Inr a \<and>
     Authenticate (Some a) ''k2'' = Inr p \<and> principal_ID p \<in> {''alice'', ''bob''} \<and>
     Authenticate (Some a) [] = Inl ErrUnauthorized"
proof -
  let ?m = "[(''alice'', ''k1''), (''bob'', ''k2'')]"
  obtain a where a: "NewStaticAuthenticator ?m = Inr a"
    by (simp add: NewStaticAuthenticator_def)
  from Authenticate_correct [OF a, of "''k2''"] have "is_ok (Authenticate (Some a) ''k2'')"
    and owner: "\<forall>p. Authenticate (Some a) ''k2'' = Inr p \<longrightarrow> principal_ID p \<in> {''alice'', ''bob''}"
    by auto
  then obtain p where p: "Authenticate (Some a) ''k2'' = Inr p" by (auto simp: is_ok_iff)
  moreover have "Authenticate (Some a) [] = Inl ErrUnauthorized"
    using Authenticate_correct [OF a, of "[]"] by (cases "Authenticate (Some a) []") auto
  ultimately show ?thesis using a owner by blast
qed

text \<open>
  When the configured keys have different digests, the order in which the runtime ranges
  over the map of owners decides neither whether the configuration is accepted nor whom a key
  authenticates.
\<close>

theorem Authenticate_map_order:
  assumes "NewStaticAuthenticator m = Inr a" and "mset m' = mset m"
    and "distinct (map (\<lambda>(owner, key). Sum256 key) m)"
  shows "\<exists>a'. NewStaticAuthenticator m' = Inr a' \<and>
    (\<forall>apiKey. Authenticate (Some a') apiKey = Authenticate (Some a) apiKey)"
proof -
  let ?key = "\<lambda>(owner, key). \<lparr>key_ownerID = owner, key_digest = Sum256 key\<rparr>"
  have set: "set m' = set m" and len: "length m' = length m"
    using assms(2) by (auto dest: mset_eq_setD mset_eq_length)
  have keys: "auth_keys a = map ?key m" and ok: "list_all (\<lambda>(owner, key). owner \<noteq> [] \<and> key \<noteq> []) m"
    using assms(1) by (simp_all add: NewStaticAuthenticator_def static_keys_iff)
  have a': "NewStaticAuthenticator m' = Inr \<lparr>auth_keys = map ?key m'\<rparr>"
    using ok set by (simp add: NewStaticAuthenticator_def static_keys_iff list_all_iff)
  have same: "filter (\<lambda>k. key_digest k = d) (map ?key m') = filter (\<lambda>k. key_digest k = d) (map ?key m)" for d
  proof -
    let ?P = "\<lambda>k. key_digest k = d"
    have "mset (filter ?P (map ?key m')) = mset (filter ?P (map ?key m))"
      by (simp only: mset_filter mset_map assms(2))
    moreover have "length (filter ?P (map ?key m)) \<le> 1"
    proof -
      have "distinct (map key_digest (map ?key m))"
        using assms(3) by (simp add: comp_def case_prod_unfold)
      then have "distinct (map key_digest (filter ?P (map ?key m)))"
        by (rule distinct_map_filter)
      moreover have "set (map key_digest (filter ?P (map ?key m))) \<subseteq> {d}" by auto
      ultimately have "length (map key_digest (filter ?P (map ?key m))) \<le> card {d}"
        by (metis card_mono distinct_card finite.emptyI finite.insertI)
      then show ?thesis by simp
    qed
    ultimately show ?thesis by (rule mset_eq_short)
  qed
  have "Authenticate (Some \<lparr>auth_keys = map ?key m'\<rparr>) apiKey = Authenticate (Some a) apiKey" for apiKey
  proof (cases "m = [] \<or> apiKey = []")
    case True
    then show ?thesis using keys len by (auto simp: Authenticate_def)
  next
    case False
    then have "m \<noteq> []" "m' \<noteq> []" and key: "apiKey \<noteq> []" using len by auto
    then have "auth_keys a \<noteq> []" "auth_keys \<lparr>auth_keys = map ?key m'\<rparr> \<noteq> []" using keys by simp_all
    from this [THEN Authenticate_eq, OF key] show ?thesis
      by (simp only: keys StaticAuthenticator.simps same)
  qed
  with a' show ?thesis by blast
qed

theorem Authenticate_map_order_witness:
  "\<exists>a a'. NewStaticAuthenticator [(''alice'', ''k1'')] = Inr a \<and>
     NewStaticAuthenticator [(''alice'', ''k1'')] = Inr a' \<and>
     (\<forall>apiKey. Authenticate (Some a') apiKey = Authenticate (Some a) apiKey)"
proof -
  let ?m = "[(''alice'', ''k1'')]"
  obtain a where a: "NewStaticAuthenticator ?m = Inr a"
    by (simp add: NewStaticAuthenticator_def)
  have "distinct (map (\<lambda>(owner, key). Sum256 key) ?m)" by simp
  from Authenticate_map_order [OF a refl this] a show ?thesis by blast
qed

text \<open>
  Two owners may be configured with the same key; then the owner a request is attributed to is
  the one the runtime happens to range over last, so it may change between two starts of the
  server.
\<close>

lemma shared_key_owner_depends_on_order:
  "\<exists>a b. NewStaticAuthenticator [(''alice'', ''k''), (''bob'', ''k'')] = Inr a \<and>
     NewStaticAuthenticator [(''bob'', ''k''), (''alice'', ''k'')] = Inr b \<and>
     Authenticate (Some a) ''k'' = Inr \<lparr>principal_ID = ''bob''\<rparr> \<and>
     Authenticate (Some b) ''k'' = Inr \<lparr>principal_ID = ''alice''\<rparr>"
  by (simp add: NewStaticAuthenticator_def Authenticate_def ConstantTimeCompare_def Let_def)

end
