(* ===== verification/Processor.thy ===== *)
theory Processor
  imports Inference Jobs
begin

text \<open>
  \<open>lib/jobs/processor.go\<close>: running one job. \<open>find\<close> is the \<open>ModelResolver\<close>, \<open>generate\<close> the
  method of \<open>inference.Client\<close>; its first argument is the context it is called with: the time
  allowed (\<open>None\<close> without a timeout) and the parent's \<open>Err()\<close>.
\<close>

type_synonym call_context = "duration option \<times> go_context"
type_synonym generate = "call_context \<Rightarrow> inference_request \<Rightarrow> go_error + inference_response"

definition Process ::
  "(ModelID \<Rightarrow> Model option) \<Rightarrow> generate \<Rightarrow> call_context \<Rightarrow> Job \<Rightarrow> go_error + Result" where
  "Process find_model generate ctx job =
     (case find_model (ModelCatalog (job_Request job)) of
        None \<Rightarrow> Inl (JobsError (UnknownModelCatalog (ModelCatalog (job_Request job))))
      | Some catalogModel \<Rightarrow>
        let request = Translation (job_Request job) in
        if \<not> Model_SupportsLanguage catalogModel (TargetLanguage request)
        then Inl (JobsError (CatalogNoTarget (ModelCatalog (job_Request job)) (TargetLanguage request)))
        else if SourceLanguage request \<noteq> [] \<and>
          \<not> Model_SupportsLanguage catalogModel (SourceLanguage request)
        then Inl (JobsError (CatalogNoSource (ModelCatalog (job_Request job)) (SourceLanguage request)))
        else (case Model_BuildInput catalogModel request of
                Inl err \<Rightarrow> Inl err
              | Inr input \<Rightarrow>
                let profile = (if Profile (job_Request job) = [] then ProfileOfficial
                               else Profile (job_Request job))
                in case Model_Options catalogModel profile of
                     Inl err \<Rightarrow> Inl err
                   | Inr options \<Rightarrow>
                     (case generate ctx (NewRequest (req_Model (job_Request job)) input options) of
                        Inl err \<Rightarrow> Inl err
                      | Inr response \<Rightarrow>
                        let usage = TokenUsage response in
                        Inr \<lparr>res_Translation = OutputText response,
                             res_Model = ProviderModel response,
                             res_FinishReason = FinishReason response,
                             res_PromptTokens = PromptTokens usage,
                             res_OutputTokens = CompletionTokens usage,
                             res_TotalTokens = TotalTokens usage\<rparr>)))"

section \<open>Lemmas\<close>

text \<open>What the client is asked for a request, when the request is well formed.\<close>

definition effective_profile :: "OptionProfile \<Rightarrow> OptionProfile" where
  "effective_profile p = (if p = [] then ProfileOfficial else p)"

definition generation :: "(ModelID \<Rightarrow> Model option) \<Rightarrow> Request \<Rightarrow> go_error + inference_request" where
  "generation find_model r =
     (case find_model (ModelCatalog r) of
        None \<Rightarrow> Inl (JobsError (UnknownModelCatalog (ModelCatalog r)))
      | Some m \<Rightarrow>
        if \<not> Model_SupportsLanguage m (TargetLanguage (Translation r))
        then Inl (JobsError (CatalogNoTarget (ModelCatalog r) (TargetLanguage (Translation r))))
        else if SourceLanguage (Translation r) \<noteq> [] \<and>
          \<not> Model_SupportsLanguage m (SourceLanguage (Translation r))
        then Inl (JobsError (CatalogNoSource (ModelCatalog r) (SourceLanguage (Translation r))))
        else case Model_BuildInput m (Translation r) of
               Inl e \<Rightarrow> Inl e
             | Inr i \<Rightarrow> (case Model_Options m (effective_profile (Profile r)) of
                           Inl e \<Rightarrow> Inl e
                         | Inr opts \<Rightarrow> Inr (NewRequest (req_Model r) i opts)))"

definition job_result :: "inference_response \<Rightarrow> Result" where
  "job_result response =
     \<lparr>res_Translation = OutputText response, res_Model = ProviderModel response,
      res_FinishReason = FinishReason response,
      res_PromptTokens = PromptTokens (TokenUsage response),
      res_OutputTokens = CompletionTokens (TokenUsage response),
      res_TotalTokens = TotalTokens (TokenUsage response)\<rparr>"

text \<open>A job is run by preparing one generation request and calling the client once.\<close>

lemma Process_eq:
  "Process find_model generate ctx job =
     (case generation find_model (job_Request job) of
        Inl e \<Rightarrow> Inl e
      | Inr q \<Rightarrow> (case generate ctx q of Inl e \<Rightarrow> Inl e | Inr response \<Rightarrow> Inr (job_result response)))"
  unfolding Process_def generation_def effective_profile_def [symmetric] Let_def job_result_def
  by (auto split: option.splits sum.splits)

lemma generation_Inr:
  "generation find_model r = Inr q \<longleftrightarrow>
     (\<exists>m i opts. find_model (ModelCatalog r) = Some m \<and>
        Model_SupportsLanguage m (TargetLanguage (Translation r)) \<and>
        (SourceLanguage (Translation r) = [] \<or> Model_SupportsLanguage m (SourceLanguage (Translation r))) \<and>
        Model_BuildInput m (Translation r) = Inr i \<and>
        Model_Options m (effective_profile (Profile r)) = Inr opts \<and>
        q = NewRequest (req_Model r) i opts)"
  unfolding generation_def by (auto split: option.splits sum.splits if_splits)


end
