(* ===== verification/Scheduler.thy ===== *)
theory Scheduler
  imports Jobs Memory
begin

text \<open>
  \<open>lib/jobs/scheduler.go\<close>: the workers that take deliveries, run jobs and settle them. The
  handler is split at its calls of the store, in the order the code makes them: load, mark
  running, run, complete, settle. A phase ends in a verdict: acknowledge, give back, or go on.
  Errors passed to \<open>report\<close> are collected in order; without an \<open>OnError\<close> hook they are dropped.

  \<open>process\<close> is the \<open>Processor\<close>, called with the time allowed for the job; \<open>tbl\<close> is the Unicode
  table of the error texts. The lemmas hold for every backend that meets \<open>job_backend\<close>.
\<close>

section \<open>The scheduler\<close>

text \<open>\<open>Run\<close> refuses to start without its parts, and starts at least one worker.\<close>

definition Run_concurrency :: "bool \<Rightarrow> bool \<Rightarrow> bool \<Rightarrow> int \<Rightarrow> go_error + nat" where
  "Run_concurrency has_queue has_store has_processor concurrency =
     (if \<not> has_queue \<or> \<not> has_store \<or> \<not> has_processor then Inl (JobsError SchedulerIncomplete)
      else Inr (nat (if concurrency \<le> 0 then 1 else concurrency)))"

definition report :: "bool \<Rightarrow> go_error + unit \<Rightarrow> go_error list \<Rightarrow> go_error list" where
  "report onError r errors =
     (case r of Inl err \<Rightarrow> if onError then errors @ [err] else errors | Inr _ \<Rightarrow> errors)"

section \<open>Handling a delivery\<close>

datatype verdict = AckIt | NackIt | Proceed Job

definition handle_load ::
  "'s Store \<Rightarrow> ('s, 'd) Queue \<Rightarrow> bool \<Rightarrow> go_context \<Rightarrow> 'd \<Rightarrow> 's \<Rightarrow> verdict \<times> go_error list \<times> 's" where
  "handle_load S Q onError parent delivery s =
     (case store_Get S parent (delivery_JobID Q delivery) s of
        (Inl err, s') \<Rightarrow>
          if errors_Is err ErrNotFound then (AckIt, [], s')
          else (NackIt, report onError (Inl (Wrap (LoadJob (delivery_JobID Q delivery)) err)) [], s')
      | (Inr job, s') \<Rightarrow>
          if job_Status job \<noteq> StatusQueued \<and> job_Status job \<noteq> StatusRunning then (AckIt, [], s')
          else (Proceed job, [], s'))"

definition running_update :: "time \<Rightarrow> Update" where
  "running_update now =
     \<lparr>upd_Status = StatusRunning, upd_Result = None, upd_Error = [], upd_UpdatedAt = now,
      upd_StartedAt = Some now, upd_CompletedAt = None\<rparr>"

definition handle_mark ::
  "'s Store \<Rightarrow> bool \<Rightarrow> go_context \<Rightarrow> time \<Rightarrow> Job \<Rightarrow> 's \<Rightarrow> verdict \<times> go_error list \<times> 's" where
  "handle_mark S onError parent now job0 s =
     (if job_Status job0 = StatusQueued
      then let job = job0\<lparr>StartedAt := Some now\<rparr>
           in case store_Update S parent (job_ID job) (running_update now) s of
                (Inl err, s') \<Rightarrow> (NackIt, report onError (Inl (Wrap (MarkRunning (job_ID job)) err)) [], s')
              | (Inr _, s') \<Rightarrow> (Proceed job, [], s')
      else (Proceed job0, [], s))"

definition completion_update :: "(nat \<Rightarrow> bool) \<Rightarrow> go_error + Result \<Rightarrow> time \<Rightarrow> Update" where
  "completion_update tbl outcome completedAt =
     (let update = \<lparr>upd_Status = StatusSucceeded,
                    upd_Result = (case outcome of Inr result \<Rightarrow> Some result | Inl _ \<Rightarrow> Some zero_result),
                    upd_Error = [], upd_UpdatedAt = completedAt, upd_StartedAt = None,
                    upd_CompletedAt = Some completedAt\<rparr>
      in case outcome of
           Inl processErr \<Rightarrow> update\<lparr>upd_Status := StatusFailed, upd_Result := None,
                                   upd_Error := Error_text tbl processErr\<rparr>
         | Inr _ \<Rightarrow> update)"

definition handle_complete ::
  "(nat \<Rightarrow> bool) \<Rightarrow> 's Store \<Rightarrow> bool \<Rightarrow> go_context \<Rightarrow> time \<Rightarrow> Job \<Rightarrow> go_error + Result \<Rightarrow> 's
     \<Rightarrow> verdict \<times> go_error list \<times> 's" where
  "handle_complete tbl S onError parent completedAt job outcome s =
     (case store_Update S parent (job_ID job) (completion_update tbl outcome completedAt) s of
        (Inl err, s') \<Rightarrow> (NackIt, report onError (Inl (Wrap (CompleteJob (job_ID job)) err)) [], s')
      | (Inr _, s') \<Rightarrow> (AckIt, [], s'))"

text \<open>Settling the delivery; the errors so far come first.\<close>

definition settle ::
  "('s, 'd) Queue \<Rightarrow> bool \<Rightarrow> go_context \<Rightarrow> 'd \<Rightarrow> verdict \<Rightarrow> go_error list \<Rightarrow> 's
     \<Rightarrow> (go_error list \<times> 's) option" where
  "settle Q onError parent delivery verdict errors s = do {
     (r, s') \<leftarrow> (case verdict of
                   NackIt \<Rightarrow> delivery_Nack Q parent delivery s
                 | _ \<Rightarrow> delivery_Ack Q parent delivery s);
     Some (report onError r errors, s')
   }"

text \<open>\<open>handle\<close>: one delivery from load to settlement. The clock is read twice.\<close>

definition process_timeout :: "duration \<Rightarrow> duration option" where
  "process_timeout jobTimeout = (if jobTimeout > 0 then Some jobTimeout else None)"

type_synonym processor = "duration option \<times> go_context \<Rightarrow> Job \<Rightarrow> go_error + Result"

definition handle ::
  "(nat \<Rightarrow> bool) \<Rightarrow> 's Store \<Rightarrow> ('s, 'd) Queue \<Rightarrow> processor \<Rightarrow> duration \<Rightarrow> bool
     \<Rightarrow> time \<Rightarrow> time \<Rightarrow> go_context \<Rightarrow> 'd \<Rightarrow> 's \<Rightarrow> (go_error list \<times> 's) option" where
  "handle tbl S Q process jobTimeout onError now completedAt parent delivery s =
     (case handle_load S Q onError parent delivery s of
        (Proceed job0, errs, s1) \<Rightarrow>
          (case handle_mark S onError parent now job0 s1 of
             (Proceed job, errs1, s2) \<Rightarrow>
               let outcome = process (process_timeout jobTimeout, parent) job in
               (case handle_complete tbl S onError parent completedAt job outcome s2 of
                  (v, errs2, s3) \<Rightarrow> settle Q onError parent delivery v (errs @ errs1 @ errs2) s3)
           | (v, errs1, s2) \<Rightarrow> settle Q onError parent delivery v (errs @ errs1) s2)
      | (v, errs, s1) \<Rightarrow> settle Q onError parent delivery v errs s1)"

section \<open>The worker loop\<close>

text \<open>One turn of a worker: it stops, or goes on.\<close>

definition worker_turn ::
  "(nat \<Rightarrow> bool) \<Rightarrow> 's Store \<Rightarrow> ('s, 'd) Queue \<Rightarrow> processor \<Rightarrow> duration \<Rightarrow> bool
     \<Rightarrow> time \<Rightarrow> time \<Rightarrow> go_context \<Rightarrow> 's \<Rightarrow> (bool \<times> go_error list \<times> 's) option" where
  "worker_turn tbl S Q process jobTimeout onError now completedAt ctx s = do {
     (received, s1) \<leftarrow> queue_Receive Q ctx s;
     case received of
       Inl err \<Rightarrow> if ctx \<noteq> None \<or> errors_Is err ErrClosed then Some (True, [], s1)
                  else Some (False, report onError (Inl (Wrap ReceiveJob err)) [], s1)
     | Inr None \<Rightarrow> Some (False, report onError (Inl (JobsError NilDelivery)) [], s1)
     | Inr (Some delivery) \<Rightarrow> do {
         (errors, s2) \<leftarrow> handle tbl S Q process jobTimeout onError now completedAt ctx delivery s1;
         Some (False, errors, s2)
       }
   }"

text \<open>The turns of one worker while nobody else runs: each with its context and clock readings.\<close>

fun runWorker ::
  "(nat \<Rightarrow> bool) \<Rightarrow> 's Store \<Rightarrow> ('s, 'd) Queue \<Rightarrow> processor \<Rightarrow> duration \<Rightarrow> bool
     \<Rightarrow> (go_context \<times> time \<times> time) list \<Rightarrow> go_error list \<Rightarrow> 's
     \<Rightarrow> (bool \<times> go_error list \<times> 's) option" where
  "runWorker tbl S Q process jobTimeout onError [] errors s = Some (False, errors, s)"
| "runWorker tbl S Q process jobTimeout onError ((ctx, now, completedAt) # turns) errors s =
     (case worker_turn tbl S Q process jobTimeout onError now completedAt ctx s of
        None \<Rightarrow> None
      | Some (stop, errs, s') \<Rightarrow>
          if stop then Some (True, errors @ errs, s')
          else runWorker tbl S Q process jobTimeout onError turns (errors @ errs) s')"

section \<open>Lemmas\<close>

text \<open>A job that no worker runs any more.\<close>

definition finished :: "Job \<Rightarrow> bool" where
  "finished j \<longleftrightarrow> job_Status j \<noteq> StatusQueued \<and> job_Status j \<noteq> StatusRunning"

definition same_identity :: "Job \<Rightarrow> Job \<Rightarrow> bool" where
  "same_identity j j' \<longleftrightarrow> job_ID j' = job_ID j \<and> OwnerID j' = OwnerID j \<and>
     job_Request j' = job_Request j \<and> CreatedAt j' = CreatedAt j \<and> ExpiresAt j' = ExpiresAt j"

lemma same_identity_refl [simp]: "same_identity j j"
  by (simp add: same_identity_def)

lemma same_identity_trans: "same_identity a b \<Longrightarrow> same_identity b c \<Longrightarrow> same_identity a c"
  by (simp add: same_identity_def)

lemma same_identity_update [simp]: "same_identity j (apply_update u j')  = same_identity j j'"
  by (simp add: same_identity_def)

lemma completion_finished:
  "upd_Status u = upd_Status (completion_update tbl outcome t) \<Longrightarrow> finished (apply_update u j)"
  by (cases outcome) (auto simp: finished_def completion_update_def)

lemma running_not_finished: "\<not> finished (apply_update (running_update t) j)"
  by (simp add: finished_def running_update_def)

definition touches_only :: "string \<Rightarrow> (string \<Rightarrow> Job option) \<Rightarrow> (string \<Rightarrow> Job option) \<Rightarrow> bool" where
  "touches_only i f g \<longleftrightarrow>
     (\<forall>k. k \<noteq> i \<longrightarrow> g k = f k) \<and>
     (case f i of None \<Rightarrow> g i = None | Some j \<Rightarrow> (\<exists>j'. g i = Some j' \<and> same_identity j j'))"

lemma touches_only_refl [simp]: "touches_only i f f"
  by (auto simp: touches_only_def split: option.split)

lemma touches_only_trans: "touches_only i f g \<Longrightarrow> touches_only i g h \<Longrightarrow> touches_only i f h"
  by (auto simp: touches_only_def split: option.splits intro: same_identity_trans)

lemma touches_only_update: "f i = Some j \<Longrightarrow> touches_only i f (f(i \<mapsto> apply_update u j))"
  by (simp add: touches_only_def)

text \<open>Giving the delivery back failed, with an error that was reported if anybody listens.\<close>

definition nack_failed :: "('s, 'd) Queue \<Rightarrow> bool \<Rightarrow> go_context \<Rightarrow> 'd \<Rightarrow> go_error list \<Rightarrow> bool" where
  "nack_failed Q onError ctx d errors \<longleftrightarrow>
     (\<exists>e s0 s1. delivery_Nack Q ctx d s0 = Some (Inl e, s1) \<and> (onError \<longrightarrow> e \<in> set errors))"

context job_backend
begin

lemma handle_load:
  assumes "inv s" and "handle_load S Q onError ctx d s = (v, errs, s')"
  shows "inv s' \<and> jobs s' = jobs s \<and> waiting s' = waiting s \<and> outstanding s' = outstanding s \<and>
    (case v of
       AckIt \<Rightarrow> (case jobs s (delivery_JobID Q d) of None \<Rightarrow> True | Some j \<Rightarrow> finished j)
     | NackIt \<Rightarrow> True
     | Proceed j \<Rightarrow> jobs s (delivery_JobID Q d) = Some j \<and> \<not> finished j)"
proof -
  obtain rj s1 where get: "store_Get S ctx (delivery_JobID Q d) s = (rj, s1)" by force
  note found = Get [OF assms(1) get] Get_waiting [OF assms(1) get]
  show ?thesis
  proof (cases rj)
    case (Inl e)
    with assms(2) found get show ?thesis
      by (auto simp: handle_load_def split: if_splits)
  next
    case (Inr j)
    with assms(2) found get show ?thesis
      by (auto simp: handle_load_def finished_def split: if_splits)
  qed
qed

lemma handle_mark:
  assumes "inv s" and "handle_mark S onError ctx now j s = (v, errs, s')"
    and "jobs s (job_ID j) = Some j" and "updatable (running_update now)"
  shows "inv s' \<and> waiting s' = waiting s \<and> outstanding s' = outstanding s \<and> touches_only (job_ID j) (jobs s) (jobs s') \<and>
    v \<noteq> AckIt \<and> (\<forall>j'. v = Proceed j' \<longrightarrow> job_ID j' = job_ID j)"
proof (cases "job_Status j = StatusQueued")
  case False
  with assms show ?thesis by (auto simp: handle_mark_def)
next
  case True
  obtain r0 s1 where upd: "store_Update S ctx (job_ID j) (running_update now) s = (r0, s1)" by force
  from Update [OF assms(1,4) upd] Update_waiting [OF assms(1) upd] assms(3)
  have "inv s1 \<and> waiting s1 = waiting s \<and> outstanding s1 = outstanding s \<and> touches_only (job_ID j) (jobs s) (jobs s1)"
    by (auto intro: touches_only_update)
  with True upd assms(2) show ?thesis
    by (cases r0) (auto simp: handle_mark_def)
qed

lemma handle_complete:
  assumes "inv s" and "handle_complete tbl S onError ctx t j outcome s = (v, errs, s')"
    and "updatable (completion_update tbl outcome t)"
  shows "inv s' \<and> waiting s' = waiting s \<and> outstanding s' = outstanding s \<and> touches_only (job_ID j) (jobs s) (jobs s') \<and>
    (\<forall>k. v \<noteq> Proceed k) \<and> (v = AckIt \<longrightarrow> (\<exists>j'. jobs s' (job_ID j) = Some j' \<and> finished j'))"
proof -
  let ?u = "completion_update tbl outcome t"
  obtain r0 s1 where upd: "store_Update S ctx (job_ID j) ?u s = (r0, s1)" by force
  from Update [OF assms(1,3) upd] Update_waiting [OF assms(1) upd]
  have "inv s1 \<and> waiting s1 = waiting s \<and> outstanding s1 = outstanding s \<and> touches_only (job_ID j) (jobs s) (jobs s1) \<and>
      (r0 = Inr () \<longrightarrow> (\<exists>j'. jobs s1 (job_ID j) = Some j' \<and> finished j'))"
    by (auto intro: touches_only_update completion_finished [OF keep_status])
  with upd assms(2) show ?thesis
    by (cases r0) (auto simp: handle_complete_def)
qed

lemma settle:
  assumes "inv s" and "outstanding s d" and "settle Q onError ctx d v errs s = Some (errors, s')"
  shows "inv s' \<and> jobs s' = jobs s \<and> set errs \<subseteq> set errors \<and>
    waiting s - {delivery_JobID Q d} \<subseteq> waiting s' \<and>
    (v = NackIt \<longrightarrow> delivery_JobID Q d \<in> waiting s' \<or>
       nack_failed Q onError ctx d errors)"
proof (cases "v = NackIt")
  case True
  with assms(3) obtain r0 where "delivery_Nack Q ctx d s = Some (r0, s')" "errors = report onError r0 errs"
    by (auto simp: settle_def bind_eq_Some_conv)
  with Nack [OF assms(1,2) this(1)] True show ?thesis
    by (cases r0) (auto simp: report_def nack_failed_def)
next
  case False
  with assms(3) obtain r0 where "delivery_Ack Q ctx d s = Some (r0, s')" "errors = report onError r0 errs"
    by (auto simp: settle_def bind_eq_Some_conv split: verdict.splits)
  with Ack(1) [OF assms(1,2) this(1)] Ack(2) [OF assms(1) this(1)] False show ?thesis
    by (cases r0) (auto simp: report_def)
qed

text \<open>What one delivery does to the jobs and to the queue.\<close>

lemma handle_all:
  assumes inv: "inv s" and out: "outstanding s d"
    and call: "handle tbl S Q process timeout onError now completedAt ctx d s = Some (errors, s')"
    and mark: "updatable (running_update now)"
    and fin: "\<And>job. updatable (completion_update tbl (process (process_timeout timeout, ctx) job) completedAt)"
  shows "inv s' \<and> touches_only (delivery_JobID Q d) (jobs s) (jobs s') \<and>
    waiting s - {delivery_JobID Q d} \<subseteq> waiting s' \<and>
    (case jobs s (delivery_JobID Q d) of
       None \<Rightarrow> jobs s' = jobs s
     | Some j \<Rightarrow>
         if finished j then jobs s' = jobs s
         else (\<exists>j'. jobs s' (delivery_JobID Q d) = Some j' \<and> finished j') \<or>
              delivery_JobID Q d \<in> waiting s' \<or>
              nack_failed Q onError ctx d errors)"
proof -
  let ?i = "delivery_JobID Q d"
  obtain v1 e1 s1 where l: "handle_load S Q onError ctx d s = (v1, e1, s1)" by (metis surj_pair)
  note load = handle_load [OF inv l]
  show ?thesis
  proof (cases v1)
    case AckIt
    with call l have "settle Q onError ctx d AckIt e1 s1 = Some (errors, s')" by (simp add: handle_def)
    from settle [OF _ _ this] load AckIt out show ?thesis by (auto split: option.splits)
  next
    case NackIt
    with call l have "settle Q onError ctx d NackIt e1 s1 = Some (errors, s')" by (simp add: handle_def)
    from settle [OF _ _ this] load NackIt out show ?thesis by (auto split: option.splits)
  next
    case (Proceed j)
    with load have j: "jobs s1 ?i = Some j" "\<not> finished j" "job_ID j = ?i" and inv1: "inv s1"
      using keyed [of s ?i j] inv by auto
    obtain v2 e2 s2 where m: "handle_mark S onError ctx now j s1 = (v2, e2, s2)" by (metis surj_pair)
    note marked = handle_mark [OF inv1 m _ mark]
    show ?thesis
    proof (cases v2)
      case AckIt
      with marked j show ?thesis by auto
    next
      case NackIt
      with call l m Proceed have "settle Q onError ctx d NackIt (e1 @ e2) s2 = Some (errors, s')"
        by (simp add: handle_def)
      from settle [OF _ _ this] marked load j NackIt out show ?thesis by auto
    next
      case (Proceed j2)
      let ?o = "process (process_timeout timeout, ctx) j2"
      obtain v3 e3 s3 where c: "handle_complete tbl S onError ctx completedAt j2 ?o s2 = (v3, e3, s3)"
        by (metis surj_pair)
      have "inv s2" and id2: "job_ID j2 = ?i" using marked j Proceed by auto
      note completed = handle_complete [OF \<open>inv s2\<close> c fin]
      have "settle Q onError ctx d v3 (e1 @ e2 @ e3) s3 = Some (errors, s')"
        using call l m c \<open>v1 = Proceed j\<close> Proceed by (simp add: handle_def)
      note settled = settle [OF _ _ this]
      have "touches_only ?i (jobs s) (jobs s')"
        using settled completed marked load j id2 out by (auto intro: touches_only_trans)
      moreover have "v3 = AckIt \<or> v3 = NackIt" using completed by (cases v3) auto
      ultimately show ?thesis
        using settled completed marked load j id2 out by auto
    qed
  qed
qed

end

subsection \<open>Many turns\<close>

text \<open>Some delivery of the job could not be given back, and the error was reported.\<close>

definition some_nack_failed :: "('s, 'd) Queue \<Rightarrow> bool \<Rightarrow> string \<Rightarrow> go_error list \<Rightarrow> bool" where
  "some_nack_failed Q onError i errors \<longleftrightarrow>
     (\<exists>ctx d. delivery_JobID Q d = i \<and> nack_failed Q onError ctx d errors)"

lemma some_nack_failed_mono:
  "some_nack_failed Q onError i errors \<Longrightarrow> set errors \<subseteq> set errors' \<Longrightarrow> some_nack_failed Q onError i errors'"
  unfolding some_nack_failed_def nack_failed_def by blast

text \<open>A job that was there stays, as the same job, and once finished it does not change.\<close>

definition kept :: "(string \<Rightarrow> Job option) \<Rightarrow> (string \<Rightarrow> Job option) \<Rightarrow> bool" where
  "kept f g \<longleftrightarrow> dom g = dom f \<and>
     (\<forall>i j. f i = Some j \<longrightarrow>
        (\<exists>j'. g i = Some j' \<and> same_identity j j' \<and> (finished j \<longrightarrow> j' = j)))"

lemma kept_refl [simp]: "kept f f"
  by (simp add: kept_def)

lemma kept_trans: "kept f g \<Longrightarrow> kept g h \<Longrightarrow> kept f h"
  unfolding kept_def
proof (elim conjE, intro conjI allI impI)
  fix i j
  assume fg: "\<forall>i j. f i = Some j \<longrightarrow> (\<exists>j'. g i = Some j' \<and> same_identity j j' \<and> (finished j \<longrightarrow> j' = j))"
    and gh: "\<forall>i j. g i = Some j \<longrightarrow> (\<exists>j'. h i = Some j' \<and> same_identity j j' \<and> (finished j \<longrightarrow> j' = j))"
    and "f i = Some j"
  then obtain j1 where "g i = Some j1" "same_identity j j1" "finished j \<longrightarrow> j1 = j" by blast
  moreover from this gh obtain j2 where "h i = Some j2" "same_identity j1 j2" "finished j1 \<longrightarrow> j2 = j1"
    by blast
  ultimately show "\<exists>j'. h i = Some j' \<and> same_identity j j' \<and> (finished j \<longrightarrow> j' = j)"
    using same_identity_trans by auto
qed simp

lemma kept_finished: "kept f g \<Longrightarrow> f i = Some j \<Longrightarrow> finished j \<Longrightarrow> g i = Some j"
  by (auto simp: kept_def)

lemma touches_only_kept:
  assumes "touches_only i f g" and "\<And>j. f i = Some j \<Longrightarrow> finished j \<Longrightarrow> g = f"
  shows "kept f g"
  unfolding kept_def
proof (intro conjI allI impI)
  show "dom g = dom f"
  proof (rule set_eqI)
    fix k
    show "k \<in> dom g \<longleftrightarrow> k \<in> dom f"
      using assms(1) by (cases "k = i"; cases "f i") (auto simp: touches_only_def dom_def)
  qed
  fix k j
  assume "f k = Some j"
  with assms show "\<exists>j'. g k = Some j' \<and> same_identity j j' \<and> (finished j \<longrightarrow> j' = j)"
    by (cases "k = i") (auto simp: touches_only_def split: option.splits)
qed

context reliable_backend
begin

lemma turn:
  assumes inv: "inv s"
    and call: "worker_turn tbl S Q process timeout onError now completedAt ctx s = Some (stop, errors, s')"
    and mark: "updatable (running_update now)"
    and fin: "\<And>job. updatable (completion_update tbl (process (process_timeout timeout, ctx) job) completedAt)"
  shows "inv s' \<and> kept (jobs s) (jobs s') \<and>
    (\<forall>i j. i \<in> waiting s \<longrightarrow> jobs s i = Some j \<longrightarrow> \<not> finished j \<longrightarrow>
       i \<in> waiting s' \<or> (\<exists>j'. jobs s' i = Some j' \<and> finished j') \<or> some_nack_failed Q onError i errors)"
proof -
  obtain rd s1 where recv: "queue_Receive Q ctx s = Some (rd, s1)"
    using call by (auto simp: worker_turn_def bind_eq_Some_conv)
  note received = Receive [OF inv recv]
  show ?thesis
  proof (cases "\<exists>d. rd = Inr (Some d)")
    case False
    with call recv have "s' = s1"
      by (auto simp: worker_turn_def split: sum.splits option.splits if_splits)
    with received False show ?thesis by (auto split: sum.splits option.splits)
  next
    case True
    then obtain d where d: "rd = Inr (Some d)" by blast
    with call recv have h: "handle tbl S Q process timeout onError now completedAt ctx d s1 = Some (errors, s')"
      by (auto simp: worker_turn_def bind_eq_Some_conv)
    have inv1: "inv s1" and same: "jobs s1 = jobs s" and out: "outstanding s1 d"
      using received d received_outstanding [OF inv recv [unfolded d]] by auto
    note all = handle_all [OF inv1 out h mark fin]
    have fixed: "jobs s' = jobs s1" if "jobs s1 (delivery_JobID Q d) = Some j" "finished j" for j
      using all that by auto
    have "kept (jobs s) (jobs s')"
      using touches_only_kept [of "delivery_JobID Q d" "jobs s1" "jobs s'"] fixed all same by metis
    moreover have "i \<in> waiting s' \<or> (\<exists>j'. jobs s' i = Some j' \<and> finished j') \<or> some_nack_failed Q onError i errors"
      if "i \<in> waiting s" "jobs s i = Some j" "\<not> finished j" for i j
    proof (cases "i = delivery_JobID Q d")
      case True
      with that all same show ?thesis by (auto simp: some_nack_failed_def)
    next
      case False
      with that all received d show ?thesis by auto
    qed
    ultimately show ?thesis using all by blast
  qed
qed

lemma turns:
  assumes "inv s" and "runWorker tbl S Q process timeout onError ts errors s = Some (stop, errors', s')"
    and "list_all (\<lambda>(ctx, now, completedAt). updatable (running_update now) \<and>
      (\<forall>job. updatable (completion_update tbl (process (process_timeout timeout, ctx) job) completedAt))) ts"
  shows "inv s' \<and> kept (jobs s) (jobs s') \<and> set errors \<subseteq> set errors' \<and>
    (\<forall>i j. i \<in> waiting s \<longrightarrow> jobs s i = Some j \<longrightarrow> \<not> finished j \<longrightarrow>
       i \<in> waiting s' \<or> (\<exists>j'. jobs s' i = Some j' \<and> finished j') \<or> some_nack_failed Q onError i errors')"
  using assms
proof (induction ts arbitrary: errors s)
  case Nil
  then show ?case by auto
next
  case (Cons t ts)
  obtain ctx now completedAt where t: "t = (ctx, now, completedAt)" by (cases t)
  from Cons.prems(2) obtain halt errs s1 where
    w: "worker_turn tbl S Q process timeout onError now completedAt ctx s = Some (halt, errs, s1)"
    by (auto simp: t split: option.splits)
  have first: "inv s1 \<and> kept (jobs s) (jobs s1) \<and>
    (\<forall>i j. i \<in> waiting s \<longrightarrow> jobs s i = Some j \<longrightarrow> \<not> finished j \<longrightarrow>
       i \<in> waiting s1 \<or> (\<exists>j'. jobs s1 i = Some j' \<and> finished j') \<or> some_nack_failed Q onError i errs)"
    using turn [OF Cons.prems(1) w] Cons.prems(3) by (simp add: t)
  show ?case
  proof (cases halt)
    case True
    with Cons.prems(2) w have "s' = s1" "errors' = errors @ errs" by (auto simp: t)
    moreover have "some_nack_failed Q onError i (errors @ errs)" if "some_nack_failed Q onError i errs" for i
      using that by (rule some_nack_failed_mono) simp
    ultimately show ?thesis using first by auto
  next
    case False
    with Cons.prems(2) w
    have "runWorker tbl S Q process timeout onError ts (errors @ errs) s1 = Some (stop, errors', s')"
      by (simp add: t)
    from Cons.IH [OF _ this] first Cons.prems(3)
    have rest: "inv s' \<and> kept (jobs s1) (jobs s') \<and> set (errors @ errs) \<subseteq> set errors' \<and>
      (\<forall>i j. i \<in> waiting s1 \<longrightarrow> jobs s1 i = Some j \<longrightarrow> \<not> finished j \<longrightarrow>
         i \<in> waiting s' \<or> (\<exists>j'. jobs s' i = Some j' \<and> finished j') \<or> some_nack_failed Q onError i errors')"
      by simp
    have "i \<in> waiting s' \<or> (\<exists>j'. jobs s' i = Some j' \<and> finished j') \<or> some_nack_failed Q onError i errors'"
      if i: "i \<in> waiting s" "jobs s i = Some j" "\<not> finished j" for i j
    proof -
      obtain j1 where j1: "jobs s1 i = Some j1" using first i(2) unfolding kept_def by blast
      consider "finished j1" | "\<not> finished j1" "i \<in> waiting s1" | "some_nack_failed Q onError i errs"
        using first i j1 by (metis option.inject)
      then show ?thesis
      proof cases
        case 1
        with rest j1 kept_finished show ?thesis by blast
      next
        case 2
        with rest j1 show ?thesis by blast
      next
        case 3
        with rest show ?thesis by (auto intro: some_nack_failed_mono)
      qed
    qed
    with first rest show ?thesis by (auto intro: kept_trans)
  qed
qed

end

section \<open>Properties\<close>

text \<open>
  C1. Handling one outstanding delivery, over any backend that meets the contract: no other job changes; a
  missing or finished job changes nothing; and a job still to be done is finished afterwards,
  or waits in the queue again, or giving it back failed with an error that was reported. So a
  delivery is acknowledged only for a job that needs no more work.
\<close>

theorem handle_no_lost_job:
  assumes "job_backend S jobs invar canon keep storable updatable Q waiting accepts outstanding" and "invar s"
    and "outstanding s d"
    and "handle tbl S Q process timeout onError now completedAt ctx d s = Some (errors, s')"
    and "updatable (running_update now)"
    and "\<And>job. updatable (completion_update tbl (process (process_timeout timeout, ctx) job) completedAt)"
  shows "(\<forall>k. k \<noteq> delivery_JobID Q d \<longrightarrow> jobs s' k = jobs s k) \<and>
    waiting s - {delivery_JobID Q d} \<subseteq> waiting s' \<and>
    (case jobs s (delivery_JobID Q d) of
       None \<Rightarrow> jobs s' = jobs s
     | Some j \<Rightarrow>
         if finished j then jobs s' = jobs s
         else (\<exists>j'. jobs s' (delivery_JobID Q d) = Some j' \<and> finished j') \<or>
              delivery_JobID Q d \<in> waiting s' \<or> nack_failed Q onError ctx d errors)"
  using job_backend.handle_all [OF assms(1-5)] assms(6) unfolding touches_only_def by blast

text \<open>The memory backend with one queued job, taken by a worker.\<close>

definition hello_job :: Job where
  "hello_job = \<lparr>job_ID = ''1'', OwnerID = ''alice'', job_Status = StatusQueued,
     job_Request = zero_request, job_Result = None, job_Error = [], CreatedAt = 0, UpdatedAt = 0,
     StartedAt = None, CompletedAt = None, ExpiresAt = 100\<rparr>"

definition hello_backend :: Backend where
  "hello_backend = snd (memory_Create None hello_job (memory_New 4))"

definition failing_processor :: processor where
  "failing_processor ctx job = Inl (External ''no server'')"

lemma hello_backend: "mem_inv hello_backend" "mem_jobs hello_backend ''1'' = Some hello_job"
  by (simp_all add: hello_backend_def memory_Create_def memory_New_def mem_inv_def mem_jobs_def
      hello_job_def go_map_def)

theorem handle_no_lost_job_witness:
  "\<exists>errors s'. handle (\<lambda>_. True) memory_Store (memory_Queue False) failing_processor 0 True 5 9 None ''1''
       hello_backend = Some (errors, s') \<and>
     (\<forall>k. k \<noteq> ''1'' \<longrightarrow> mem_jobs s' k = mem_jobs hello_backend k)"
proof -
  have "handle (\<lambda>_. True) memory_Store (memory_Queue False) failing_processor 0 True 5 9 None ''1''
      hello_backend \<noteq> None"
    by code_simp
  then obtain errors s' where h: "handle (\<lambda>_. True) memory_Store (memory_Queue False) failing_processor
      0 True 5 9 None ''1'' hello_backend = Some (errors, s')" by auto
  from handle_no_lost_job [OF mem.job_backend_axioms hello_backend(1) TrueI h] h show ?thesis
    by (simp add: memory_Queue_def memory_JobID_def)
qed

text \<open>
  C5. Whatever a worker does in any number of turns, over any reliable backend:
  no job appears or disappears, each keeps its identity, owner, request and dates, a finished
  job does not change, and every waiting job still to be done is finished, waits again, or
  could not be given back with an error that was reported.
\<close>

theorem runWorker_keeps_jobs:
  assumes "reliable_backend S jobs invar canon keep storable updatable Q waiting accepts outstanding" and "invar s"
    and "runWorker tbl S Q process timeout onError turns [] s = Some (stop, errors, s')"
    and "list_all (\<lambda>(ctx, now, completedAt). updatable (running_update now) \<and>
      (\<forall>job. updatable (completion_update tbl (process (process_timeout timeout, ctx) job) completedAt))) turns"
  shows "dom (jobs s') = dom (jobs s) \<and>
    (\<forall>i j. jobs s i = Some j \<longrightarrow>
       (\<exists>j'. jobs s' i = Some j' \<and> job_ID j' = job_ID j \<and> OwnerID j' = OwnerID j \<and>
          job_Request j' = job_Request j \<and> CreatedAt j' = CreatedAt j \<and> ExpiresAt j' = ExpiresAt j \<and>
          (finished j \<longrightarrow> j' = j) \<and>
          (i \<in> waiting s \<longrightarrow> finished j' \<or> i \<in> waiting s' \<or> some_nack_failed Q onError i errors)))"
proof -
  note all = reliable_backend.turns [OF assms(1-4)]
  have "\<exists>j'. jobs s' i = Some j' \<and> job_ID j' = job_ID j \<and> OwnerID j' = OwnerID j \<and>
      job_Request j' = job_Request j \<and> CreatedAt j' = CreatedAt j \<and> ExpiresAt j' = ExpiresAt j \<and>
      (finished j \<longrightarrow> j' = j) \<and>
      (i \<in> waiting s \<longrightarrow> finished j' \<or> i \<in> waiting s' \<or> some_nack_failed Q onError i errors)"
    if j: "jobs s i = Some j" for i j
  proof -
    obtain j' where j': "jobs s' i = Some j'" "same_identity j j'" "finished j \<longrightarrow> j' = j"
      using all j unfolding kept_def by blast
    have "finished j' \<or> i \<in> waiting s' \<or> some_nack_failed Q onError i errors" if "i \<in> waiting s"
      using all that j j' by (cases "finished j") auto
    with j' show ?thesis by (auto simp: same_identity_def)
  qed
  with all show ?thesis by (simp add: kept_def)
qed

theorem runWorker_keeps_jobs_witness:
  "\<exists>stop errors s'. runWorker (\<lambda>_. True) memory_Store (memory_Queue False) failing_processor 0 True
       [(None, 5, 9)] [] (hello_backend\<lparr>mem_queue := [''1'']\<rparr>) = Some (stop, errors, s') \<and>
     dom (mem_jobs s') = {''1''}"
proof -
  let ?s = "hello_backend\<lparr>mem_queue := [''1'']\<rparr>"
  have inv: "mem_inv ?s" and dom: "dom (mem_jobs ?s) = {''1''}"
    by (simp_all add: hello_backend_def memory_Create_def memory_New_def mem_inv_def mem_jobs_def
        hello_job_def go_map_def)
  have "runWorker (\<lambda>_. True) memory_Store (memory_Queue False) failing_processor 0 True
      [(None, 5, 9)] [] ?s \<noteq> None"
    by code_simp
  then obtain stop errors s' where w: "runWorker (\<lambda>_. True) memory_Store (memory_Queue False)
      failing_processor 0 True [(None, 5, 9)] [] ?s = Some (stop, errors, s')" by force
  from runWorker_keeps_jobs [OF mem.reliable_backend_axioms inv w] dom have "dom (mem_jobs s') = {''1''}"
    by simp
  with w show ?thesis by blast
qed

text \<open>
  C13. With the memory backend, handling the delivery of a queued or running job never blocks and
  reports nothing: the job is marked running if it was queued, run once, and ends succeeded
  with the result or failed with the error's text, with both instants recorded.
\<close>

theorem memory_handle_runs_job:
  assumes "mem_inv b" and "mem_jobs b i = Some j"
    and "job_Status j = StatusQueued \<or> job_Status j = StatusRunning"
  shows "\<exists>b'. handle tbl memory_Store (memory_Queue pick) process timeout onError now completedAt ctx i b
      = Some ([], b') \<and> mem_queue b' = mem_queue b \<and>
    mem_jobs b' = (mem_jobs b)(i \<mapsto>
      (let started = (if job_Status j = StatusQueued then Some now else StartedAt j);
           outcome = process (process_timeout timeout, ctx) (j\<lparr>StartedAt := started\<rparr>)
       in j\<lparr>job_Status := (if is_ok outcome then StatusSucceeded else StatusFailed),
            job_Result := (case outcome of Inl _ \<Rightarrow> None | Inr result \<Rightarrow> Some result),
            job_Error := (case outcome of Inl e \<Rightarrow> Error_text tbl e | Inr _ \<Rightarrow> []),
            UpdatedAt := completedAt, StartedAt := started, CompletedAt := Some completedAt\<rparr>))"
proof -
  have i: "job_ID j = i" using mem_inv_keyed [OF assms(1,2)] .
  have load: "handle_load memory_Store (memory_Queue pick) onError ctx i b = (Proceed j, [], b)"
    using assms(2,3)
    by (auto simp: handle_load_def memory_Store_def memory_Queue_def memory_JobID_def memory_Get_def
        mem_jobs_def)
  have upd: "store_Update memory_Store c i u b' =
      (Inr (), b'\<lparr>mem_values := AList.update i (apply_update u j') (mem_values b')\<rparr>)"
    if "mem_jobs b' i = Some j'" for c u b' j'
    using memory_Update_hit [OF that] by (simp add: memory_Store_def)
  have ack: "settle (memory_Queue pick) onError ctx i AckIt [] b' = Some ([], b')" for b'
    by (simp add: settle_def memory_Queue_def memory_Ack_def report_def)
  let ?started = "if job_Status j = StatusQueued then Some now else StartedAt j"
  let ?j = "j\<lparr>StartedAt := ?started\<rparr>"
  obtain b1 j1 where mark: "handle_mark memory_Store onError ctx now j b = (Proceed ?j, [], b1)"
    and b1: "mem_jobs b1 = (mem_jobs b)(i \<mapsto> j1)" "mem_queue b1 = mem_queue b"
    and j1: "j1 = (if job_Status j = StatusQueued then apply_update (running_update now) j else j)"
  proof (cases "job_Status j = StatusQueued")
    case True
    then show ?thesis
      using that upd [OF assms(2)] i by (simp add: handle_mark_def mem_jobs_put)
  next
    case False
    then show ?thesis
      using that assms(2) by (simp add: handle_mark_def fun_upd_idem)
  qed
  let ?o = "process (process_timeout timeout, ctx) ?j"
  let ?u = "completion_update tbl ?o completedAt"
  let ?b2 = "b1\<lparr>mem_values := AList.update i (apply_update ?u j1) (mem_values b1)\<rparr>"
  have "mem_jobs b1 i = Some j1" using b1 by simp
  from upd [OF this] have complete:
    "handle_complete tbl memory_Store onError ctx completedAt ?j ?o b1 = (AckIt, [], ?b2)"
    using i by (simp add: handle_complete_def)
  have "handle tbl memory_Store (memory_Queue pick) process timeout onError now completedAt ctx i b
      = Some ([], ?b2)"
    unfolding handle_def load mark complete by (simp add: load mark complete ack Let_def)
  moreover have "apply_update ?u j1 = j\<lparr>job_Status := (if is_ok ?o then StatusSucceeded else StatusFailed),
      job_Result := (case ?o of Inl _ \<Rightarrow> None | Inr result \<Rightarrow> Some result),
      job_Error := (case ?o of Inl e \<Rightarrow> Error_text tbl e | Inr _ \<Rightarrow> []),
      UpdatedAt := completedAt, StartedAt := ?started, CompletedAt := Some completedAt\<rparr>"
    by (cases ?o) (auto simp: j1 apply_update_def completion_update_def running_update_def Let_def)
  ultimately show ?thesis
    using b1 by (intro exI [of _ ?b2]) (simp add: mem_jobs_put Let_def)
qed

theorem memory_handle_runs_job_witness:
  "\<exists>b'. handle (\<lambda>_. True) memory_Store (memory_Queue False) failing_processor 0 True 5 9 None ''1''
       hello_backend = Some ([], b') \<and>
     map_option job_Error (mem_jobs b' ''1'') = Some ''no server''"
proof -
  have "job_Status hello_job = StatusQueued \<or> job_Status hello_job = StatusRunning"
    by (simp add: hello_job_def)
  from memory_handle_runs_job [OF hello_backend this, of "\<lambda>_. True" False failing_processor 0 True 5 9 None]
  show ?thesis by (auto simp: failing_processor_def Let_def)
qed

end
