(* ===== verification/Http.thy ===== *)
theory Http
  imports Job_Json
begin

text \<open>
  What the REST handlers read of a request and write as a response (\<open>writeJSON\<close>,
  \<open>writeError\<close>, \<open>decodeJSON\<close>, \<open>apiKey\<close> of \<open>lib/restapi/handler.go\<close>).
  A response is its status, headers and body. The body of a request is what a JSON decoder
  reads from it when it is limited to a number of bytes.
\<close>

section \<open>Requests and responses\<close>

record http_request =
  http_Header :: "string \<Rightarrow> string"
  http_Query :: "string \<Rightarrow> string"
  http_Body :: "int \<Rightarrow> rat json_input"

datatype (plugins only: code size) http_body = JsonBody "rat json" | RawBody string | NoBody

record Response =
  resp_Status :: int
  resp_ContentType :: string
  resp_Location :: "string option"
  resp_Body :: http_body

text \<open>The encoder's own error is dropped: nothing is written then.\<close>

definition writeJSON :: "string option \<Rightarrow> int \<Rightarrow> go_error + rat json \<Rightarrow> Response" where
  "writeJSON location status value =
     \<lparr>resp_Status = status, resp_ContentType = ''application/json'', resp_Location = location,
      resp_Body = (case value of Inl _ \<Rightarrow> NoBody | Inr j \<Rightarrow> JsonBody j)\<rparr>"

text \<open>A \<open>map[string]any\<close> is written with its keys in order.\<close>

definition writeError :: "int \<Rightarrow> string \<Rightarrow> Response" where
  "writeError status message =
     writeJSON None status (Inr (JObject [(''error'', JObject
       [(''message'', json_string message), (''status'', JNumber (of_int status))])]))"

definition decodeJSON ::
  "(rat json \<Rightarrow> 'a \<Rightarrow> go_error + 'a) \<Rightarrow> int \<Rightarrow> http_request \<Rightarrow> 'a \<Rightarrow> go_error + 'a" where
  "decodeJSON decode limit request target =
     (case http_Body request limit of
        JsonInput [] eof \<Rightarrow>
          Inl (Wrap InvalidJSON (case eof of None \<Rightarrow> External ''EOF'' | Some err \<Rightarrow> err))
      | JsonInput (v # rest) eof \<Rightarrow>
          (case decode v target of
             Inl err \<Rightarrow> Inl (Wrap InvalidJSON err)
           | Inr x \<Rightarrow> if rest = [] \<and> eof = None then Inr x else Inl (ServerError TrailingJSON)))"

definition apiKey :: "http_request \<Rightarrow> string" where
  "apiKey request =
     (case strings_Cut (http_Header request ''Authorization'') (CHR '' '') of
        Some (scheme, value) \<Rightarrow>
          if strings_EqualFold scheme ''Bearer'' then strings_TrimSpace value
          else strings_TrimSpace (http_Header request ''X-API-Key'')
      | None \<Rightarrow> strings_TrimSpace (http_Header request ''X-API-Key''))"

section \<open>Lemmas\<close>

lemma writeJSON_simps [simp]:
  "resp_Status (writeJSON loc st v) = st" "resp_Location (writeJSON loc st v) = loc"
  "resp_Body (writeJSON loc st v) = (case v of Inl _ \<Rightarrow> NoBody | Inr j \<Rightarrow> JsonBody j)"
  by (simp_all add: writeJSON_def)

lemma writeError_status [simp]: "resp_Status (writeError st msg) = st"
  by (simp add: writeError_def)

lemma decodeJSON_Inr:
  "decodeJSON decode limit request x = Inr y \<longleftrightarrow>
     (\<exists>v. http_Body request limit = JsonInput [v] None \<and> decode v x = Inr y)"
  by (auto simp: decodeJSON_def split: json_input.splits list.splits sum.splits option.splits)

end
