(* ===== verification/Rest_Catalog.thy ===== *)
theory Rest_Catalog
  imports Http Models
begin

text \<open>
  \<open>lib/restapi/catalog.go\<close> and \<open>lib/restapi/models.go\<close>: the endpoints that list the model
  catalogs, describe one, preview the input it builds for a request, and forward the model
  list of the inference server. \<open>tbl\<close> is the Unicode table of the error texts. A nil catalog or
  model list is \<open>None\<close>.
\<close>

section \<open>Interfaces\<close>

record Catalog =
  cat_All :: "Model list"
  cat_Find :: "ModelID \<Rightarrow> Model option"

type_synonym list_models = "go_context \<Rightarrow> go_error + (int \<times> string \<times> string)"

text \<open>The built-in catalog, \<open>catalog.Resolver\<close>.\<close>

definition catalog_Resolver :: "(nat \<Rightarrow> bool) \<Rightarrow> Catalog" where
  "catalog_Resolver tbl = \<lparr>cat_All = catalog_All tbl, cat_Find = catalog_Find tbl\<rparr>"

section \<open>Descriptions\<close>

definition knownProfiles :: "OptionProfile list" where
  "knownProfiles = [ProfileOfficial, ProfileDeterministic]"

definition supportedProfiles :: "Model \<Rightarrow> OptionProfile list" where
  "supportedProfiles model = filter (\<lambda>profile. is_ok (Model_Options model profile)) knownProfiles"

definition supportedModelLanguages :: "Model \<Rightarrow> Language list" where
  "supportedModelLanguages model = filter (Model_SupportsLanguage model) SupportedLanguages"

record modelCatalogSummary =
  sum_Descriptor :: Descriptor
  sum_Capabilities :: Capabilities
  sum_Profiles :: "OptionProfile list"
  sum_Languages :: "Language list"

definition summarizeModelCatalog :: "Model \<Rightarrow> modelCatalogSummary" where
  "summarizeModelCatalog model =
     \<lparr>sum_Descriptor = Model_Descriptor model,
      sum_Capabilities = Model_Capabilities model,
      sum_Profiles = supportedProfiles model,
      sum_Languages = supportedModelLanguages model\<rparr>"

fun profile_options ::
  "Model \<Rightarrow> OptionProfile list \<Rightarrow> go_error + (OptionProfile \<times> GenerationOptions) list" where
  "profile_options model [] = Inr []"
| "profile_options model (profile # rest) =
     (case Model_Options model profile of
        Inl err \<Rightarrow> Inl err
      | Inr value \<Rightarrow> (case profile_options model rest of
                        Inl err \<Rightarrow> Inl err
                      | Inr options \<Rightarrow> Inr ((profile, value) # options)))"

definition detailModelCatalog ::
  "Model \<Rightarrow> go_error + (modelCatalogSummary \<times> (OptionProfile \<times> GenerationOptions) list)" where
  "detailModelCatalog model =
     (let summary = summarizeModelCatalog model
      in case profile_options model (sum_Profiles summary) of
           Inl err \<Rightarrow> Inl err
         | Inr options \<Rightarrow> Inr (summary, options))"

subsection \<open>Their JSON\<close>

definition json_strings :: "string list \<Rightarrow> rat json" where
  "json_strings ss = JArray (map json_string ss)"

text \<open>A slice copied with \<open>append\<close> to nil is nil when it is empty.\<close>

definition json_copied_strings :: "string list \<Rightarrow> rat json" where
  "json_copied_strings ss = (if ss = [] then JNull else json_strings ss)"

definition GenerationOptions_json :: "GenerationOptions \<Rightarrow> rat json" where
  "GenerationOptions_json o' = json_struct
     [(''temperature'', map_option JNumber (Temperature o')),
      (''top_p'', map_option JNumber (TopP o')),
      (''top_k'', map_option (\<lambda>n. JNumber (of_int n)) (TopK o')),
      (''repetition_penalty'', map_option JNumber (RepetitionPenalty o')),
      (''do_sample'', map_option JBool (DoSample o')),
      (''max_output_tokens'', omit_int (MaxOutputTokens o')),
      (''stop'', omit_strings (Stop o')),
      (''provenance'', omit_string (Provenance o'))]"

definition modelCatalogCapabilities_json :: "Capabilities \<Rightarrow> rat json" where
  "modelCatalogCapabilities_json c = json_struct
     [(''prompt_kinds'', Some (json_copied_strings (cap_PromptKinds c))),
      (''requires_source_language'', Some (JBool (cap_RequiresSourceLanguage c))),
      (''structured_user_content'', Some (JBool (cap_StructuredUserContent c))),
      (''max_input_tokens'', omit_int (cap_MaxInputTokens c)),
      (''auxiliary_fields'', Some (json_struct
        [(''glossary'', Some (JBool (cap_Glossary c))),
         (''style'', Some (JBool (cap_Style c))),
         (''audience'', Some (JBool (cap_Audience c))),
         (''translatable_attributes'', Some (JBool (cap_TranslatableAttributes c))),
         (''delimiters'', Some (JBool (cap_Delimiters c)))]))]"

definition summary_fields :: "modelCatalogSummary \<Rightarrow> (string \<times> rat json option) list" where
  "summary_fields s =
     [(''id'', Some (json_string (ID (sum_Descriptor s)))),
      (''family'', Some (json_string (Family (sum_Descriptor s)))),
      (''parameters'', omit_string (Parameters (sum_Descriptor s))),
      (''repository'', omit_string (Repository (sum_Descriptor s))),
      (''gguf_repository'', omit_string (GGUFRepository (sum_Descriptor s))),
      (''capabilities'', Some (modelCatalogCapabilities_json (sum_Capabilities s))),
      (''profiles'', Some (json_strings (sum_Profiles s))),
      (''languages'', Some (json_strings (sum_Languages s)))]"

definition detail_json ::
  "modelCatalogSummary \<times> (OptionProfile \<times> GenerationOptions) list \<Rightarrow> rat json" where
  "detail_json d = json_struct (summary_fields (fst d) @
     [(''profile_options'', Some (JObject
        (map (\<lambda>(profile, options). (to_valid_utf8 profile, GenerationOptions_json options))
          (sort_key fst (snd d)))))])"

section \<open>Endpoints\<close>

definition listModelCatalogs :: "Catalog option \<Rightarrow> Response" where
  "listModelCatalogs catalog =
     (case catalog of
        None \<Rightarrow> writeError 503 ''model catalog is unavailable''
      | Some c \<Rightarrow>
          let items = map summarizeModelCatalog (cat_All c)
          in writeJSON None 200 (Inr (JObject [(''model_catalogs'',
               JArray (map (\<lambda>item. json_struct (summary_fields item)) items))])))"

definition getModelCatalog :: "Catalog option \<Rightarrow> string \<Rightarrow> Response" where
  "getModelCatalog catalog mid =
     (case catalog of
        None \<Rightarrow> writeError 503 ''model catalog is unavailable''
      | Some c \<Rightarrow>
        (case cat_Find c mid of
           None \<Rightarrow> writeError 404 ''model catalog not found''
         | Some model \<Rightarrow>
           (case detailModelCatalog model of
              Inl err \<Rightarrow> writeError 500 ''model catalog options unavailable''
            | Inr detail \<Rightarrow> writeJSON None 200 (Inr (detail_json detail)))))"

record modelCatalogPreviewRequest =
  prev_Profile :: OptionProfile
  prev_Translation :: TranslationRequest

definition store_preview ::
  "string \<Rightarrow> rat json \<Rightarrow> modelCatalogPreviewRequest \<Rightarrow> go_error + modelCatalogPreviewRequest" where
  "store_preview name v r =
     (if name = ''profile'' then put (decode_string v (prev_Profile r)) (\<lambda>x. r\<lparr>prev_Profile := x\<rparr>)
      else put (decode_translation True v (prev_Translation r)) (\<lambda>x. r\<lparr>prev_Translation := x\<rparr>))"

definition decode_preview ::
  "rat json \<Rightarrow> modelCatalogPreviewRequest \<Rightarrow> go_error + modelCatalogPreviewRequest" where
  "decode_preview = decode_struct [''profile'', ''translation''] store_preview True"

definition preview_json ::
  "ModelID \<Rightarrow> OptionProfile \<Rightarrow> GenerationOptions \<Rightarrow> ModelInput \<Rightarrow> go_error + rat json" where
  "preview_json mid profile options input =
     (case Messages_json (Messages input) of
        Inl err \<Rightarrow> Inl err
      | Inr messages \<Rightarrow> Inr (json_struct
          [(''model_catalog'', Some (json_string mid)),
           (''profile'', Some (json_string profile)),
           (''options'', Some (GenerationOptions_json options)),
           (''input'', Some (json_struct [(''messages'', Some (JArray messages))]))]))"

definition previewModelCatalog ::
  "(nat \<Rightarrow> bool) \<Rightarrow> Catalog option \<Rightarrow> int \<Rightarrow> string \<Rightarrow> http_request \<Rightarrow> Response" where
  "previewModelCatalog tbl catalog maxBodyBytes mid request =
     (case catalog of
        None \<Rightarrow> writeError 503 ''model catalog is unavailable''
      | Some c \<Rightarrow>
        (case cat_Find c mid of
           None \<Rightarrow> writeError 404 ''model catalog not found''
         | Some model \<Rightarrow>
           (case decodeJSON decode_preview maxBodyBytes request
                   \<lparr>prev_Profile = [], prev_Translation = zero_translation\<rparr> of
              Inl err \<Rightarrow> writeError 400 (Error_text tbl err)
            | Inr input \<Rightarrow>
              (case ValidateTranslationRequest (prev_Translation input) of
                 Inl err \<Rightarrow> writeError 400 (Error_text tbl err)
               | Inr _ \<Rightarrow>
                 let profile = (if prev_Profile input = [] then ProfileOfficial else prev_Profile input)
                 in case Model_Options model profile of
                      Inl err \<Rightarrow> writeError 422 (Error_text tbl err)
                    | Inr options \<Rightarrow>
                      (case Model_BuildInput model (prev_Translation input) of
                         Inl err \<Rightarrow> writeError 422 (Error_text tbl err)
                       | Inr built \<Rightarrow>
                         writeJSON None 200
                           (preview_json (ID (Model_Descriptor model)) profile options built))))))"

definition listModels :: "list_models option \<Rightarrow> go_context \<Rightarrow> Response" where
  "listModels models ctx =
     (case models of
        None \<Rightarrow> writeError 503 ''provider models are unavailable''
      | Some call \<Rightarrow>
        (case call ctx of
           Inl err \<Rightarrow> writeError 502 ''could not reach provider models''
         | Inr (statusCode, contentType, body) \<Rightarrow>
             \<lparr>resp_Status = statusCode,
              resp_ContentType = (if contentType = [] then ''application/json'' else contentType),
              resp_Location = None, resp_Body = RawBody body\<rparr>))"

section \<open>Lemmas\<close>

context translation_model
begin

lemma supportedProfiles: "supportedProfiles m = knownProfiles"
  by (simp add: supportedProfiles_def knownProfiles_def profiles)

lemma profile_options_ok: "set ps \<subseteq> set knownProfiles \<Longrightarrow> is_ok (profile_options m ps)"
proof (induction ps)
  case (Cons p ps)
  then have "is_ok (Model_Options m p)" by (simp add: profiles knownProfiles_def)
  with Cons show ?case by (auto simp: is_ok_iff)
qed simp

lemma detail_ok: "is_ok (detailModelCatalog m)"
  using profile_options_ok [of knownProfiles]
  by (auto simp: detailModelCatalog_def summarizeModelCatalog_def supportedProfiles is_ok_iff)

lemma supported_listed: "l \<in> set (supportedModelLanguages m) \<longleftrightarrow> Model_SupportsLanguage m l"
  using known by (auto simp: supportedModelLanguages_def SupportedLanguages_def Language_Valid_iff)

end

text \<open>
  Every catalog entry can be described: \<open>GET /v1/model-catalogs/{id}\<close> answers 200 for each of
  the six models and 404 for any other identifier, both known profiles are listed, and the
  languages listed are exactly those the model supports.
\<close>

theorem getModelCatalog_status:
  "resp_Status (getModelCatalog (Some (catalog_Resolver tbl)) mid) =
     (if catalog_Find tbl mid = None then 404 else 200) \<and>
   (case catalog_Find tbl mid of
      None \<Rightarrow> True
    | Some m \<Rightarrow> sum_Profiles (summarizeModelCatalog m) = [ProfileOfficial, ProfileDeterministic] \<and>
        set (sum_Languages (summarizeModelCatalog m)) = Collect (Model_SupportsLanguage m))"
proof (cases "catalog_Find tbl mid")
  case None
  then show ?thesis by (simp add: getModelCatalog_def catalog_Resolver_def)
next
  case (Some m)
  then have m: "translation_model m" by (rule catalog_Find_model)
  then have "is_ok (detailModelCatalog m)" by (rule translation_model.detail_ok)
  then show ?thesis
    using Some translation_model.supportedProfiles [OF m] translation_model.supported_listed [OF m]
    by (auto simp: getModelCatalog_def catalog_Resolver_def summarizeModelCatalog_def knownProfiles_def
        is_ok_iff)
qed

lemma preview_marshals:
  assumes "catalog_Find tbl mid = Some m" and "Model_BuildInput m r = Inr i"
  shows "is_ok (preview_json (ID (Model_Descriptor m)) profile options i)"
  using translation_model.built_marshals [OF catalog_Find_model [OF assms(1)] assms(2)]
  by (auto simp: preview_json_def is_ok_iff)


text \<open>A preview of the plain-text request by a TranslateGemma model.\<close>

definition hello_preview :: http_request where
  "hello_preview = \<lparr>http_Header = (\<lambda>_. []), http_Query = (\<lambda>_. []),
     http_Body = (\<lambda>_. JsonInput [JObject [(''translation'', TranslationRequest_json hello_request)]] None)\<rparr>"

lemma hello_request_utf8: "translation_utf8 hello_request"
  by (simp add: translation_utf8_def hello_request_def glossary_entries_def valid_utf8_ascii byte_def)

lemma decode_hello_preview:
  "decodeJSON decode_preview limit hello_preview \<lparr>prev_Profile = [], prev_Translation = zero_translation\<rparr>
     = Inr \<lparr>prev_Profile = [], prev_Translation = hello_request\<rparr>"
proof -
  have "decode_translation True (TranslationRequest_json hello_request) zero_translation = Inr hello_request"
    using decode_translation_json [OF hello_request_utf8] by (simp add: hello_request_def)
  then show ?thesis
    by (simp add: decodeJSON_def hello_preview_def decode_preview_def decode_struct_def store_preview_def)
qed


end
