(* ===== verification/Documentation.thy ===== *)
theory Documentation
  imports Http
begin

text \<open>
  \<open>lib/restapi/documentation.go\<close>: the API description and its pages. The embedded YAML file and
  \<open>yaml.Unmarshal\<close>, which reads it into a map, are parameters; a map is the tree of a JSON object. The
  description is converted once, and what came of it is kept: \<open>doc_cache\<close> is the state of \<open>openAPIOnce\<close>.
\<close>

definition scalarVersion :: string where
  "scalarVersion = ''1.63.0''"

text \<open>The result of the conversion: the document that \<open>json.MarshalIndent\<close> printed, or its error.\<close>

type_synonym doc_cache = "(go_error + rat json) option"

definition json_get :: "string \<Rightarrow> rat json \<Rightarrow> rat json option" where
  "json_get key document = (case document of JObject members \<Rightarrow> map_of (rev members) key | _ \<Rightarrow> None)"

definition convert_document :: "(string \<Rightarrow> go_error + rat json) \<Rightarrow> string \<Rightarrow> go_error + rat json" where
  "convert_document yaml_Unmarshal openAPIYAML =
     (case yaml_Unmarshal openAPIYAML of
        Inl err \<Rightarrow> Inl (Wrap (Step ''parse embedded OpenAPI document'') err)
      | Inr document \<Rightarrow>
          if json_get ''openapi'' document \<noteq> Some (JString ''3.1.0'')
          then Inl (External ''embedded OpenAPI document must use version 3.1.0'')
          else
            (case json_get ''paths'' document of
               Some (JObject _) \<Rightarrow> Inr document
             | _ \<Rightarrow> Inl (External ''embedded OpenAPI document has no paths'')))"

definition openAPIDocumentJSON ::
  "(string \<Rightarrow> go_error + rat json) \<Rightarrow> string \<Rightarrow> doc_cache \<Rightarrow> (go_error + rat json) \<times> doc_cache" where
  "openAPIDocumentJSON yaml_Unmarshal openAPIYAML cache =
     (let result = (case cache of Some r \<Rightarrow> r | None \<Rightarrow> convert_document yaml_Unmarshal openAPIYAML)
      in (result, Some result))"

text \<open>A page: its headers and its bytes.\<close>

record page =
  page_headers :: "(string \<times> string) list"
  page_body :: http_body

definition serveOpenAPIJSON ::
  "(string \<Rightarrow> go_error + rat json) \<Rightarrow> string \<Rightarrow> doc_cache \<Rightarrow> (Response + page) \<times> doc_cache" where
  "serveOpenAPIJSON yaml_Unmarshal openAPIYAML cache =
     (case openAPIDocumentJSON yaml_Unmarshal openAPIYAML cache of
        (Inl err, cache') \<Rightarrow> (Inl (writeError 500 ''OpenAPI document unavailable''), cache')
      | (Inr document, cache') \<Rightarrow>
          (Inr \<lparr>page_headers = [(''Content-Type'', ''application/json''), (''X-Content-Type-Options'', ''nosniff'')],
                page_body = JsonBody document\<rparr>, cache'))"

definition serveOpenAPIYAML :: "string \<Rightarrow> page" where
  "serveOpenAPIYAML openAPIYAML =
     \<lparr>page_headers = [(''Content-Type'', ''application/yaml''), (''X-Content-Type-Options'', ''nosniff'')],
      page_body = RawBody openAPIYAML\<rparr>"

definition scalarHTML :: string where
  "scalarHTML = concat (map (\<lambda>line. line @ [CHR 10])
     [''<!doctype html>'',
      ''<html lang=\"en\">'',
      ''  <head>'',
      ''    <meta charset=\"utf-8\">'',
      ''    <meta name=\"viewport\" content=\"width=device-width, initial-scale=1\">'',
      ''    <meta name=\"description\" content=\"transliter REST API reference\">'',
      ''    <title>transliter API Reference</title>'',
      ''  </head>'',
      ''  <body>'',
      ''    <div id=\"app\"></div>'',
      ''    <noscript>Enable JavaScript to view the interactive API reference.</noscript>'',
      ''    <script src=\"https://cdn.jsdelivr.net/npm/@scalar/api-reference@'' @ scalarVersion @ ''\"></script>'',
      ''    <script>'',
      ''      Scalar.createApiReference('#app', {'',
      ''        url: '/openapi.json','',
      ''        theme: 'purple','',
      ''        layout: 'modern','',
      ''        hideClientButton: false,'',
      ''        defaultHttpClient: { targetKey: 'shell', clientKey: 'curl' }'',
      ''      })'',
      ''    </script>'',
      ''  </body>'',
      ''</html>''])"

definition serveScalar :: page where
  "serveScalar =
     \<lparr>page_headers = [(''Content-Type'', ''text/html; charset=utf-8''), (''Referrer-Policy'', ''no-referrer''),
        (''X-Content-Type-Options'', ''nosniff'')],
      page_body = RawBody scalarHTML\<rparr>"

text \<open>The routes of the documentation, which are registered only when the document converts.\<close>

datatype doc_route = ServeOpenAPIJSON | ServeOpenAPIYAML | ServeScalar

definition doc_routes :: "(string \<times> doc_route) list" where
  "doc_routes = [(''GET /openapi.json'', ServeOpenAPIJSON), (''GET /openapi.yaml'', ServeOpenAPIYAML),
     (''GET /docs'', ServeScalar)]"

definition registerDocumentation ::
  "(string \<Rightarrow> go_error + rat json) \<Rightarrow> string \<Rightarrow> doc_cache \<Rightarrow> (go_error + (string \<times> doc_route) list) \<times> doc_cache" where
  "registerDocumentation yaml_Unmarshal openAPIYAML cache =
     (case openAPIDocumentJSON yaml_Unmarshal openAPIYAML cache of
        (Inl err, cache') \<Rightarrow> (Inl err, cache')
      | (Inr _, cache') \<Rightarrow> (Inr doc_routes, cache'))"

text \<open>Once the routes are registered the document is served for ever, whatever the parser would say later:
  a server that has started never answers that the document is unavailable.\<close>

lemma registered_document_served:
  assumes "registerDocumentation yaml_Unmarshal openAPIYAML cache = (Inr routes, cache')"
  shows "\<exists>document. serveOpenAPIJSON yaml openAPIYAML cache' =
      (Inr \<lparr>page_headers = [(''Content-Type'', ''application/json''), (''X-Content-Type-Options'', ''nosniff'')],
            page_body = JsonBody document\<rparr>, cache') \<and>
    (cache = None \<longrightarrow> json_get ''openapi'' document = Some (JString ''3.1.0'') \<and>
       (\<exists>members. json_get ''paths'' document = Some (JObject members)))"
  using assms
  by (auto simp: registerDocumentation_def serveOpenAPIJSON_def openAPIDocumentJSON_def Let_def convert_document_def
      split: sum.splits option.splits if_splits json.splits)

end
