(* ===== verification/Handler.thy ===== *)
theory Handler
  imports Rest_Catalog Auth Memory
begin

text \<open>
  \<open>lib/restapi/handler.go\<close>: the REST API for jobs. A \<open>Service\<close> is a handler whose parts
  \<open>Routes\<close> found to be present, with its defaults filled in. An endpoint takes the state of
  the backend and returns its response and the state after it; \<open>None\<close> means that it blocks
  in the queue. Clock readings, the entropy of a new identifier and the context of the request
  are arguments. \<open>tbl\<close> is the Unicode table of the error texts.
\<close>

section \<open>The handler\<close>

definition DefaultRetention :: duration where "DefaultRetention = 30 * 24 * Hour"
definition DefaultBodyLimit :: int where "DefaultBodyLimit = 2 * 2 ^ 20"

type_synonym authenticate = "string \<Rightarrow> go_error + Principal"

record ('s, 'd) Handler =
  h_Authenticator :: "authenticate option"
  h_Queue :: "('s, 'd) Queue option"
  h_Store :: "'s Store option"
  h_Catalog :: "Catalog option"
  h_Models :: "list_models option"
  h_Retention :: duration
  h_MaxBodyBytes :: int
  h_Validate :: "(Request \<Rightarrow> go_error + unit) option"

record ('s, 'd) Service =
  sv_Authenticate :: authenticate
  sv_Queue :: "('s, 'd) Queue"
  sv_Store :: "'s Store"
  sv_Catalog :: "Catalog option"
  sv_Models :: "list_models option"
  sv_Retention :: duration
  sv_MaxBodyBytes :: int
  sv_Validate :: "Request \<Rightarrow> go_error + unit"

definition validateRequest :: "Request \<Rightarrow> go_error + unit" where
  "validateRequest request =
     (if ModelCatalog request = [] then Inl (ServerError ModelCatalogEmpty)
      else ValidateTranslationRequest (Translation request))"

definition Routes :: "('s, 'd) Handler \<Rightarrow> go_error + ('s, 'd) Service" where
  "Routes handler =
     (case (h_Authenticator handler, h_Queue handler, h_Store handler) of
        (Some authenticate, Some queue, Some store) \<Rightarrow>
          Inr \<lparr>sv_Authenticate = authenticate, sv_Queue = queue, sv_Store = store,
               sv_Catalog = h_Catalog handler, sv_Models = h_Models handler,
               sv_Retention = (if h_Retention handler \<le> 0 then DefaultRetention
                               else h_Retention handler),
               sv_MaxBodyBytes = (if h_MaxBodyBytes handler \<le> 0 then DefaultBodyLimit
                                  else h_MaxBodyBytes handler),
               sv_Validate = (case h_Validate handler of None \<Rightarrow> validateRequest | Some f \<Rightarrow> f)\<rparr>
      | _ \<Rightarrow> Inl (ServerError HandlerIncomplete))"

section \<open>Endpoints\<close>

definition auth ::
  "('s, 'd) Service \<Rightarrow> (http_request \<Rightarrow> Principal \<Rightarrow> 's \<Rightarrow> (Response \<times> 's) option)
     \<Rightarrow> http_request \<Rightarrow> 's \<Rightarrow> (Response \<times> 's) option" where
  "auth handler next request s =
     (let key = apiKey request
      in case sv_Authenticate handler key of
           Inl err \<Rightarrow>
             if key = [] then Some (writeError 401 ''missing API key'', s)
             else Some (writeError 401 ''invalid API key'', s)
         | Inr caller \<Rightarrow> next request caller s)"

definition health :: Response where
  "health = writeJSON None 200 (Inr (JObject [(''status'', JString ''ok'')]))"

definition queue_failure_update :: "time \<Rightarrow> Update" where
  "queue_failure_update now =
     \<lparr>upd_Status = StatusFailed, upd_Result = None, upd_Error = ''job queue unavailable'',
      upd_UpdatedAt = now, upd_StartedAt = None, upd_CompletedAt = Some now\<rparr>"

definition create ::
  "(nat \<Rightarrow> bool) \<Rightarrow> ('s, 'd) Service \<Rightarrow> go_context \<Rightarrow> time \<Rightarrow> time \<Rightarrow> go_error + string
     \<Rightarrow> http_request \<Rightarrow> Principal \<Rightarrow> 's \<Rightarrow> (Response \<times> 's) option" where
  "create tbl handler ctx now later entropy request caller s =
     (case decodeJSON (decode_Request True) (sv_MaxBodyBytes handler) request zero_request of
        Inl err \<Rightarrow> Some (writeError 400 (Error_text tbl err), s)
      | Inr input \<Rightarrow>
        (case sv_Validate handler input of
           Inl err \<Rightarrow> Some (writeError 422 (Error_text tbl err), s)
         | Inr _ \<Rightarrow>
           (case NewJob (principal_ID caller) input now (sv_Retention handler) entropy of
              Inl err \<Rightarrow> Some (writeError 500 ''could not allocate job'', s)
            | Inr job \<Rightarrow>
              (case store_Create (sv_Store handler) ctx job s of
                 (Inl err, s1) \<Rightarrow> Some (writeError 503 ''could not store job'', s1)
               | (Inr _, s1) \<Rightarrow> do {
                   (enqueued, s2) \<leftarrow> queue_Enqueue (sv_Queue handler) ctx (job_ID job) s1;
                   case enqueued of
                     Inl err \<Rightarrow>
                       let (_, s3) = store_Update (sv_Store handler) ctx (job_ID job)
                                       (queue_failure_update later) s2
                       in Some (writeError 503 ''could not enqueue job'', s3)
                   | Inr _ \<Rightarrow>
                       Some (writeJSON (Some (''/v1/jobs/'' @ job_ID job)) 202 (Inr (Job_json job)), s2)
                 }))))"

definition get_job ::
  "('s, 'd) Service \<Rightarrow> go_context \<Rightarrow> string \<Rightarrow> http_request \<Rightarrow> Principal \<Rightarrow> 's \<Rightarrow> (Response \<times> 's) option" where
  "get_job handler ctx mid request caller s =
     (case store_Get (sv_Store handler) ctx mid s of
        (Inl err, s1) \<Rightarrow> Some (writeError 404 ''job not found'', s1)
      | (Inr job, s1) \<Rightarrow>
          if OwnerID job \<noteq> principal_ID caller then Some (writeError 404 ''job not found'', s1)
          else Some (writeJSON None 200 (Inr (Job_json job)), s1))"

text \<open>The query parameters of the history: \<open>None\<close> is a value that is refused.\<close>

definition list_limit :: "http_request \<Rightarrow> int option" where
  "list_limit request =
     (if http_Query request ''limit'' = [] then Some 20
      else case strconv_Atoi (http_Query request ''limit'') of
             None \<Rightarrow> None
           | Some parsed \<Rightarrow> if parsed < 1 \<or> parsed > 100 then None else Some parsed)"

definition list_before :: "http_request \<Rightarrow> time option" where
  "list_before request =
     (if http_Query request ''before'' = [] then Some zero_time
      else parse_RFC3339Nano (http_Query request ''before''))"

definition list_jobs ::
  "('s, 'd) Service \<Rightarrow> go_context \<Rightarrow> http_request \<Rightarrow> Principal \<Rightarrow> 's \<Rightarrow> (Response \<times> 's) option" where
  "list_jobs handler ctx request caller s =
     (case list_limit request of
        None \<Rightarrow> Some (writeError 400 ''limit must be between 1 and 100'', s)
      | Some limit \<Rightarrow>
        (case list_before request of
           None \<Rightarrow> Some (writeError 400 ''before must be RFC3339'', s)
         | Some before \<Rightarrow>
           (case store_List (sv_Store handler) ctx (principal_ID caller)
                   \<lparr>opt_Limit = limit, opt_Before = before\<rparr> s of
              (Inl err, s1) \<Rightarrow> Some (writeError 503 ''could not list jobs'', s1)
            | (Inr history, s1) \<Rightarrow>
                Some (writeJSON None 200 (Inr (JObject [(''jobs'', JArray (map Job_json history))])), s1))))"

section \<open>Routes\<close>

text \<open>The routes of the API over the decoded segments of the path; a \<open>GET\<close> pattern also takes
  \<open>HEAD\<close>. Other paths belong to the documentation, the UI or the router's own errors.\<close>

datatype endpoint =
    Health | ListModels | ListModelCatalogs | GetModelCatalog string | PreviewModelCatalog string
  | CreateJob | ListJobs | GetJob string

definition route :: "string \<Rightarrow> string list \<Rightarrow> endpoint option" where
  "route method path =
     (if method = ''GET'' \<or> method = ''HEAD'' then
        if path = [''healthz''] then Some Health
        else if path = [''v1'', ''models''] then Some ListModels
        else if path = [''v1'', ''model-catalogs''] then Some ListModelCatalogs
        else if path = [''v1'', ''jobs''] then Some ListJobs
        else if length path = 3 \<and> take 2 path = [''v1'', ''model-catalogs''] \<and> path ! 2 \<noteq> []
        then Some (GetModelCatalog (path ! 2))
        else if length path = 3 \<and> take 2 path = [''v1'', ''jobs''] \<and> path ! 2 \<noteq> []
        then Some (GetJob (path ! 2))
        else None
      else if method = ''POST'' then
        if path = [''v1'', ''jobs''] then Some CreateJob
        else if length path = 4 \<and> take 2 path = [''v1'', ''model-catalogs''] \<and> path ! 2 \<noteq> []
          \<and> path ! 3 = ''preview''
        then Some (PreviewModelCatalog (path ! 2))
        else None
      else None)"

definition serve ::
  "(nat \<Rightarrow> bool) \<Rightarrow> ('s, 'd) Service \<Rightarrow> go_context \<Rightarrow> time \<Rightarrow> time \<Rightarrow> go_error + string
     \<Rightarrow> endpoint \<Rightarrow> http_request \<Rightarrow> 's \<Rightarrow> (Response \<times> 's) option" where
  "serve tbl handler ctx now later entropy endpoint request s =
     (case endpoint of
        Health \<Rightarrow> Some (health, s)
      | ListModels \<Rightarrow> Some (listModels (sv_Models handler) ctx, s)
      | ListModelCatalogs \<Rightarrow> Some (listModelCatalogs (sv_Catalog handler), s)
      | GetModelCatalog mid \<Rightarrow> Some (getModelCatalog (sv_Catalog handler) mid, s)
      | PreviewModelCatalog mid \<Rightarrow>
          Some (previewModelCatalog tbl (sv_Catalog handler) (sv_MaxBodyBytes handler) mid request, s)
      | CreateJob \<Rightarrow> auth handler (create tbl handler ctx now later entropy) request s
      | ListJobs \<Rightarrow> auth handler (list_jobs handler ctx) request s
      | GetJob mid \<Rightarrow> auth handler (get_job handler ctx mid) request s)"

section \<open>Lemmas\<close>

lemma auth_Some:
  "auth handler next request s = Some (r, s') \<Longrightarrow>
     (\<exists>e. sv_Authenticate handler (apiKey request) = Inl e) \<and> resp_Status r = 401 \<and> s' = s \<or>
     (\<exists>p. sv_Authenticate handler (apiKey request) = Inr p \<and> next request p s = Some (r, s'))"
  by (auto simp: auth_def Let_def split: sum.splits if_splits)

lemma list_limit_range: "list_limit request = Some l \<Longrightarrow> 1 \<le> l \<and> l \<le> 100"
  by (auto simp: list_limit_def split: if_splits option.splits)

context job_store
begin

lemma get_job_200:
  assumes "inv s" and "sv_Store handler = S" and "get_job handler ctx mid request p s = Some (r, s')"
  shows "inv s' \<and> jobs s' = jobs s \<and>
    (resp_Status r = 200 \<longrightarrow> (\<exists>j. jobs s mid = Some j \<and> OwnerID j = principal_ID p \<and>
       resp_Body r = JsonBody (Job_json j)))"
proof -
  obtain rj s1 where g: "store_Get S ctx mid s = (rj, s1)" by force
  from Get [OF assms(1) g] assms(2,3) g show ?thesis
    by (cases rj) (auto simp: get_job_def split: if_splits)
qed

end

context job_history
begin

lemma list_jobs_200:
  assumes "inv s" and "sv_Store handler = S" and "list_jobs handler ctx request p s = Some (r, s')"
  shows "inv s' \<and> jobs s' = jobs s \<and>
    (resp_Status r = 200 \<longrightarrow> (\<exists>history. resp_Body r = JsonBody (JObject [(''jobs'', JArray (map Job_json history))]) \<and>
       length history \<le> 100 \<and> sorted (map (\<lambda>j. - CreatedAt j) history) \<and>
       (\<forall>j \<in> set history. jobs s (job_ID j) = Some j \<and> OwnerID j = principal_ID p)))"
proof (cases "list_limit request = None \<or> list_before request = None")
  case True
  with assms(1,3) show ?thesis by (auto simp: list_jobs_def split: option.splits)
next
  case False
  then obtain l b where lb: "list_limit request = Some l" "list_before request = Some b" by auto
  let ?options = "\<lparr>opt_Limit = l, opt_Before = b\<rparr>"
  obtain rl s1 where call: "store_List S ctx (principal_ID p) ?options s = (rl, s1)" by force
  have "effective_limit ?options \<le> 100"
    using list_limit_range [OF lb(1)] by (auto simp: effective_limit_def)
  with List [OF assms(1) call] call lb assms(2,3) show ?thesis
    by (cases rl) (auto simp: list_jobs_def)
qed

end

text \<open>A job made of the request's body can be stored, under an identifier that is not in use.\<close>

definition creatable ::
  "(Job \<Rightarrow> bool) \<Rightarrow> (string \<Rightarrow> Job option) \<Rightarrow> ('s, 'd) Service \<Rightarrow> http_request \<Rightarrow> time
     \<Rightarrow> go_error + string \<Rightarrow> bool" where
  "creatable storable held handler request now entropy \<longleftrightarrow>
     (\<forall>owner input job.
        decodeJSON (decode_Request True) (sv_MaxBodyBytes handler) request zero_request = Inr input \<longrightarrow>
        NewJob owner input now (sv_Retention handler) entropy = Inr job \<longrightarrow>
        storable job \<and> held (job_ID job) = None)"

context job_backend
begin

lemma create_cases:
  assumes inv: "inv s" and parts: "sv_Store handler = S" "sv_Queue handler = Q"
    and call: "create tbl handler ctx now later entropy request p s = Some (r, s')"
    and fresh: "creatable (\<lambda>j. storable j \<and> accepts s (job_ID j)) (jobs s) handler request now entropy"
    and upd: "updatable (queue_failure_update later)"
  shows "inv s' \<and> waiting s \<subseteq> waiting s' \<and>
    (jobs s' = jobs s \<and> resp_Status r \<noteq> 202 \<or>
     (\<exists>input job. decodeJSON (decode_Request True) (sv_MaxBodyBytes handler) request zero_request = Inr input \<and>
        sv_Validate handler input = Inr () \<and>
        NewJob (principal_ID p) input now (sv_Retention handler) entropy = Inr job \<and>
        (if resp_Status r = 202
         then jobs s' = (jobs s)(job_ID job \<mapsto> canon job) \<and> job_ID job \<in> waiting s' \<and>
           r = writeJSON (Some (''/v1/jobs/'' @ job_ID job)) 202 (Inr (Job_json job))
         else resp_Status r = 503 \<and>
           (jobs s' = (jobs s)(job_ID job \<mapsto> canon job) \<or>
            jobs s' = (jobs s)(job_ID job \<mapsto> apply_update (keep (queue_failure_update later)) (canon job))))))"
proof -
  consider (refused) "s' = s" "resp_Status r \<in> {400, 422, 500}"
    | (made) input job where
      "decodeJSON (decode_Request True) (sv_MaxBodyBytes handler) request zero_request = Inr input"
      "sv_Validate handler input = Inr ()"
      "NewJob (principal_ID p) input now (sv_Retention handler) entropy = Inr job"
    using call by (auto simp: create_def split: sum.splits)
  then show ?thesis
  proof cases
    case refused
    with inv show ?thesis by auto
  next
    case made
    obtain r0 s1 where c: "store_Create S ctx job s = (r0, s1)" by force
    have new: "storable job \<and> jobs s (job_ID job) = None" and known: "accepts s (job_ID job)"
      using fresh made(1,3) by (auto simp: creatable_def)
    note created = Create [OF inv conjunct1 [OF new] conjunct2 [OF new] c] Create_waiting [OF inv c]
    show ?thesis
    proof (cases r0)
      case (Inl e)
      with call parts made c have "s' = s1" "resp_Status r = 503"
        by (auto simp: create_def)
      with created made show ?thesis by auto
    next
      case (Inr u)
      then have s1: "inv s1" "jobs s1 = (jobs s)(job_ID job \<mapsto> canon job)" "waiting s1 = waiting s"
        "accepts s1 (job_ID job)"
        using created known by auto
      obtain re s2 where e: "queue_Enqueue Q ctx (job_ID job) s1 = Some (re, s2)"
        using call parts made c Inr by (auto simp: create_def bind_eq_Some_conv)
      note enqueued = Enqueue [OF s1(1) e]
      show ?thesis
      proof (cases re)
        case (Inr u')
        with call parts made c \<open>r0 = Inr u\<close> e
        have "s' = s2" "r = writeJSON (Some (''/v1/jobs/'' @ job_ID job)) 202 (Inr (Job_json job))"
          by (auto simp: create_def)
        with enqueued s1 made Inr show ?thesis by auto
      next
        case (Inl err)
        obtain ru s3 where u: "store_Update S ctx (job_ID job) (queue_failure_update later) s2 = (ru, s3)"
          by force
        with call parts made c \<open>r0 = Inr u\<close> e Inl have "s' = s3" "resp_Status r = 503"
          by (auto simp: create_def)
        with Update [OF _ upd u] Update_waiting [OF _ u] enqueued s1 made show ?thesis by auto
      qed
    qed
  qed
qed

end

section \<open>Properties\<close>

text \<open>A service over the memory backend, open to everybody as one owner.\<close>

definition hello_service :: "(Backend, string) Service" where
  "hello_service =
     \<lparr>sv_Authenticate = (\<lambda>_. Inr \<lparr>principal_ID = ''alice''\<rparr>), sv_Queue = memory_Queue False,
      sv_Store = memory_Store, sv_Catalog = None, sv_Models = None, sv_Retention = 1000,
      sv_MaxBodyBytes = 4096, sv_Validate = validateRequest\<rparr>"

definition hello_post_request :: Request where
  "hello_post_request =
     \<lparr>ModelCatalog = ''translategemma-4b'', req_Model = [], Profile = [], Translation = hello_request\<rparr>"

definition hello_post :: http_request where
  "hello_post = \<lparr>http_Header = (\<lambda>_. []), http_Query = (\<lambda>_. []),
     http_Body = (\<lambda>_. JsonInput [Request_json hello_post_request] None)\<rparr>"

definition hello_stored :: Job where
  "hello_stored = \<lparr>job_ID = ''1'', OwnerID = ''alice'', job_Status = StatusQueued,
     job_Request = hello_post_request, job_Result = None, job_Error = [], CreatedAt = 5,
     UpdatedAt = 5, StartedAt = None, CompletedAt = None, ExpiresAt = 1005\<rparr>"

definition hello_state :: Backend where
  "hello_state = \<lparr>mem_values = [(''1'', hello_stored)], mem_queue = [], mem_capacity = 4\<rparr>"

lemma hello_state: "mem_inv hello_state" "mem_jobs hello_state = [''1'' \<mapsto> hello_stored]"
  by (simp_all add: hello_state_def mem_inv_def mem_jobs_def hello_stored_def go_map_def)

text \<open>
  C7. A job is shown to its owner only: a \<open>GET /v1/jobs/{id}\<close> answered 200 comes from a caller
  who authenticated as the owner of that job, and shows that job; the jobs do not change.
\<close>

theorem get_job_private:
  assumes "job_store S jobs invar canon keep storable updatable" and "invar s" and "sv_Store handler = S"
    and "serve tbl handler ctx now later entropy (GetJob mid) request s = Some (r, s')"
  shows "jobs s' = jobs s \<and>
    (resp_Status r = 200 \<longrightarrow>
       (\<exists>p j. sv_Authenticate handler (apiKey request) = Inr p \<and> jobs s mid = Some j \<and>
          OwnerID j = principal_ID p \<and> resp_Body r = JsonBody (Job_json j)))"
proof -
  have a: "auth handler (get_job handler ctx mid) request s = Some (r, s')"
    using assms(4) by (simp add: serve_def)
  from auth_Some [OF a] show ?thesis
  proof (elim disjE exE conjE)
    fix p
    assume "sv_Authenticate handler (apiKey request) = Inr p" "get_job handler ctx mid request p s = Some (r, s')"
    with job_store.get_job_200 [OF assms(1-3)] show ?thesis by blast
  qed simp
qed

theorem get_job_private_witness:
  "\<exists>r s'. serve (\<lambda>_. True) hello_service None 0 0 (Inr []) (GetJob ''1'') hello_post hello_state = Some (r, s') \<and>
     mem_jobs s' = mem_jobs hello_state \<and> resp_Status r = 200"
proof -
  have status: "serve (\<lambda>_. True) hello_service None 0 0 (Inr []) (GetJob ''1'') hello_post hello_state
      = Some (writeJSON None 200 (Inr (Job_json hello_stored)), hello_state)"
    by (simp add: serve_def auth_def hello_service_def get_job_def memory_Store_def memory_Get_def
        hello_state_def hello_stored_def Let_def)
  have "sv_Store hello_service = memory_Store" by (simp add: hello_service_def)
  from get_job_private [OF mem.job_store_axioms hello_state(1) this status] status
  show ?thesis by simp
qed

text \<open>
  C8. A history shows the caller's jobs only: a \<open>GET /v1/jobs\<close> answered 200 lists at most 100
  jobs, newest first, all of them owned by the authenticated caller.
\<close>

theorem list_jobs_private:
  assumes "job_history S jobs invar canon keep storable updatable listable" and "invar s" and "sv_Store handler = S"
    and "serve tbl handler ctx now later entropy ListJobs request s = Some (r, s')"
    and "resp_Status r = 200"
  shows "\<exists>p history. sv_Authenticate handler (apiKey request) = Inr p \<and>
    resp_Body r = JsonBody (JObject [(''jobs'', JArray (map Job_json history))]) \<and>
    length history \<le> 100 \<and> sorted (map (\<lambda>j. - CreatedAt j) history) \<and>
    (\<forall>j \<in> set history. jobs s (job_ID j) = Some j \<and> OwnerID j = principal_ID p)"
proof -
  have a: "auth handler (list_jobs handler ctx) request s = Some (r, s')"
    using assms(4) by (simp add: serve_def)
  from auth_Some [OF a] assms(5) obtain p where
    "sv_Authenticate handler (apiKey request) = Inr p" "list_jobs handler ctx request p s = Some (r, s')"
    by auto
  with job_history.list_jobs_200 [OF assms(1-3)] assms(5) show ?thesis by blast
qed

theorem list_jobs_private_witness:
  "\<exists>r s' history. serve (\<lambda>_. True) hello_service None 0 0 (Inr []) ListJobs hello_post hello_state = Some (r, s') \<and>
     resp_Body r = JsonBody (JObject [(''jobs'', JArray (map Job_json history))]) \<and> length history \<le> 100"
proof -
  let ?r = "writeJSON None 200 (Inr (JObject [(''jobs'', JArray (map Job_json [hello_stored]))]))"
  have call: "serve (\<lambda>_. True) hello_service None 0 0 (Inr []) ListJobs hello_post hello_state
      = Some (?r, hello_state)"
    by (simp add: serve_def auth_def hello_service_def list_jobs_def list_limit_def list_before_def
        hello_post_def memory_Store_def memory_List_eq effective_limit_def hello_state_def in_history_def
        hello_stored_def IsZero_def Let_def)
  have "sv_Store hello_service = memory_Store" "resp_Status ?r = 200" by (simp_all add: hello_service_def)
  from list_jobs_private [OF mem.job_history_axioms hello_state(1) this(1) call this(2)] call
  show ?thesis by blast
qed


lemma decode_hello_post:
  "decodeJSON (decode_Request True) limit hello_post zero_request = Inr hello_post_request"
proof -
  have "request_utf8 hello_post_request"
    using hello_request_utf8
    by (simp add: request_utf8_def hello_post_request_def valid_utf8_ascii byte_def)
  from decode_Request_json [OF this]
  have "decode_Request True (Request_json hello_post_request) zero_request = Inr hello_post_request"
    by (simp add: canon_request_def hello_post_request_def hello_request_def)
  then show ?thesis by (simp add: decodeJSON_def hello_post_def)
qed

lemma hello_post_valid: "validateRequest hello_post_request = Inr ()"
  by code_simp

lemma hex_a: "hex_EncodeToString ''a'' = ''61''"
  by code_simp

lemma hello_post_job:
  "NewJob ''alice'' hello_post_request 5 1000 (Inr ''a'') = Inr (hello_stored\<lparr>job_ID := ''61''\<rparr>)"
  by (simp add: NewJob_def NewID_def hex_a hello_stored_def)


end
