(* ===== verification/History.thy ===== *)
theory History
  imports Handler
begin

text \<open>
  Walking through the history of \<open>GET /v1/jobs\<close> (\<open>listJobs\<close> of \<open>lib/restapi/handler.go\<close>): the next
  page is asked for with the creation time of the last job shown as \<open>before\<close>.
\<close>

section \<open>Pages\<close>

definition next_page :: "http_request \<Rightarrow> string \<Rightarrow> http_request" where
  "next_page request created = request\<lparr>http_Query := (http_Query request)(''before'' := created)\<rparr>"

text \<open>The creation times of the stored jobs can be printed and can bound a history.\<close>

definition pageable :: "(ListOptions \<Rightarrow> bool) \<Rightarrow> int \<Rightarrow> (string \<Rightarrow> Job option) \<Rightarrow> bool" where
  "pageable listable l held \<longleftrightarrow> (\<forall>i j. held i = Some j \<longrightarrow>
     rfc_time (CreatedAt j) \<and> \<not> IsZero (CreatedAt j) \<and> listable \<lparr>opt_Limit = l, opt_Before = CreatedAt j\<rparr>)"

lemma format_not_empty: "format_RFC3339Nano t \<noteq> []"
  by (auto simp: format_RFC3339Nano_def Let_def split: prod.splits)

lemma next_page_query:
  "list_limit (next_page request created) = list_limit request"
  "rfc_time t \<Longrightarrow> list_before (next_page request (format_RFC3339Nano t)) = Some t"
  "apiKey (next_page request created) = apiKey request"
  by (simp_all add: next_page_def list_limit_def list_before_def apiKey_def parse_format format_not_empty split: option.split)

lemma list_jobs_page:
  assumes "list_jobs handler ctx request p s = Some (r, s')" and "resp_Status r = 200"
    and "list_limit request = Some l" and "list_before request = Some b"
  shows "\<exists>history. store_List (sv_Store handler) ctx (principal_ID p) \<lparr>opt_Limit = l, opt_Before = b\<rparr> s
      = (Inr history, s') \<and> resp_Body r = JsonBody (JObject [(''jobs'', JArray (map Job_json history))])"
  using assms by (auto simp: list_jobs_def split: prod.splits sum.splits)

lemma sorted_last: "sorted (map f xs) \<Longrightarrow> x \<in> set xs \<Longrightarrow> f x \<le> f (last xs)"
  by (induction xs) (auto split: if_splits)

text \<open>What a page and the one after it say of the jobs held.\<close>

definition pages ::
  "(string \<Rightarrow> Job option) \<Rightarrow> string \<Rightarrow> ListOptions \<Rightarrow> Job list \<Rightarrow> Job list \<Rightarrow> bool" where
  "pages held owner options h1 h2 \<longleftrightarrow>
     distinct (map job_ID (h1 @ h2)) \<and> sorted (map (\<lambda>j. - CreatedAt j) (h1 @ h2)) \<and>
     (\<forall>j \<in> set (h1 @ h2). held (job_ID j) = Some j \<and> in_history owner options j) \<and>
     (\<forall>i j. held i = Some j \<and> in_history owner options j \<and> j \<notin> set (h1 @ h2) \<longrightarrow>
        CreatedAt j = CreatedAt (last h1) \<or>
        length h2 = effective_limit options \<and> (\<forall>listed \<in> set (h1 @ h2). CreatedAt j \<le> CreatedAt listed))"

context job_history
begin

lemma List_pages:
  assumes "inv s" and page: "pageable listable l (jobs s)" and "listable \<lparr>opt_Limit = l, opt_Before = b\<rparr>"
    and first: "store_List S ctx owner \<lparr>opt_Limit = l, opt_Before = b\<rparr> s = (Inr h1, s1)" and "h1 \<noteq> []"
    and second: "store_List S ctx' owner \<lparr>opt_Limit = l, opt_Before = CreatedAt (last h1)\<rparr> s1 = (Inr h2, s2)"
  shows "pages (jobs s) owner \<lparr>opt_Limit = l, opt_Before = b\<rparr> h1 h2"
proof -
  let ?o = "\<lparr>opt_Limit = l, opt_Before = b\<rparr>" and ?t = "CreatedAt (last h1)"
  let ?o' = "\<lparr>opt_Limit = l, opt_Before = ?t\<rparr>"
  note f = List [OF assms(1) first]
  from f assms(3) have inv1: "inv s1" and jobs1: "jobs s1 = jobs s"
    and h1: "distinct (map job_ID h1)" "sorted (map (\<lambda>j. - CreatedAt j) h1)"
      "\<forall>j \<in> set h1. jobs s (job_ID j) = Some j \<and> in_history owner ?o j"
    and left1: "\<And>i j. jobs s i = Some j \<Longrightarrow> in_history owner ?o j \<Longrightarrow> j \<notin> set h1 \<Longrightarrow>
      \<forall>listed \<in> set h1. CreatedAt j \<le> CreatedAt listed"
    by auto
  have "jobs s (job_ID (last h1)) = Some (last h1)" and hist: "in_history owner ?o (last h1)"
    using h1(3) assms(5) by simp_all
  with page have t: "\<not> IsZero ?t" "listable ?o'" by (auto simp: pageable_def)
  from List [OF inv1 second] t jobs1 have h2: "distinct (map job_ID h2)" "sorted (map (\<lambda>j. - CreatedAt j) h2)"
      "\<forall>j \<in> set h2. jobs s (job_ID j) = Some j \<and> in_history owner ?o' j"
    and left2: "\<And>i j. jobs s i = Some j \<Longrightarrow> in_history owner ?o' j \<Longrightarrow> j \<notin> set h2 \<Longrightarrow>
      length h2 = effective_limit ?o \<and> (\<forall>listed \<in> set h2. CreatedAt j \<le> CreatedAt listed)"
    by (auto simp: effective_limit_def)
  have newer: "?t \<le> CreatedAt j" if "j \<in> set h1" for j
    using sorted_last [OF h1(2) that] by simp
  have older: "CreatedAt j < ?t \<and> in_history owner ?o j" if "j \<in> set h2" for j
    using h2(3) t(1) hist that by (auto simp: in_history_def)
  have "job_ID i \<noteq> job_ID j" if "i \<in> set h1" "j \<in> set h2" for i j
    using h1(3) h2(3) newer [OF that(1)] older [OF that(2)] that by (metis not_le option.inject)
  then have "distinct (map job_ID (h1 @ h2))" using h1(1) h2(1) by auto
  moreover have "sorted (map (\<lambda>j. - CreatedAt j) (h1 @ h2))"
    using h1(2) h2(2) newer older by (fastforce simp: sorted_append)
  moreover have "\<forall>j \<in> set (h1 @ h2). jobs s (job_ID j) = Some j \<and> in_history owner ?o j"
    using h1(3) h2(3) older by auto
  moreover have "CreatedAt j = ?t \<or> length h2 = effective_limit ?o \<and>
      (\<forall>listed \<in> set (h1 @ h2). CreatedAt j \<le> CreatedAt listed)"
    if j: "jobs s i = Some j" "in_history owner ?o j" "j \<notin> set (h1 @ h2)" for i j
  proof (cases "CreatedAt j < ?t")
    case True
    then have "in_history owner ?o' j" using j(2) by (simp add: in_history_def)
    with left1 [OF j(1,2)] left2 [OF j(1)] j(3) show ?thesis by auto
  next
    case False
    moreover have "CreatedAt j \<le> ?t" using left1 [OF j(1,2)] j(3) assms(5) by simp
    ultimately show ?thesis by simp
  qed
  ultimately show ?thesis unfolding pages_def by blast
qed

end

lemma serve_history:
  assumes "serve tbl handler ctx now later entropy ListJobs request s = Some (r, s')" and "resp_Status r = 200"
  shows "\<exists>p. sv_Authenticate handler (apiKey request) = Inr p \<and> list_jobs handler ctx request p s = Some (r, s')"
proof -
  have "auth handler (list_jobs handler ctx) request s = Some (r, s')" using assms(1) by (simp add: serve_def)
  from auth_Some [OF this] assms(2) show ?thesis by auto
qed

section \<open>Properties\<close>

text \<open>
  C9. Walking through the history, over any backend that meets the contract. A page answered 200
  shows jobs \<open>h1\<close> of the caller. When the request is sent again with the creation time of the last of
  them, as it is printed in the answer, for \<open>before\<close>, a page answered 200 shows jobs \<open>h2\<close> such that the
  two pages together have no job twice, are newest first and within the first bound; a job of the caller
  that neither shows was created at the very instant of the last job of the first page, or the second
  page is full and the job is not newer than any job shown.
\<close>

theorem history_pages:
  assumes "job_history S jobs invar canon keep storable updatable listable" and "invar s" and "sv_Store handler = S"
    and "list_limit request = Some l" and "list_before request = Some b"
    and "listable \<lparr>opt_Limit = l, opt_Before = b\<rparr>" and "pageable listable l (jobs s)"
    and "serve tbl handler ctx now later entropy ListJobs request s = Some (r1, s1)" and "resp_Status r1 = 200"
  shows "\<exists>p h1. sv_Authenticate handler (apiKey request) = Inr p \<and>
    resp_Body r1 = JsonBody (JObject [(''jobs'', JArray (map Job_json h1))]) \<and>
    (h1 \<noteq> [] \<longrightarrow>
      (\<forall>ctx' r2 s2.
         serve tbl handler ctx' now later entropy ListJobs (next_page request (format_RFC3339Nano (CreatedAt (last h1)))) s1 = Some (r2, s2) \<longrightarrow>
         resp_Status r2 = 200 \<longrightarrow>
         (\<exists>h2. resp_Body r2 = JsonBody (JObject [(''jobs'', JArray (map Job_json h2))]) \<and>
            pages (jobs s) (principal_ID p) \<lparr>opt_Limit = l, opt_Before = b\<rparr> h1 h2)))"
proof -
  from serve_history [OF assms(8,9)] obtain p where
    p: "sv_Authenticate handler (apiKey request) = Inr p" "list_jobs handler ctx request p s = Some (r1, s1)" by auto
  from list_jobs_page [OF p(2) assms(9,4,5)] assms(3) obtain h1 where
    h1: "store_List S ctx (principal_ID p) \<lparr>opt_Limit = l, opt_Before = b\<rparr> s = (Inr h1, s1)"
    "resp_Body r1 = JsonBody (JObject [(''jobs'', JArray (map Job_json h1))])" by auto
  have "\<exists>h2. resp_Body r2 = JsonBody (JObject [(''jobs'', JArray (map Job_json h2))]) \<and>
      pages (jobs s) (principal_ID p) \<lparr>opt_Limit = l, opt_Before = b\<rparr> h1 h2"
    if ne: "h1 \<noteq> []" and call: "serve tbl handler ctx' now later entropy ListJobs
        (next_page request (format_RFC3339Nano (CreatedAt (last h1)))) s1 = Some (r2, s2)" and ok: "resp_Status r2 = 200" for ctx' r2 s2
  proof -
    let ?t = "CreatedAt (last h1)"
    have "jobs s (job_ID (last h1)) = Some (last h1)"
      using job_history.List_owner [OF assms(1,2) h1(1)] ne by simp
    with assms(7) have "rfc_time ?t" by (auto simp: pageable_def)
    note query = next_page_query(1) [of request "format_RFC3339Nano ?t"] next_page_query(3) [of request "format_RFC3339Nano ?t"]
      next_page_query(2) [OF this, of request]
    from serve_history [OF call ok] p(1) have sent: "list_jobs handler ctx' (next_page request (format_RFC3339Nano ?t)) p s1 = Some (r2, s2)"
      by (auto simp: query)
    have "list_limit (next_page request (format_RFC3339Nano ?t)) = Some l" using query(1) assms(4) by simp
    from list_jobs_page [OF sent ok this query(3)] obtain h2 where
      h2: "store_List S ctx' (principal_ID p) \<lparr>opt_Limit = l, opt_Before = ?t\<rparr> s1 = (Inr h2, s2)"
      "resp_Body r2 = JsonBody (JObject [(''jobs'', JArray (map Job_json h2))])" using assms(3) by auto
    from job_history.List_pages [OF assms(1,2,7,6) h1(1) ne h2(1)] h2(2) show ?thesis by blast
  qed
  with p(1) h1(2) show ?thesis by blast
qed

lemma created_json:
  "(case Job_json job of JObject members \<Rightarrow> map_of members ''created_at'') = Some (JString (format_RFC3339Nano (CreatedAt job)))"
  by (simp add: Job_json_def json_struct_def json_time_def omit_string_def split: option.split)

text \<open>Three jobs of one owner, two of them created at the same instant, in pages of one job.\<close>

definition third_job :: "string \<Rightarrow> time \<Rightarrow> Job" where
  "third_job mid t = hello_stored\<lparr>job_ID := mid, CreatedAt := t\<rparr>"

definition walk_state :: "(string \<times> time) list \<Rightarrow> Backend" where
  "walk_state created = \<lparr>mem_values = map (\<lambda>(mid, t). (mid, third_job mid t)) created, mem_queue = [], mem_capacity = 4\<rparr>"

abbreviation walk_times :: "(string \<times> time) list" where
  "walk_times \<equiv> [(''1'', 5), (''2'', 7), (''3'', 7)]"

definition walk_request :: http_request where
  "walk_request = hello_post\<lparr>http_Query := (\<lambda>_. [])(''limit'' := ''1'')\<rparr>"

abbreviation jobs_page :: "Job list \<Rightarrow> Response" where
  "jobs_page history \<equiv> writeJSON None 200 (Inr (JObject [(''jobs'', JArray (map Job_json history))]))"

lemma walk_query: "list_limit walk_request = Some 1" "list_before walk_request = Some zero_time"
proof -
  have "strconv_Atoi ''1'' = Some 1" by code_simp
  then show "list_limit walk_request = Some 1" "list_before walk_request = Some zero_time"
    by (simp_all add: list_limit_def list_before_def walk_request_def hello_post_def)
qed

lemma walk_list:
  "memory_List ctx owner options (walk_state created) =
     (Inr (take (effective_limit options) (sort_key (\<lambda>job. - CreatedAt job)
        (filter (in_history owner options) (map (\<lambda>(mid, t). third_job mid t) created)))), walk_state created)"
proof -
  have "map snd (mem_values (walk_state created)) = map (\<lambda>(mid, t). third_job mid t) created"
    by (auto simp: walk_state_def)
  then show ?thesis by (simp only: memory_List_eq)
qed

lemma walk_page:
  assumes "list_limit request = Some 1" "list_before request = Some b"
    and "memory_List ctx ''alice'' \<lparr>opt_Limit = 1, opt_Before = b\<rparr> s = (Inr history, s)"
  shows "serve tbl hello_service ctx now later entropy ListJobs request s = Some (jobs_page history, s)"
  using assms by (simp add: serve_def auth_def hello_service_def list_jobs_def memory_Store_def)

lemma walk_steps:
  "serve tbl hello_service ctx now later entropy ListJobs walk_request (walk_state walk_times)
     = Some (jobs_page [third_job ''2'' 7], walk_state walk_times)"
  "serve tbl hello_service ctx now later entropy ListJobs (next_page walk_request (format_RFC3339Nano 7)) (walk_state walk_times)
     = Some (jobs_page [third_job ''1'' 5], walk_state walk_times)"
proof -
  have "rfc_time 7" by code_simp
  note query = walk_query next_page_query(1) [of walk_request "format_RFC3339Nano 7"] next_page_query(2) [OF this, of walk_request]
  show "serve tbl hello_service ctx now later entropy ListJobs walk_request (walk_state walk_times)
     = Some (jobs_page [third_job ''2'' 7], walk_state walk_times)"
    by (rule walk_page [OF query(1,2)]) (simp add: walk_list effective_limit_def third_job_def hello_stored_def in_history_def IsZero_def)
  show "serve tbl hello_service ctx now later entropy ListJobs (next_page walk_request (format_RFC3339Nano 7)) (walk_state walk_times)
     = Some (jobs_page [third_job ''1'' 5], walk_state walk_times)"
    using query(1,3) by (intro walk_page [OF _ query(4)])
      (simp_all add: walk_list effective_limit_def third_job_def hello_stored_def in_history_def IsZero_def zero_time_def)
qed

text \<open>Asking on for older jobs never shows the second of two jobs created at the same instant when the
  first ends a page: the pages show jobs 2 and 1, then nothing.\<close>

lemma same_instant_skipped:
  "serve tbl hello_service ctx now later entropy ListJobs (next_page walk_request (format_RFC3339Nano 5)) (walk_state walk_times)
     = Some (jobs_page [], walk_state walk_times)"
  "mem_jobs (walk_state walk_times) ''3'' = Some (third_job ''3'' 7)"
proof -
  have "rfc_time 5" by code_simp
  note query = walk_query next_page_query(1) [of walk_request "format_RFC3339Nano 5"] next_page_query(2) [OF this, of walk_request]
  show "serve tbl hello_service ctx now later entropy ListJobs (next_page walk_request (format_RFC3339Nano 5)) (walk_state walk_times)
     = Some (jobs_page [], walk_state walk_times)"
    using query(1,3) by (intro walk_page [OF _ query(4)])
      (simp_all add: walk_list effective_limit_def third_job_def hello_stored_def in_history_def IsZero_def zero_time_def)
qed (simp add: mem_jobs_def walk_state_def)

lemma walk_inv: "mem_inv (walk_state walk_times)"
  "pageable (\<lambda>_. True) 1 (mem_jobs (walk_state walk_times))"
proof -
  have "rfc_time 5" "rfc_time 7" "\<not> IsZero 5" "\<not> IsZero 7" by (code_simp, code_simp, code_simp, code_simp)
  then show "mem_inv (walk_state walk_times)"
    "pageable (\<lambda>_. True) 1 (mem_jobs (walk_state walk_times))"
    by (auto simp: mem_inv_def go_map_def walk_state_def third_job_def pageable_def mem_jobs_def hello_stored_def
        split: if_splits)
qed

theorem history_pages_witness:
  "\<exists>h1 h2. h1 \<noteq> [] \<and> map Job_json h1 = [Job_json (third_job ''2'' 7)] \<and> map Job_json h2 = [Job_json (third_job ''1'' 5)] \<and>
     pages (mem_jobs (walk_state walk_times)) ''alice''
       \<lparr>opt_Limit = 1, opt_Before = zero_time\<rparr> h1 h2"
proof -
  have store: "sv_Store hello_service = memory_Store" by (simp add: hello_service_def)
  have page: "map Job_json h = map Job_json h'"
    if "resp_Body (jobs_page h) = JsonBody (JObject [(''jobs'', JArray (map Job_json h'))])" for h h'
    using that by (simp add: writeJSON_def)
  have ok: "resp_Status (jobs_page h) = 200" for h by simp
  have created: "format_RFC3339Nano (CreatedAt (last h)) = format_RFC3339Nano 7"
    if "map Job_json [third_job ''2'' 7] = map Job_json h" for h
    using that created_json [of "third_job ''2'' 7"] created_json [of "last h"] by (cases h) (auto simp: third_job_def)
  from history_pages [OF mem.job_history_axioms walk_inv(1) store walk_query TrueI walk_inv(2)
      walk_steps(1) [of "\<lambda>_. True" None 0 0 "Inr []"] ok]
  obtain p h1 where p: "sv_Authenticate hello_service (apiKey walk_request) = Inr p"
    and body: "resp_Body (jobs_page [third_job ''2'' 7]) = JsonBody (JObject [(''jobs'', JArray (map Job_json h1))])"
    and step: "h1 \<noteq> [] \<longrightarrow> (\<forall>ctx' r2 s2. serve (\<lambda>_. True) hello_service ctx' 0 0 (Inr []) ListJobs
          (next_page walk_request (format_RFC3339Nano (CreatedAt (last h1))))
          (walk_state walk_times) = Some (r2, s2) \<longrightarrow> resp_Status r2 = 200 \<longrightarrow>
        (\<exists>h2. resp_Body r2 = JsonBody (JObject [(''jobs'', JArray (map Job_json h2))]) \<and>
          pages (mem_jobs (walk_state walk_times)) (principal_ID p)
            \<lparr>opt_Limit = 1, opt_Before = zero_time\<rparr> h1 h2))"
    by (elim exE conjE)
  note h1 = page [OF body]
  have ne: "h1 \<noteq> []" using h1 by auto
  from step [THEN mp, OF ne, rule_format, unfolded created [OF h1], OF walk_steps(2) ok] obtain h2 where
    h2: "resp_Body (jobs_page [third_job ''1'' 5]) = JsonBody (JObject [(''jobs'', JArray (map Job_json h2))])"
    "pages (mem_jobs (walk_state walk_times)) (principal_ID p) \<lparr>opt_Limit = 1, opt_Before = zero_time\<rparr> h1 h2"
    by (elim exE conjE)
  have "principal_ID p = ''alice''" using p by (auto simp: hello_service_def)
  with h2(2) have "pages (mem_jobs (walk_state walk_times)) ''alice'' \<lparr>opt_Limit = 1, opt_Before = zero_time\<rparr> h1 h2"
    by (simp only:)
  with ne h1 page [OF h2(1)] show ?thesis by (intro exI conjI) (simp_all only: list.map simp_thms)
qed

end
