(* ===== verification/System.thy ===== *)
theory System
  imports Handler Scheduler "HOL-Library.Multiset"
begin

text \<open>
  The server at work: the goroutines of the workers (\<open>Scheduler.runWorker\<close>), of the requests that create
  jobs (\<open>Handler.create\<close>) and of the hourly cleanup (\<open>cleanupExpired\<close> in \<open>main.go\<close>) over one store and one
  queue. Each call of the store or the queue is one step, the steps of different goroutines come in any
  order, and each step has its own clock and its own reading of the context. The phases of a delivery
  are those of \<open>Scheduler\<close>, and a run of \<open>handle\<close> or of \<open>create\<close> is a run of these steps.

  The store and the queue are any that meet \<open>single_delivery\<close>: what was enqueued is delivered once. The
  memory backend does. (A queue with leases delivers a job again while a slow worker still runs it, and
  promises less.)
\<close>

section \<open>The goroutines\<close>

text \<open>Where a worker is in its loop, and where a request is that creates a job.\<close>

datatype (plugins only: code size) 'd task =
    Idle
  | Stopped
  | Got 'd
  | Loaded 'd Job
  | Running 'd Job
  | Processed 'd Job "go_error + Result"
  | Settling 'd verdict
  | Creating Job
  | Enqueueing Job
  | Refused Job
  | Answered int

text \<open>The parts the goroutines share. The argument of the queue is the choice of the runtime in a \<open>select\<close>
  with two ready cases.\<close>

record ('s, 'd) service_parts =
  sp_tbl :: "nat \<Rightarrow> bool"
  sp_Store :: "'s Store"
  sp_Queue :: "bool \<Rightarrow> ('s, 'd) Queue"
  sp_process :: processor
  sp_timeout :: duration
  sp_onError :: bool

text \<open>\<open>sys_given_up\<close> records the jobs that the program let go with an error: a delivery that could not be
  given back (the error is reported), a job whose creation was answered with 503.\<close>

record ('s, 'd) system =
  sys_backend :: 's
  sys_tasks :: "'d task list"
  sys_log :: "go_error list"
  sys_given_up :: "string set"

definition goto ::
  "nat \<Rightarrow> 'd task \<Rightarrow> go_error list \<Rightarrow> string set \<Rightarrow> 's \<Rightarrow> ('s, 'd) system \<Rightarrow> ('s, 'd) system" where
  "goto k phase errors lost s \<sigma> =
     \<lparr>sys_backend = s, sys_tasks = (sys_tasks \<sigma>)[k := phase], sys_log = sys_log \<sigma> @ errors,
      sys_given_up = sys_given_up \<sigma> \<union> lost\<rparr>"

definition at_task :: "('s, 'd) system \<Rightarrow> nat \<Rightarrow> 'd task \<Rightarrow> bool" where
  "at_task \<sigma> k phase \<longleftrightarrow> k < length (sys_tasks \<sigma>) \<and> sys_tasks \<sigma> ! k = phase"

definition given_up :: "go_error + unit \<Rightarrow> string \<Rightarrow> string set" where
  "given_up r i = (case r of Inl _ \<Rightarrow> {i} | Inr _ \<Rightarrow> {})"

text \<open>After \<open>Receive\<close>, as in \<open>worker_turn\<close>.\<close>

definition after_receive :: "bool \<Rightarrow> go_context \<Rightarrow> go_error + 'd option \<Rightarrow> 'd task \<times> go_error list" where
  "after_receive onError ctx received =
     (case received of
        Inl err \<Rightarrow> if ctx \<noteq> None \<or> errors_Is err ErrClosed then (Stopped, [])
                   else (Idle, report onError (Inl (Wrap ReceiveJob err)) [])
      | Inr None \<Rightarrow> (Idle, report onError (Inl (JobsError NilDelivery)) [])
      | Inr (Some delivery) \<Rightarrow> (Got delivery, []))"

text \<open>Where a worker goes with a verdict.\<close>

definition after_load :: "'d \<Rightarrow> verdict \<Rightarrow> 'd task" where
  "after_load d v = (case v of Proceed job \<Rightarrow> Loaded d job | _ \<Rightarrow> Settling d v)"

definition after_mark :: "'d \<Rightarrow> verdict \<Rightarrow> 'd task" where
  "after_mark d v = (case v of Proceed job \<Rightarrow> Running d job | _ \<Rightarrow> Settling d v)"

section \<open>Who holds a job\<close>

text \<open>The jobs a goroutine is responsible for: at most one.\<close>

fun holds :: "('d \<Rightarrow> string) \<Rightarrow> 'd task \<Rightarrow> string multiset" where
  "holds jobID (Got d) = {#jobID d#}"
| "holds jobID (Loaded d job) = {#jobID d#}"
| "holds jobID (Running d job) = {#jobID d#}"
| "holds jobID (Processed d job outcome) = {#jobID d#}"
| "holds jobID (Settling d v) = {#jobID d#}"
| "holds jobID (Creating job) = {#job_ID job#}"
| "holds jobID (Enqueueing job) = {#job_ID job#}"
| "holds jobID (Refused job) = {#job_ID job#}"
| "holds jobID Idle = {#}"
| "holds jobID Stopped = {#}"
| "holds jobID (Answered n) = {#}"

definition held :: "('d \<Rightarrow> string) \<Rightarrow> 'd task list \<Rightarrow> string multiset" where
  "held jobID tasks = sum_list (map (holds jobID) tasks)"

text \<open>\<open>Run\<close> starts its workers, and returns when the context is done and all of them have stopped.\<close>

definition scheduler_Run :: "bool \<Rightarrow> bool \<Rightarrow> bool \<Rightarrow> int \<Rightarrow> go_error + 'd task list" where
  "scheduler_Run has_queue has_store has_processor concurrency =
     (case Run_concurrency has_queue has_store has_processor concurrency of
        Inl err \<Rightarrow> Inl err
      | Inr n \<Rightarrow> Inr (replicate n Idle))"

definition scheduler_Run_returns :: "go_context \<Rightarrow> 'd task list \<Rightarrow> bool" where
  "scheduler_Run_returns ctx workers \<longleftrightarrow>
     ctx \<noteq> None \<and> list_all (\<lambda>w. case w of Stopped \<Rightarrow> True | _ \<Rightarrow> False) workers"

section \<open>Steps\<close>

inductive system_step ::
  "('s \<Rightarrow> string \<Rightarrow> Job option) \<Rightarrow> (Job \<Rightarrow> bool) \<Rightarrow> ('s \<Rightarrow> string multiset) \<Rightarrow> ('s, 'd) service_parts
     \<Rightarrow> ('s, 'd) system \<Rightarrow> ('s, 'd) system \<Rightarrow> bool"
  for jobs storable tokens c where
  receive:
    "at_task \<sigma> k Idle \<Longrightarrow> queue_Receive (sp_Queue c pick) ctx (sys_backend \<sigma>) = Some (r, s') \<Longrightarrow>
     after_receive (sp_onError c) ctx r = (phase, errors) \<Longrightarrow>
     system_step jobs storable tokens c \<sigma> (goto k phase errors {} s' \<sigma>)"
| load:
    "at_task \<sigma> k (Got d) \<Longrightarrow>
     handle_load (sp_Store c) (sp_Queue c pick) (sp_onError c) ctx d (sys_backend \<sigma>) = (v, errors, s') \<Longrightarrow>
     system_step jobs storable tokens c \<sigma> (goto k (after_load d v) errors {} s' \<sigma>)"
| mark:
    "at_task \<sigma> k (Loaded d job) \<Longrightarrow>
     handle_mark (sp_Store c) (sp_onError c) ctx now job (sys_backend \<sigma>) = (v, errors, s') \<Longrightarrow>
     system_step jobs storable tokens c \<sigma> (goto k (after_mark d v) errors {} s' \<sigma>)"
| process:
    "at_task \<sigma> k (Running d job) \<Longrightarrow>
     outcome = sp_process c (process_timeout (sp_timeout c), ctx) job \<Longrightarrow>
     system_step jobs storable tokens c \<sigma> (goto k (Processed d job outcome) [] {} (sys_backend \<sigma>) \<sigma>)"
| complete:
    "at_task \<sigma> k (Processed d job outcome) \<Longrightarrow>
     handle_complete (sp_tbl c) (sp_Store c) (sp_onError c) ctx now job outcome (sys_backend \<sigma>) = (v, errors, s') \<Longrightarrow>
     system_step jobs storable tokens c \<sigma> (goto k (Settling d v) errors {} s' \<sigma>)"
| ack:
    "at_task \<sigma> k (Settling d v) \<Longrightarrow> v \<noteq> NackIt \<Longrightarrow>
     delivery_Ack (sp_Queue c pick) ctx d (sys_backend \<sigma>) = Some (r, s') \<Longrightarrow>
     system_step jobs storable tokens c \<sigma> (goto k Idle (report (sp_onError c) r []) {} s' \<sigma>)"
| nack:
    "at_task \<sigma> k (Settling d NackIt) \<Longrightarrow>
     delivery_Nack (sp_Queue c pick) ctx d (sys_backend \<sigma>) = Some (r, s') \<Longrightarrow>
     system_step jobs storable tokens c \<sigma>
       (goto k Idle (report (sp_onError c) r []) (given_up r (delivery_JobID (sp_Queue c False) d)) s' \<sigma>)"
| request:
    "storable job \<Longrightarrow> job_Status job = StatusQueued \<Longrightarrow> jobs (sys_backend \<sigma>) (job_ID job) = None \<Longrightarrow>
     job_ID job \<notin># tokens (sys_backend \<sigma>) + held (delivery_JobID (sp_Queue c False)) (sys_tasks \<sigma>) \<Longrightarrow>
     system_step jobs storable tokens c \<sigma> (\<sigma>\<lparr>sys_tasks := sys_tasks \<sigma> @ [Creating job]\<rparr>)"
| create:
    "at_task \<sigma> k (Creating job) \<Longrightarrow> store_Create (sp_Store c) ctx job (sys_backend \<sigma>) = (r, s') \<Longrightarrow>
     system_step jobs storable tokens c \<sigma>
       (goto k (if is_ok r then Enqueueing job else Answered 503) [] (given_up r (job_ID job)) s' \<sigma>)"
| enqueue:
    "at_task \<sigma> k (Enqueueing job) \<Longrightarrow> queue_Enqueue (sp_Queue c pick) ctx (job_ID job) (sys_backend \<sigma>) = Some (r, s') \<Longrightarrow>
     system_step jobs storable tokens c \<sigma> (goto k (if is_ok r then Answered 202 else Refused job) [] {} s' \<sigma>)"
| refuse:
    "at_task \<sigma> k (Refused job) \<Longrightarrow>
     store_Update (sp_Store c) ctx (job_ID job) (queue_failure_update now) (sys_backend \<sigma>) = (r, s') \<Longrightarrow>
     system_step jobs storable tokens c \<sigma> (goto k (Answered 503) [] (given_up r (job_ID job)) s' \<sigma>)"
| cleanup:
    "store_DeleteExpired (sp_Store c) ctx now (sys_backend \<sigma>) = (n, s') \<Longrightarrow>
     system_step jobs storable tokens c \<sigma> (\<sigma>\<lparr>sys_backend := s'\<rparr>)"

section \<open>The contract\<close>

text \<open>A token of a job in the queue is a delivery to come.\<close>

locale single_delivery = job_store S jobs inv canon keep storable updatable
  for S :: "'s Store" and jobs inv canon keep storable updatable +
  fixes Q :: "bool \<Rightarrow> ('s, 'd) Queue" and tokens :: "'s \<Rightarrow> string multiset"
  assumes JobID: "delivery_JobID (Q pick) = delivery_JobID (Q False)"
    and Get_tokens: "inv s \<Longrightarrow> store_Get S ctx i s = (rj, s') \<Longrightarrow> tokens s' = tokens s"
    and Create_tokens: "inv s \<Longrightarrow> store_Create S ctx job s = (r0, s') \<Longrightarrow> tokens s' = tokens s"
    and Update_tokens: "inv s \<Longrightarrow> store_Update S ctx i u s = (r0, s') \<Longrightarrow> tokens s' = tokens s"
    and Cleanup: "inv s \<Longrightarrow> store_DeleteExpired S ctx before s = (rn, s') \<Longrightarrow>
      inv s' \<and> jobs s' \<subseteq>\<^sub>m jobs s \<and> tokens s' = tokens s"
    and Enqueue: "inv s \<Longrightarrow> queue_Enqueue (Q pick) ctx i s = Some (r0, s') \<Longrightarrow>
      inv s' \<and> jobs s' = jobs s \<and> tokens s' = (if is_ok r0 then add_mset i (tokens s) else tokens s)"
    and Receive: "inv s \<Longrightarrow> queue_Receive (Q pick) ctx s = Some (rd, s') \<Longrightarrow>
      inv s' \<and> jobs s' = jobs s \<and>
      (case rd of Inr (Some d) \<Rightarrow> tokens s = add_mset (delivery_JobID (Q pick) d) (tokens s')
       | _ \<Rightarrow> tokens s' = tokens s)"
    and Ack: "inv s \<Longrightarrow> delivery_Ack (Q pick) ctx d s = Some (r0, s') \<Longrightarrow>
      inv s' \<and> jobs s' = jobs s \<and> tokens s' = tokens s"
    and Nack: "inv s \<Longrightarrow> delivery_Nack (Q pick) ctx d s = Some (r0, s') \<Longrightarrow>
      inv s' \<and> jobs s' = jobs s \<and>
      tokens s' = (if is_ok r0 then add_mset (delivery_JobID (Q pick) d) (tokens s) else tokens s)"

section \<open>The invariant\<close>

text \<open>What a goroutine knows of the job it holds: another goroutine may have removed it (expiry), but not
  changed it.\<close>

definition open_or_gone :: "(string \<Rightarrow> Job option) \<Rightarrow> string \<Rightarrow> bool" where
  "open_or_gone f i \<longleftrightarrow> (\<forall>j. f i = Some j \<longrightarrow> \<not> finished j)"

definition done_or_gone :: "(string \<Rightarrow> Job option) \<Rightarrow> string \<Rightarrow> bool" where
  "done_or_gone f i \<longleftrightarrow> (\<forall>j. f i = Some j \<longrightarrow> finished j)"

fun task_ok :: "(Job \<Rightarrow> bool) \<Rightarrow> ('d \<Rightarrow> string) \<Rightarrow> (string \<Rightarrow> Job option) \<Rightarrow> 'd task \<Rightarrow> bool" where
  "task_ok storable jobID f (Loaded d job) \<longleftrightarrow>
     job_ID job = jobID d \<and> \<not> finished job \<and> (\<forall>j. f (jobID d) = Some j \<longrightarrow> j = job)"
| "task_ok storable jobID f (Running d job) \<longleftrightarrow> job_ID job = jobID d \<and> open_or_gone f (jobID d)"
| "task_ok storable jobID f (Processed d job outcome) \<longleftrightarrow> job_ID job = jobID d \<and> open_or_gone f (jobID d)"
| "task_ok storable jobID f (Settling d v) \<longleftrightarrow> v = NackIt \<or> v = AckIt \<and> done_or_gone f (jobID d)"
| "task_ok storable jobID f (Creating job) \<longleftrightarrow> storable job \<and> \<not> finished job \<and> f (job_ID job) = None"
| "task_ok storable jobID f (Enqueueing job) \<longleftrightarrow> open_or_gone f (job_ID job)"
| "task_ok storable jobID f (Refused job) \<longleftrightarrow> open_or_gone f (job_ID job)"
| "task_ok storable jobID f _ \<longleftrightarrow> True"

lemma task_ok_cong:
  "(\<And>i. i \<in># holds jobID ph \<Longrightarrow> f' i = f i) \<Longrightarrow> task_ok storable jobID f' ph = task_ok storable jobID f ph"
  by (cases ph) (simp_all add: open_or_gone_def done_or_gone_def)

lemma task_ok_less: "f' \<subseteq>\<^sub>m f \<Longrightarrow> task_ok storable jobID f ph \<Longrightarrow> task_ok storable jobID f' ph"
proof -
  assume "f' \<subseteq>\<^sub>m f"
  then have "f' i = Some j \<Longrightarrow> f i = Some j" for i j by (auto simp: map_le_def dom_def)
  moreover have "f i = None \<Longrightarrow> f' i = None" for i using calculation by (metis not_None_eq)
  ultimately show "task_ok storable jobID f ph \<Longrightarrow> task_ok storable jobID f' ph"
    by (cases ph) (auto simp: open_or_gone_def done_or_gone_def)
qed

text \<open>No job has two deliveries, here or to come; the goroutines are right about their jobs; and a job that
  is not finished has its delivery, or was given up.\<close>

definition sound_tasks ::
  "(Job \<Rightarrow> bool) \<Rightarrow> ('d \<Rightarrow> string) \<Rightarrow> (string \<Rightarrow> Job option) \<Rightarrow> string multiset \<Rightarrow> 'd task list \<Rightarrow> string set \<Rightarrow> bool" where
  "sound_tasks storable jobID f T tasks lost \<longleftrightarrow>
     (\<forall>i. count (T + held jobID tasks) i \<le> 1) \<and>
     (\<forall>ph \<in> set tasks. task_ok storable jobID f ph) \<and>
     (\<forall>i j. f i = Some j \<longrightarrow> finished j \<or> i \<in># T + held jobID tasks \<or> i \<in> lost)"

lemma held_split: "k < length tasks \<Longrightarrow> held jobID tasks = holds jobID (tasks ! k) + held jobID (take k tasks @ drop (Suc k) tasks)"
  by (subst id_take_nth_drop [of k tasks]) (simp_all add: held_def)

lemma tasks_held_update:
  "k < length tasks \<Longrightarrow> held jobID (tasks[k := ph]) = holds jobID ph + held jobID (take k tasks @ drop (Suc k) tasks)"
  by (simp add: upd_conv_take_nth_drop held_def)

lemma holds_held: "ph \<in> set tasks \<Longrightarrow> holds jobID ph \<subseteq># held jobID tasks"
  by (induction tasks) (auto simp: held_def intro: subset_mset.add_increasing)

text \<open>One goroutine moves: it touches only the job it holds.\<close>

lemma sound_move:
  assumes sound: "sound_tasks storable jobID f T tasks lost" and k: "k < length tasks" "tasks ! k = ph"
    and fewer: "T' + holds jobID ph' \<subseteq># T + holds jobID ph"
    and same: "\<And>i. i \<notin># holds jobID ph \<Longrightarrow> f' i = f i"
    and ok: "task_ok storable jobID f' ph'"
    and kept: "\<And>i j. i \<in># T + holds jobID ph \<Longrightarrow> f' i = Some j \<Longrightarrow>
      finished j \<or> i \<in># T' + holds jobID ph' \<or> i \<in> lost'"
  shows "sound_tasks storable jobID f' T' (tasks[k := ph']) (lost \<union> lost')"
proof -
  define others where "others = take k tasks @ drop (Suc k) tasks"
  define R where "R = held jobID others"
  have old: "held jobID tasks = holds jobID ph + R" using held_split [of k tasks jobID] k by (simp add: R_def others_def)
  have new: "held jobID (tasks[k := ph']) = holds jobID ph' + R"
    using tasks_held_update [of k tasks jobID] k by (simp add: R_def others_def)
  have one: "count (T + (holds jobID ph + R)) i \<le> 1" for i using sound old by (simp add: sound_tasks_def)
  have "count (T' + (holds jobID ph' + R)) i \<le> 1" for i
    using mset_subset_eq_count [OF fewer, of i] one [of i] by simp
  moreover have "task_ok storable jobID f' p" if "p \<in> set (tasks[k := ph'])" for p
  proof (cases "p \<in> set others")
    case True
    then have "p \<in> set tasks" by (auto simp: others_def dest: in_set_takeD in_set_dropD)
    then have "task_ok storable jobID f p" using sound by (simp add: sound_tasks_def)
    moreover have "f' i = f i" if "i \<in># holds jobID p" for i
    proof (rule same)
      have "i \<in># R" using that mset_subset_eqD [OF holds_held [OF True]] by (simp add: R_def)
      then have "0 < count R i" by simp
      with one [of i] have "count (holds jobID ph) i = 0" unfolding count_union by linarith
      then show "i \<notin># holds jobID ph" by (simp add: not_in_iff)
    qed
    ultimately show ?thesis using task_ok_cong by metis
  next
    case False
    with that k have "p = ph'" by (auto simp: upd_conv_take_nth_drop others_def)
    with ok show ?thesis by simp
  qed
  moreover have "finished j \<or> i \<in># T' + (holds jobID ph' + R) \<or> i \<in> lost \<union> lost'" if "f' i = Some j" for i j
  proof (cases "i \<in># T + holds jobID ph")
    case True
    with kept that show ?thesis by auto
  next
    case False
    with same that have "f i = Some j" by auto
    with sound have "finished j \<or> i \<in># T + (holds jobID ph + R) \<or> i \<in> lost" unfolding sound_tasks_def old by blast
    with False show ?thesis by auto
  qed
  ultimately show ?thesis unfolding sound_tasks_def new by blast
qed

lemma sound_spawn:
  assumes "sound_tasks storable jobID f T tasks lost"
    and "storable job" "\<not> finished job" "f (job_ID job) = None" "job_ID job \<notin># T + held jobID tasks"
  shows "sound_tasks storable jobID f T (tasks @ [Creating job]) lost"
proof -
  have h: "held jobID (tasks @ [Creating job]) = add_mset (job_ID job) (held jobID tasks)" by (simp add: held_def)
  show ?thesis
    using assms unfolding sound_tasks_def h by (auto simp: not_in_iff)
qed

lemma sound_less: "f' \<subseteq>\<^sub>m f \<Longrightarrow> sound_tasks storable jobID f T tasks lost \<Longrightarrow> sound_tasks storable jobID f' T tasks lost"
  unfolding sound_tasks_def by (metis task_ok_less map_le_def domI)

text \<open>A finished job does not change; it may be removed.\<close>

definition frozen :: "(string \<Rightarrow> Job option) \<Rightarrow> (string \<Rightarrow> Job option) \<Rightarrow> bool" where
  "frozen f g \<longleftrightarrow> (\<forall>i j j'. f i = Some j \<longrightarrow> finished j \<longrightarrow> g i = Some j' \<longrightarrow> j' = j)"

lemma frozen_refl [simp]: "frozen f f"
  by (simp add: frozen_def)

lemma frozen_open: "(\<And>n. n \<noteq> i \<Longrightarrow> g n = f n) \<Longrightarrow> open_or_gone f i \<Longrightarrow> frozen f g"
  unfolding frozen_def open_or_gone_def by (metis option.inject)

lemma frozen_less: "g \<subseteq>\<^sub>m f \<Longrightarrow> frozen f g"
  unfolding frozen_def by (metis domI map_le_def option.inject)

lemma queued_open: "job_Status j = StatusQueued \<Longrightarrow> \<not> finished j"
  by (simp add: finished_def)

section \<open>Steps keep the invariant\<close>

context single_delivery
begin

abbreviation jid :: "'d \<Rightarrow> string" where
  "jid \<equiv> delivery_JobID (Q False)"

lemma load_facts:
  assumes "inv s" and "handle_load S (Q pick) onError ctx d s = (v, errors, s')"
  shows "inv s' \<and> jobs s' = jobs s \<and> tokens s' = tokens s \<and> task_ok storable jid (jobs s) (after_load d v)"
proof -
  obtain rj s1 where g: "store_Get S ctx (jid d) s = (rj, s1)" by force
  note call = assms(2) [unfolded handle_load_def JobID [of pick] g prod.case]
  note found = Get [OF assms(1) g] Get_tokens [OF assms(1) g]
  show ?thesis
  proof (cases rj)
    case (Inl e)
    with found have s1: "inv s1" "jobs s1 = jobs s" "tokens s1 = tokens s"
      "errors_Is e ErrNotFound \<Longrightarrow> jobs s (jid d) = None" by auto
    show ?thesis
    proof (cases "errors_Is e ErrNotFound")
      case True
      with call Inl have "v = AckIt" "s' = s1" by auto
      with s1 True show ?thesis by (simp add: after_load_def done_or_gone_def)
    next
      case False
      with call Inl have "v = NackIt" "s' = s1" by auto
      with s1 show ?thesis by (simp add: after_load_def)
    qed
  next
    case (Inr j)
    with found have s1: "inv s1" "jobs s1 = jobs s" "tokens s1 = tokens s" "jobs s (jid d) = Some j" by auto
    show ?thesis
    proof (cases "finished j")
      case True
      with call Inr have "v = AckIt" "s' = s1" by (auto simp: finished_def)
      with s1 True show ?thesis by (simp add: after_load_def done_or_gone_def)
    next
      case False
      with call Inr have "v = Proceed j" "s' = s1" by (auto simp: finished_def split: if_splits)
      with s1 False keyed [OF assms(1) s1(4)] show ?thesis by (simp add: after_load_def)
    qed
  qed
qed

lemma update_facts:
  assumes "inv s" and "updatable u" and "store_Update S ctx i u s = (r, s')"
  shows "inv s' \<and> tokens s' = tokens s \<and> (\<forall>n. n \<noteq> i \<longrightarrow> jobs s' n = jobs s n) \<and>
    (jobs s' i = jobs s i \<and> \<not> is_ok r \<or> (\<exists>j. jobs s i = Some j \<and> jobs s' i = Some (apply_update (keep u) j)))"
proof -
  note upd = Update [OF assms]
  then consider (written) j where "jobs s i = Some j" "jobs s' = (jobs s)(i \<mapsto> apply_update (keep u) j)"
    | (failed) e where "r = Inl e" "jobs s' = jobs s" by blast
  then show ?thesis using upd Update_tokens [OF assms(1,3)] by cases simp_all
qed

lemma mark_facts:
  assumes "inv s" and "handle_mark S onError ctx now job s = (v, errors, s')" and "updatable (running_update now)"
    and "task_ok storable jid (jobs s) (Loaded d job)"
  shows "inv s' \<and> tokens s' = tokens s \<and> (\<forall>n. n \<noteq> jid d \<longrightarrow> jobs s' n = jobs s n) \<and>
    open_or_gone (jobs s) (jid d) \<and> task_ok storable jid (jobs s') (after_mark d v)"
proof -
  have job: "job_ID job = jid d" "open_or_gone (jobs s) (jid d)" using assms(4) by (auto simp: open_or_gone_def)
  show ?thesis
  proof (cases "job_Status job = StatusQueued")
    case False
    with assms(1,2) job show ?thesis by (auto simp: handle_mark_def after_mark_def)
  next
    case True
    obtain r s1 where u: "store_Update S ctx (jid d) (running_update now) s = (r, s1)" by force
    have "open_or_gone (jobs s1) (jid d)"
      using update_facts [OF assms(1,3) u] job(2) keep_status [of "running_update now"]
      by (auto simp: open_or_gone_def finished_def running_update_def)
    with assms(2) True u job update_facts [OF assms(1,3) u] show ?thesis
      by (cases r) (auto simp: handle_mark_def after_mark_def)
  qed
qed

lemma complete_facts:
  assumes "inv s" and "handle_complete tbl S onError ctx now job outcome s = (v, errors, s')"
    and "updatable (completion_update tbl outcome now)" and "task_ok storable jid (jobs s) (Processed d job outcome)"
  shows "inv s' \<and> tokens s' = tokens s \<and> (\<forall>n. n \<noteq> jid d \<longrightarrow> jobs s' n = jobs s n) \<and>
    open_or_gone (jobs s) (jid d) \<and> task_ok storable jid (jobs s') (Settling d v)"
proof -
  let ?u = "completion_update tbl outcome now"
  have job: "job_ID job = jid d" "open_or_gone (jobs s) (jid d)" using assms(4) by auto
  obtain r s1 where u: "store_Update S ctx (jid d) ?u s = (r, s1)" by force
  note upd = update_facts [OF assms(1,3) u]
  have "is_ok r \<Longrightarrow> done_or_gone (jobs s1) (jid d)"
    using upd completion_finished [OF keep_status] by (auto simp: done_or_gone_def)
  with assms(2) u job upd show ?thesis by (cases r) (auto simp: handle_complete_def)
qed

abbreviation sound_now :: "('s, 'd) system \<Rightarrow> bool" where
  "sound_now \<sigma> \<equiv> inv (sys_backend \<sigma>) \<and>
     sound_tasks storable jid (jobs (sys_backend \<sigma>)) (tokens (sys_backend \<sigma>)) (sys_tasks \<sigma>) (sys_given_up \<sigma>)"

abbreviation keeps :: "('s, 'd) system \<Rightarrow> ('s, 'd) system \<Rightarrow> bool" where
  "keeps \<sigma> \<sigma>' \<equiv> sound_now \<sigma>' \<and> frozen (jobs (sys_backend \<sigma>)) (jobs (sys_backend \<sigma>'))"

lemma at_ok:
  "sound_now \<sigma> \<Longrightarrow> at_task \<sigma> k ph \<Longrightarrow>
     k < length (sys_tasks \<sigma>) \<and> sys_tasks \<sigma> ! k = ph \<and> task_ok storable jid (jobs (sys_backend \<sigma>)) ph"
  by (auto simp: at_task_def sound_tasks_def)

text \<open>A goroutine moves.\<close>

lemma keeps_move:
  assumes "sound_now \<sigma>" "at_task \<sigma> k ph" and "inv s'"
    and "tokens s' + holds jid ph' \<subseteq># tokens (sys_backend \<sigma>) + holds jid ph"
    and "\<And>i. i \<notin># holds jid ph \<Longrightarrow> jobs s' i = jobs (sys_backend \<sigma>) i" and "task_ok storable jid (jobs s') ph'"
    and "\<And>i j. i \<in># tokens (sys_backend \<sigma>) + holds jid ph \<Longrightarrow> jobs s' i = Some j \<Longrightarrow>
        finished j \<or> i \<in># tokens s' + holds jid ph' \<or> i \<in> lost"
    and "frozen (jobs (sys_backend \<sigma>)) (jobs s')"
  shows "keeps \<sigma> (goto k ph' errors lost s' \<sigma>)"
proof -
  have k: "k < length (sys_tasks \<sigma>)" "sys_tasks \<sigma> ! k = ph" using at_ok [OF assms(1,2)] by simp_all
  have "sound_tasks storable jid (jobs s') (tokens s') ((sys_tasks \<sigma>)[k := ph']) (sys_given_up \<sigma> \<union> lost)"
    by (rule sound_move [OF conjunct2 [OF assms(1)] k assms(4-7)])
  with assms(3,8) show ?thesis by (simp add: goto_def)
qed

text \<open>A goroutine moves and keeps its job.\<close>

lemma keeps_held:
  assumes "sound_now \<sigma>" "at_task \<sigma> k ph" and "inv s'" "tokens s' = tokens (sys_backend \<sigma>)"
    and "holds jid ph = {#i#}" "holds jid ph' = {#i#}"
    and "\<And>n. n \<noteq> i \<Longrightarrow> jobs s' n = jobs (sys_backend \<sigma>) n" and "task_ok storable jid (jobs s') ph'"
    and "jobs s' = jobs (sys_backend \<sigma>) \<or> open_or_gone (jobs (sys_backend \<sigma>)) i"
  shows "keeps \<sigma> (goto k ph' errors {} s' \<sigma>)"
proof (rule keeps_move [OF assms(1-3)])
  show "frozen (jobs (sys_backend \<sigma>)) (jobs s')" using assms(7,9) frozen_open by fastforce
qed (use assms(4-8) in auto)

lemma receive_keeps:
  assumes "sound_now \<sigma>" "at_task \<sigma> k Idle" and "queue_Receive (Q pick) ctx (sys_backend \<sigma>) = Some (r, s')"
    and "after_receive onError ctx r = (ph, errors)"
  shows "keeps \<sigma> (goto k ph errors {} s' \<sigma>)"
proof -
  note got = Receive [OF conjunct1 [OF assms(1)] assms(3)]
  have "tokens s' + holds jid ph = tokens (sys_backend \<sigma>) \<and> task_ok storable jid (jobs s') ph"
    using got assms(4) JobID [of pick]
    by (auto simp: after_receive_def split: sum.splits option.splits if_splits)
  with got show ?thesis by (intro keeps_move [OF assms(1,2)]) auto
qed

lemma load_keeps:
  assumes "sound_now \<sigma>" "at_task \<sigma> k (Got d)"
    and "handle_load S (Q pick) onError ctx d (sys_backend \<sigma>) = (v, errors, s')"
  shows "keeps \<sigma> (goto k (after_load d v) errors {} s' \<sigma>)"
  using load_facts [OF conjunct1 [OF assms(1)] assms(3)]
  by (intro keeps_held [OF assms(1,2)]) (auto simp: after_load_def split: verdict.split)

lemma mark_keeps:
  assumes "sound_now \<sigma>" "at_task \<sigma> k (Loaded d job)" and "updatable (running_update now)"
    and "handle_mark S onError ctx now job (sys_backend \<sigma>) = (v, errors, s')"
  shows "keeps \<sigma> (goto k (after_mark d v) errors {} s' \<sigma>)"
  using mark_facts [OF conjunct1 [OF assms(1)] assms(4,3)] at_ok [OF assms(1,2)]
  by (intro keeps_held [OF assms(1,2)]) (auto simp: after_mark_def split: verdict.split)

lemma process_keeps:
  assumes "sound_now \<sigma>" "at_task \<sigma> k (Running d job)"
  shows "keeps \<sigma> (goto k (Processed d job outcome) [] {} (sys_backend \<sigma>) \<sigma>)"
  using at_ok [OF assms] by (intro keeps_held [OF assms]) (use assms(1) in auto)

lemma complete_keeps:
  assumes "sound_now \<sigma>" "at_task \<sigma> k (Processed d job outcome)"
    and "updatable (completion_update tbl outcome now)"
    and "handle_complete tbl S onError ctx now job outcome (sys_backend \<sigma>) = (v, errors, s')"
  shows "keeps \<sigma> (goto k (Settling d v) errors {} s' \<sigma>)"
  using complete_facts [OF conjunct1 [OF assms(1)] assms(4,3)] at_ok [OF assms(1,2)]
  by (intro keeps_held [OF assms(1,2)]) auto

lemma settle_keeps:
  assumes "sound_now \<sigma>" "at_task \<sigma> k (Settling d v)"
    and "v \<noteq> NackIt \<and> delivery_Ack (Q pick) ctx d (sys_backend \<sigma>) = Some (r, s') \<and> lost = {} \<or>
      v = NackIt \<and> delivery_Nack (Q pick) ctx d (sys_backend \<sigma>) = Some (r, s') \<and> lost = given_up r (jid d)"
  shows "keeps \<sigma> (goto k Idle errors lost s' \<sigma>)"
proof -
  have inv: "inv (sys_backend \<sigma>)" using assms(1) by simp
  have "v = AckIt \<longrightarrow> done_or_gone (jobs (sys_backend \<sigma>)) (jid d)" "v = AckIt \<or> v = NackIt"
    using at_ok [OF assms(1,2)] by auto
  with assms(3) Ack [OF inv, of pick ctx d r s'] Nack [OF inv, of pick ctx d r s'] JobID [of pick]
  show ?thesis
    by (intro keeps_move [OF assms(1,2)])
      (auto simp: given_up_def done_or_gone_def is_ok_def split: sum.splits)
qed

lemma create_keeps:
  assumes "sound_now \<sigma>" "at_task \<sigma> k (Creating job)"
    and "store_Create S ctx job (sys_backend \<sigma>) = (r, s')"
  shows "keeps \<sigma> (goto k (if is_ok r then Enqueueing job else Answered 503) [] (given_up r (job_ID job)) s' \<sigma>)"
proof -
  have new: "storable job" "\<not> finished job" "jobs (sys_backend \<sigma>) (job_ID job) = None"
    using at_ok [OF assms(1,2)] by auto
  then have "\<not> finished (canon job)" using canon_same(3) [of job] by (simp add: finished_def)
  with new Create [OF conjunct1 [OF assms(1)] new(1,3) assms(3)] Create_tokens [OF conjunct1 [OF assms(1)] assms(3)]
  show ?thesis
    by (intro keeps_move [OF assms(1,2)])
      (auto simp: given_up_def open_or_gone_def frozen_def split: sum.splits if_splits)
qed

lemma enqueue_keeps:
  assumes "sound_now \<sigma>" "at_task \<sigma> k (Enqueueing job)"
    and "queue_Enqueue (Q pick) ctx (job_ID job) (sys_backend \<sigma>) = Some (r, s')"
  shows "keeps \<sigma> (goto k (if is_ok r then Answered 202 else Refused job) [] {} s' \<sigma>)"
  using Enqueue [OF conjunct1 [OF assms(1)] assms(3)] at_ok [OF assms(1,2)]
  by (intro keeps_move [OF assms(1,2)]) (auto split: if_splits)

lemma refuse_keeps:
  assumes "sound_now \<sigma>" "at_task \<sigma> k (Refused job)" and "updatable (queue_failure_update now)"
    and "store_Update S ctx (job_ID job) (queue_failure_update now) (sys_backend \<sigma>) = (r, s')"
  shows "keeps \<sigma> (goto k (Answered 503) [] (given_up r (job_ID job)) s' \<sigma>)"
proof -
  note upd = update_facts [OF conjunct1 [OF assms(1)] assms(3,4)]
  have "open_or_gone (jobs (sys_backend \<sigma>)) (job_ID job)" using at_ok [OF assms(1,2)] by simp
  then have "frozen (jobs (sys_backend \<sigma>)) (jobs s')" using upd frozen_open [of "job_ID job"] by blast
  moreover have "finished (apply_update (keep (queue_failure_update now)) j)" for j
    using keep_status [of "queue_failure_update now"] by (simp add: finished_def queue_failure_update_def)
  ultimately show ?thesis
    using upd by (intro keeps_move [OF assms(1,2)]) (auto simp: given_up_def is_ok_def split: sum.splits)
qed

lemma step_keeps:
  assumes "system_step jobs storable tokens c \<sigma> \<sigma>'" and "sound_now \<sigma>"
    and "sp_Store c = S" "sp_Queue c = Q"
    and "\<And>t. updatable (running_update t)" "\<And>outcome t. updatable (completion_update (sp_tbl c) outcome t)"
      "\<And>t. updatable (queue_failure_update t)"
  shows "keeps \<sigma> \<sigma>'"
  using assms(1)
proof cases
  case (receive k pick ctx r s' ph errors)
  from receive_keeps [OF assms(2) receive(2) receive(3) [unfolded assms(4)] receive(4)] receive(1) show ?thesis by simp
next
  case (load k d pick ctx v errors s')
  from load_keeps [OF assms(2) load(2) load(3) [unfolded assms(3,4)]] load(1) show ?thesis by simp
next
  case (mark k d job ctx now v errors s')
  from mark_keeps [OF assms(2) mark(2) assms(5) mark(3) [unfolded assms(3)]] mark(1) show ?thesis by simp
next
  case (process k d job outcome ctx)
  from process_keeps [OF assms(2) process(2)] process(1) show ?thesis by simp
next
  case (complete k d job outcome ctx now v errors s')
  from complete_keeps [OF assms(2) complete(2) assms(6) complete(3) [unfolded assms(3)]] complete(1) show ?thesis by simp
next
  case (ack k d v pick ctx r s')
  from settle_keeps [OF assms(2) ack(2), of pick ctx r s' "{}"] ack assms(4) show ?thesis by simp
next
  case (nack k d pick ctx r s')
  from settle_keeps [OF assms(2) nack(2), of pick ctx r s' "given_up r (jid d)"] nack assms(4) show ?thesis by simp
next
  case (request job)
  with assms(2,4) queued_open show ?thesis by (auto intro: sound_spawn)
next
  case (create k job ctx r s')
  from create_keeps [OF assms(2) create(2) create(3) [unfolded assms(3)]] create(1) show ?thesis by simp
next
  case (enqueue k job pick ctx r s')
  from enqueue_keeps [OF assms(2) enqueue(2) enqueue(3) [unfolded assms(4)]] enqueue(1) show ?thesis by simp
next
  case (refuse k job ctx now r s')
  from refuse_keeps [OF assms(2) refuse(2) assms(7) refuse(3) [unfolded assms(3)]] refuse(1) show ?thesis by simp
next
  case (cleanup ctx now n s')
  note clean = Cleanup [OF conjunct1 [OF assms(2)] cleanup(2) [unfolded assms(3)]]
  from sound_less [OF conjunct1 [OF conjunct2 [OF clean]] conjunct2 [OF assms(2)]] clean cleanup(1) show ?thesis
    by (simp add: frozen_less)
qed

end

section \<open>The memory backend\<close>

interpretation mem_once: single_delivery memory_Store mem_jobs mem_inv "\<lambda>j. j" "\<lambda>u. u" "\<lambda>_. True" "\<lambda>_. True"
    memory_Queue "\<lambda>b. mset (mem_queue b)"
proof unfold_locales
  fix s s' :: Backend and i job before ctx pick d and r0 :: "go_error + unit"
    and rj :: "go_error + Job" and rn :: "go_error + int" and rd :: "go_error + string option"
  have enqueued: "mem_inv s' = mem_inv s \<and> mem_jobs s' = mem_jobs s \<and>
      mset (mem_queue s') = (if is_ok r0 then add_mset i (mset (mem_queue s)) else mset (mem_queue s))"
    if "memory_Enqueue pick ctx i s = Some (r0, s')" for pick ctx i s r0 s'
    using that mem_same_values [of s' s]
    by (auto simp: memory_Enqueue_def Let_def split: option.splits if_splits)
  show "delivery_JobID (memory_Queue pick) = delivery_JobID (memory_Queue False)"
    by (simp add: memory_Queue_def)
  show "store_Get memory_Store ctx i s = (rj, s') \<Longrightarrow> mset (mem_queue s') = mset (mem_queue s)"
    by (auto simp: memory_Store_def memory_Get_def split: option.splits)
  show "store_Create memory_Store ctx job s = (r0, s') \<Longrightarrow> mset (mem_queue s') = mset (mem_queue s)"
    by (auto simp: memory_Store_def memory_Create_def)
  show "store_Update memory_Store ctx i u s = (r0, s') \<Longrightarrow> mset (mem_queue s') = mset (mem_queue s)" for u
    by (auto simp: memory_Store_def memory_Update_eq split: option.splits)
  show "mem_inv s' \<and> mem_jobs s' \<subseteq>\<^sub>m mem_jobs s \<and> mset (mem_queue s') = mset (mem_queue s)"
    if "mem_inv s" "store_DeleteExpired memory_Store ctx before s = (rn, s')"
  proof -
    have "mem_queue s' = mem_queue s" "\<exists>n. rn = Inr n"
      using that(2) by (auto simp: memory_Store_def memory_DeleteExpired_def split: prod.splits)
    with mem.DeleteExpired [OF that(1) TrueI that(2)] show ?thesis
      by (auto simp: map_le_def split: option.splits if_splits)
  qed
  show "mem_inv s' \<and> mem_jobs s' = mem_jobs s \<and>
      mset (mem_queue s') = (if is_ok r0 then add_mset i (mset (mem_queue s)) else mset (mem_queue s))"
    if "mem_inv s" "queue_Enqueue (memory_Queue pick) ctx i s = Some (r0, s')"
    using that enqueued [of pick ctx i s r0 s'] by (simp add: memory_Queue_def)
  show "mem_inv s' \<and> mem_jobs s' = mem_jobs s \<and>
      (case rd of
         Inr (Some d) \<Rightarrow> mset (mem_queue s) = add_mset (delivery_JobID (memory_Queue pick) d) (mset (mem_queue s'))
       | _ \<Rightarrow> mset (mem_queue s') = mset (mem_queue s))"
    if "mem_inv s" "queue_Receive (memory_Queue pick) ctx s = Some (rd, s')"
    using that mem_same_values [of s' s]
    by (auto simp: memory_Queue_def memory_Receive_def memory_JobID_def split: list.splits option.splits if_splits)
  show "mem_inv s' \<and> mem_jobs s' = mem_jobs s \<and> mset (mem_queue s') = mset (mem_queue s)"
    if "mem_inv s" "delivery_Ack (memory_Queue pick) ctx d s = Some (r0, s')"
    using that by (auto simp: memory_Queue_def memory_Ack_def)
  show "mem_inv s' \<and> mem_jobs s' = mem_jobs s \<and>
      mset (mem_queue s') = (if is_ok r0 then add_mset (delivery_JobID (memory_Queue pick) d) (mset (mem_queue s))
        else mset (mem_queue s))"
    if "mem_inv s" "delivery_Nack (memory_Queue pick) ctx d s = Some (r0, s')"
    using that enqueued [of pick ctx d s r0 s'] by (simp add: memory_Queue_def memory_Nack_def memory_JobID_def)
qed

section \<open>Runs of one goroutine\<close>

lemma goto_goto [simp]:
  "goto k ph2 errors2 lost2 s2 (goto k ph1 errors1 lost1 s1 \<sigma>) =
     goto k ph2 (errors1 @ errors2) (lost1 \<union> lost2) s2 \<sigma>"
  by (simp add: goto_def Un_assoc)

lemma at_goto [simp]: "k < length (sys_tasks \<sigma>) \<Longrightarrow> at_task (goto k ph errors lost s \<sigma>) k ph"
  by (simp add: at_task_def goto_def)

lemma backend_goto [simp]: "sys_backend (goto k ph errors lost s \<sigma>) = s"
  by (simp add: goto_def)

lemma report_append: "report onError r errors = errors @ report onError r []"
  by (simp add: report_def split: sum.split)

lemma settle_run:
  assumes "settle (sp_Queue c pick) (sp_onError c) ctx d v errs s = Some (errors, s')"
    and "k < length (sys_tasks \<sigma>)"
  shows "\<exists>lost. system_step jobs storable tokens c (goto k (Settling d v) errs {} s \<sigma>) (goto k Idle errors lost s' \<sigma>)"
proof (cases "v = NackIt")
  case True
  with assms(1) obtain r where r: "delivery_Nack (sp_Queue c pick) ctx d s = Some (r, s')"
    "errors = errs @ report (sp_onError c) r []"
    by (auto simp: settle_def bind_eq_Some_conv intro: report_append)
  from system_step.nack [of "goto k (Settling d v) errs {} s \<sigma>" k d c pick ctx r s' jobs storable tokens] True assms(2) r
  show ?thesis by auto
next
  case False
  with assms(1) obtain r where r: "delivery_Ack (sp_Queue c pick) ctx d s = Some (r, s')"
    "errors = errs @ report (sp_onError c) r []"
    by (auto simp: settle_def bind_eq_Some_conv split: verdict.splits intro: report_append)
  from system_step.ack [of "goto k (Settling d v) errs {} s \<sigma>" k d v c pick ctx r s' jobs storable tokens] False assms(2) r
  show ?thesis by auto
qed

text \<open>The steps of a delivery, one after the other.\<close>

lemma handle_run:
  assumes call: "handle (sp_tbl c) (sp_Store c) (sp_Queue c pick) (sp_process c) (sp_timeout c) (sp_onError c)
      now completedAt ctx d (sys_backend \<sigma>) = Some (errors, s')"
    and at: "at_task \<sigma> k (Got d)"
  shows "\<exists>lost. (system_step jobs storable tokens c)\<^sup>*\<^sup>* \<sigma> (goto k Idle errors lost s' \<sigma>)"
proof -
  let ?step = "system_step jobs storable tokens c" and ?Q = "sp_Queue c pick" and ?on = "sp_onError c"
  have k: "k < length (sys_tasks \<sigma>)" using at by (simp add: at_task_def)
  have settled: "?thesis"
    if "?step\<^sup>*\<^sup>* \<sigma> (goto k (Settling d v) errs {} s1 \<sigma>)" "settle ?Q ?on ctx d v errs s1 = Some (errors, s')" for v errs s1
    using settle_run [OF that(2) k] that(1) rtranclp.rtrancl_into_rtrancl by metis
  obtain v1 e1 s1 where l: "handle_load (sp_Store c) ?Q ?on ctx d (sys_backend \<sigma>) = (v1, e1, s1)" by (metis surj_pair)
  have one: "?step\<^sup>*\<^sup>* \<sigma> (goto k (after_load d v1) e1 {} s1 \<sigma>)"
    using system_step.load [OF at l] by (rule r_into_rtranclp)
  show ?thesis
  proof (cases v1)
    case (Proceed job0)
    let ?s1 = "goto k (Loaded d job0) e1 {} s1 \<sigma>"
    obtain v2 e2 s2 where m: "handle_mark (sp_Store c) ?on ctx now job0 s1 = (v2, e2, s2)" by (metis surj_pair)
    have two: "?step\<^sup>*\<^sup>* \<sigma> (goto k (after_mark d v2) (e1 @ e2) {} s2 \<sigma>)"
      using one Proceed system_step.mark [of ?s1 k d job0 c ctx now v2 e2 s2] m k
      by (auto simp: after_load_def intro: rtranclp.rtrancl_into_rtrancl)
    show ?thesis
    proof (cases v2)
      case running: (Proceed job)
      let ?o = "sp_process c (process_timeout (sp_timeout c), ctx) job"
      obtain v3 e3 s3 where f: "handle_complete (sp_tbl c) (sp_Store c) ?on ctx completedAt job ?o s2 = (v3, e3, s3)"
        by (metis surj_pair)
      have "?step (goto k (Running d job) (e1 @ e2) {} s2 \<sigma>) (goto k (Processed d job ?o) (e1 @ e2) {} s2 \<sigma>)"
        using system_step.process [of "goto k (Running d job) (e1 @ e2) {} s2 \<sigma>" k d job ?o c ctx] k by simp
      moreover have "?step (goto k (Processed d job ?o) (e1 @ e2) {} s2 \<sigma>) (goto k (Settling d v3) (e1 @ e2 @ e3) {} s3 \<sigma>)"
        using system_step.complete [of "goto k (Processed d job ?o) (e1 @ e2) {} s2 \<sigma>" k d job ?o c ctx completedAt v3 e3 s3]
          f k by simp
      ultimately have "?step\<^sup>*\<^sup>* \<sigma> (goto k (Settling d v3) (e1 @ e2 @ e3) {} s3 \<sigma>)"
        using two running by (auto simp: after_mark_def intro: rtranclp.rtrancl_into_rtrancl)
      then show ?thesis using call l m f Proceed running by (intro settled) (simp_all add: handle_def Let_def)
    qed (use two call l m Proceed in \<open>auto simp: after_mark_def handle_def intro!: settled\<close>)
  qed (use one call l in \<open>auto simp: after_load_def handle_def intro!: settled\<close>)
qed

text \<open>A request that creates a job, one call after the other.\<close>

lemma create_run:
  assumes call: "create tbl handler ctx now later entropy request p (sys_backend \<sigma>) = Some (r, s')"
    and parts: "sv_Store handler = sp_Store c" "sv_Queue handler = sp_Queue c pick"
    and fresh: "\<And>input job. NewJob (principal_ID p) input now (sv_Retention handler) entropy = Inr job \<Longrightarrow>
      storable job \<and> jobs (sys_backend \<sigma>) (job_ID job) = None \<and>
      job_ID job \<notin># tokens (sys_backend \<sigma>) + held (delivery_JobID (sp_Queue c False)) (sys_tasks \<sigma>)"
  shows "s' = sys_backend \<sigma> \<or>
    (\<exists>\<sigma>'. (system_step jobs storable tokens c)\<^sup>*\<^sup>* \<sigma> \<sigma>' \<and> sys_backend \<sigma>' = s' \<and>
      sys_tasks \<sigma>' = sys_tasks \<sigma> @ [Answered (resp_Status r)])"
proof (cases "s' = sys_backend \<sigma>")
  case False
  let ?step = "system_step jobs storable tokens c"
  obtain input job where made: "decodeJSON (decode_Request True) (sv_MaxBodyBytes handler) request zero_request = Inr input"
      "sv_Validate handler input = Inr ()" "NewJob (principal_ID p) input now (sv_Retention handler) entropy = Inr job"
    using call False by (auto simp: create_def split: sum.splits)
  define k where "k = length (sys_tasks \<sigma>)"
  define \<sigma>0 where "\<sigma>0 = \<sigma>\<lparr>sys_tasks := sys_tasks \<sigma> @ [Creating job]\<rparr>"
  have "job_Status job = StatusQueued" using made(3) by (auto simp: NewJob_def split: if_splits sum.splits)
  with fresh [OF made(3)] have first: "?step \<sigma> \<sigma>0" unfolding \<sigma>0_def by (blast intro: system_step.request)
  have k: "k < length (sys_tasks \<sigma>0)" "at_task \<sigma>0 k (Creating job)" "sys_backend \<sigma>0 = sys_backend \<sigma>"
    by (simp_all add: k_def \<sigma>0_def at_task_def)
  have ended: ?thesis
    if "?step\<^sup>*\<^sup>* \<sigma>0 (goto k (Answered (resp_Status r)) errors lost s' \<sigma>0)" for errors lost
    using converse_rtranclp_into_rtranclp [OF first that]
    by (intro disjI2 exI) (auto simp: goto_def \<sigma>0_def k_def)
  obtain r1 s1 where c: "store_Create (sp_Store c) ctx job (sys_backend \<sigma>) = (r1, s1)" by force
  note created = system_step.create [of \<sigma>0 k job c ctx r1 s1 jobs storable tokens, OF k(2), unfolded k(3), OF c]
  note call = call [unfolded create_def made, simplified, unfolded parts c, simplified]
  show ?thesis
  proof (cases r1)
    case (Inl e)
    with call made c parts have "s' = s1" "resp_Status r = 503" by (auto simp: create_def)
    with created Inl show ?thesis by (intro ended) (auto intro: r_into_rtranclp)
  next
    case (Inr u)
    let ?s1 = "goto k (Enqueueing job) [] {} s1 \<sigma>0"
    have one: "?step\<^sup>*\<^sup>* \<sigma>0 ?s1" using created Inr by (auto simp: given_up_def intro: r_into_rtranclp)
    obtain r2 s2 where q: "queue_Enqueue (sp_Queue c pick) ctx (job_ID job) s1 = Some (r2, s2)"
      using call made c parts Inr by (auto simp: create_def bind_eq_Some_conv)
    note queued = system_step.enqueue [of ?s1 k job c pick ctx r2 s2 jobs storable tokens]
    show ?thesis
    proof (cases r2)
      case ok: (Inr u')
      with call made c parts Inr q have "s' = s2" "resp_Status r = 202" by (auto simp: create_def)
      with queued ok q k one show ?thesis by (intro ended) (auto intro: rtranclp.rtrancl_into_rtrancl)
    next
      case (Inl e)
      let ?s2 = "goto k (Refused job) [] {} s2 \<sigma>0"
      have two: "?step\<^sup>*\<^sup>* \<sigma>0 ?s2" using queued Inl q k one by (auto intro: rtranclp.rtrancl_into_rtrancl)
      obtain r3 s3 where u: "store_Update (sp_Store c) ctx (job_ID job) (queue_failure_update later) s2 = (r3, s3)"
        by force
      with call made c parts Inr q Inl have "s' = s3" "resp_Status r = 503" by (auto simp: create_def)
      with system_step.refuse [of ?s2 k job c ctx later r3 s3 jobs storable tokens] u k two show ?thesis
        by (intro ended) (auto intro: rtranclp.rtrancl_into_rtrancl)
    qed
  qed
qed simp

section \<open>Properties\<close>

text \<open>A start: nothing is in the queue or in hand, and whatever the store holds is finished.\<close>

definition starting ::
  "('s \<Rightarrow> bool) \<Rightarrow> ('s \<Rightarrow> string \<Rightarrow> Job option) \<Rightarrow> ('s \<Rightarrow> string multiset) \<Rightarrow> ('s, 'd) system \<Rightarrow> bool" where
  "starting invar jobs tokens \<sigma> \<longleftrightarrow>
     invar (sys_backend \<sigma>) \<and> tokens (sys_backend \<sigma>) = {#} \<and> set (sys_tasks \<sigma>) \<subseteq> {Idle} \<and>
     (\<forall>i j. jobs (sys_backend \<sigma>) i = Some j \<longrightarrow> finished j)"

context single_delivery
begin

lemma Run_starting:
  assumes "scheduler_Run True True True concurrency = Inr workers"
    and "inv s" "tokens s = {#}" "\<forall>i j. jobs s i = Some j \<longrightarrow> finished j"
  shows "starting inv jobs tokens \<lparr>sys_backend = s, sys_tasks = workers, sys_log = [], sys_given_up = {}\<rparr> \<and>
    workers \<noteq> [] \<and> \<not> scheduler_Run_returns ctx workers"
  using assms by (auto simp: scheduler_Run_def Run_concurrency_def starting_def scheduler_Run_returns_def list_all_iff
      split: if_splits)

lemma starting_sound: "starting inv jobs tokens \<sigma> \<Longrightarrow> sound_now \<sigma>"
proof -
  assume start: "starting inv jobs tokens \<sigma>"
  have "set tasks \<subseteq> {Idle} \<Longrightarrow> held jid tasks = {#}" for tasks
    by (induction tasks) (auto simp: held_def)
  with start show ?thesis by (auto simp: starting_def sound_tasks_def)
qed

lemma reachable_sound:
  assumes "(system_step jobs storable tokens c)\<^sup>*\<^sup>* \<sigma>0 \<sigma>" and "starting inv jobs tokens \<sigma>0"
    and "sp_Store c = S" "sp_Queue c = Q"
    and "\<And>t. updatable (running_update t)" "\<And>outcome t. updatable (completion_update (sp_tbl c) outcome t)"
      "\<And>t. updatable (queue_failure_update t)"
  shows "sound_now \<sigma>"
  using assms(1)
proof induction
  case base
  show ?case using assms(2) by (rule starting_sound)
next
  case (step \<sigma>1 \<sigma>2)
  from step_keeps [OF step(2) step(3) assms(3-7)] show ?case by blast
qed

end


text \<open>One worker on an empty memory backend; a request.\<close>

definition demo_parts :: "(Backend, string) service_parts" where
  "demo_parts = \<lparr>sp_tbl = \<lambda>_. True, sp_Store = memory_Store, sp_Queue = memory_Queue,
     sp_process = failing_processor, sp_timeout = 0, sp_onError = True\<rparr>"

definition demo_start :: "(Backend, string) system" where
  "demo_start = \<lparr>sys_backend = memory_New 4, sys_tasks = [Idle], sys_log = [], sys_given_up = {}\<rparr>"

abbreviation demo_step :: "(Backend, string) system \<Rightarrow> (Backend, string) system \<Rightarrow> bool" where
  "demo_step \<equiv> system_step mem_jobs (\<lambda>_. True) (\<lambda>b. mset (mem_queue b)) demo_parts"

lemma demo_parts: "sp_Store demo_parts = memory_Store" "sp_Queue demo_parts = memory_Queue"
  by (simp_all add: demo_parts_def)

lemma demo_starting: "starting mem_inv mem_jobs (\<lambda>b. mset (mem_queue b)) demo_start"
  by (simp add: starting_def demo_start_def mem_inv_New) (simp add: memory_New_def mem_jobs_def)



text \<open>The memory backend with a job that has failed.\<close>

definition demo_finished :: "(Backend, string) system" where
  "demo_finished = demo_start\<lparr>sys_backend :=
     (memory_New 4)\<lparr>mem_values := [(''1'', hello_job\<lparr>job_Status := StatusFailed\<rparr>)]\<rparr>\<rparr>"




end
