(* ===== verification/Server.thy ===== *)
theory Server
  imports Processor Handler
begin

text \<open>
  \<open>cmd/transliter-server\<close>: the configuration read from the environment, the choice of
  backends, and the admission check of jobs. The environment is a function (\<open>os.Getenv\<close>), and
  \<open>parse_duration\<close> is \<open>time.ParseDuration\<close>. Opening an external backend is a call whose error,
  if any, is given by \<open>opens\<close>; \<open>buildBackends\<close> also tells which resources are open when it
  returns. \<open>tbl\<close> is the Unicode table of the error texts.
\<close>

section \<open>Configuration\<close>

record serverConfig =
  HTTPAddress :: string
  QueueBackend :: string
  StoreBackend :: string
  Workers :: int
  JobTimeout :: duration
  JobRetention :: duration
  RedisURL :: string
  RedisPrefix :: string
  PostgresURL :: string
  MySQLDSN :: string
  SQLitePath :: string
  NATSURL :: string
  NATSStoreDir :: string
  NATSEmbeddedMemory :: bool

definition valueOrDefault :: "(string \<Rightarrow> string) \<Rightarrow> string \<Rightarrow> string \<Rightarrow> string" where
  "valueOrDefault getenv name fallback = (if getenv name \<noteq> [] then getenv name else fallback)"

definition durationFromEnv ::
  "(string \<Rightarrow> string) \<Rightarrow> (string \<Rightarrow> duration option) \<Rightarrow> string \<Rightarrow> duration \<Rightarrow> go_error + duration" where
  "durationFromEnv getenv parse_duration name fallback =
     (if getenv name = [] then Inr fallback
      else case parse_duration (getenv name) of
             None \<Rightarrow> Inl (ServerError (NotPositiveDuration name))
           | Some parsed \<Rightarrow> if parsed \<le> 0 then Inl (ServerError (NotPositiveDuration name))
                           else Inr parsed)"

definition intFromEnv :: "(string \<Rightarrow> string) \<Rightarrow> string \<Rightarrow> int \<Rightarrow> go_error + int" where
  "intFromEnv getenv name fallback =
     (if getenv name = [] then Inr fallback
      else case strconv_Atoi (getenv name) of
             None \<Rightarrow> Inl (ServerError (NotPositiveInteger name))
           | Some parsed \<Rightarrow> if parsed \<le> 0 then Inl (ServerError (NotPositiveInteger name))
                           else Inr parsed)"

text \<open>\<open>strconv.ParseBool\<close>.\<close>

definition strconv_ParseBool :: "string \<Rightarrow> bool option" where
  "strconv_ParseBool s =
     (if s \<in> set [''1'', ''t'', ''T'', ''TRUE'', ''true'', ''True''] then Some True
      else if s \<in> set [''0'', ''f'', ''F'', ''FALSE'', ''false'', ''False''] then Some False
      else None)"

definition boolFromEnv :: "(string \<Rightarrow> string) \<Rightarrow> string \<Rightarrow> bool \<Rightarrow> go_error + bool" where
  "boolFromEnv getenv name fallback =
     (if getenv name = [] then Inr fallback
      else case strconv_ParseBool (getenv name) of
             None \<Rightarrow> Inl (ServerError (NotBoolean name))
           | Some parsed \<Rightarrow> Inr parsed)"

definition configFromEnv ::
  "(string \<Rightarrow> string) \<Rightarrow> (string \<Rightarrow> duration option) \<Rightarrow> go_error + serverConfig" where
  "configFromEnv getenv parse_duration =
     (let config =
        \<lparr>HTTPAddress = valueOrDefault getenv ''TRANSLITER_HTTP_ADDRESS'' '':8080'',
         QueueBackend = valueOrDefault getenv ''TRANSLITER_QUEUE_BACKEND'' ''nats-embedded'',
         StoreBackend = valueOrDefault getenv ''TRANSLITER_STORE_BACKEND'' ''sqlite'',
         Workers = 0, JobTimeout = 0, JobRetention = 0,
         RedisURL = getenv ''TRANSLITER_REDIS_URL'',
         RedisPrefix = valueOrDefault getenv ''TRANSLITER_REDIS_PREFIX'' ''transliter'',
         PostgresURL = getenv ''TRANSLITER_POSTGRES_URL'',
         MySQLDSN = getenv ''TRANSLITER_MYSQL_DSN'',
         SQLitePath = valueOrDefault getenv ''TRANSLITER_SQLITE_PATH'' ''transliter-jobs.db'',
         NATSURL = getenv ''TRANSLITER_NATS_URL'',
         NATSStoreDir = getenv ''TRANSLITER_NATS_STORE_DIR'',
         NATSEmbeddedMemory = False\<rparr>
      in case intFromEnv getenv ''TRANSLITER_WORKERS'' 1 of
           Inl err \<Rightarrow> Inl err
         | Inr workers \<Rightarrow>
           (case durationFromEnv getenv parse_duration ''TRANSLITER_JOB_TIMEOUT'' (10 * Minute) of
              Inl err \<Rightarrow> Inl err
            | Inr timeout \<Rightarrow>
              (case durationFromEnv getenv parse_duration ''TRANSLITER_JOB_RETENTION'' (30 * 24 * Hour) of
                 Inl err \<Rightarrow> Inl err
               | Inr retention \<Rightarrow>
                 (case boolFromEnv getenv ''TRANSLITER_NATS_EMBEDDED_MEMORY'' True of
                    Inl err \<Rightarrow> Inl err
                  | Inr embedded \<Rightarrow>
                    Inr (config\<lparr>Workers := workers, JobTimeout := timeout, JobRetention := retention,
                                NATSEmbeddedMemory := embedded\<rparr>)))))"

text \<open>The check of \<open>run\<close> after the flags were parsed.\<close>

definition check_settings :: "serverConfig \<Rightarrow> go_error + unit" where
  "check_settings config =
     (if Workers config \<le> 0 \<or> JobTimeout config \<le> 0 \<or> JobRetention config \<le> 0
      then Inl (ServerError SettingsNotPositive) else Inr ())"

section \<open>Backends\<close>

datatype resource =
    MemoryBackend | RedisBackend | PostgresBackend | MySQLStore | SQLiteStore | NATSQueue | EmbeddedNATS

record backendSet =
  set_queue :: "resource option"
  set_store :: "resource option"
  set_closes :: "resource list"

text \<open>\<open>Close\<close> calls the close functions in reverse order: the resources in that order.\<close>

definition backendSet_Close :: "backendSet \<Rightarrow> resource list" where
  "backendSet_Close set0 = rev (set_closes set0)"

text \<open>A step of the construction: the set so far, or the error it returns. What was opened stays
  open unless something closes it.\<close>

definition add_memory :: "serverConfig \<Rightarrow> backendSet \<Rightarrow> backendSet" where
  "add_memory config set0 =
     (if QueueBackend config = ''memory'' \<or> StoreBackend config = ''memory''
      then set0\<lparr>set_queue := (if QueueBackend config = ''memory'' then Some MemoryBackend else set_queue set0),
                set_store := (if StoreBackend config = ''memory'' then Some MemoryBackend else set_store set0)\<rparr>
      else set0)"

text \<open>
  \<open>SetClaimIdle\<close> refuses a duration that is not positive; the backend is closed then. Twice the
  timeout wraps in a \<open>time.Duration\<close>.
\<close>

definition add_redis ::
  "(resource \<Rightarrow> go_error option) \<Rightarrow> serverConfig \<Rightarrow> backendSet \<Rightarrow> go_error + backendSet" where
  "add_redis opens config set0 =
     (if QueueBackend config = ''redis'' \<or> StoreBackend config = ''redis'' then
        if RedisURL config = [] then Inl (ServerError (BackendRequired ''TRANSLITER_REDIS_URL is required for Redis''))
        else case opens RedisBackend of
               Some err \<Rightarrow> Inl err
             | None \<Rightarrow>
                 if go_int64 (JobTimeout config * 2) \<le> 0 then Inl (BackendError ClaimIdleNotPositive)
                 else Inr (set0\<lparr>set_closes := set_closes set0 @ [RedisBackend],
                    set_queue := (if QueueBackend config = ''redis'' then Some RedisBackend else set_queue set0),
                    set_store := (if StoreBackend config = ''redis'' then Some RedisBackend else set_store set0)\<rparr>)
      else Inr set0)"

definition add_postgres ::
  "(resource \<Rightarrow> go_error option) \<Rightarrow> serverConfig \<Rightarrow> backendSet \<Rightarrow> go_error + backendSet" where
  "add_postgres opens config set0 =
     (if QueueBackend config = ''postgres'' \<or> StoreBackend config = ''postgres'' then
        if PostgresURL config = []
        then Inl (ServerError (BackendRequired ''TRANSLITER_POSTGRES_URL is required for PostgreSQL''))
        else case opens PostgresBackend of
               Some err \<Rightarrow> Inl err
             | None \<Rightarrow> Inr (set0\<lparr>set_closes := set_closes set0 @ [PostgresBackend],
                 set_queue := (if QueueBackend config = ''postgres'' then Some PostgresBackend else set_queue set0),
                 set_store := (if StoreBackend config = ''postgres'' then Some PostgresBackend else set_store set0)\<rparr>)
      else Inr set0)"

definition add_mysql ::
  "(resource \<Rightarrow> go_error option) \<Rightarrow> serverConfig \<Rightarrow> backendSet \<Rightarrow> go_error + backendSet" where
  "add_mysql opens config set0 =
     (if StoreBackend config = ''mysql'' then
        if MySQLDSN config = [] then Inl (ServerError (BackendRequired ''TRANSLITER_MYSQL_DSN is required for MySQL''))
        else case opens MySQLStore of
               Some err \<Rightarrow> Inl err
             | None \<Rightarrow> Inr (set0\<lparr>set_closes := set_closes set0 @ [MySQLStore], set_store := Some MySQLStore\<rparr>)
      else Inr set0)"

definition add_sqlite ::
  "(resource \<Rightarrow> go_error option) \<Rightarrow> serverConfig \<Rightarrow> backendSet \<Rightarrow> go_error + backendSet" where
  "add_sqlite opens config set0 =
     (if StoreBackend config = ''sqlite'' then
        if SQLitePath config = []
        then Inl (ServerError (BackendRequired ''TRANSLITER_SQLITE_PATH is required for SQLite''))
        else case opens SQLiteStore of
               Some err \<Rightarrow> Inl err
             | None \<Rightarrow> Inr (set0\<lparr>set_closes := set_closes set0 @ [SQLiteStore], set_store := Some SQLiteStore\<rparr>)
      else Inr set0)"

definition add_queue ::
  "(resource \<Rightarrow> go_error option) \<Rightarrow> serverConfig \<Rightarrow> backendSet \<Rightarrow> go_error + backendSet" where
  "add_queue opens config set0 =
     (if QueueBackend config = ''nats'' then
        (case opens NATSQueue of
           Some err \<Rightarrow> Inl err
         | None \<Rightarrow> Inr (set0\<lparr>set_closes := set_closes set0 @ [NATSQueue], set_queue := Some NATSQueue\<rparr>))
      else if QueueBackend config = ''nats-embedded'' then
        (case opens EmbeddedNATS of
           Some err \<Rightarrow> Inl err
         | None \<Rightarrow> Inr (set0\<lparr>set_closes := set_closes set0 @ [EmbeddedNATS], set_queue := Some EmbeddedNATS\<rparr>))
      else if QueueBackend config \<in> set [''memory'', ''redis'', ''postgres''] then Inr set0
      else Inl (ServerError (UnknownQueueBackend (QueueBackend config))))"

definition check_store :: "serverConfig \<Rightarrow> backendSet \<Rightarrow> go_error + backendSet" where
  "check_store config set0 =
     (if StoreBackend config \<in> set [''memory'', ''redis'', ''postgres'', ''mysql'', ''sqlite''] then Inr set0
      else Inl (ServerError (UnknownStoreBackend (StoreBackend config))))"

text \<open>Running the steps in order, with what is still open when they return. Only the last check
  closes the set before it returns its error.\<close>

fun run_steps ::
  "(backendSet \<Rightarrow> go_error + backendSet) list \<Rightarrow> backendSet \<Rightarrow> (go_error + backendSet) \<times> resource list" where
  "run_steps [] set0 =
     (if set_queue set0 = None \<or> set_store set0 = None
      then (Inl (ServerError BackendsIncomplete),
            filter (\<lambda>r. r \<notin> set (backendSet_Close set0)) (set_closes set0))
      else (Inr set0, set_closes set0))"
| "run_steps (step # steps) set0 =
     (case step set0 of
        Inl err \<Rightarrow> (Inl err, set_closes set0)
      | Inr set1 \<Rightarrow> run_steps steps set1)"

definition buildBackends ::
  "(resource \<Rightarrow> go_error option) \<Rightarrow> serverConfig \<Rightarrow> (go_error + backendSet) \<times> resource list" where
  "buildBackends opens config =
     run_steps [add_redis opens config, add_postgres opens config, add_mysql opens config,
                add_sqlite opens config, add_queue opens config, check_store config]
       (add_memory config \<lparr>set_queue = None, set_store = None, set_closes = []\<rparr>)"

section \<open>Admission\<close>

definition validateJobRequest :: "(nat \<Rightarrow> bool) \<Rightarrow> Request \<Rightarrow> go_error + unit" where
  "validateJobRequest tbl request =
     (case catalog_Find tbl (ModelCatalog request) of
        None \<Rightarrow> Inl (JobsError (UnknownModelCatalog (ModelCatalog request)))
      | Some model \<Rightarrow>
        let translation = Translation request in
        if \<not> Model_SupportsLanguage model (TargetLanguage translation)
        then Inl (ServerError (AdmissionNoTarget (TargetLanguage translation)))
        else if SourceLanguage translation \<noteq> [] \<and> \<not> Model_SupportsLanguage model (SourceLanguage translation)
        then Inl (ServerError (AdmissionNoSource (SourceLanguage translation)))
        else (case Model_BuildInput model translation of
                Inl err \<Rightarrow> Inl err
              | Inr _ \<Rightarrow>
                let profile = (if Profile request = [] then ProfileOfficial else Profile request)
                in case Model_Options model profile of Inl err \<Rightarrow> Inl err | Inr _ \<Rightarrow> Inr ()))"

section \<open>Lemmas\<close>

lemma validateJobRequest_generation:
  "validateJobRequest tbl r = Inr () \<longleftrightarrow> is_ok (generation (catalog_Find tbl) r)"
  unfolding validateJobRequest_def generation_def Let_def effective_profile_def
  by (auto split: option.splits sum.splits)

text \<open>
  C11. Admission is complete: for an admitted request there is one generation request, for the
  server-side model the job names, such that every run of such a job, whatever the client and
  the context, is the client's answer to it, so that it fails only if the client fails; and
  a job whose request was refused could never have succeeded.
\<close>

theorem admission_complete:
  "(validateJobRequest tbl r = Inr () \<longrightarrow>
      (\<exists>q. inf_modelName q = req_Model r \<and>
         (\<forall>generate ctx job. job_Request job = r \<longrightarrow>
            Process (catalog_Find tbl) generate ctx job =
              (case generate ctx q of Inl e \<Rightarrow> Inl e | Inr response \<Rightarrow> Inr (job_result response))))) \<and>
   (validateJobRequest tbl r \<noteq> Inr () \<longrightarrow>
      (\<forall>generate ctx job. job_Request job = r \<longrightarrow>
         \<not> is_ok (Process (catalog_Find tbl) generate ctx job)))"
proof (cases "generation (catalog_Find tbl) r")
  case (Inl e)
  then show ?thesis
    using validateJobRequest_generation [of tbl r] by (simp add: Process_eq)
next
  case (Inr q)
  then have "inf_modelName q = req_Model r"
    by (auto simp: generation_Inr NewRequest_def)
  with Inr show ?thesis
    using validateJobRequest_generation [of tbl r] by (auto simp: Process_eq)
qed

lemma hello_post_admitted: "validateJobRequest (\<lambda>_. True) hello_post_request = Inr ()"
  by code_simp

theorem admission_complete_witness:
  "\<exists>q :: inference_request. inf_modelName q = [] \<and>
     Process (catalog_Find (\<lambda>_. True)) (\<lambda>ctx q. Inl (External ''down'')) (None, None) hello_stored
       = Inl (External ''down'')"
proof -
  from admission_complete [of "\<lambda>_. True" hello_post_request] hello_post_admitted obtain q where
    q: "inf_modelName q = req_Model hello_post_request"
      "\<forall>generate ctx job. job_Request job = hello_post_request \<longrightarrow>
         Process (catalog_Find (\<lambda>_. True)) generate ctx job =
           (case generate ctx q of Inl e \<Rightarrow> Inl e | Inr response \<Rightarrow> Inr (job_result response))"
    by blast
  have "job_Request hello_stored = hello_post_request" "req_Model hello_post_request = []"
    by (simp_all add: hello_stored_def hello_post_request_def)
  with q have "Process (catalog_Find (\<lambda>_. True)) (\<lambda>ctx q. Inl (External ''down'')) (None, None) hello_stored
      = Inl (External ''down'')" "inf_modelName q = []"
    by (simp_all del: split_paired_All)
  then show ?thesis by blast
qed

subsection \<open>The set of backends\<close>

definition queue_resource :: "string \<Rightarrow> resource option" where
  "queue_resource name = map_of
     [(''memory'', MemoryBackend), (''redis'', RedisBackend), (''postgres'', PostgresBackend),
      (''nats'', NATSQueue), (''nats-embedded'', EmbeddedNATS)] name"

definition store_resource :: "string \<Rightarrow> resource option" where
  "store_resource name = map_of
     [(''memory'', MemoryBackend), (''redis'', RedisBackend), (''postgres'', PostgresBackend),
      (''mysql'', MySQLStore), (''sqlite'', SQLiteStore)] name"

lemmas backend_steps = add_memory_def add_redis_def add_postgres_def add_mysql_def add_sqlite_def
  add_queue_def check_store_def

lemma run_steps_Inr:
  "run_steps (step # steps) set0 = (Inr set1, still_open) \<longleftrightarrow>
     (\<exists>s. step set0 = Inr s \<and> run_steps steps s = (Inr set1, still_open))"
  by (auto split: sum.splits)

lemma queue_names: "add_queue opens config s = Inr s' \<Longrightarrow>
    QueueBackend config \<in> {''memory'', ''redis'', ''postgres'', ''nats'', ''nats-embedded''}"
  by (auto simp: add_queue_def split: if_splits)

lemma store_names: "check_store config s = Inr s' \<Longrightarrow>
    StoreBackend config \<in> {''memory'', ''redis'', ''postgres'', ''mysql'', ''sqlite''} \<and> s' = s"
  by (auto simp: check_store_def split: if_splits)

lemma redis_step:
  "add_redis opens config s = Inr s' \<Longrightarrow>
     s' = (if QueueBackend config = ''redis'' \<or> StoreBackend config = ''redis'' then
       s\<lparr>set_closes := set_closes s @ [RedisBackend],
         set_queue := (if QueueBackend config = ''redis'' then Some RedisBackend else set_queue s),
         set_store := (if StoreBackend config = ''redis'' then Some RedisBackend else set_store s)\<rparr> else s) \<and>
     (QueueBackend config = ''redis'' \<or> StoreBackend config = ''redis'' \<longrightarrow> opens RedisBackend = None)"
  unfolding add_redis_def by (auto split: if_splits option.splits)

lemma postgres_step:
  "add_postgres opens config s = Inr s' \<Longrightarrow>
     s' = (if QueueBackend config = ''postgres'' \<or> StoreBackend config = ''postgres'' then
       s\<lparr>set_closes := set_closes s @ [PostgresBackend],
         set_queue := (if QueueBackend config = ''postgres'' then Some PostgresBackend else set_queue s),
         set_store := (if StoreBackend config = ''postgres'' then Some PostgresBackend else set_store s)\<rparr> else s) \<and>
     (QueueBackend config = ''postgres'' \<or> StoreBackend config = ''postgres'' \<longrightarrow> opens PostgresBackend = None)"
  unfolding add_postgres_def by (auto split: if_splits option.splits)

lemma mysql_step:
  "add_mysql opens config s = Inr s' \<Longrightarrow>
     s' = (if StoreBackend config = ''mysql''
       then s\<lparr>set_closes := set_closes s @ [MySQLStore], set_store := Some MySQLStore\<rparr> else s) \<and>
     (StoreBackend config = ''mysql'' \<longrightarrow> opens MySQLStore = None)"
  unfolding add_mysql_def by (auto split: if_splits option.splits)

lemma sqlite_step:
  "add_sqlite opens config s = Inr s' \<Longrightarrow>
     s' = (if StoreBackend config = ''sqlite''
       then s\<lparr>set_closes := set_closes s @ [SQLiteStore], set_store := Some SQLiteStore\<rparr> else s) \<and>
     (StoreBackend config = ''sqlite'' \<longrightarrow> opens SQLiteStore = None)"
  unfolding add_sqlite_def by (auto split: if_splits option.splits)

lemma queue_step:
  "add_queue opens config s = Inr s' \<Longrightarrow>
     s' = (if QueueBackend config = ''nats''
       then s\<lparr>set_closes := set_closes s @ [NATSQueue], set_queue := Some NATSQueue\<rparr>
       else if QueueBackend config = ''nats-embedded''
       then s\<lparr>set_closes := set_closes s @ [EmbeddedNATS], set_queue := Some EmbeddedNATS\<rparr> else s) \<and>
     (QueueBackend config = ''nats'' \<longrightarrow> opens NATSQueue = None) \<and>
     (QueueBackend config = ''nats-embedded'' \<longrightarrow> opens EmbeddedNATS = None)"
  unfolding add_queue_def by (auto split: if_splits option.splits)

lemma buildBackends_Inr:
  assumes "buildBackends opens config = (Inr set0, still_open)"
  shows "set_queue set0 = queue_resource (QueueBackend config) \<and> set_queue set0 \<noteq> None \<and>
    set_store set0 = store_resource (StoreBackend config) \<and> set_store set0 \<noteq> None \<and>
    still_open = set_closes set0 \<and> distinct (set_closes set0) \<and>
    Some ` set (set_closes set0) = {set_queue set0, set_store set0} - {Some MemoryBackend} \<and>
    list_all (\<lambda>r. opens r = None) (set_closes set0)"
proof -
  let ?s0 = "add_memory config \<lparr>set_queue = None, set_store = None, set_closes = []\<rparr>"
  from assms obtain s1 s2 s3 s4 s5 where
    steps: "add_redis opens config ?s0 = Inr s1" "add_postgres opens config s1 = Inr s2"
      "add_mysql opens config s2 = Inr s3" "add_sqlite opens config s3 = Inr s4"
      and q: "add_queue opens config s4 = Inr s5" and st: "check_store config s5 = Inr set0"
      and fin: "run_steps [] set0 = (Inr set0, still_open)"
    unfolding buildBackends_def run_steps_Inr by (auto split: if_splits)
  note r = redis_step [OF steps(1)] and p = postgres_step [OF steps(2)] and m = mysql_step [OF steps(3)]
    and l = sqlite_step [OF steps(4)] and n = queue_step [OF q]
  have s5: "set0 = s5" using store_names [OF st] by simp
  have closes: "still_open = set_closes set0" using fin by (simp split: if_splits)
  have set0: "set0 = s5" "s5 = set0" using s5 by simp_all
  note eqs = closes s5 conjunct1 [OF n] conjunct1 [OF l] conjunct1 [OF m] conjunct1 [OF p] conjunct1 [OF r]
    add_memory_def queue_resource_def store_resource_def
  note opened = conjunct2 [OF r] conjunct2 [OF p] conjunct2 [OF m] conjunct2 [OF l] conjunct2 [OF n]
  have names: "QueueBackend config = ''memory'' \<or> QueueBackend config = ''redis'' \<or>
      QueueBackend config = ''postgres'' \<or> QueueBackend config = ''nats'' \<or> QueueBackend config = ''nats-embedded''"
    "StoreBackend config = ''memory'' \<or> StoreBackend config = ''redis'' \<or> StoreBackend config = ''postgres'' \<or>
      StoreBackend config = ''mysql'' \<or> StoreBackend config = ''sqlite''"
    using queue_names [OF q] store_names [OF st] by auto
  show ?thesis
    by (rule disjE [OF names(1)]; (elim disjE)?; rule disjE [OF names(2)]; (elim disjE)?;
        use opened in \<open>simp add: eqs insert_commute insert_Diff_if\<close>)
qed

text \<open>
  C23. When \<open>buildBackends\<close> succeeds, the queue and the store are the ones the configuration
  names; one memory, Redis or PostgreSQL backend serves as both when it is named for both;
  and the resources open are exactly those \<open>Close\<close> will close, each once, the last opened first.
\<close>

theorem buildBackends_correct:
  assumes "buildBackends opens config = (Inr set0, still_open)"
  shows "set_queue set0 = queue_resource (QueueBackend config) \<and> set_queue set0 \<noteq> None \<and>
    set_store set0 = store_resource (StoreBackend config) \<and> set_store set0 \<noteq> None \<and>
    backendSet_Close set0 = rev still_open \<and> distinct still_open \<and>
    Some ` set still_open = {set_queue set0, set_store set0} - {Some MemoryBackend} \<and>
    list_all (\<lambda>r. opens r = None) still_open"
  using buildBackends_Inr [OF assms] unfolding backendSet_Close_def
  by (elim conjE, intro conjI) simp_all

definition redis_sqlite_config :: serverConfig where
  "redis_sqlite_config = \<lparr>HTTPAddress = '':8080'', QueueBackend = ''redis'', StoreBackend = ''sqlite'',
     Workers = 1, JobTimeout = Minute, JobRetention = Hour, RedisURL = ''redis://localhost'', RedisPrefix = [],
     PostgresURL = [], MySQLDSN = [], SQLitePath = ''jobs.db'', NATSURL = [], NATSStoreDir = [],
     NATSEmbeddedMemory = True\<rparr>"

theorem buildBackends_correct_witness:
  "\<exists>set0. buildBackends (\<lambda>_. None) redis_sqlite_config = (Inr set0, [RedisBackend, SQLiteStore]) \<and>
     backendSet_Close set0 = [SQLiteStore, RedisBackend]"
proof -
  obtain set0 where b: "buildBackends (\<lambda>_. None) redis_sqlite_config = (Inr set0, [RedisBackend, SQLiteStore])"
    by (simp add: buildBackends_def backend_steps redis_sqlite_config_def Minute_def Second_def go_int64_def)
  from buildBackends_correct [OF b] b show ?thesis by simp
qed

text \<open>
  When a later backend cannot be built, the ones opened before stay open: \<open>buildBackends\<close>
  returns without closing them, and its caller has no set to close.
\<close>

lemma buildBackends_leaks:
  "buildBackends (\<lambda>_. None) (redis_sqlite_config\<lparr>StoreBackend := ''postgres''\<rparr>) =
     (Inl (ServerError (BackendRequired ''TRANSLITER_POSTGRES_URL is required for PostgreSQL'')), [RedisBackend])"
  by (simp add: buildBackends_def backend_steps redis_sqlite_config_def Minute_def Second_def go_int64_def)

text \<open>
  A configuration read from the environment has positive workers, timeout and retention, so it
  passes the check of \<open>run\<close> when no flag changes it, and a missing variable has its documented
  default.
\<close>

theorem configFromEnv_settings:
  assumes "configFromEnv getenv parse_duration = Inr config"
  shows "check_settings config = Inr () \<and>
    (getenv ''TRANSLITER_QUEUE_BACKEND'' = [] \<longrightarrow> QueueBackend config = ''nats-embedded'') \<and>
    (getenv ''TRANSLITER_STORE_BACKEND'' = [] \<longrightarrow> StoreBackend config = ''sqlite'') \<and>
    (getenv ''TRANSLITER_WORKERS'' = [] \<longrightarrow> Workers config = 1) \<and>
    (getenv ''TRANSLITER_JOB_TIMEOUT'' = [] \<longrightarrow> JobTimeout config = 10 * Minute) \<and>
    (getenv ''TRANSLITER_JOB_RETENTION'' = [] \<longrightarrow> JobRetention config = 30 * 24 * Hour)"
proof -
  have duration: "0 < d" if "durationFromEnv getenv parse_duration name fallback = Inr d" "0 < fallback"
    for name fallback d
    using that by (auto simp: durationFromEnv_def split: if_splits option.splits)
  have int: "0 < n" if "intFromEnv getenv name fallback = Inr n" "0 < fallback" for name fallback n
    using that by (auto simp: intFromEnv_def split: if_splits option.splits)
  have pos: "0 < 10 * Minute" "0 < 30 * 24 * Hour" by (simp_all add: Minute_def Hour_def Second_def)
  from assms obtain w t r e where
    w: "intFromEnv getenv ''TRANSLITER_WORKERS'' 1 = Inr w" and
    t: "durationFromEnv getenv parse_duration ''TRANSLITER_JOB_TIMEOUT'' (10 * Minute) = Inr t" and
    r: "durationFromEnv getenv parse_duration ''TRANSLITER_JOB_RETENTION'' (30 * 24 * Hour) = Inr r" and
    c: "Workers config = w" "JobTimeout config = t" "JobRetention config = r"
      "QueueBackend config = valueOrDefault getenv ''TRANSLITER_QUEUE_BACKEND'' ''nats-embedded''"
      "StoreBackend config = valueOrDefault getenv ''TRANSLITER_STORE_BACKEND'' ''sqlite''"
    unfolding configFromEnv_def Let_def by (auto split: sum.splits)
  have "0 < w" "0 < t" "0 < r" using int [OF w] duration [OF t pos(1)] duration [OF r pos(2)] by simp_all
  then show ?thesis
    using w t r by (auto simp: check_settings_def c valueOrDefault_def intFromEnv_def durationFromEnv_def)
qed

theorem configFromEnv_settings_witness:
  "\<exists>config. configFromEnv (\<lambda>_. []) (\<lambda>_. None) = Inr config \<and> check_settings config = Inr () \<and>
     Workers config = 1"
proof -
  obtain config where "configFromEnv (\<lambda>_. []) (\<lambda>_. None) = Inr config"
    by (simp add: configFromEnv_def intFromEnv_def durationFromEnv_def boolFromEnv_def)
  with configFromEnv_settings [OF this] show ?thesis by auto
qed

end
