(* ===== verification/Startup.thy ===== *)
theory Startup
  imports Server System OpenAI Documentation
begin

text \<open>
  \<open>cmd/transliter-server/main.go\<close>: reading the settings, building the parts and wiring them, the hourly
  cleanup, and the end of \<open>run\<close>; with \<open>RegisterFlags\<close> of \<open>lib/inference/openai/config.go\<close>. The standard
  \<open>flag\<close> package is \<open>flag_Parse\<close>, for flags that take a value. The parsers of numbers, durations, URLs and
  JSON, the opening of the backends, the embedded API description and its parser are parameters, and so
  is what the goroutines and the shutdown report.
\<close>

section \<open>Flags\<close>

text \<open>A flag is its name and what it does with its value.\<close>

type_synonym 'c flag = "string \<times> (string \<Rightarrow> 'c \<Rightarrow> go_error + 'c)"

definition StringVar :: "string \<Rightarrow> (string \<Rightarrow> 'c \<Rightarrow> 'c) \<Rightarrow> 'c flag" where
  "StringVar name store = (name, \<lambda>v c. Inr (store v c))"

definition ParsedVar :: "(string \<Rightarrow> go_error + 'a) \<Rightarrow> string \<Rightarrow> ('a \<Rightarrow> 'c \<Rightarrow> 'c) \<Rightarrow> 'c flag" where
  "ParsedVar parse name store = (name, \<lambda>v c. case parse v of Inl err \<Rightarrow> Inl err | Inr x \<Rightarrow> Inr (store x c))"

definition flag_set ::
  "(nat \<Rightarrow> bool) \<Rightarrow> string \<Rightarrow> (string \<Rightarrow> 'c \<Rightarrow> go_error + 'c) \<Rightarrow> string \<Rightarrow> 'c \<Rightarrow> go_error + 'c" where
  "flag_set tbl name store v c =
     (case store v c of
        Inl err \<Rightarrow> Inl (External (''invalid value '' @ strconv_Quote tbl v @ '' for flag -'' @ name @ '': '' @
                           Error_text tbl err))
      | Inr c' \<Rightarrow> Inr c')"

text \<open>\<open>flag.FlagSet.Parse\<close>: \<open>-name=value\<close>, \<open>-name value\<close>, either with two dashes; it stops at the first
  argument that is no flag and after \<open>--\<close>.\<close>

fun flag_Parse :: "(nat \<Rightarrow> bool) \<Rightarrow> 'c flag list \<Rightarrow> string list \<Rightarrow> 'c \<Rightarrow> go_error + 'c" where
  "flag_Parse tbl flags [] c = Inr c"
| "flag_Parse tbl flags (s # args) c =
     (if length s < 2 \<or> hd s \<noteq> CHR ''-'' \<or> s = ''--'' then Inr c
      else
        let text0 = (if s ! 1 = CHR ''-'' then drop 2 s else drop 1 s);
            name = takeWhile (\<lambda>ch. ch \<noteq> CHR ''='') text0
        in if text0 = [] \<or> hd text0 = CHR ''-'' \<or> hd text0 = CHR ''=''
           then Inl (External (''bad flag syntax: '' @ s))
           else
             (case map_of flags name of
                None \<Rightarrow> Inl (External (if name = ''help'' \<or> name = ''h'' then ''flag: help requested''
                                       else ''flag provided but not defined: -'' @ name))
              | Some store \<Rightarrow>
                  if CHR ''='' \<in> set text0
                  then (case flag_set tbl name store (drop (length name + 1) text0) c of
                          Inl err \<Rightarrow> Inl err
                        | Inr c' \<Rightarrow> flag_Parse tbl flags args c')
                  else (case args of
                          [] \<Rightarrow> Inl (External (''flag needs an argument: -'' @ name))
                        | v # rest \<Rightarrow>
                            (case flag_set tbl name store v c of
                               Inl err \<Rightarrow> Inl err
                             | Inr c' \<Rightarrow> flag_Parse tbl flags rest c'))))"

text \<open>\<open>RegisterFlags\<close> of the client, and the flags of the server, on the pair of both configurations.\<close>

definition RegisterFlags :: "(string \<Rightarrow> go_error + duration) \<Rightarrow> Config flag list" where
  "RegisterFlags parse_duration =
     [StringVar ''api-base-url'' (\<lambda>v config. config\<lparr>BaseURL := v\<rparr>),
      StringVar ''api-model'' (\<lambda>v config. config\<lparr>cfg_Model := v\<rparr>),
      ParsedVar parse_duration ''api-timeout'' (\<lambda>v config. config\<lparr>Timeout := v\<rparr>)]"

definition server_flags ::
  "(string \<Rightarrow> go_error + int) \<Rightarrow> (string \<Rightarrow> go_error + duration) \<Rightarrow> (serverConfig \<times> Config) flag list" where
  "server_flags parse_int parse_duration =
     [StringVar ''http-address'' (\<lambda>v. apfst (\<lambda>config. config\<lparr>HTTPAddress := v\<rparr>)),
      StringVar ''queue-backend'' (\<lambda>v. apfst (\<lambda>config. config\<lparr>QueueBackend := v\<rparr>)),
      StringVar ''store-backend'' (\<lambda>v. apfst (\<lambda>config. config\<lparr>StoreBackend := v\<rparr>)),
      ParsedVar parse_int ''workers'' (\<lambda>v. apfst (\<lambda>config. config\<lparr>Workers := v\<rparr>)),
      ParsedVar parse_duration ''job-timeout'' (\<lambda>v. apfst (\<lambda>config. config\<lparr>JobTimeout := v\<rparr>)),
      ParsedVar parse_duration ''job-retention'' (\<lambda>v. apfst (\<lambda>config. config\<lparr>JobRetention := v\<rparr>))] @
     map (\<lambda>(name, store). (name, \<lambda>v (config, inference).
            case store v inference of Inl err \<Rightarrow> Inl err | Inr inference' \<Rightarrow> Inr (config, inference')))
       (RegisterFlags parse_duration)"

section \<open>Start\<close>

text \<open>The parts as \<open>run\<close> wires them; a backend is named by its resource.\<close>

record wiring =
  wire_backends :: backendSet
  wire_auth :: StaticAuthenticator
  wire_client :: Client
  sched_Queue :: "resource option"
  sched_Store :: "resource option"
  sched_Concurrency :: int
  sched_JobTimeout :: duration
  rest_Queue :: "resource option"
  rest_Store :: "resource option"
  rest_Retention :: duration
  http_Addr :: string
  http_timeouts :: "duration list"

text \<open>What the program finds: the environment and the arguments, and the parsers of the standard library.\<close>

record surroundings =
  env_getenv :: "string \<Rightarrow> string"
  env_args :: "string list"
  env_tbl :: "nat \<Rightarrow> bool"
  env_parse_int :: "string \<Rightarrow> go_error + int"
  env_parse_duration :: "string \<Rightarrow> go_error + duration"
  env_url_parse :: "string \<Rightarrow> go_error + url"
  env_parse_json :: "string \<Rightarrow> go_error + rat json"
  env_opens :: "resource \<Rightarrow> go_error option"
  env_yaml :: "string \<Rightarrow> go_error + rat json"
  env_openAPIYAML :: string

definition ok_option :: "go_error + 'a \<Rightarrow> 'a option" where
  "ok_option r = (case r of Inl _ \<Rightarrow> None | Inr x \<Rightarrow> Some x)"

text \<open>The settings: the environment, then the flags, then the check.\<close>

definition read_settings :: "surroundings \<Rightarrow> go_error + serverConfig \<times> Config" where
  "read_settings env =
     (case configFromEnv (env_getenv env) (\<lambda>s. ok_option (env_parse_duration env s)) of
        Inl err \<Rightarrow> Inl err
      | Inr config0 \<Rightarrow>
        (case ConfigFromEnv (env_getenv env) (env_parse_duration env) (env_url_parse env) of
           Inl err \<Rightarrow> Inl err
         | Inr inference0 \<Rightarrow>
           (case flag_Parse (env_tbl env) (server_flags (env_parse_int env) (env_parse_duration env)) (env_args env)
                   (config0, inference0) of
              Inl err \<Rightarrow> Inl err
            | Inr (config, inference) \<Rightarrow>
              (case check_settings config of
                 Inl err \<Rightarrow> Inl err
               | Inr _ \<Rightarrow> Inr (config, inference)))))"

text \<open>The parts, with the resources that are open when the construction ends: an error after
  \<open>buildBackends\<close> closes the set.\<close>

definition closed_by :: "backendSet \<Rightarrow> resource list \<Rightarrow> resource list" where
  "closed_by set0 still_open = filter (\<lambda>r. r \<notin> set (backendSet_Close set0)) still_open"

definition build_parts :: "surroundings \<Rightarrow> serverConfig \<Rightarrow> Config \<Rightarrow> (go_error + wiring) \<times> resource list" where
  "build_parts env config inference =
     (case StaticAuthenticatorFromEnv (env_getenv env) (env_parse_json env) of
        Inl err \<Rightarrow> (Inl err, [])
      | Inr authenticator \<Rightarrow>
        (case buildBackends (env_opens env) config of
           (Inl err, still_open) \<Rightarrow> (Inl err, still_open)
         | (Inr backends, still_open) \<Rightarrow>
           (case NewClient (env_getenv env) (env_url_parse env) inference of
              Inl err \<Rightarrow> (Inl err, closed_by backends still_open)
            | Inr client \<Rightarrow>
              (case fst (registerDocumentation (env_yaml env) (env_openAPIYAML env) None) of
                 Inl err \<Rightarrow> (Inl err, closed_by backends still_open)
               | Inr _ \<Rightarrow>
                 (Inr \<lparr>wire_backends = backends, wire_auth = authenticator, wire_client = client,
                       sched_Queue = set_queue backends, sched_Store = set_store backends,
                       sched_Concurrency = Workers config, sched_JobTimeout = JobTimeout config,
                       rest_Queue = set_queue backends, rest_Store = set_store backends,
                       rest_Retention = JobRetention config, http_Addr = HTTPAddress config,
                       http_timeouts = [10 * Second, 30 * Second, 30 * Second, 120 * Second]\<rparr>, still_open)))))"

section \<open>End\<close>

text \<open>What ends the wait of \<open>run\<close>: a signal, the scheduler, or the HTTP server (\<open>None\<close> is a nil error).\<close>

datatype server_event = Signalled | SchedulerDone "go_error option" | ServerDone "go_error option"

definition ErrServerClosed :: go_error where
  "ErrServerClosed = External ''http: Server closed''"

definition run_result :: "server_event \<Rightarrow> go_error option \<Rightarrow> go_error option" where
  "run_result event shutdown =
     (case event of
        SchedulerDone (Some err) \<Rightarrow> Some err
      | ServerDone (Some err) \<Rightarrow> if \<not> errors_Is err ErrServerClosed then Some err else shutdown
      | _ \<Rightarrow> shutdown)"

text \<open>\<open>run\<close>, as a whole: its error, the parts if it came to serve, and the resources left open. The
  deferred function closes the set of backends.\<close>

definition server_run ::
  "surroundings \<Rightarrow> server_event \<Rightarrow> go_error option \<Rightarrow> go_error option \<times> wiring option \<times> resource list" where
  "server_run env event shutdown =
     (case read_settings env of
        Inl err \<Rightarrow> (Some err, None, [])
      | Inr (config, inference) \<Rightarrow>
        (case build_parts env config inference of
           (Inl err, still_open) \<Rightarrow> (Some err, None, still_open)
         | (Inr parts, still_open) \<Rightarrow>
             (run_result event shutdown, Some parts, closed_by (wire_backends parts) still_open)))"

section \<open>The cleanup\<close>

datatype cleanup_event = CleanupDone | Tick go_context time

datatype cleanup_log = CleanupFailed go_error | Cleaned int

fun cleanupExpired :: "'s Store \<Rightarrow> cleanup_event list \<Rightarrow> 's \<Rightarrow> bool \<times> cleanup_log list \<times> 's" where
  "cleanupExpired S [] s = (False, [], s)"
| "cleanupExpired S (CleanupDone # events) s = (True, [], s)"
| "cleanupExpired S (Tick ctx now # events) s =
     (let (deleted, s1) = store_DeleteExpired S ctx now s;
          entry = (case deleted of Inl err \<Rightarrow> [CleanupFailed err] | Inr n \<Rightarrow> if n > 0 then [Cleaned n] else []);
          (stopped, entries, s2) = cleanupExpired S events s1
      in (stopped, entry @ entries, s2))"

section \<open>Lemmas\<close>

text \<open>Arguments of the form \<open>-name=value\<close> set their flags one after the other: the command line overrides
  what was there, the last value of a flag wins, and an argument that is refused ends the program.\<close>

fun assign :: "(nat \<Rightarrow> bool) \<Rightarrow> 'c flag list \<Rightarrow> (string \<times> string) list \<Rightarrow> 'c \<Rightarrow> go_error + 'c" where
  "assign tbl flags [] c = Inr c"
| "assign tbl flags ((name, v) # rest) c =
     (case flag_set tbl name (the (map_of flags name)) v c of
        Inl err \<Rightarrow> Inl err
      | Inr c' \<Rightarrow> assign tbl flags rest c')"

definition flag_name :: "'c flag list \<Rightarrow> string \<Rightarrow> bool" where
  "flag_name flags name \<longleftrightarrow> name \<in> fst ` set flags \<and> name \<noteq> [] \<and> hd name \<noteq> CHR ''-'' \<and> CHR ''='' \<notin> set name"

lemma takeWhile_name: "CHR ''='' \<notin> set name \<Longrightarrow> takeWhile (\<lambda>ch. ch \<noteq> CHR ''='') (name @ CHR ''='' # v) = name"
  by (induction name) auto

lemma flag_Parse_assign:
  "list_all (\<lambda>(name, v). flag_name flags name) values0 \<Longrightarrow>
     flag_Parse tbl flags (map (\<lambda>(name, v). CHR ''-'' # name @ CHR ''='' # v) values0) c = assign tbl flags values0 c"
proof (induction values0 arbitrary: c)
  case (Cons a values0)
  obtain name v where a: "a = (name, v)" by force
  have name: "name \<in> fst ` set flags" "name \<noteq> []" "hd name \<noteq> CHR ''-''" "CHR ''='' \<notin> set name"
    using Cons.prems by (auto simp: a flag_name_def)
  then obtain store where "map_of flags name = Some store" by (metis map_of_eq_None_iff not_Some_eq)
  moreover have "hd name \<noteq> CHR ''=''" using name by (metis hd_in_set)
  moreover have "(CHR ''-'' # name @ CHR ''='' # v) ! 1 \<noteq> CHR ''-''" using name(2,3) by (cases name) auto
  moreover have "\<not> length (CHR ''-'' # name @ CHR ''='' # v) < 2" using name(2) by (cases name) auto
  ultimately show ?case
    using name Cons takeWhile_name [OF name(4), of v]
    by (cases name) (auto simp: a Let_def split: sum.split)
qed simp

lemma server_flag_names:
  "\<forall>name \<in> set [''http-address'', ''queue-backend'', ''store-backend'', ''workers'', ''job-timeout'',
     ''job-retention'', ''api-base-url'', ''api-model'', ''api-timeout'']. flag_name (server_flags parse_int parse_duration) name"
  by (simp add: flag_name_def server_flags_def RegisterFlags_def StringVar_def ParsedVar_def)

text \<open>\<open>build_parts\<close> leaves nothing open but what a failed \<open>buildBackends\<close> leaves, and wires one queue and one
  store.\<close>

lemma closed_by_built: "buildBackends opens config = (Inr set0, still_open) \<Longrightarrow> closed_by set0 still_open = []"
  using buildBackends_Inr [of opens config set0 still_open]
  by (auto simp: closed_by_def backendSet_Close_def filter_empty_conv)

lemma build_parts_Inl:
  assumes "build_parts env config inference = (Inl err, still_open)"
  shows "still_open = [] \<or> buildBackends (env_opens env) config = (Inl err, still_open)"
  using assms closed_by_built by (auto simp: build_parts_def split: sum.splits prod.splits)

lemma build_parts_Inr:
  assumes "build_parts env config inference = (Inr parts, still_open)"
  shows "buildBackends (env_opens env) config = (Inr (wire_backends parts), still_open) \<and>
    sched_Queue parts = queue_resource (QueueBackend config) \<and> sched_Queue parts \<noteq> None \<and>
    sched_Store parts = store_resource (StoreBackend config) \<and> sched_Store parts \<noteq> None \<and>
    rest_Queue parts = sched_Queue parts \<and> rest_Store parts = sched_Store parts \<and>
    sched_Concurrency parts = Workers config \<and> sched_JobTimeout parts = JobTimeout config \<and>
    rest_Retention parts = JobRetention config"
proof -
  from assms obtain set0 where b: "buildBackends (env_opens env) config = (Inr set0, still_open)"
    and w: "wire_backends parts = set0" "sched_Queue parts = set_queue set0" "sched_Store parts = set_store set0"
      "rest_Queue parts = set_queue set0" "rest_Store parts = set_store set0"
      "sched_Concurrency parts = Workers config" "sched_JobTimeout parts = JobTimeout config"
      "rest_Retention parts = JobRetention config"
    by (auto simp: build_parts_def split: sum.splits prod.splits)
  from buildBackends_Inr [OF b] b w show ?thesis by (elim conjE, intro conjI) simp_all
qed

lemma read_settings_checked: "read_settings env = Inr (config, inference) \<Longrightarrow> check_settings config = Inr ()"
  by (auto simp: read_settings_def split: sum.splits prod.splits)

text \<open>The cleanup, while every call succeeds, forgets exactly the jobs that had expired at some tick, and it
  is a run of the cleanup steps of the system.\<close>

fun ticks :: "cleanup_event list \<Rightarrow> time list" where
  "ticks [] = []"
| "ticks (CleanupDone # events) = []"
| "ticks (Tick ctx now # events) = now # ticks events"

lemma cleanup_forgets:
  assumes "job_expiry S jobs invar canon keep storable updatable expirable"
  shows "invar s \<Longrightarrow> list_all expirable (ticks events) \<Longrightarrow> cleanupExpired S events s = (stopped, entries, s') \<Longrightarrow>
    (\<forall>err. CleanupFailed err \<notin> set entries) \<Longrightarrow>
    jobs s' = (\<lambda>i. case jobs s i of None \<Rightarrow> None
      | Some j \<Rightarrow> if \<exists>now \<in> set (ticks events). ExpiresAt j \<le> now then None else Some j)"
proof (induction events arbitrary: s stopped entries)
  case (Cons event events)
  show ?case
  proof (cases event)
    case CleanupDone
    with Cons.prems show ?thesis by (auto split: option.split)
  next
    case (Tick ctx now)
    obtain deleted s1 where d: "store_DeleteExpired S ctx now s = (deleted, s1)" by force
    obtain stop1 entries1 s2 where rest: "cleanupExpired S events s1 = (stop1, entries1, s2)" by (metis surj_pair)
    have entries: "entries = (case deleted of Inl err \<Rightarrow> [CleanupFailed err] | Inr n \<Rightarrow> if n > 0 then [Cleaned n] else []) @ entries1"
      "s' = s2"
      using Cons.prems(3) d rest by (auto simp: Tick Let_def)
    then obtain n where "deleted = Inr n" using Cons.prems(4) by (cases deleted) auto
    with job_expiry.DeleteExpired [OF assms Cons.prems(1) _ d] Cons.prems(2)
    have s1: "invar s1" "jobs s1 = (\<lambda>i. case jobs s i of None \<Rightarrow> None | Some j \<Rightarrow> if ExpiresAt j \<le> now then None else Some j)"
      by (simp_all add: Tick)
    have "jobs s2 = (\<lambda>i. case jobs s1 i of None \<Rightarrow> None
      | Some j \<Rightarrow> if \<exists>now \<in> set (ticks events). ExpiresAt j \<le> now then None else Some j)"
      using Cons.IH [OF s1(1) _ rest [folded entries(2)]] entries(2) Cons.prems(2,4) entries(1) by (simp add: Tick)
    with s1(2) entries(2) show ?thesis by (auto simp: Tick fun_eq_iff split: option.split)
  qed
qed (auto split: option.split)

lemma cleanup_run:
  "cleanupExpired (sp_Store c) events (sys_backend \<sigma>) = (stopped, entries, s') \<Longrightarrow>
     (system_step jobs storable tokens c)\<^sup>*\<^sup>* \<sigma> (\<sigma>\<lparr>sys_backend := s'\<rparr>)"
proof (induction events arbitrary: \<sigma> stopped entries)
  case Nil
  then have "s' = sys_backend \<sigma>" by simp
  then show ?case by simp
next
  case (Cons event events)
  show ?case
  proof (cases event)
    case CleanupDone
    with Cons.prems have "s' = sys_backend \<sigma>" by simp
    then show ?thesis by simp
  next
    case (Tick ctx now)
    obtain deleted s1 where d: "store_DeleteExpired (sp_Store c) ctx now (sys_backend \<sigma>) = (deleted, s1)" by force
    obtain stop1 entries1 where rest: "cleanupExpired (sp_Store c) events s1 = (stop1, entries1, s')"
      using Cons.prems d by (auto simp: Tick Let_def split: prod.splits)
    from system_step.cleanup [OF d] Cons.IH [of "\<sigma>\<lparr>sys_backend := s1\<rparr>" stop1 entries1] rest show ?thesis
      by (auto intro: converse_rtranclp_into_rtranclp)
  qed
qed

section \<open>The run of the server\<close>

text \<open>
  C22. However \<open>run\<close> ends, no backend is left open, unless \<open>buildBackends\<close> itself failed and left it; and
  the server serves only with positive settings, after the flags, with one queue and one store, those that
  the settings name, shared by the scheduler and the REST API.
\<close>

theorem server_run_correct:
  assumes "server_run env event shutdown = (r, parts, still_open)"
  shows "(still_open = [] \<or> (\<exists>config err. buildBackends (env_opens env) config = (Inl err, still_open) \<and> r = Some err)) \<and>
    (case parts of
       None \<Rightarrow> r \<noteq> None
     | Some w \<Rightarrow> r = run_result event shutdown \<and>
         (\<exists>config inference. read_settings env = Inr (config, inference) \<and>
            0 < sched_Concurrency w \<and> 0 < sched_JobTimeout w \<and> 0 < rest_Retention w \<and>
            sched_Queue w = queue_resource (QueueBackend config) \<and> sched_Queue w \<noteq> None \<and>
            sched_Store w = store_resource (StoreBackend config) \<and> sched_Store w \<noteq> None \<and>
            rest_Queue w = sched_Queue w \<and> rest_Store w = sched_Store w))"
proof (cases "read_settings env")
  case (Inl err)
  with assms show ?thesis by (auto simp: server_run_def)
next
  case (Inr settings)
  obtain config inference where s: "settings = (config, inference)" by force
  note checked = read_settings_checked [OF Inr [unfolded s]]
  obtain built opened where b: "build_parts env config inference = (built, opened)" by force
  show ?thesis
  proof (cases built)
    case failed: (Inl err)
    with assms Inr s b have "r = Some err" "parts = None" "still_open = opened" by (auto simp: server_run_def)
    with build_parts_Inl [OF b [unfolded failed]] show ?thesis by auto
  next
    case served: (Inr w)
    note w = build_parts_Inr [OF b [unfolded served]]
    from assms Inr s b served have out: "r = run_result event shutdown" "parts = Some w"
      "still_open = closed_by (wire_backends w) opened" by (auto simp: server_run_def)
    have "still_open = []" using closed_by_built w out(3) by auto
    moreover have positive: "0 < Workers config" "0 < JobTimeout config" "0 < JobRetention config"
      using checked by (auto simp: check_settings_def split: if_splits)
    have "\<exists>config inference. read_settings env = Inr (config, inference) \<and>
        0 < sched_Concurrency w \<and> 0 < sched_JobTimeout w \<and> 0 < rest_Retention w \<and>
        sched_Queue w = queue_resource (QueueBackend config) \<and> sched_Queue w \<noteq> None \<and>
        sched_Store w = store_resource (StoreBackend config) \<and> sched_Store w \<noteq> None \<and>
        rest_Queue w = sched_Queue w \<and> rest_Store w = sched_Store w"
      using w positive Inr s by (intro exI [of _ config] exI [of _ inference], elim conjE, intro conjI) simp_all
    ultimately show ?thesis using out by simp
  qed
qed

text \<open>The defaults, with the backends of \<open>redis_sqlite_config\<close> named on the command line.\<close>

definition demo_surroundings :: surroundings where
  "demo_surroundings =
     \<lparr>env_getenv = \<lambda>name. if name = ''TRANSLITER_REDIS_URL'' then ''redis://localhost'' else [],
      env_args = [''-queue-backend=redis'', ''--workers'', ''3''], env_tbl = \<lambda>_. True,
      env_parse_int = \<lambda>s. case strconv_Atoi s of None \<Rightarrow> Inl (External ''parse error'') | Some n \<Rightarrow> Inr n,
      env_parse_duration = \<lambda>_. Inl (External ''parse error''),
      env_url_parse = \<lambda>s. Inr \<lparr>url_Scheme = ''http'', url_Host = ''127.0.0.1'', url_RawQuery = [], url_Fragment = []\<rparr>,
      env_parse_json = \<lambda>_. Inr (JObject []), env_opens = \<lambda>_. None,
      env_yaml = \<lambda>_. Inr (JObject [(''openapi'', JString ''3.1.0''), (''paths'', JObject [])]),
      env_openAPIYAML = []\<rparr>"

theorem server_run_correct_witness:
  "\<exists>w. server_run demo_surroundings Signalled None = (None, Some w, []) \<and>
     sched_Queue w = Some RedisBackend \<and> sched_Store w = Some SQLiteStore \<and> rest_Store w = Some SQLiteStore"
proof -
  obtain r parts still_open where run: "server_run demo_surroundings Signalled None = (r, parts, still_open)"
    by (metis surj_pair)
  have "case server_run demo_surroundings Signalled None of (r, parts, still_open) \<Rightarrow>
      r = None \<and> still_open = [] \<and> map_option sched_Queue parts = Some (Some RedisBackend) \<and>
      map_option sched_Store parts = Some (Some SQLiteStore)"
    by code_simp
  then obtain w where "r = None" "still_open = []" "parts = Some w" "sched_Queue w = Some RedisBackend"
    "sched_Store w = Some SQLiteStore"
    using run by auto
  with server_run_correct [OF run] run show ?thesis by auto
qed

end
