(* ===== verification/Pipeline.thy ===== *)
theory Pipeline
  imports Server OpenAI
begin

text \<open>
  From the admission of a job (\<open>cmd/transliter-server/main.go\<close>) over its model (\<open>models/\<close>) and the
  processor (\<open>lib/jobs/processor.go\<close>) to the body of the call (\<open>lib/inference/openai\<close>): what each
  model family's input is encoded as, and what is sent for an admitted request.
\<close>

lemma gemma_encodes:
  assumes "gemma_BuildInput core r = Inr i" and "name \<noteq> [] \<or> fallback \<noteq> []"
  shows "RequestPath (NewRequest name i opts) = completionsPath" (is ?path)
    and "EncodeRequest (NewRequest name i opts) fallback =
      (if Source r = [] then Inl (InferenceError PromptTextRequired)
       else Inr (completionRequest_json (if name = [] then fallback else name)
         (''<bos><start_of_turn>user'' @ [NL]
            @ ''source_lang_code: '' @ lookup_string gemma_languageCodes (SourceLanguage r) @ [NL]
            @ ''target_lang_code: '' @ lookup_string gemma_languageCodes (TargetLanguage r) @ [NL]
            @ ''text: '' @ Source r @ end_of_turn @ [NL] @ ''<start_of_turn>model'' @ [NL])
         opts (completionStopSequences (Stop opts))))" (is ?enc)
proof -
  from assms(1) obtain sc tc where
    c: "map_of gemma_languageCodes (SourceLanguage r) = Some sc"
      "map_of gemma_languageCodes (TargetLanguage r) = Some tc" and
    i: "i = \<lparr>Messages = [\<lparr>msg_Role = RoleUser, msg_Text = [],
               msg_Parts = [\<lparr>part_Type = ''text'', part_Text = Source r,
                 part_SourceLanguageCode = sc, part_TargetLanguageCode = tc\<rparr>]\<rparr>]\<rparr>"
    by (auto simp: gemma_BuildInput_iff)
  note codes = gemma_codes_nonempty [OF c(1)] gemma_codes_nonempty [OF c(2)]
  have bypass: "requiresCompletionBypass i" using codes by (simp add: i requiresCompletionBypass_def)
  then show ?path by (simp add: RequestPath_def)
  have render: "renderStructuredCompletionPrompt i =
     (if Source r = [] then Inl (InferenceError PromptTextRequired) else
      Inr (''<bos><start_of_turn>user'' @ [NL]
            @ ''source_lang_code: '' @ sc @ [NL] @ ''target_lang_code: '' @ tc @ [NL]
            @ ''text: '' @ Source r @ end_of_turn @ [NL] @ ''<start_of_turn>model'' @ [NL]))"
    using codes by (simp add: i renderStructuredCompletionPrompt_def)
  have "length (Messages i) \<noteq> 0" by (simp add: i)
  with bypass render assms(2) show ?enc
    by (auto simp: EncodeRequest_def Let_def lookup_string_def c)
qed

lemma hymt2_encodes:
  assumes "hymt2_BuildInput tbl core r = Inr i" and "name \<noteq> [] \<or> fallback \<noteq> []"
  shows "RequestPath (NewRequest name i opts) = chatCompletionsPath" (is ?path)
    and "\<exists>prompt. BuildPrompt tbl r = Inr prompt \<and>
      EncodeRequest (NewRequest name i opts) fallback = Inr
        (chatCompletionRequest_json (if name = [] then fallback else name)
           [json_struct [(''role'', Some (json_string RoleUser)), (''content'', Some (json_string prompt))]]
           opts (Stop opts))" (is ?enc)
proof -
  from assms(1) obtain prompt where p: "BuildPrompt tbl r = Inr prompt" and
    i: "i = \<lparr>Messages = [\<lparr>msg_Role = RoleUser, msg_Text = prompt, msg_Parts = []\<rparr>]\<rparr>"
    by (auto simp: hymt2_BuildInput_iff)
  have bypass: "\<not> requiresCompletionBypass i" by (simp add: i requiresCompletionBypass_def)
  then show ?path by (simp add: RequestPath_def)
  have "Messages_json (Messages i) = Inr [json_struct [(''role'', Some (json_string RoleUser)),
      (''content'', Some (json_string prompt))]]"
    by (simp add: i Message_MarshalJSON_def)
  moreover have "length (Messages i) \<noteq> 0" by (simp add: i)
  ultimately show ?enc using p bypass assms(2)
    by (auto simp: EncodeRequest_def Let_def)
qed



definition empty_source_job :: Request where
  "empty_source_job = \<lparr>ModelCatalog = ''translategemma-4b'', req_Model = ''m'', Profile = [],
     Translation = hello_request\<lparr>Source := []\<rparr>\<rparr>"


end
