(* ===== verification/Go_Regexp.thy ===== *)
theory Go_Regexp
  imports Go_Strings
begin

text \<open>
  The part of Go's package \<open>regexp\<close> that the code uses: matching by runes (an invalid byte is the rune
  U+FFFD), leftmost match first and, among the matches at one place, the one that a backtracking search
  with greedy repetition finds first. \<open>match_re p s\<close> lists what is left of \<open>s\<close> after each match of \<open>p\<close> at
  its start, in that order of preference. The lemmas compare it with the language of the expression.
\<close>

datatype (plugins only: code size) re =
    Empty
  | Class "nat \<Rightarrow> bool"
  | Seq re re
  | Alt re re
  | Star re

type_synonym rune = "nat \<times> string"

section \<open>Matching\<close>

text \<open>A repetition goes on only when its body consumed something.\<close>

function (sequential) match_re :: "re \<Rightarrow> rune list \<Rightarrow> rune list list" where
  "match_re Empty s = [s]"
| "match_re (Class P) [] = []"
| "match_re (Class P) (c # s) = (if P (fst c) then [s] else [])"
| "match_re (Seq p q) s = concat (map (match_re q) (match_re p s))"
| "match_re (Alt p q) s = match_re p s @ match_re q s"
| "match_re (Star p) s =
     concat (map (match_re (Star p)) (filter (\<lambda>t. length t < length s) (match_re p s))) @ [s]"
  by pat_completeness auto
termination
  by (relation "measures [\<lambda>(p, s). size p, \<lambda>(p, s). length s]") auto

lemmas match_Star = match_re.simps(6)
declare match_Star [simp del]

text \<open>\<open>FindAllString(text, -1)\<close> of an expression that does not match the empty string.\<close>

function find_all :: "re \<Rightarrow> rune list \<Rightarrow> string list" where
  "find_all p s =
     (case s of
        [] \<Rightarrow> []
      | c # r \<Rightarrow>
        (case match_re p s of
           [] \<Rightarrow> find_all p r
         | t # _ \<Rightarrow>
           if length t < length s then concat (map snd (take (length s - length t) s)) # find_all p t
           else find_all p r))"
  by pat_completeness auto
termination
  by (relation "measure (\<lambda>(p, s). length s)") auto

declare find_all.simps [simp del]

definition FindAllString :: "re \<Rightarrow> string \<Rightarrow> string list" where
  "FindAllString p s = find_all p (runes s)"

text \<open>\<open>MatchString\<close> of an expression that begins with \<open>^\<close>.\<close>

definition MatchStart :: "re \<Rightarrow> string \<Rightarrow> bool" where
  "MatchStart p s \<longleftrightarrow> match_re p (runes s) \<noteq> []"

section \<open>Writing expressions\<close>

definition plus_re :: "re \<Rightarrow> re" where "plus_re p = Seq p (Star p)"
definition opt_re :: "re \<Rightarrow> re" where "opt_re p = Alt p Empty"

definition lit :: "string \<Rightarrow> re" where
  "lit s = foldr (\<lambda>c. Seq (Class (\<lambda>r. r = byte c))) s Empty"

definition sequence :: "re list \<Rightarrow> re" where
  "sequence ps = foldr Seq ps Empty"

fun choice :: "re list \<Rightarrow> re" where
  "choice [] = Class (\<lambda>_. False)"
| "choice [p] = p"
| "choice (p # q # ps) = Alt p (choice (q # ps))"

definition digit :: "nat \<Rightarrow> bool" where "digit r \<longleftrightarrow> 48 \<le> r \<and> r \<le> 57"
definition letter :: "nat \<Rightarrow> bool" where "letter r \<longleftrightarrow> 65 \<le> r \<and> r \<le> 90 \<or> 97 \<le> r \<and> r \<le> 122"
definition hex_rune :: "nat \<Rightarrow> bool" where "hex_rune r \<longleftrightarrow> digit r \<or> 65 \<le> r \<and> r \<le> 70 \<or> 97 \<le> r \<and> r \<le> 102"
definition among :: "string \<Rightarrow> nat \<Rightarrow> bool" where "among cs r \<longleftrightarrow> list_ex (\<lambda>c. byte c = r) cs"

definition word_or :: "string \<Rightarrow> nat \<Rightarrow> bool" where
  "word_or cs r \<longleftrightarrow> letter r \<or> digit r \<or> among cs r"

text \<open>A lower-case ASCII word under \<open>(?i)\<close>: simple case folding, which adds the long s and the Kelvin
  sign.\<close>

definition fold_char :: "char \<Rightarrow> nat \<Rightarrow> bool" where
  "fold_char c r \<longleftrightarrow> r = byte c \<or> in_range 97 122 c \<and> r + 32 = byte c \<or>
     c = CHR ''s'' \<and> r = 0x17F \<or> c = CHR ''k'' \<and> r = 0x212A"

definition fold_lit :: "string \<Rightarrow> re" where
  "fold_lit s = foldr (\<lambda>c. Seq (Class (fold_char c))) s Empty"

definition spaces :: re where
  "spaces = Star (Class (\<lambda>r. r \<in> {9, 10, 12, 13, 32}))"

section \<open>The language of an expression\<close>

inductive_set star_words :: "'a list set \<Rightarrow> 'a list set" for A where
  star_Nil: "[] \<in> star_words A"
| star_step: "u \<in> A \<Longrightarrow> v \<in> star_words A \<Longrightarrow> u @ v \<in> star_words A"

fun words :: "re \<Rightarrow> rune list set" where
  "words Empty = {[]}"
| "words (Class P) = {[c] | c. P (fst c)}"
| "words (Seq p q) = {u @ v | u v. u \<in> words p \<and> v \<in> words q}"
| "words (Alt p q) = words p \<union> words q"
| "words (Star p) = star_words (words p)"

lemma match_re_sound: "t \<in> set (match_re p s) \<Longrightarrow> \<exists>w \<in> words p. s = w @ t"
proof (induction p s arbitrary: t rule: match_re.induct)
  case (4 p q s)
  then obtain m where m: "m \<in> set (match_re p s)" "t \<in> set (match_re q m)" by auto
  from "4.IH"(1) [OF m(1)] obtain u where u: "u \<in> words p" "s = u @ m" by blast
  from "4.IH"(2) [OF m] obtain v where "v \<in> words q" "m = v @ t" by blast
  with u show ?case by (intro bexI [of _ "u @ v"]) auto
next
  case (6 p s)
  show ?case
  proof (cases "t = s")
    case True
    then show ?thesis by (auto intro: star_Nil)
  next
    case False
    with "6.prems" obtain m where m: "m \<in> set (match_re p s)" "length m < length s"
      "t \<in> set (match_re (Star p) m)"
      unfolding match_Star [of p s] by auto
    from "6.IH"(1) [OF m(1)] obtain u where u: "u \<in> words p" "s = u @ m" by blast
    from "6.IH"(2) [of m t] m obtain v where "v \<in> star_words (words p)" "m = v @ t" by auto
    with u show ?thesis by (intro bexI [of _ "u @ v"]) (auto intro: star_step)
  qed
qed auto

lemma match_re_complete: "w \<in> words p \<Longrightarrow> t \<in> set (match_re p (w @ t))"
proof (induction p arbitrary: w t)
  case (Seq p q)
  then obtain u v where w: "w = u @ v" "u \<in> words p" "v \<in> words q" by auto
  from Seq.IH(1) [OF w(2), of "v @ t"] Seq.IH(2) [OF w(3), of t] show ?case
    unfolding w(1) append_assoc by auto
next
  case (Star p)
  from Star.prems have "w \<in> star_words (words p)" by simp
  then show ?case
  proof (induction rule: star_words.induct)
    case (star_step u v)
    show ?case
    proof (cases "u = []")
      case True
      with star_step show ?thesis by simp
    next
      case False
      then have "length (v @ t) < length (u @ v @ t)" by simp
      with Star.IH [OF star_step(1), of "v @ t"] star_step(3) show ?thesis
        unfolding append_assoc match_Star [of p "u @ v @ t"] by auto
    qed
  next
    case star_Nil
    show ?case by (simp add: match_Star [of p t])
  qed
qed auto

lemma match_re_words: "t \<in> set (match_re p s) \<longleftrightarrow> (\<exists>w \<in> words p. s = w @ t)"
  using match_re_sound match_re_complete by blast

text \<open>Every token that is found is a word of the expression.\<close>

lemma find_all_words: "x \<in> set (find_all p s) \<Longrightarrow> \<exists>w \<in> words p. x = concat (map snd w)"
proof (induction p s rule: find_all.induct)
  case (1 p s)
  show ?case
  proof (cases s)
    case Nil
    with "1.prems" show ?thesis by (simp add: find_all.simps [of p "[]"])
  next
    case (Cons c r)
    note s = this
    show ?thesis
    proof (cases "\<exists>t ts. match_re p s = t # ts \<and> length t < length s")
      case False
      with "1.prems" s have "x \<in> set (find_all p r)"
        by (auto simp: find_all.simps [of p "c # r"] split: list.splits if_splits)
      with "1.IH"(1,3) [OF s] False show ?thesis by (cases "match_re p s") auto
    next
      case True
      then obtain t ts where m: "match_re p s = t # ts" "length t < length s" by blast
      then have "t \<in> set (match_re p s)" by simp
      then obtain w where w: "w \<in> words p" "s = w @ t" using match_re_sound by blast
      have "find_all p s = concat (map snd (take (length s - length t) s)) # find_all p t"
        using m by (subst find_all.simps) (simp add: s)
      with "1.prems" w(2) have "x = concat (map snd w) \<or> x \<in> set (find_all p t)" by simp
      with "1.IH"(2) [OF s m] w(1) show ?thesis by blast
    qed
  qed
qed

end
