(* ===== verification/Formats.thy ===== *)
theory Formats
  imports Validate
begin

text \<open>
  The format checks of \<open>lib/validate.go\<close> and \<open>ValidateTranslation\<close>. The decoders are parameters:
  a JSON decoder that returns one value with the rest of its input, a YAML decoder that returns a node
  tree, an XML tokenizer of which only its error counts, and the tokens of an HTML text.
\<close>

section \<open>JSON\<close>

text \<open>One call of \<open>Decode\<close>; with \<open>UseNumber\<close> a number is its literal.\<close>

datatype (plugins only: code size) json_read = Value "string json" string | Bad go_error | EOF

definition decodeJSON :: "(string \<Rightarrow> json_read) \<Rightarrow> string \<Rightarrow> go_error + string json" where
  "decodeJSON next_value txt =
     (case next_value txt of
        Bad err \<Rightarrow> Inl err
      | EOF \<Rightarrow> Inl (External ''EOF'')
      | Value v rest \<Rightarrow>
        (case next_value rest of
           EOF \<Rightarrow> Inr v
         | Value _ _ \<Rightarrow> Inl (External ''multiple JSON values'')
         | Bad err \<Rightarrow> Inl err))"

text \<open>The keys of an object are visited in order; \<open>typed[key]\<close> is looked up in the tree of shapes.\<close>

fun jsonShape :: "(nat \<Rightarrow> bool) \<Rightarrow> string json \<Rightarrow> string" where
  "jsonShape tbl (JObject m) =
     (let shapes = map (\<lambda>(key, v). (key, jsonShape tbl v)) m in
      ''object{'' @ concat (map (\<lambda>key. strconv_Quote tbl key @ '':'' @ the (map_of shapes key) @ '';'')
                        (sort (map fst m))) @ ''}'')"
| "jsonShape tbl (JArray vs) = ''array['' @ concat (map (\<lambda>v. jsonShape tbl v @ '';'') vs) @ '']''"
| "jsonShape tbl (JNumber n) = ''number:'' @ n"
| "jsonShape tbl (JBool b) = ''boolean:'' @ (if b then ''true'' else ''false'')"
| "jsonShape tbl JNull = ''null''"
| "jsonShape tbl (JString s) = ''string''"

definition addJSONChecks ::
  "(nat \<Rightarrow> bool) \<Rightarrow> (string \<Rightarrow> json_read) \<Rightarrow> ValidationIssue list \<Rightarrow> string \<Rightarrow> string
     \<Rightarrow> ValidationIssue list" where
  "addJSONChecks tbl next_value issues source output =
     (case decodeJSON next_value source of
        Inl err \<Rightarrow> issues @ [issue ''source_json_invalid''
                               (''source fixture is invalid JSON: '' @ Error_text tbl err)]
      | Inr sourceValue \<Rightarrow>
        (case decodeJSON next_value output of
           Inl err \<Rightarrow> issues @ [issue ''json_invalid'' (''output is not valid JSON: '' @ Error_text tbl err)]
         | Inr outputValue \<Rightarrow>
           if jsonShape tbl sourceValue \<noteq> jsonShape tbl outputValue
           then issues @ [issue ''json_structure_changed'' ''JSON keys, structure, or machine values changed'']
           else issues))"

section \<open>YAML\<close>

datatype (plugins only: code size) yaml_kind =
  DocumentNode | MappingNode | SequenceNode | AliasNode | ScalarNode | OtherKind nat

datatype (plugins only: code size) yaml_node =
  YNode (yaml_Kind: yaml_kind) (yaml_Tag: string) (yaml_Value: string) (yaml_Content: "yaml_node list")

fun yamlShape :: "yaml_node \<Rightarrow> bool \<Rightarrow> string"
  and yaml_pairs :: "yaml_node list \<Rightarrow> string"
  and yaml_items :: "yaml_node list \<Rightarrow> string" where
  "yamlShape (YNode kind tag v content) preserveScalar =
     (case kind of
        DocumentNode \<Rightarrow> (case content of [] \<Rightarrow> ''document'' | c # _ \<Rightarrow> ''document:'' @ yamlShape c True)
      | MappingNode \<Rightarrow> ''mapping{'' @ yaml_pairs content @ ''}''
      | SequenceNode \<Rightarrow> ''sequence['' @ yaml_items content @ '']''
      | AliasNode \<Rightarrow> ''alias:'' @ v
      | ScalarNode \<Rightarrow>
          if preserveScalar \<or> (tag \<noteq> ''!!str'' \<and> prefix ''!!'' tag)
          then ''scalar:'' @ tag @ '':'' @ v
          else ''scalar:'' @ tag
      | OtherKind k \<Rightarrow> ''kind:'' @ strconv_Itoa (int k))"
| "yaml_pairs (key # v # rest) =
     yamlShape key True @ '':'' @ yamlShape v False @ '';'' @ yaml_pairs rest"
| "yaml_pairs _ = []"
| "yaml_items [] = []"
| "yaml_items (child # rest) = yamlShape child False @ '';'' @ yaml_items rest"

definition indentationProfile :: "string \<Rightarrow> int list" where
  "indentationProfile txt =
     map (\<lambda>line. int (length line) - int (length (strings_TrimLeft line '' ''))) (strings_Split txt NL)"

fun control_tokens_loop :: "string list \<Rightarrow> counts \<Rightarrow> counts" where
  "control_tokens_loop [] counts = counts"
| "control_tokens_loop (field0 # rest) counts =
     (let field = strings_Trim field0 ''[],{}'' in
      if length field > 1 \<and> hd field \<in> set ''&*!''
      then control_tokens_loop rest (increment counts field)
      else control_tokens_loop rest counts)"

definition yamlControlTokens :: "string \<Rightarrow> counts" where
  "yamlControlTokens txt = control_tokens_loop (strings_Fields txt) []"

definition addYAMLChecks ::
  "(nat \<Rightarrow> bool) \<Rightarrow> (string \<Rightarrow> go_error + yaml_node) \<Rightarrow> ValidationIssue list \<Rightarrow> string \<Rightarrow> string
     \<Rightarrow> ValidationIssue list" where
  "addYAMLChecks tbl yaml_decode issues source output =
     (case yaml_decode source of
        Inl err \<Rightarrow> issues @ [issue ''source_yaml_invalid''
                               (''source fixture is invalid YAML: '' @ Error_text tbl err)]
      | Inr sourceNode \<Rightarrow>
        (case yaml_decode output of
           Inl err \<Rightarrow> issues @ [issue ''yaml_invalid'' (''output is not valid YAML: '' @ Error_text tbl err)]
         | Inr outputNode \<Rightarrow>
           (let issues1 = (if yamlShape sourceNode True \<noteq> yamlShape outputNode True
                           then issues @ [issue ''yaml_structure_changed''
                                            ''YAML keys, structure, or machine values changed'']
                           else issues);
                issues2 = (if \<not> equalInts (indentationProfile source) (indentationProfile output)
                           then issues1 @ [issue ''yaml_indentation_changed''
                                             ''YAML line count or indentation changed'']
                           else issues1)
            in if \<not> equalCounts (yamlControlTokens source) (yamlControlTokens output)
               then issues2 @ [issue ''yaml_tokens_changed'' ''YAML anchors, aliases, or tags changed'']
               else issues2)))"

section \<open>Markup\<close>

datatype (plugins only: code size) html_token =
    StartTagToken string "(string \<times> string) list"
  | SelfClosingTagToken string "(string \<times> string) list"
  | EndTagToken string
  | CommentToken string
  | DoctypeToken string
  | TextToken string

definition voidHTMLTag :: "string \<Rightarrow> bool" where
  "voidHTMLTag tag \<longleftrightarrow>
     tag \<in> set [''area'', ''base'', ''br'', ''col'', ''embed'', ''hr'', ''img'', ''input'', ''link'', ''meta'',
       ''param'', ''source'', ''track'', ''wbr'']"

definition attribute_event ::
  "(nat \<Rightarrow> bool) \<Rightarrow> (string \<Rightarrow> string) \<Rightarrow> string list \<Rightarrow> string \<times> string \<Rightarrow> string" where
  "attribute_event tbl lower translatable attribute =
     (let key = lower (fst attribute);
          v = (if key \<in> set translatable then ''<translated>'' else snd attribute)
      in key @ ''='' @ strconv_Quote tbl v)"

definition tag_event ::
  "(nat \<Rightarrow> bool) \<Rightarrow> (string \<Rightarrow> string) \<Rightarrow> string list \<Rightarrow> string \<Rightarrow> string
     \<Rightarrow> (string \<times> string) list \<Rightarrow> string" where
  "tag_event tbl lower translatable kind tag attrs =
     kind @ '':'' @ tag @ '':'' @ strings_Join (sort (map (attribute_event tbl lower translatable) attrs)) '',''"

text \<open>\<open>lower\<close> is \<open>strings.ToLower\<close>, \<open>ending\<close> the error of the tokenizer if it is not \<open>io.EOF\<close>; the
  stack has its top first.\<close>

fun html_loop ::
  "(nat \<Rightarrow> bool) \<Rightarrow> (string \<Rightarrow> string) \<Rightarrow> string list \<Rightarrow> go_error option \<Rightarrow> html_token list
     \<Rightarrow> string list \<Rightarrow> string list \<Rightarrow> string list \<Rightarrow> string list \<times> string list" where
  "html_loop tbl lower translatable ending [] events stack errors =
     (events,
      errors @ (case ending of None \<Rightarrow> [] | Some err \<Rightarrow> [Error_text tbl err])
        @ (if length stack > 0 then [''unclosed tags: '' @ format_strings (rev stack)] else []))"
| "html_loop tbl lower translatable ending (token # tokens) events stack errors =
     (case token of
        StartTagToken data attrs \<Rightarrow>
          (let tag = lower data in
           html_loop tbl lower translatable ending tokens
             (events @ [tag_event tbl lower translatable ''start'' tag attrs])
             (if \<not> voidHTMLTag tag then tag # stack else stack) errors)
      | SelfClosingTagToken data attrs \<Rightarrow>
          html_loop tbl lower translatable ending tokens
            (events @ [tag_event tbl lower translatable ''empty'' (lower data) attrs]) stack errors
      | EndTagToken data \<Rightarrow>
          (let tag = lower data;
               events' = events @ [''end:'' @ tag] in
           if stack = [] \<or> hd stack \<noteq> tag
           then html_loop tbl lower translatable ending tokens events' stack
                  (errors @ [''unexpected closing tag </'' @ tag @ ''>''])
           else html_loop tbl lower translatable ending tokens events' (tl stack) errors)
      | CommentToken data \<Rightarrow>
          html_loop tbl lower translatable ending tokens (events @ [''comment:'' @ data]) stack errors
      | DoctypeToken data \<Rightarrow>
          html_loop tbl lower translatable ending tokens (events @ [''doctype:'' @ data]) stack errors
      | TextToken _ \<Rightarrow> html_loop tbl lower translatable ending tokens events stack errors)"

definition htmlStructure ::
  "(nat \<Rightarrow> bool) \<Rightarrow> (string \<Rightarrow> string) \<Rightarrow> (string \<Rightarrow> html_token list \<times> go_error option) \<Rightarrow> string
     \<Rightarrow> string list \<Rightarrow> string list \<times> string list" where
  "htmlStructure tbl lower tokenize txt translatable =
     (let (tokens, ending) = tokenize txt in html_loop tbl lower translatable ending tokens [] [] [])"

text \<open>\<open>xml_error\<close> is the first error of the XML decoder other than \<open>io.EOF\<close>.\<close>

definition validateXML :: "(string \<Rightarrow> go_error option) \<Rightarrow> string \<Rightarrow> go_error option" where
  "validateXML xml_error txt = xml_error txt"

definition addMarkupChecks ::
  "(nat \<Rightarrow> bool) \<Rightarrow> (string \<Rightarrow> string) \<Rightarrow> (string \<Rightarrow> html_token list \<times> go_error option)
     \<Rightarrow> (string \<Rightarrow> go_error option) \<Rightarrow> ValidationIssue list \<Rightarrow> string \<Rightarrow> string \<Rightarrow> string list
     \<Rightarrow> ValidationIssue list" where
  "addMarkupChecks tbl lower tokenize xml_error issues source output translatableAttributes =
     (let issues1 = (if prefix ''<?xml'' (strings_TrimSpace source)
                     then (case validateXML xml_error output of
                             Some err \<Rightarrow> issues @ [issue ''xml_invalid''
                                           (''output is not valid XML: '' @ Error_text tbl err)]
                           | None \<Rightarrow> issues)
                     else issues);
          allowed = map lower translatableAttributes;
          (sourceEvents, sourceErrors) = htmlStructure tbl lower tokenize source allowed;
          (outputEvents, outputErrors) = htmlStructure tbl lower tokenize output allowed
      in if length sourceErrors > 0
         then issues1 @ [issue ''source_markup_invalid'' (strings_Join sourceErrors ''; '')]
         else
           let issues2 = (if length outputErrors > 0
                          then issues1 @ [issue ''markup_invalid'' (strings_Join outputErrors ''; '')]
                          else issues1);
               issues3 = (if \<not> equalStrings sourceEvents outputEvents
                          then issues2 @ [issue ''markup_structure_changed''
                                            ''tag order, nesting, or preserved attributes changed'']
                          else issues2)
           in comparePattern issues3 ''entities_changed'' ''HTML/XML entities'' entityPattern source output)"

section \<open>The whole check\<close>

text \<open>What the decoders make of a text.\<close>

record formats =
  next_value :: "string \<Rightarrow> json_read"
  yaml_decode :: "string \<Rightarrow> go_error + yaml_node"
  xml_error :: "string \<Rightarrow> go_error option"
  html_tokens :: "string \<Rightarrow> html_token list \<times> go_error option"
  to_lower :: "string \<Rightarrow> string"

fun identifier_checks ::
  "(nat \<Rightarrow> bool) \<Rightarrow> string list \<Rightarrow> string \<Rightarrow> string \<Rightarrow> ValidationIssue list \<Rightarrow> ValidationIssue list" where
  "identifier_checks tbl [] source output issues = issues"
| "identifier_checks tbl (identifier # rest) source output issues =
     (let expected = strings_Count source identifier;
          actual = strings_Count output identifier
      in identifier_checks tbl rest source output
           (if expected \<noteq> actual
            then issues @ [issue ''identifier_changed''
                   (''identifier '' @ strconv_Quote tbl identifier @ '' count changed from ''
                    @ strconv_Itoa (int expected) @ '' to '' @ strconv_Itoa (int actual))]
            else issues))"

definition ValidateTranslation ::
  "(nat \<Rightarrow> bool) \<Rightarrow> formats \<Rightarrow> string \<Rightarrow> string \<Rightarrow> ValidationOptions \<Rightarrow> ValidationResult" where
  "ValidateTranslation tbl fm source output options =
     (let issues = [];
          issues = (if source = [] \<and> output \<noteq> []
                    then issues @ [issue ''empty_source_output'' ''empty source must produce empty output'']
                    else issues);
          issues = (if MatchStart leadingNoise output
                    then issues @ [issue ''unexpected_prefix''
                                     ''output starts with an unwanted label or explanation'']
                    else issues);
          issues = comparePattern issues ''placeholders_changed'' ''placeholders'' placeholderPattern source output;
          issues = comparePattern issues ''urls_changed'' ''URLs'' urlPattern source output;
          issues = comparePattern issues ''emails_changed'' ''email addresses'' emailPattern source output;
          issues = comparePattern issues ''windows_paths_changed'' ''Windows paths'' windowsPathPattern source output;
          issues = comparePattern issues ''posix_paths_changed'' ''POSIX paths'' posixPathPattern source output;
          sourceFences = markdownFences source;
          outputFences = markdownFences output;
          issues = (if \<not> equalCounts sourceFences outputFences
                    then issues @ [issue ''markdown_fences_changed''
                           (''Markdown fence types or counts changed: expected '' @ format_counts sourceFences
                            @ '', got '' @ format_counts outputFences)]
                    else issues);
          issues = identifier_checks tbl (Identifiers options) source output issues;
          expectedDelimiters = delimiterSequence source (opts_Delimiters options);
          actualDelimiters = delimiterSequence output (opts_Delimiters options);
          issues = (if \<not> equalStrings expectedDelimiters actualDelimiters
                    then issues @ [issue ''delimiters_changed''
                           (''delimiter sequence changed: expected '' @ format_strings expectedDelimiters
                            @ '', got '' @ format_strings actualDelimiters)]
                    else issues);
          issues = (if opts_Kind options = PromptJSON then addJSONChecks tbl (next_value fm) issues source output
                    else if opts_Kind options = PromptYAML
                    then addYAMLChecks tbl (yaml_decode fm) issues source output
                    else if opts_Kind options = PromptHTMLXML
                    then addMarkupChecks tbl (to_lower fm) (html_tokens fm) (xml_error fm) issues source output
                           (opts_TranslatableAttributes options)
                    else issues)
      in \<lparr>Issues = issues\<rparr>)"

end
