(* ===== verification/Validation.thy ===== *)
theory Validation
  imports Formats Go_Quote "HOL-Library.Multiset"
begin

text \<open>
  What the checks of \<open>lib/validate.go\<close> guarantee: equal counts are equal multisets, equal shapes of JSON
  documents are equal structures, an HTML text without errors is well nested, and a result without
  issues says all this of the source and the output.
\<close>

section \<open>Counts are multisets\<close>

definition counts_of :: "string list \<Rightarrow> counts \<Rightarrow> bool" where
  "counts_of xs m \<longleftrightarrow> go_map m \<and> fst ` set m = set xs \<and> (\<forall>k. count_at m k = int (count (mset xs) k))"

lemma counts_of_Nil [simp]: "counts_of [] []"
  by (simp add: counts_of_def count_at_def)

lemma counts_of_increment:
  assumes "counts_of xs m"
  shows "counts_of (xs @ [x]) (increment m x)"
proof -
  have "count_at (increment m x) k = count_at m k + (if k = x then 1 else 0)" for k
    by (simp add: count_at_def increment_def update_conv')
  with assms show ?thesis
    by (auto simp: counts_of_def increment_def dom_update [unfolded dom_map_of_conv_image_fst])
qed

lemma counts_of_foldl: "counts_of xs m \<Longrightarrow> counts_of (xs @ ys) (foldl increment m ys)"
proof (induction ys arbitrary: xs m)
  case (Cons y ys)
  from Cons.IH [OF counts_of_increment [OF Cons.prems, of y]] show ?case by simp
qed simp

lemma matchCounts_of: "counts_of (FindAllString p txt) (matchCounts p txt)"
  using counts_of_foldl [OF counts_of_Nil] by (simp add: matchCounts_def)

lemma equalCounts_mset:
  assumes "counts_of xs m" and "counts_of ys n"
  shows "equalCounts m n \<longleftrightarrow> mset xs = mset ys"
proof
  have len: "length l = card (set zs)" if "counts_of zs l" for zs l
  proof -
    have "card (set (map fst l)) = length (map fst l)"
      using that by (intro distinct_card) (simp add: counts_of_def go_map_def)
    with that show ?thesis by (simp add: counts_of_def)
  qed
  have at: "v = int (count (mset zs) k)" if "counts_of zs l" "(k, v) \<in> set l" for zs l k v
  proof -
    have "map_of l k = Some v" using that by (simp add: counts_of_def go_map_def)
    then have "v = count_at l k" by (simp add: count_at_def)
    also have "\<dots> = int (count (mset zs) k)" using that(1) by (simp add: counts_of_def)
    finally show ?thesis .
  qed
  show "mset xs = mset ys" if eq: "equalCounts m n"
  proof -
    have same: "count (mset xs) k = count (mset ys) k" if "k \<in> set xs" for k
    proof -
      have "k \<in> fst ` set m" using that assms(1) unfolding counts_of_def by simp
      then obtain v where v: "(k, v) \<in> set m" by force
      with eq have "count_at n k = v" by (auto simp: equalCounts_def list_all_iff)
      with at [OF assms(1) v] assms(2) show ?thesis by (simp add: counts_of_def)
    qed
    then have "set xs \<subseteq> set ys" by (metis count_eq_zero_iff set_mset_mset subsetI)
    moreover have "card (set xs) = card (set ys)"
      using len [OF assms(1)] len [OF assms(2)] eq by (simp add: equalCounts_def)
    ultimately have "set xs = set ys" by (simp add: card_subset_eq)
    with same show ?thesis by (metis count_eq_zero_iff multiset_eqI set_mset_mset)
  qed
  show "equalCounts m n" if eq: "mset xs = mset ys"
  proof -
    have "set xs = set ys" using eq by (metis set_mset_mset)
    then have "length m = length n" using len [OF assms(1)] len [OF assms(2)] by simp
    moreover have "count_at n k = v" if "(k, v) \<in> set m" for k v
      using at [OF assms(1) that] assms(2) eq by (simp add: counts_of_def)
    ultimately show ?thesis by (auto simp: equalCounts_def list_all_iff)
  qed
qed

lemma equalStrings_iff: "equalStrings xs ys \<longleftrightarrow> xs = ys"
  unfolding equalStrings_def list_eq_iff_nth_eq list_all_iff set_upt by auto

lemma equalInts_iff: "equalInts xs ys \<longleftrightarrow> xs = ys"
  unfolding equalInts_def list_eq_iff_nth_eq list_all_iff set_upt by auto

text \<open>The fences of a text and its YAML control tokens, in order.\<close>

definition fence_list :: "string \<Rightarrow> string list" where
  "fence_list txt = List.map_filter fence_of_line (scan_lines MaxScanTokenSize txt)"

definition control_tokens :: "string \<Rightarrow> string list" where
  "control_tokens txt =
     filter (\<lambda>field. length field > 1 \<and> hd field \<in> set ''&*!'')
       (map (\<lambda>field. strings_Trim field ''[],{}'') (strings_Fields txt))"

lemma fences_loop_foldl: "fences_loop lines m = foldl increment m (List.map_filter fence_of_line lines)"
  by (induction lines m rule: fences_loop.induct) (auto simp: map_filter_simps split: option.split)

lemma control_tokens_foldl:
  "control_tokens_loop pieces m = foldl increment m
     (filter (\<lambda>field. length field > 1 \<and> hd field \<in> set ''&*!'') (map (\<lambda>field. strings_Trim field ''[],{}'') pieces))"
  by (induction pieces m rule: control_tokens_loop.induct) (auto simp: Let_def)

lemma equal_fences: "equalCounts (markdownFences s) (markdownFences t) \<longleftrightarrow> mset (fence_list s) = mset (fence_list t)"
  by (intro equalCounts_mset; use counts_of_foldl [OF counts_of_Nil] in
      \<open>simp add: markdownFences_def fences_loop_foldl fence_list_def\<close>)

lemma equal_control_tokens:
  "equalCounts (yamlControlTokens s) (yamlControlTokens t) \<longleftrightarrow> mset (control_tokens s) = mset (control_tokens t)"
  by (intro equalCounts_mset; use counts_of_foldl [OF counts_of_Nil] in
      \<open>simp add: yamlControlTokens_def control_tokens_foldl control_tokens_def\<close>)

section \<open>Shapes of JSON documents\<close>

text \<open>What a JSON document keeps under translation: everything but its strings. An object is a Go map,
  so its keys are distinct and unordered.\<close>

fun json_skeleton :: "string json \<Rightarrow> string json" where
  "json_skeleton (JObject m) = JObject (sort_key fst (map (\<lambda>(k, v). (k, json_skeleton v)) m))"
| "json_skeleton (JArray vs) = JArray (map json_skeleton vs)"
| "json_skeleton (JString s) = JString []"
| "json_skeleton v = v"

text \<open>A decoded document: distinct keys, and the literals of numbers have digits, signs, points and
  exponents only.\<close>

fun decoded :: "string json \<Rightarrow> bool" where
  "decoded (JObject m) \<longleftrightarrow> go_map m \<and> list_all (\<lambda>(k, v). decoded v) m"
| "decoded (JArray vs) \<longleftrightarrow> list_all decoded vs"
| "decoded (JNumber n) \<longleftrightarrow> list_all (\<lambda>c. c \<in> set ''0123456789+-.eE'') n"
| "decoded _ \<longleftrightarrow> True"

lemma sort_map_fst: "sort (map fst m) = map fst (sort_key fst m)"
  by (rule properties_for_sort) simp_all

text \<open>The members of an object as the shape writes them.\<close>

definition member_shape :: "(nat \<Rightarrow> bool) \<Rightarrow> string \<times> string json \<Rightarrow> string" where
  "member_shape tbl kv = strconv_Quote tbl (fst kv) @ '':'' @ jsonShape tbl (snd kv) @ '';''"

lemma object_shape:
  assumes "go_map m"
  shows "jsonShape tbl (JObject m) = ''object{'' @ concat (map (member_shape tbl) (sort_key fst m)) @ ''}''"
proof -
  let ?shape = "\<lambda>key. the (map_of (map (\<lambda>(key, v). (key, jsonShape tbl v)) m) key)"
  have member: "?shape (fst kv) = jsonShape tbl (snd kv)" if "kv \<in> set m" for kv
  proof -
    have "map_of m (fst kv) = Some (snd kv)" using that assms by (simp add: go_map_def)
    then show ?thesis by (simp add: map_of_map)
  qed
  have "map (\<lambda>key. strconv_Quote tbl key @ '':'' @ ?shape key @ '';'') (map fst (sort_key fst m)) =
      map (member_shape tbl) (sort_key fst m)"
    unfolding map_map comp_def
  proof (rule map_cong [OF refl])
    fix kv assume "kv \<in> set (sort_key fst m)"
    then have "kv \<in> set m" by simp
    from member [OF this]
    show "strconv_Quote tbl (fst kv) @ '':'' @ ?shape (fst kv) @ '';'' = member_shape tbl kv"
      by (simp only: member_shape_def)
  qed
  then show ?thesis unfolding jsonShape.simps Let_def sort_map_fst by (simp only:)
qed

text \<open>A shape can be read off a text in which it is followed by a semicolon.\<close>

definition readable :: "(nat \<Rightarrow> bool) \<Rightarrow> string json \<Rightarrow> bool" where
  "readable tbl v \<longleftrightarrow>
     (\<forall>w s s'. decoded w \<longrightarrow> jsonShape tbl v @ CHR '';'' # s = jsonShape tbl w @ CHR '';'' # s' \<longrightarrow>
        json_skeleton v = json_skeleton w \<and> s = s')"

lemma shape_start:
  "decoded v \<Longrightarrow> \<exists>c t. jsonShape tbl v = c # t \<and> c \<notin> set '']};'' "
  by (cases v) (auto simp: object_shape)

lemma items_readable:
  assumes "list_all (readable tbl) vs" "list_all decoded vs" "list_all decoded ws"
    and "concat (map (\<lambda>v. jsonShape tbl v @ '';'') vs) @ CHR '']'' # s =
      concat (map (\<lambda>v. jsonShape tbl v @ '';'') ws) @ CHR '']'' # s'"
  shows "map json_skeleton vs = map json_skeleton ws \<and> s = s'"
  using assms
proof (induction vs ws rule: list_induct2')
  case (2 v vs)
  with shape_start [of v tbl] show ?case by auto
next
  case (3 w ws)
  with shape_start [of w tbl] show ?case by auto
next
  case (4 v vs w ws)
  let ?rest = "\<lambda>vs s. concat (map (\<lambda>v. jsonShape tbl v @ '';'') vs) @ CHR '']'' # s"
  have "jsonShape tbl v @ CHR '';'' # ?rest vs s = jsonShape tbl w @ CHR '';'' # ?rest ws s'"
    and "readable tbl v" "decoded w"
    using "4.prems" by simp_all
  then have "json_skeleton v = json_skeleton w" "?rest vs s = ?rest ws s'"
    unfolding readable_def by blast+
  with 4 show ?case by simp
qed simp

lemma members_readable:
  assumes "list_all (\<lambda>kv. readable tbl (snd kv)) m" "list_all (\<lambda>kv. decoded (snd kv)) m"
    "list_all (\<lambda>kv. decoded (snd kv)) n"
    and "concat (map (member_shape tbl) m) @ CHR ''}'' # s = concat (map (member_shape tbl) n) @ CHR ''}'' # s'"
  shows "map (\<lambda>(k, v). (k, json_skeleton v)) m = map (\<lambda>(k, v). (k, json_skeleton v)) n \<and> s = s'"
  using assms
proof (induction m n rule: list_induct2')
  case (2 kv m)
  then show ?case by (simp add: member_shape_def strconv_Quote_def)
next
  case (3 kv n)
  then show ?case by (simp add: member_shape_def strconv_Quote_def)
next
  case (4 kv m kw n)
  let ?rest = "\<lambda>m s. concat (map (member_shape tbl) m) @ CHR ''}'' # s"
  have "strconv_Quote tbl (fst kv) @ CHR '':'' # jsonShape tbl (snd kv) @ CHR '';'' # ?rest m s =
      strconv_Quote tbl (fst kw) @ CHR '':'' # jsonShape tbl (snd kw) @ CHR '';'' # ?rest n s'"
    using "4.prems"(4) by (simp add: member_shape_def [of tbl kv] member_shape_def [of tbl kw])
  from strconv_Quote_prefix [OF this] have "fst kv = fst kw"
    and "jsonShape tbl (snd kv) @ CHR '';'' # ?rest m s = jsonShape tbl (snd kw) @ CHR '';'' # ?rest n s'"
    by simp_all
  moreover have "readable tbl (snd kv)" "decoded (snd kw)" using "4.prems" by simp_all
  ultimately have "fst kv = fst kw" "json_skeleton (snd kv) = json_skeleton (snd kw)" "?rest m s = ?rest n s'"
    unfolding readable_def by blast+
  with 4 show ?case by (simp add: case_prod_beta)
qed simp

lemma number_text:
  assumes "n @ CHR '';'' # s = n' @ CHR '';'' # s'" and "CHR '';'' \<notin> set n" and "CHR '';'' \<notin> set n'"
  shows "n = n' \<and> s = s'"
proof -
  have "takeWhile (\<lambda>c. c \<noteq> CHR '';'') (x @ CHR '';'' # y) = x" if "CHR '';'' \<notin> set x" for x y
    using that by (induction x) auto
  with assms have "n = n'" by metis
  with assms(1) show ?thesis by simp
qed

lemma sort_map_snd: "sort_key fst (map (\<lambda>(k, v). (k, f v)) m) = map (\<lambda>(k, v). (k, f v)) (sort_key fst m)"
proof (induction m)
  case (Cons x m)
  have "insort_key fst (case x of (k, v) \<Rightarrow> (k, f v)) (map (\<lambda>(k, v). (k, f v)) xs) =
      map (\<lambda>(k, v). (k, f v)) (insort_key fst x xs)" for xs
    by (induction xs) (auto simp: case_prod_beta)
  with Cons show ?case by simp
qed simp

lemma number_free: "list_all (\<lambda>c. c \<in> set ''0123456789+-.eE'') n \<Longrightarrow> CHR '';'' \<notin> set n"
  by (induction n) auto

lemma null_readable: "readable tbl JNull"
  unfolding readable_def
proof (intro allI impI)
  fix w s s'
  assume "jsonShape tbl JNull @ CHR '';'' # s = jsonShape tbl w @ CHR '';'' # s'"
  then show "json_skeleton JNull = json_skeleton w \<and> s = s'"
    by (cases w) (auto simp: Let_def split: if_splits)
qed

lemma bool_readable: "readable tbl (JBool b)"
  unfolding readable_def
proof (intro allI impI)
  fix w s s'
  assume "jsonShape tbl (JBool b) @ CHR '';'' # s = jsonShape tbl w @ CHR '';'' # s'"
  then show "json_skeleton (JBool b) = json_skeleton w \<and> s = s'"
    by (cases w) (auto simp: Let_def split: if_splits)
qed

lemma string_readable: "readable tbl (JString str)"
  unfolding readable_def
proof (intro allI impI)
  fix w s s'
  assume "jsonShape tbl (JString str) @ CHR '';'' # s = jsonShape tbl w @ CHR '';'' # s'"
  then show "json_skeleton (JString str) = json_skeleton w \<and> s = s'"
    by (cases w) (auto simp: Let_def split: if_splits)
qed

lemma all_readable: "decoded v \<Longrightarrow> readable tbl v"
proof (induction v rule: decoded.induct)
  case (1 m)
  have ok: "list_all (\<lambda>kv. readable tbl (snd kv)) (sort_key fst m)" "list_all (\<lambda>kv. decoded (snd kv)) (sort_key fst m)"
    using 1 by (auto simp: list_all_iff)
  show ?case unfolding readable_def
  proof (intro allI impI)
    fix w s s'
    assume w: "decoded w" and eq: "jsonShape tbl (JObject m) @ CHR '';'' # s = jsonShape tbl w @ CHR '';'' # s'"
    obtain n where n: "w = JObject n"
      using eq by (cases w) (auto simp: Let_def)
    with w have n': "go_map n" "list_all (\<lambda>kv. decoded (snd kv)) (sort_key fst n)"
      by (auto simp: list_all_iff)
    have "concat (map (member_shape tbl) (sort_key fst m)) @ CHR ''}'' # CHR '';'' # s =
        concat (map (member_shape tbl) (sort_key fst n)) @ CHR ''}'' # CHR '';'' # s'"
      using eq object_shape [of m tbl] object_shape [of n tbl] n n'(1) 1 by simp
    from members_readable [OF ok n'(2) this]
    show "json_skeleton (JObject m) = json_skeleton w \<and> s = s'"
      by (simp add: n sort_map_snd)
  qed
next
  case (2 vs)
  then have ok: "list_all (readable tbl) vs" "list_all decoded vs" by (auto simp: list_all_iff)
  show ?case unfolding readable_def
  proof (intro allI impI)
    fix w s s'
    assume w: "decoded w" and eq: "jsonShape tbl (JArray vs) @ CHR '';'' # s = jsonShape tbl w @ CHR '';'' # s'"
    obtain ws where ws: "w = JArray ws"
      using eq by (cases w) (auto simp: Let_def)
    with w have ws': "list_all decoded ws" by simp
    have "concat (map (\<lambda>v. jsonShape tbl v @ '';'') vs) @ CHR '']'' # CHR '';'' # s =
        concat (map (\<lambda>v. jsonShape tbl v @ '';'') ws) @ CHR '']'' # CHR '';'' # s'"
      using eq ws by simp
    from items_readable [OF ok ws' this] show "json_skeleton (JArray vs) = json_skeleton w \<and> s = s'"
      by (simp add: ws)
  qed
next
  case (3 n)
  show ?case unfolding readable_def
  proof (intro allI impI)
    fix w s s'
    assume w: "decoded w" and eq: "jsonShape tbl (JNumber n) @ CHR '';'' # s = jsonShape tbl w @ CHR '';'' # s'"
    obtain k where k: "w = JNumber k"
      using eq by (cases w) (auto simp: Let_def)
    have free: "CHR '';'' \<notin> set n" "CHR '';'' \<notin> set k"
      using number_free [of n] number_free [of k] 3 w k by simp_all
    have "n @ CHR '';'' # s = k @ CHR '';'' # s'" using eq unfolding k by simp
    from number_text [OF this free] show "json_skeleton (JNumber n) = json_skeleton w \<and> s = s'"
      unfolding k by simp
  qed
qed (rule null_readable bool_readable string_readable)+

text \<open>Conversely, a shape depends on the structure only.\<close>

lemma shape_skeleton: "decoded v \<Longrightarrow> jsonShape tbl (json_skeleton v) = jsonShape tbl v \<and> decoded (json_skeleton v)"
proof (induction v rule: decoded.induct)
  case (1 m)
  let ?n = "sort_key fst (map (\<lambda>(k, v). (k, json_skeleton v)) m)"
  have keys: "map fst (map (\<lambda>(k, v). (k, json_skeleton v)) m) = map fst m"
    by (induction m) (simp_all add: case_prod_beta)
  have "go_map (map (\<lambda>(k, v). (k, json_skeleton v)) m)"
    using 1(2) unfolding go_map_def keys decoded.simps by simp
  then have go: "go_map ?n" by (rule go_map_mset) simp
  have "sort_key fst ?n = map (\<lambda>(k, v). (k, json_skeleton v)) (sort_key fst m)"
    by (simp add: sort_map_snd sort_key_id_if_sorted)
  moreover have "member_shape tbl (k, json_skeleton v) = member_shape tbl (k, v)" if "(k, v) \<in> set m" for k v
    using 1 that by (auto simp: member_shape_def list_all_iff)
  ultimately have "map (member_shape tbl) (sort_key fst ?n) = map (member_shape tbl) (sort_key fst m)"
    by auto
  moreover have "list_all (\<lambda>(k, v). decoded v) ?n"
    using 1 by (auto simp: list_all_iff)
  ultimately show ?case
    using object_shape [OF go, of tbl] object_shape [of m tbl] 1(2) go by simp
next
  case (2 vs)
  then show ?case by (auto simp: list_all_iff intro!: arg_cong [where f = concat])
qed auto

lemma jsonShape_skeleton:
  assumes "decoded v" and "decoded w"
  shows "jsonShape tbl v = jsonShape tbl w \<longleftrightarrow> json_skeleton v = json_skeleton w"
  using all_readable [OF assms(1), of tbl] assms shape_skeleton unfolding readable_def by metis

text \<open>
  C16. The JSON check compares structures. \<open>jsonShape\<close> of two decoded documents is the same string exactly
  when the documents agree in everything but their strings: the same keys at every object, whatever their
  order, the same array lengths, the same literals of numbers, booleans and nulls. No two different
  structures collide, whatever characters the keys hold: the quoted keys of \<open>strconv.Quote\<close> can be
  read back.
\<close>

theorem jsonShape_same_structure:
  assumes "decoded v" and "decoded w"
  shows "jsonShape tbl v = jsonShape tbl w \<longleftrightarrow> json_skeleton v = json_skeleton w"
  using assms by (rule jsonShape_skeleton)

theorem jsonShape_same_structure_witness:
  "jsonShape (\<lambda>r. True) (JObject [(''b'', JString ''x''), (''a'', JNumber ''1.50'')]) =
     jsonShape (\<lambda>r. True) (JObject [(''a'', JNumber ''1.50''), (''b'', JString ''why'')])"
  by (subst jsonShape_same_structure) (simp_all add: go_map_def)

section \<open>Nesting of tags\<close>

text \<open>The tokens that neither open nor close an element.\<close>

fun neutral :: "(string \<Rightarrow> string) \<Rightarrow> html_token \<Rightarrow> bool" where
  "neutral lower (StartTagToken d a) \<longleftrightarrow> voidHTMLTag (lower d)"
| "neutral lower (EndTagToken d) \<longleftrightarrow> False"
| "neutral lower _ \<longleftrightarrow> True"

inductive balanced :: "(string \<Rightarrow> string) \<Rightarrow> html_token list \<Rightarrow> bool" for lower where
  balanced_Nil: "balanced lower []"
| balanced_neutral: "neutral lower t \<Longrightarrow> balanced lower ts \<Longrightarrow> balanced lower (t # ts)"
| balanced_element:
    "\<not> voidHTMLTag (lower d) \<Longrightarrow> lower d' = lower d \<Longrightarrow> balanced lower ts \<Longrightarrow> balanced lower us \<Longrightarrow>
     balanced lower (StartTagToken d a # ts @ EndTagToken d' # us)"

lemma balanced_append: "balanced lower ts \<Longrightarrow> balanced lower us \<Longrightarrow> balanced lower (ts @ us)"
  by (induction rule: balanced.induct) (auto intro: balanced.intros)

text \<open>The stack of open elements after some tokens.\<close>

fun nest :: "(string \<Rightarrow> string) \<Rightarrow> string list \<Rightarrow> html_token list \<Rightarrow> string list option" where
  "nest lower stack [] = Some stack"
| "nest lower stack (StartTagToken d a # ts) =
     nest lower (if voidHTMLTag (lower d) then stack else lower d # stack) ts"
| "nest lower stack (EndTagToken d # ts) =
     (case stack of [] \<Rightarrow> None | s # rest \<Rightarrow> if s = lower d then nest lower rest ts else None)"
| "nest lower stack (_ # ts) = nest lower stack ts"

lemma nest_append: "nest lower stack (ts @ us) = Option.bind (nest lower stack ts) (\<lambda>st. nest lower st us)"
  by (induction lower stack ts rule: nest.induct) (auto split: list.split)

lemma nest_neutral: "neutral lower t \<Longrightarrow> nest lower stack (t # ts) = nest lower stack ts"
  by (cases t) auto

lemma nest_balanced: "balanced lower ts \<Longrightarrow> nest lower stack ts = Some stack"
  by (induction arbitrary: stack rule: balanced.induct) (simp_all add: nest_neutral nest_append)

text \<open>The tokens close the elements of a stack one after the other.\<close>

fun closes :: "(string \<Rightarrow> string) \<Rightarrow> string list \<Rightarrow> html_token list \<Rightarrow> bool" where
  "closes lower [] ts \<longleftrightarrow> balanced lower ts"
| "closes lower (s # stack) ts \<longleftrightarrow>
     (\<exists>us d vs. ts = us @ EndTagToken d # vs \<and> balanced lower us \<and> lower d = s \<and> closes lower stack vs)"

lemma closes_prefix: "balanced lower us \<Longrightarrow> closes lower stack ts \<Longrightarrow> closes lower stack (us @ ts)"
  by (cases stack) (auto simp: balanced_append simp flip: append_assoc, metis balanced_append append_assoc)

lemma closes_neutral: "neutral lower t \<Longrightarrow> closes lower stack ts \<Longrightarrow> closes lower stack (t # ts)"
  using closes_prefix [of lower "[t]"] by (simp add: balanced.intros)

lemma nest_closes: "nest lower stack ts = Some [] \<Longrightarrow> closes lower stack ts"
proof (induction lower stack ts rule: nest.induct)
  case (2 lower stack d a ts)
  show ?case
  proof (cases "voidHTMLTag (lower d)")
    case True
    with 2 show ?thesis by (simp add: closes_neutral)
  next
    case False
    with 2 obtain us d' vs where "ts = us @ EndTagToken d' # vs" "balanced lower us" "lower d' = lower d"
      and vs: "closes lower stack vs" by auto
    with False have "balanced lower (StartTagToken d a # us @ [EndTagToken d'])"
      by (intro balanced_element) (auto intro: balanced.intros)
    from closes_prefix [OF this vs] show ?thesis using \<open>ts = _\<close> by simp
  qed
next
  case (3 lower stack d ts)
  then obtain s rest where "stack = s # rest" "s = lower d" "closes lower rest ts"
    by (auto split: list.splits if_splits)
  then show ?case by (metis append_Nil balanced_Nil closes.simps(2))
qed (auto intro: balanced.intros closes_neutral)

lemma nest_iff_balanced: "nest lower [] ts = Some [] \<longleftrightarrow> balanced lower ts"
  using nest_closes [of lower "[]" ts] nest_balanced by auto

lemma html_loop_errors:
  "snd (html_loop tbl lower translatable ending ts events stack errors) = [] \<longleftrightarrow>
     errors = [] \<and> ending = None \<and> nest lower stack ts = Some []"
proof (induction ts arbitrary: events stack errors)
  case Nil
  show ?case by (auto split: option.splits)
next
  case (Cons t ts)
  then show ?case by (cases t; cases stack) (auto simp: Let_def)
qed

text \<open>
  C17. The HTML check accepts exactly the well nested texts: \<open>htmlStructure\<close> reports no error when and
  only when the tokenizer reached the end of the text and the tags are balanced, that is every opened
  element is closed by its own end tag in the right order; void elements (\<open>br\<close>, \<open>img\<close>, ...),
  self-closing tags, comments and text need no closing.
\<close>

theorem htmlStructure_well_nested:
  "snd (htmlStructure tbl lower tokenize txt translatable) = [] \<longleftrightarrow>
     snd (tokenize txt) = None \<and> balanced lower (fst (tokenize txt))"
  by (simp add: htmlStructure_def html_loop_errors nest_iff_balanced case_prod_beta)

section \<open>A result without issues\<close>

text \<open>What a faithful translation keeps of its source, format by format.\<close>

definition keeps_json :: "(string \<Rightarrow> json_read) \<Rightarrow> string \<Rightarrow> string \<Rightarrow> bool" where
  "keeps_json read source output \<longleftrightarrow>
     (case (decodeJSON read source, decodeJSON read output) of
        (Inr v, Inr w) \<Rightarrow> json_skeleton v = json_skeleton w
      | _ \<Rightarrow> False)"

definition keeps_yaml :: "(string \<Rightarrow> go_error + yaml_node) \<Rightarrow> string \<Rightarrow> string \<Rightarrow> bool" where
  "keeps_yaml decode source output \<longleftrightarrow>
     (case (decode source, decode output) of
        (Inr v, Inr w) \<Rightarrow>
          yamlShape v True = yamlShape w True \<and> indentationProfile source = indentationProfile output \<and>
          mset (control_tokens source) = mset (control_tokens output)
      | _ \<Rightarrow> False)"

definition keeps_markup ::
  "(nat \<Rightarrow> bool) \<Rightarrow> (string \<Rightarrow> string) \<Rightarrow> (string \<Rightarrow> html_token list \<times> go_error option)
     \<Rightarrow> (string \<Rightarrow> go_error option) \<Rightarrow> string list \<Rightarrow> string \<Rightarrow> string \<Rightarrow> bool" where
  "keeps_markup tbl lower tokenize xml translatable source output \<longleftrightarrow>
     (if prefix ''<?xml'' (strings_TrimSpace source) then xml output = None else True) \<and>
     (snd (tokenize source) = None \<and> balanced lower (fst (tokenize source))) \<and>
     (snd (tokenize output) = None \<and> balanced lower (fst (tokenize output))) \<and>
     fst (htmlStructure tbl lower tokenize source (map lower translatable)) =
       fst (htmlStructure tbl lower tokenize output (map lower translatable)) \<and>
     mset (FindAllString entityPattern source) = mset (FindAllString entityPattern output)"

definition keeps_format ::
  "(nat \<Rightarrow> bool) \<Rightarrow> formats \<Rightarrow> ValidationOptions \<Rightarrow> string \<Rightarrow> string \<Rightarrow> bool" where
  "keeps_format tbl fm options source output \<longleftrightarrow>
     (if opts_Kind options = PromptJSON then keeps_json (next_value fm) source output
      else if opts_Kind options = PromptYAML then keeps_yaml (yaml_decode fm) source output
      else if opts_Kind options = PromptHTMLXML
      then keeps_markup tbl (to_lower fm) (html_tokens fm) (xml_error fm)
             (opts_TranslatableAttributes options) source output
      else True)"

text \<open>\<open>Decode\<close> returns values whose objects are maps and whose numbers are JSON literals.\<close>

definition json_decoder :: "(string \<Rightarrow> json_read) \<Rightarrow> bool" where
  "json_decoder read \<longleftrightarrow> (\<forall>txt v rest. read txt = Value v rest \<longrightarrow> decoded v)"

lemma decodeJSON_decoded: "json_decoder read \<Longrightarrow> decodeJSON read txt = Inr v \<Longrightarrow> decoded v"
  by (auto simp: decodeJSON_def json_decoder_def split: json_read.splits)

lemma comparePattern_iff:
  "comparePattern issues code label p source output = [] \<longleftrightarrow>
     issues = [] \<and> mset (FindAllString p source) = mset (FindAllString p output)"
  by (simp add: comparePattern_def Let_def equalCounts_mset [OF matchCounts_of matchCounts_of])

lemma identifier_checks_iff:
  "identifier_checks tbl ids source output issues = [] \<longleftrightarrow>
     issues = [] \<and> list_all (\<lambda>i. strings_Count source i = strings_Count output i) ids"
  by (induction ids arbitrary: issues) (auto simp: Let_def)

lemma addJSONChecks_iff:
  assumes "json_decoder read"
  shows "addJSONChecks tbl read issues source output = [] \<longleftrightarrow> issues = [] \<and> keeps_json read source output"
  using jsonShape_skeleton [OF decodeJSON_decoded [OF assms] decodeJSON_decoded [OF assms]]
  by (auto simp: addJSONChecks_def keeps_json_def split: sum.split)

lemma addYAMLChecks_iff:
  "addYAMLChecks tbl decode issues source output = [] \<longleftrightarrow> issues = [] \<and> keeps_yaml decode source output"
  by (auto simp: addYAMLChecks_def keeps_yaml_def Let_def equalInts_iff equal_control_tokens split: sum.split)

lemma addMarkupChecks_iff:
  "addMarkupChecks tbl lower tokenize xml issues source output translatable = [] \<longleftrightarrow>
     issues = [] \<and> keeps_markup tbl lower tokenize xml translatable source output"
  by (auto simp: addMarkupChecks_def keeps_markup_def Let_def case_prod_beta comparePattern_iff equalStrings_iff
      html_loop_errors nest_iff_balanced htmlStructure_def validateXML_def split: option.split)

lemma if_append_Nil: "(if c then xs @ [x] else xs) = [] \<longleftrightarrow> xs = [] \<and> \<not> c"
  by simp

text \<open>
  C15. A translation passes \<open>ValidateTranslation\<close> exactly when it keeps the contract: an empty source has
  an empty output, no label or explanation precedes the text, the placeholders, URLs, email addresses
  and paths of the source are those of the output with the same multiplicities, so are the Markdown
  fences, every listed identifier occurs equally often, the delimiters come in the same order, and the
  format is kept: JSON has the same structure, YAML the same shape, indentation and control tokens,
  markup is well nested on both sides with the same events and entities. The only assumption is that
  the JSON decoder returns maps and number literals.
\<close>

theorem ValidateTranslation_ok_iff:
  assumes "json_decoder (next_value fm)"
  shows "ValidationResult_OK (ValidateTranslation tbl fm source output options) \<longleftrightarrow>
    (if source = [] then output = [] else True) \<and>
    \<not> MatchStart leadingNoise output \<and>
    list_all (\<lambda>p. mset (FindAllString p source) = mset (FindAllString p output))
      [placeholderPattern, urlPattern, emailPattern, windowsPathPattern, posixPathPattern] \<and>
    mset (fence_list source) = mset (fence_list output) \<and>
    list_all (\<lambda>i. strings_Count source i = strings_Count output i) (Identifiers options) \<and>
    delimiterSequence source (opts_Delimiters options) = delimiterSequence output (opts_Delimiters options) \<and>
    keeps_format tbl fm options source output"
proof -
  note checks = comparePattern_iff identifier_checks_iff addJSONChecks_iff [OF assms] addYAMLChecks_iff
    addMarkupChecks_iff equalStrings_iff equal_fences
  show ?thesis
    unfolding ValidateTranslation_def ValidationResult_OK_def Let_def keeps_format_def
    by (simp only: if_append_Nil checks list.pred_inject ValidationResult.simps list.size length_0_conv
        if_bool_eq_conj split: if_split) (auto simp only: if_True if_False simp_thms)
qed

definition one_value :: "string \<Rightarrow> json_read" where
  "one_value txt = (if txt = ''1'' then Value (JNumber ''1'') [] else EOF)"

definition one_format :: formats where
  "one_format = \<lparr>next_value = one_value, yaml_decode = (\<lambda>txt. Inl (External ''no YAML'')), xml_error = (\<lambda>txt. None),
     html_tokens = (\<lambda>txt. ([], None)), to_lower = (\<lambda>txt. txt)\<rparr>"

theorem ValidateTranslation_ok_iff_witness:
  "ValidationResult_OK (ValidateTranslation (\<lambda>r. True) one_format ''1'' ''1''
     \<lparr>opts_Kind = PromptJSON, Identifiers = [''1''], opts_Delimiters = [], opts_TranslatableAttributes = []\<rparr>)"
proof -
  have "json_decoder (next_value one_format)"
    by (simp add: json_decoder_def one_format_def one_value_def)
  moreover have "\<not> MatchStart leadingNoise ''1''" by code_simp
  moreover have "keeps_json one_value ''1'' ''1''"
    by (simp add: keeps_json_def decodeJSON_def one_value_def)
  ultimately show ?thesis
    by (subst ValidateTranslation_ok_iff) (simp_all add: keeps_format_def one_format_def)
qed

end
