(* ===== verification/Spec2Isabelle.thy ===== *)
theory Spec2Isabelle
  imports
    Go_Prelude Go_Strings Go_Time Sha256 Json Errors
    Fence Language Prompt Model Models
    Inference OpenAI
    Jobs Job_Creation Memory Backends Remote Sql Sqlite Postgres Mysql Go_Time_Inverse Job_Json Redis Redis_Contract
    Redis_Properties Nats Nats_Contract Auth Processor Scheduler Http Rest_Catalog Documentation Handler History System Server Startup Pipeline
    Go_Regexp Validate Formats Go_Quote Validation
begin

text \<open>
  Verification of \<open>transliter\<close>, a translation job server written in Go: a REST API takes
  translation requests, a queue and a store keep the jobs, workers run them against an
  OpenAI-compatible inference server with the prompt and the options of a built-in model.

  \<^bold>\<open>Layers.\<close>
  \<^item> \<^bold>\<open>Language and standard library\<close>. \<open>Go_Prelude\<close> holds the shared names, the error values of the
    whole program (a sentinel or a formatted error is a constructor, \<open>%w\<close> is \<open>Wrap\<close>,
    \<open>errors.Is\<close> is \<open>errors_Is\<close>) and generic lemmas. \<open>Go_Strings\<close> models the string functions the
    program calls (bytes as \<open>char\<close>, UTF-8 decoding, \<open>strings\<close>, \<open>strconv\<close>), \<open>Go_Time\<close> the RFC
    3339 reading and printing of instants, which \<open>Go_Time_Inverse\<close> shows to be inverse, \<open>Json\<close> the struct tags, encoding and decoding of
    \<open>encoding/json\<close> over parsed trees, \<open>Sha256\<close> the digest of \<open>crypto/sha256\<close>, \<open>Errors\<close> the
    texts of the error values.
  \<^item> \<^bold>\<open>Translation contract\<close> (\<open>lib/\<close>). \<open>Fence\<close>: \<open>fence.go\<close>. \<open>Language\<close>: \<open>language.go\<close>. \<open>Prompt\<close>:
    \<open>prompt.go\<close>. \<open>Model\<close>: \<open>model.go\<close>, with the locale \<open>translation_model\<close> that a model must meet.
  \<^item> \<^bold>\<open>Validation\<close> (\<open>lib/validate.go\<close>). \<open>Go_Regexp\<close>: leftmost-first matching of regular expressions
    and \<open>FindAllString\<close>. \<open>Go_Quote\<close>: \<open>strconv.Quote\<close> can be read back. \<open>Validate\<close>: patterns, counts,
    fences, delimiters. \<open>Formats\<close>: the JSON, YAML and markup checks and \<open>ValidateTranslation\<close>.
    \<open>Validation\<close>: what the checks guarantee.
  \<^item> \<^bold>\<open>Models\<close> (\<open>models/\<close>). \<open>Models\<close>: the Hy-MT2 and TranslateGemma cores, the six sizes and the
    catalog; both families interpret \<open>translation_model\<close>.
  \<^item> \<^bold>\<open>Inference\<close> (\<open>lib/inference\<close>). \<open>Inference\<close>: the transport-neutral request and response.
    \<open>OpenAI\<close>: configuration, request encoding, response decoding and the HTTP client.
  \<^item> \<^bold>\<open>Jobs\<close> (\<open>lib/jobs\<close>). \<open>Jobs\<close>: \<open>jobs.go\<close>, with the contracts of a store and of a queue as the
    locales \<open>job_store\<close>, \<open>job_history\<close>, \<open>job_expiry\<close>, \<open>job_queue\<close>, \<open>reliable_queue\<close>,
    \<open>job_backend\<close>, \<open>reliable_backend\<close>. \<open>Job_Creation\<close>: what \<open>New\<close> makes and when identifiers agree. \<open>Memory\<close>: the memory backend. \<open>Backends\<close>: a store and a queue
    of different backends used together. \<open>Remote\<close>: a server behind a connection that may refuse or lose
    requests. \<open>Sql\<close>: the table and the statements of the SQL stores, with the locales \<open>sql_store\<close> and
    \<open>micro_clock\<close>; \<open>Sqlite\<close>, \<open>Mysql\<close>: their stores; \<open>Postgres\<close>: store and leased queue. \<open>Job_Json\<close>: the
    JSON document of a job; \<open>Redis\<close>: the commands and scripts that \<open>redis/backend.go\<close> sends, on the
    keys and the stream of a server, and its operations; \<open>Redis_Contract\<close>, \<open>Redis_Properties\<close>: that it meets
    the contracts, expiry and redelivery. \<open>Nats\<close>: the queue on JetStream and the embedded server, with the
    client library as a parameter; \<open>Nats_Contract\<close>: what it promises when JetStream does what it documents.
    Each backend interprets the contracts it meets. \<open>Auth\<close>: API
    keys. \<open>Processor\<close>: one translation. \<open>Scheduler\<close>: the handling of a delivery and the worker loop.
  \<^item> \<^bold>\<open>Server\<close> (\<open>lib/restapi\<close>, \<open>cmd/transliter-server\<close>). \<open>Http\<close>: requests, responses, JSON bodies.
    \<open>Rest_Catalog\<close>: the model catalog endpoints. \<open>Documentation\<close>: the API description and its pages.
    \<open>Handler\<close>: routing, authentication and the job endpoints. \<open>History\<close>: the pages of a history taken
    together. \<open>System\<close>: the workers, the requests and the
    cleanup at work together, as a step relation over a store and a queue that meet the locale
    \<open>single_delivery\<close>. \<open>Server\<close>: configuration, backends and the admission check. \<open>Startup\<close>: flags, wiring,
    cleanup and end of \<open>main.go\<close>. \<open>Pipeline\<close>: what is sent to the inference server for an admitted request.

  \<^bold>\<open>How the code is modelled.\<close> A Go struct is a record, a value of an interface is a record of its
  methods. An operation of a store or a queue takes the context and the backend state and
  returns its result with the new state; a call that would block for ever is \<open>None\<close>. A context
  is \<open>None\<close> while it is live and carries its error once it is cancelled. A Go map is an
  association list with distinct keys, in the order in which the runtime ranges over it, so that
  what must not depend on that order is stated for every order. An instant is a number of
  nanoseconds. Clock readings and random bytes are arguments. \<open>int\<close> values are unbounded where
  the code only compares or copies them, and wrap (\<open>go_int64\<close>) where it multiplies them.

  \<^bold>\<open>External systems.\<close> A database or Redis is the state that its documented commands act on, behind a
  connection that may refuse any request, or lose the answer of one that took effect (\<open>Remote\<close>): nothing is
  assumed of the network. JetStream is a parameter with the laws its documentation states. The YAML, XML,
  HTML, URL and duration parsers, the transport of HTTP and the Unicode tables are parameters.

  \<^bold>\<open>Loops and fuel.\<close> A call of \<open>Receive\<close> that polls, a worker, and the cleanup may run for ever: they take the
  list of what they meet (readings of the clock and the context, ticks), one element for each turn, and a
  call that outlives its list is \<open>None\<close> (it still blocks). Every list is allowed, so no bound is chosen. All
  other loops are structural or have a measure.

  \<^bold>\<open>What the lemmas show.\<close> The prompt cannot be escaped by the text inside it and does not depend
  on map order; every model of the catalog meets the model contract; admission accepts exactly
  the requests that a run can answer; no delivery loses its job, whatever the backend that meets
  the contract, and with single deliveries no interleaving of the goroutines loses a job, runs it twice or
  changes a finished one; the memory, SQLite, MySQL, PostgreSQL, Redis and NATS backends meet their
  contracts, with the limits that the theorems state (leases, expiry, deliveries, duplicate window); jobs
  are shown to their owner only, and walking the pages of a history misses no job but those created at the
  instant at which a page ends; the configuration and the backends built from it are those it names, and
  none is left open.

  \<^bold>\<open>Not modelled.\<close> The embedded web UI (\<open>ui.go\<close>: a file server over static files) and the text of the
  embedded YAML file; signals, logging, the listening socket and the mux of \<open>net/http\<close> beyond the route
  table; the wire protocols of the databases, Redis and NATS; \<open>Close\<close> of a client where it only closes the
  client. Two operations of one backend do not overlap: each is one step, as under the mutex of the memory
  backend or in a transaction or script of a server; where an operation sends two requests (the update of
  Redis) the time between them is a parameter.
\<close>

end
